(* ===== verification/Prelude.thy ===== *)
theory Prelude
  imports Main
begin

text \<open>
  Shared vocabulary of the Dwayee client model: the dynamically typed JavaScript values
  that the client reads out of API responses (with JavaScript's truthiness), the
  collections of simplification rules the component theories fill, and generic lemmas
  on lists keyed by an identifier (the cart is such a list: \<open>cartItems\<close> in
  \<open>src/src/Context/CartContext.jsx\<close>, keyed by \<open>id\<close>).
\<close>

named_theorems engine_defs \<open>unfolding rules of the cart engine's handlers\<close>
named_theorems page_defs \<open>unfolding rules of the page handlers\<close>

type_synonym med_id = nat
type_synonym token = string

section \<open>JavaScript values\<close>

text \<open>
  A field of a JSON response read by the client (\<open>response.data.success\<close>,
  \<open>response.data.message\<close>) may be absent, null, a boolean, a number or a string.
  Numbers are kept integral: the client only tests them for truthiness.
\<close>

datatype js_val = JsUndefined | JsNull | JsBool bool | JsNum int | JsStr string

text \<open>\<open>if (v)\<close> in JavaScript: \<open>undefined\<close>, \<open>null\<close>, \<open>false\<close>, \<open>0\<close> and the
  empty string are falsy, everything else is truthy.\<close>

fun js_truthy :: "js_val \<Rightarrow> bool" where
  "js_truthy JsUndefined = False"
| "js_truthy JsNull = False"
| "js_truthy (JsBool b) = b"
| "js_truthy (JsNum n) = (n \<noteq> 0)"
| "js_truthy (JsStr s) = (s \<noteq> [])"

section \<open>JavaScript library functions\<close>

text \<open>\<open>Array.prototype.slice(s, e)\<close>: a negative index counts from the end (and is
  clamped at 0), an index past the end is clamped to the length, and the result is empty
  when the end does not lie after the start.\<close>

definition js_index :: "int \<Rightarrow> nat \<Rightarrow> nat" where
  "js_index i n = (if i < 0 then nat (max (int n + i) 0) else min (nat i) n)"

definition js_slice :: "'a list \<Rightarrow> int \<Rightarrow> int \<Rightarrow> 'a list" where
  "js_slice xs s e =
     (let a = js_index s (length xs); b = js_index e (length xs) in take (b - a) (drop a xs))"

text \<open>\<open>String.prototype.toLowerCase\<close> on the ASCII letters the API's status values use.\<close>

definition lower_char :: "char \<Rightarrow> char" where
  "lower_char c = (case map_of (zip ''ABCDEFGHIJKLMNOPQRSTUVWXYZ'' ''abcdefghijklmnopqrstuvwxyz'') c of
                     None \<Rightarrow> c | Some l \<Rightarrow> l)"

definition js_lower :: "string \<Rightarrow> string" where
  "js_lower s = map lower_char s"

text \<open>\<open>Math.ceil(n / k)\<close> for a count \<open>n\<close> and a positive page size \<open>k\<close>.\<close>

definition ceil_div :: "nat \<Rightarrow> nat \<Rightarrow> int" where
  "ceil_div n k = int ((n + k - 1) div k)"

section \<open>Lists keyed by an identifier\<close>

text \<open>
  The client updates one line of a keyed list with
  \<open>prev.map(i => i.id === id ? {...i, f} : i)\<close> and removes one with
  \<open>prev.filter(i => i.id !== id)\<close>. The lemmas below are what every handler proof
  needs about these two shapes.
\<close>

lemma map_keyed_keys [simp]:
  assumes "\<And>x. k (f x) = k x"
  shows "map k (map (\<lambda>x. if k x = a then f x else x) xs) = map k xs"
  using assms by (induction xs) auto

lemma map_keyed_keys_comp [simp]:
  assumes "\<And>x. k (f x) = k x"
  shows "map (k \<circ> (\<lambda>x. if k x = a then f x else x)) xs = map k xs"
  using assms by (induction xs) auto

lemma map_keyed_length [simp]:
  "length (map (\<lambda>x. if k x = a then f x else x) xs) = length xs"
  by simp

lemma map_keyed_other:
  "x \<in> set (map (\<lambda>y. if k y = a then f y else y) xs) \<Longrightarrow> k x \<noteq> a \<Longrightarrow>
   (\<forall>y. k (f y) = k y) \<Longrightarrow> x \<in> set xs"
  by auto

lemma map_keyed_hit:
  "x \<in> set (map (\<lambda>y. if k y = a then f y else y) xs) \<Longrightarrow> k x = a \<Longrightarrow>
   (\<forall>y. k (f y) = k y) \<Longrightarrow> \<exists>y \<in> set xs. k y = a \<and> x = f y"
  by auto

lemma filter_keyed_notin:
  "a \<notin> set (map k (filter (\<lambda>x. k x \<noteq> a) xs))"
  by (induction xs) auto

lemma distinct_filter_keys [intro]:
  "distinct (map k xs) \<Longrightarrow> distinct (map k (filter P xs))"
  by (induction xs) auto

lemma find_keyed_Some:
  "find (\<lambda>x. k x = a) xs = Some y \<Longrightarrow> y \<in> set xs \<and> k y = a"
  by (auto simp: find_Some_iff)

lemma find_False [simp]: "find (\<lambda>x. False) xs = None"
  by (induction xs) auto

lemma find_keyed_None:
  "find (\<lambda>x. k x = a) xs = None \<longleftrightarrow> a \<notin> set (map k xs)"
  by (induction xs) auto

lemma those_map_length:
  "those (map f xs) = Some ys \<Longrightarrow> length ys = length xs"
  by (induction xs arbitrary: ys) (auto split: option.splits)

lemma those_map_Some_iff:
  "those (map f xs) = Some ys \<longleftrightarrow> list_all2 (\<lambda>x y. f x = Some y) xs ys"
proof (induction xs arbitrary: ys)
  case Nil
  then show ?case by auto
next
  case (Cons x xs)
  then show ?case
    by (cases ys) (auto split: option.splits)
qed

lemma those_map_None_iff:
  "those (map f xs) = None \<longleftrightarrow> (\<exists>x \<in> set xs. f x = None)"
  by (induction xs) (auto split: option.splits)

text \<open>The same two shapes read through \<open>map_of\<close>, the abstraction of a keyed list
  to a finite map that the refinement lemmas of the cart use.\<close>

lemma map_of_map_keyed:
  assumes "\<And>x. k (f x) = k x" "\<And>x. v (f x) = c"
  shows "map_of (map (\<lambda>x. (k x, v x)) (map (\<lambda>x. if k x = a then f x else x) xs)) =
         (if a \<in> set (map k xs) then (map_of (map (\<lambda>x. (k x, v x)) xs))(a \<mapsto> c)
          else map_of (map (\<lambda>x. (k x, v x)) xs))"
  using assms by (induction xs) (auto simp: fun_upd_twist)

lemma map_of_filter_keyed:
  "map_of (map (\<lambda>x. (k x, v x)) (filter (\<lambda>x. k x \<noteq> a) xs)) =
   (map_of (map (\<lambda>x. (k x, v x)) xs))(a := None)"
  by (induction xs) (auto simp: fun_upd_twist)

lemma map_of_find_keyed:
  "find (\<lambda>x. k x = a) xs = Some y \<Longrightarrow> map_of (map (\<lambda>x. (k x, v x)) xs) a = Some (v y)"
  by (induction xs) (auto split: if_splits)

lemma map_of_find_keyed_None:
  "find (\<lambda>x. k x = a) xs = None \<Longrightarrow> map_of (map (\<lambda>x. (k x, v x)) xs) a = None"
  by (induction xs) (auto split: if_splits)

lemma js_slice_nonneg:
  "0 \<le> s \<Longrightarrow> s \<le> e \<Longrightarrow> js_slice xs s e = take (nat e - nat s) (drop (nat s) xs)"
  by (auto simp: js_slice_def js_index_def Let_def min_def nat_le_iff take_all)

lemma js_slice_past_end:
  "0 \<le> s \<Longrightarrow> int (length xs) \<le> s \<Longrightarrow> js_slice xs s e = []"
  by (simp add: js_slice_def js_index_def)

lemma js_slice_length_le:
  "length (js_slice xs s e) \<le> length xs"
  by (simp add: js_slice_def Let_def)

lemma js_slice_subset:
  "set (js_slice xs s e) \<subseteq> set xs"
  by (auto simp: js_slice_def Let_def dest: in_set_takeD in_set_dropD)

end
