(* ===== verification/Session.thy ===== *)
theory Session
  imports Prelude
begin

text \<open>
  The session collaborator, \<open>src/src/Context/UserContext.jsx\<close>: the process-wide
  \<open>userLogin\<close> value, how the cart engine and the checkout page read a credential out
  of it, and the bootstrap that rebuilds it from \<open>localStorage\<close> at start-up.
\<close>

section \<open>The login value\<close>

text \<open>
  The user profile fields the client reads (\<open>user.first_name\<close>,
  \<open>user.last_name\<close>, \<open>user.user_type\<close>, \<open>user.pharmacy\<close>).
\<close>

record profile =
  first_name :: string
  last_name :: string
  user_type :: string
  pharmacy :: "nat option"

text \<open>
  \<open>userLogin\<close> is \<open>null\<close> at start and after sign-out, the object
  \<open>{token, user}\<close> after sign-in (\<open>SignIn.jsx\<close>) or bootstrap, and a bare token
  string after registration (\<open>setUserLogin(response.data.data.access_token)\<close> in
  \<open>Signup.jsx\<close> and \<open>Join.jsx\<close>). All three shapes occur, so all three are modelled.
\<close>

datatype user_login = LoginNull | LoginObj token profile | LoginStr string

text \<open>
  \<open>userLogin?.token\<close> used as a condition (\<open>if (!userLogin?.token) return\<close>): the
  optional chain yields \<open>undefined\<close> on \<open>null\<close> and on a string, and the empty token
  is falsy. \<open>Some t\<close> is a token that passes the guard.
\<close>

fun login_token :: "user_login \<Rightarrow> token option" where
  "login_token LoginNull = None"
| "login_token (LoginObj t p) = (if t = [] then None else Some t)"
| "login_token (LoginStr s) = None"

text \<open>
  \<open>`Bearer ${userLogin.token}`\<close> without a guard (\<open>deleteCart\<close>, \<open>handleCheckout\<close>):
  reading \<open>.token\<close> of \<open>null\<close> throws a \<open>TypeError\<close> (\<open>None\<close>); on a string it
  is \<open>undefined\<close>, which the template literal prints as \<open>undefined\<close>.
\<close>

fun bearer_token :: "user_login \<Rightarrow> token option" where
  "bearer_token LoginNull = None"
| "bearer_token (LoginObj t p) = Some t"
| "bearer_token (LoginStr s) = Some ''undefined''"

section \<open>The context state and its bootstrap\<close>

record session =
  userLogin :: user_login
  userType :: "string option"
  session_pharmacy :: "nat option"
  loading :: bool

definition session_init :: session where
  "session_init = \<lparr>userLogin = LoginNull, userType = None, session_pharmacy = None, loading = True\<rparr>"

text \<open>
  The mount effect reads \<open>userToken\<close>, \<open>userData\<close> and \<open>userType\<close> from
  \<open>localStorage\<close> (a map from keys to strings). \<open>JSON.parse\<close> is a parameter
  \<open>parse\<close>; when it throws (\<open>None\<close>) the effect aborts before
  \<open>setLoading(false)\<close>, which the model returns as \<open>None\<close>.
\<close>

definition user_context_bootstrap ::
  "(string \<rightharpoonup> string) \<Rightarrow> (string \<Rightarrow> profile option) \<Rightarrow> session \<Rightarrow> session option" where
  "user_context_bootstrap store parse s =
     (case (store ''userToken'', store ''userData'') of
        (Some t, Some d) \<Rightarrow>
          (if t \<noteq> [] \<and> d \<noteq> [] then
             (case parse d of
                None \<Rightarrow> None
              | Some u \<Rightarrow> Some (s\<lparr>userLogin := LoginObj t u, userType := store ''userType'',
                                   session_pharmacy := (case pharmacy u of None \<Rightarrow> session_pharmacy s
                                                                          | Some ph \<Rightarrow> Some ph),
                                   loading := False\<rparr>))
           else Some (s\<lparr>userLogin := LoginNull, userType := None, session_pharmacy := None,
                       loading := False\<rparr>))
      | _ \<Rightarrow> Some (s\<lparr>userLogin := LoginNull, userType := None, session_pharmacy := None,
                   loading := False\<rparr>))"

lemma login_token_bearer [simp]:
  "login_token u = Some t \<Longrightarrow> bearer_token u = Some t"
  by (cases u) (auto split: if_splits)

lemma login_token_nonempty:
  "login_token u = Some t \<Longrightarrow> t \<noteq> []"
  by (cases u) (auto split: if_splits)

end
