(* ===== verification/RemoteApi.thy ===== *)
theory RemoteApi
  imports Session
begin

text \<open>
  What the client exchanges with the external REST API: the shape of the cart payload
  (\<open>GET /cart\<close>), the fields of a response body the client reads, the requests it
  issues (each carrying the bearer credential), the reply of the transport (an
  \<open>axios\<close> rejection or a body), and the observable effects of a handler (console
  logs, toasts, navigation).
\<close>

section \<open>Cart payload\<close>

text \<open>
  A line of \<open>res.data.data.items\<close>: the nested \<open>medication\<close> record with its
  \<open>pharmacy\<close> object (\<open>None\<close> when the API sends \<open>null\<close>) and the quantity.
  Prices are kept as integral amounts of EGP.
\<close>

record medication =
  medication_id :: med_id
  medication_name :: string
  medication_image :: string
  medication_price :: int
  medication_pharmacy :: "string option"

record server_line =
  line_medication :: medication
  line_quantity :: int

text \<open>
  The fields of \<open>response.data\<close> the client reads: \<open>success\<close>, \<open>message\<close>
  (dynamically typed) and \<open>data.items\<close> (\<open>None\<close> when \<open>res.data.data\<close> is absent).
\<close>

record api_body =
  body_success :: js_val
  body_message :: js_val
  body_data :: "server_line list option"

text \<open>\<open>NetError\<close>: the \<open>await axios\<close> call rejected (transport error or a non-2xx status).\<close>

datatype reply = NetError | Reply api_body

section \<open>Requests\<close>

text \<open>One constructor per endpoint of the cart and checkout API, with the bearer token first.\<close>

datatype request =
    GetCart token
  | PostCartAdd token med_id int
  | PostCartUpdate token med_id int
  | PostCartRemove token med_id
  | PostCartDelete token
  | PostCheckout token string string string

section \<open>Observable effects\<close>

datatype effect =
    ConsoleError string
  | ToastError string
  | ToastSuccess string
  | NavigateTo string

fun is_toast_error :: "effect \<Rightarrow> bool" where
  "is_toast_error (ToastError m) = True"
| "is_toast_error _ = False"

definition empty_body :: api_body where
  "empty_body = \<lparr>body_success = JsUndefined, body_message = JsUndefined, body_data = None\<rparr>"

end
