(* ===== verification/CartEngine.thy ===== *)
theory CartEngine
  imports RemoteApi
begin

text \<open>
  The cart synchronization engine, \<open>CartProvider\<close> in
  \<open>src/src/Context/CartContext.jsx\<close>. Its state is \<open>cartItems\<close>, a list of
  cart lines. Every asynchronous handler is split at its \<open>await\<close>: the
  \<open>_call\<close> definition is the synchronous prefix (guards, toasts, the request it sends),
  the \<open>_resume\<close> definition is what runs when the reply arrives, applied to the cart
  state of that moment (\<open>prev\<close> in \<open>setCartItems(prev => ...)\<close>). \<open>complete\<close>
  runs a handler to the end on a list of replies, \<open>run_op\<close> runs one operation of
  the context's interface.
\<close>

section \<open>Cart lines\<close>

record cart_item =
  item_id :: med_id
  item_name :: string
  item_image :: string
  item_price :: int
  item_quantity :: int
  item_pharmacy :: string

text \<open>The projection of one server line (\<open>item.medication.pharmacy.name\<close> throws on a
  \<open>null\<close> pharmacy, \<open>None\<close> here), and of the whole payload: one throwing line aborts
  the whole \<open>map\<close>.\<close>

definition project_item :: "server_line \<Rightarrow> cart_item option" where
  "project_item l =
     (let m = line_medication l in
      case medication_pharmacy m of
        None \<Rightarrow> None
      | Some ph \<Rightarrow> Some \<lparr>item_id = medication_id m, item_name = medication_name m,
                         item_image = medication_image m, item_price = medication_price m,
                         item_quantity = line_quantity l, item_pharmacy = ph\<rparr>)"

definition project_lines :: "server_line list \<Rightarrow> cart_item list option" where
  "project_lines ls = those (map project_item ls)"

section \<open>Handlers\<close>

text \<open>What a handler is waiting for when it suspends at its \<open>await\<close>.\<close>

datatype pending = PFetch | PAdd token | PUpdate med_id int | PRemove med_id | PDelete

record call_out =
  call_effects :: "effect list"
  call_request :: "(request \<times> pending) option"

record resume_out =
  res_items :: "cart_item list"
  res_effects :: "effect list"
  res_next :: "(request \<times> pending) option"

definition no_call :: call_out where
  "no_call = \<lparr>call_effects = [], call_request = None\<rparr>"

subsection \<open>fetchCart\<close>

definition fetch_cart_call :: "user_login \<Rightarrow> call_out" where
  "fetch_cart_call u =
     (case login_token u of
        None \<Rightarrow> no_call
      | Some t \<Rightarrow> \<lparr>call_effects = [], call_request = Some (GetCart t, PFetch)\<rparr>)"

text \<open>\<open>fetchCart\<close> after its \<open>await\<close>. A falsy \<open>res.data.data\<close> (\<open>body_data = None\<close>)
  leaves the cart silently. Any payload whose projection throws inside the \<open>try\<close>, a
  line whose \<open>medication\<close> or \<open>medication.pharmacy\<close> is \<open>null\<close>, or \<open>data\<close> without
  \<open>items\<close>, ends in the \<open>catch\<close> with the same outcome (the log, the cart kept); the
  model represents all of them by a line without pharmacy (\<open>project_lines\<close> is
  \<open>None\<close>).\<close>

definition fetch_cart_resume :: "reply \<Rightarrow> cart_item list \<Rightarrow> resume_out" where
  "fetch_cart_resume r prev =
     (case r of
        NetError \<Rightarrow> \<lparr>res_items = prev, res_effects = [ConsoleError ''Failed to load cart''],
                     res_next = None\<rparr>
      | Reply b \<Rightarrow>
          (case body_data b of
             None \<Rightarrow> \<lparr>res_items = prev, res_effects = [], res_next = None\<rparr>
           | Some ls \<Rightarrow>
               (case project_lines ls of
                  None \<Rightarrow> \<lparr>res_items = prev, res_effects = [ConsoleError ''Failed to load cart''],
                           res_next = None\<rparr>
                | Some new \<Rightarrow> \<lparr>res_items = new, res_effects = [], res_next = None\<rparr>)))"

subsection \<open>addToCart\<close>

text \<open>After the add request succeeds, \<open>fetchCart()\<close> is called (not awaited) with the
  same closure, so its guard passes and it sends \<open>GET /cart\<close> with the same token.\<close>

definition add_to_cart_call :: "user_login \<Rightarrow> med_id \<Rightarrow> int \<Rightarrow> call_out" where
  "add_to_cart_call u i q =
     (case login_token u of
        None \<Rightarrow> no_call
      | Some t \<Rightarrow> \<lparr>call_effects = [], call_request = Some (PostCartAdd t i q, PAdd t)\<rparr>)"

definition add_to_cart_resume :: "token \<Rightarrow> reply \<Rightarrow> cart_item list \<Rightarrow> resume_out" where
  "add_to_cart_resume t r prev =
     (case r of
        NetError \<Rightarrow> \<lparr>res_items = prev, res_effects = [ConsoleError ''Failed to add to cart''],
                     res_next = None\<rparr>
      | Reply b \<Rightarrow> \<lparr>res_items = prev, res_effects = [], res_next = Some (GetCart t, PFetch)\<rparr>)"

subsection \<open>updateQuantity\<close>

text \<open>
  The line is looked up in the snapshot; the identifier argument is \<open>None\<close> when the
  function is called without arguments (\<open>updateQuantity()\<close> in \<open>Checkout.jsx\<close>):
  \<open>i.id === undefined\<close> then holds of no line.
\<close>

definition update_quantity_call :: "user_login \<Rightarrow> cart_item list \<Rightarrow> med_id option \<Rightarrow> int \<Rightarrow> call_out" where
  "update_quantity_call u items oid change =
     (case find (\<lambda>i. Some (item_id i) = oid) items of
        None \<Rightarrow> no_call
      | Some it \<Rightarrow>
          (case login_token u of
             None \<Rightarrow> no_call
           | Some t \<Rightarrow>
               (let newQty = item_quantity it + change in
                if newQty < 1 then
                  \<lparr>call_effects = [ToastError ''Quantity cannot be less than 1''], call_request = None\<rparr>
                else if 10 < newQty then
                  \<lparr>call_effects = [ToastError ''You cannot add more than 10 items of this medication''],
                   call_request = None\<rparr>
                else \<lparr>call_effects = [],
                      call_request = Some (PostCartUpdate t (item_id it) newQty,
                                           PUpdate (item_id it) newQty)\<rparr>)))"

definition update_quantity_resume :: "med_id \<Rightarrow> int \<Rightarrow> reply \<Rightarrow> cart_item list \<Rightarrow> resume_out" where
  "update_quantity_resume i q r prev =
     (case r of
        NetError \<Rightarrow> \<lparr>res_items = prev, res_effects = [ConsoleError ''Failed to update quantity:''],
                     res_next = None\<rparr>
      | Reply b \<Rightarrow> \<lparr>res_items = map (\<lambda>x. if item_id x = i then x\<lparr>item_quantity := q\<rparr> else x) prev,
                    res_effects = [], res_next = None\<rparr>)"

subsection \<open>removeItem\<close>

definition remove_item_call :: "user_login \<Rightarrow> med_id \<Rightarrow> call_out" where
  "remove_item_call u i =
     (case login_token u of
        None \<Rightarrow> no_call
      | Some t \<Rightarrow> \<lparr>call_effects = [], call_request = Some (PostCartRemove t i, PRemove i)\<rparr>)"

definition remove_item_resume :: "med_id \<Rightarrow> reply \<Rightarrow> cart_item list \<Rightarrow> resume_out" where
  "remove_item_resume i r prev =
     (case r of
        NetError \<Rightarrow> \<lparr>res_items = prev, res_effects = [ConsoleError ''Failed to remove item:''],
                     res_next = None\<rparr>
      | Reply b \<Rightarrow> \<lparr>res_items = filter (\<lambda>x. item_id x \<noteq> i) prev, res_effects = [],
                    res_next = None\<rparr>)"

subsection \<open>deleteCart\<close>

text \<open>No session guard: \<open>userLogin.token\<close> is read unguarded to build the header.\<close>

definition delete_cart_call :: "user_login \<Rightarrow> call_out" where
  "delete_cart_call u =
     (case bearer_token u of
        None \<Rightarrow> \<lparr>call_effects = [ConsoleError ''Error deleteing cart:''], call_request = None\<rparr>
      | Some t \<Rightarrow> \<lparr>call_effects = [], call_request = Some (PostCartDelete t, PDelete)\<rparr>)"

definition delete_cart_resume :: "reply \<Rightarrow> cart_item list \<Rightarrow> resume_out" where
  "delete_cart_resume r prev =
     (case r of
        NetError \<Rightarrow> \<lparr>res_items = prev, res_effects = [ConsoleError ''Error deleteing cart:''],
                     res_next = None\<rparr>
      | Reply b \<Rightarrow>
          (if js_truthy (body_success b) \<or> body_message b = JsStr ''Cart is empty''
           then \<lparr>res_items = [], res_effects = [], res_next = None\<rparr>
           else \<lparr>res_items = prev, res_effects = [ConsoleError ''Error deleteing cart:''],
                 res_next = None\<rparr>))"

subsection \<open>Resetitems\<close>

definition reset_items :: "cart_item list \<Rightarrow> cart_item list" where
  "reset_items prev = []"

section \<open>The context interface and running a handler\<close>

text \<open>The operations the context exports (\<open>value={{...}}\<close>).\<close>

datatype cart_op =
    FetchCart
  | AddToCart med_id int
  | UpdateQuantity "med_id option" int
  | RemoveItem med_id
  | DeleteCart
  | ResetItems

fun resume :: "pending \<Rightarrow> reply \<Rightarrow> cart_item list \<Rightarrow> resume_out" where
  "resume PFetch r prev = fetch_cart_resume r prev"
| "resume (PAdd t) r prev = add_to_cart_resume t r prev"
| "resume (PUpdate i q) r prev = update_quantity_resume i q r prev"
| "resume (PRemove i) r prev = remove_item_resume i r prev"
| "resume PDelete r prev = delete_cart_resume r prev"

fun engine_call :: "user_login \<Rightarrow> cart_item list \<Rightarrow> cart_op \<Rightarrow> call_out" where
  "engine_call u items FetchCart = fetch_cart_call u"
| "engine_call u items (AddToCart i q) = add_to_cart_call u i q"
| "engine_call u items (UpdateQuantity oid d) = update_quantity_call u items oid d"
| "engine_call u items (RemoveItem i) = remove_item_call u i"
| "engine_call u items DeleteCart = delete_cart_call u"
| "engine_call u items ResetItems = no_call"

record run_out =
  run_items :: "cart_item list"
  run_sent :: "request list"
  run_effects :: "effect list"

text \<open>
  Running a suspended handler on the replies that arrive, one per request, in order.
  With no reply left the request stays in flight and the cart is untouched: a hung call
  (the client sets no timeout).
\<close>

fun complete :: "(request \<times> pending) option \<Rightarrow> reply list \<Rightarrow> cart_item list \<Rightarrow> run_out" where
  "complete None rs prev = \<lparr>run_items = prev, run_sent = [], run_effects = []\<rparr>"
| "complete (Some (rq, p)) [] prev = \<lparr>run_items = prev, run_sent = [rq], run_effects = []\<rparr>"
| "complete (Some (rq, p)) (r # rs) prev =
     (let ro = resume p r prev;
          rest = complete (res_next ro) rs (res_items ro)
      in \<lparr>run_items = run_items rest, run_sent = rq # run_sent rest,
          run_effects = res_effects ro @ run_effects rest\<rparr>)"

fun run_op :: "user_login \<Rightarrow> cart_op \<Rightarrow> reply list \<Rightarrow> cart_item list \<Rightarrow> run_out" where
  "run_op u ResetItems rs items =
     \<lparr>run_items = reset_items items, run_sent = [], run_effects = []\<rparr>"
| "run_op u op rs items =
     (let c = engine_call u items op;
          r = complete (call_request c) rs items
      in r\<lparr>run_effects := call_effects c @ run_effects r\<rparr>)"

text \<open>The derived read model: \<open>subtotal\<close> (\<open>Cart.jsx\<close>, \<open>Checkout.jsx\<close>) and the
  badge count \<open>totalQuantity\<close> (\<open>Navbar.jsx\<close>, \<open>MainHeader.jsx\<close>).\<close>

definition subtotal :: "cart_item list \<Rightarrow> int" where
  "subtotal items = foldl (\<lambda>acc it. acc + item_price it * item_quantity it) 0 items"

definition total_quantity :: "cart_item list \<Rightarrow> int" where
  "total_quantity items = foldl (\<lambda>acc it. acc + item_quantity it) 0 items"

section \<open>Specification of the engine\<close>

text \<open>
  The notions the properties are stated in: the quantity bound the engine enforces
  (spec P1), the operations that never import a quantity from the server, a sequence of
  operations each run to completion, the abstraction of a cart to a finite map from
  medication to quantity, and the abstract cart each operation promises.
\<close>

definition qty_bounded :: "cart_item list \<Rightarrow> bool" where
  "qty_bounded items \<longleftrightarrow> (\<forall>x \<in> set items. 1 \<le> item_quantity x \<and> item_quantity x \<le> 10)"

fun is_local_op :: "cart_op \<Rightarrow> bool" where
  "is_local_op FetchCart = False"
| "is_local_op (AddToCart i q) = False"
| "is_local_op _ = True"

fun local_pending :: "pending \<Rightarrow> bool" where
  "local_pending (PUpdate i q) = (1 \<le> q \<and> q \<le> 10)"
| "local_pending (PRemove i) = True"
| "local_pending PDelete = True"
| "local_pending PFetch = False"
| "local_pending (PAdd t) = False"

fun run_seq :: "user_login \<Rightarrow> (cart_op \<times> reply list) list \<Rightarrow> cart_item list \<Rightarrow> cart_item list" where
  "run_seq u [] items = items"
| "run_seq u ((op, rs) # ops) items = run_seq u ops (run_items (run_op u op rs items))"

definition cart_wf :: "cart_item list \<Rightarrow> bool" where
  "cart_wf items \<longleftrightarrow> distinct (map item_id items)"

fun reply_wf :: "reply \<Rightarrow> bool" where
  "reply_wf NetError = True"
| "reply_wf (Reply b) =
     (case body_data b of
        None \<Rightarrow> True
      | Some ls \<Rightarrow> distinct (map (\<lambda>l. medication_id (line_medication l)) ls))"

definition cart_map :: "cart_item list \<Rightarrow> med_id \<rightharpoonup> int" where
  "cart_map items = map_of (map (\<lambda>x. (item_id x, item_quantity x)) items)"

definition server_map :: "server_line list \<Rightarrow> med_id \<rightharpoonup> int" where
  "server_map ls = map_of (map (\<lambda>l. (medication_id (line_medication l), line_quantity l)) ls)"

text \<open>
  The abstract cart each operation promises (spec section 4.1), given the server's cart
  \<open>srv\<close> as the authoritative copy: a reload, and an add (which reloads), yield the
  server's cart; an update moves one quantity within the bounds; a removal drops one key;
  a clear and a local reset empty the cart.
\<close>

fun abs_op :: "cart_op \<Rightarrow> (med_id \<rightharpoonup> int) \<Rightarrow> (med_id \<rightharpoonup> int) \<Rightarrow> (med_id \<rightharpoonup> int)" where
  "abs_op FetchCart m srv = srv"
| "abs_op (AddToCart i q) m srv = srv"
| "abs_op (UpdateQuantity None d) m srv = m"
| "abs_op (UpdateQuantity (Some i) d) m srv =
     (case m i of
        None \<Rightarrow> m
      | Some q \<Rightarrow> if 1 \<le> q + d \<and> q + d \<le> 10 then m(i \<mapsto> q + d) else m)"
| "abs_op (RemoveItem i) m srv = m(i := None)"
| "abs_op DeleteCart m srv = Map.empty"
| "abs_op ResetItems m srv = Map.empty"

definition cart_body :: "server_line list \<Rightarrow> api_body" where
  "cart_body ls = empty_body\<lparr>body_data := Some ls\<rparr>"

text \<open>The replies of a server that accepts every request of an operation.\<close>

fun success_replies :: "cart_op \<Rightarrow> server_line list \<Rightarrow> reply list" where
  "success_replies FetchCart ls = [Reply (cart_body ls)]"
| "success_replies (AddToCart i q) ls = [Reply empty_body, Reply (cart_body ls)]"
| "success_replies DeleteCart ls = [Reply (empty_body\<lparr>body_success := JsBool True\<rparr>)]"
| "success_replies ResetItems ls = []"
| "success_replies _ ls = [Reply empty_body]"

subsection \<open>Concrete inputs of the witnesses\<close>

definition demo_profile :: profile where
  "demo_profile = \<lparr>first_name = ''Mona'', last_name = ''Adel'', user_type = ''user'', pharmacy = None\<rparr>"

definition demo_login :: user_login where
  "demo_login = LoginObj ''tok-1'' demo_profile"

definition line_of :: "med_id \<Rightarrow> int \<Rightarrow> int \<Rightarrow> cart_item" where
  "line_of i price q = \<lparr>item_id = i, item_name = ''Med'', item_image = [], item_price = price,
                        item_quantity = q, item_pharmacy = ''Pharmacy''\<rparr>"

definition server_line_of :: "med_id \<Rightarrow> int \<Rightarrow> int \<Rightarrow> server_line" where
  "server_line_of i price q =
     \<lparr>line_medication = \<lparr>medication_id = i, medication_name = ''Med'', medication_image = [],
                          medication_price = price, medication_pharmacy = Some ''Pharmacy''\<rparr>,
      line_quantity = q\<rparr>"

declare project_item_def [engine_defs] project_lines_def [engine_defs]
  fetch_cart_call_def [engine_defs] fetch_cart_resume_def [engine_defs]
  add_to_cart_call_def [engine_defs] add_to_cart_resume_def [engine_defs]
  update_quantity_call_def [engine_defs] update_quantity_resume_def [engine_defs]
  remove_item_call_def [engine_defs] remove_item_resume_def [engine_defs]
  delete_cart_call_def [engine_defs] delete_cart_resume_def [engine_defs]
  reset_items_def [engine_defs] no_call_def [engine_defs]

section \<open>Lemmas on the handlers\<close>

subsection \<open>Local operations keep the quantity bound\<close>

lemma resume_local_pending:
  assumes "local_pending p" "qty_bounded prev"
  shows "qty_bounded (res_items (resume p r prev)) \<and> res_next (resume p r prev) = None"
  using assms by (cases p; cases r) (auto simp: engine_defs qty_bounded_def)

lemma complete_local_bounded:
  assumes "\<And>rq p. c = Some (rq, p) \<Longrightarrow> local_pending p" "qty_bounded prev"
  shows "qty_bounded (run_items (complete c rs prev))"
proof (cases c)
  case None
  with assms show ?thesis by simp
next
  case (Some a)
  then obtain rq p where c: "c = Some (rq, p)" by (cases a) auto
  with assms have "local_pending p" by blast
  show ?thesis
  proof (cases rs)
    case Nil
    with assms(2) c show ?thesis by simp
  next
    case (Cons r rs')
    from resume_local_pending [OF \<open>local_pending p\<close> assms(2)]
    have "qty_bounded (res_items (resume p r prev))" "res_next (resume p r prev) = None"
      by blast+
    with c Cons show ?thesis by (simp add: Let_def)
  qed
qed

lemma engine_call_local:
  "is_local_op op \<Longrightarrow> call_request (engine_call u items op) = Some (rq, p) \<Longrightarrow> local_pending p"
  by (cases op) (auto simp: engine_defs Let_def split: option.splits if_splits)

lemma run_op_complete:
  "op \<noteq> ResetItems \<Longrightarrow>
   run_items (run_op u op rs items) = run_items (complete (call_request (engine_call u items op)) rs items)"
  by (cases op) (simp_all add: Let_def)

lemma run_op_local_bounded:
  assumes "is_local_op op" "qty_bounded items"
  shows "qty_bounded (run_items (run_op u op rs items))"
proof (cases "op = ResetItems")
  case True
  then show ?thesis by (simp add: engine_defs qty_bounded_def)
next
  case False
  have "qty_bounded (run_items (complete (call_request (engine_call u items op)) rs items))"
    using assms by (intro complete_local_bounded) (auto dest: engine_call_local)
  with False show ?thesis by (simp add: run_op_complete)
qed

subsection \<open>Well-formedness: one line per medication\<close>

lemma project_lines_keys:
  "project_lines ls = Some new \<Longrightarrow>
   map (\<lambda>x. (item_id x, item_quantity x)) new =
   map (\<lambda>l. (medication_id (line_medication l), line_quantity l)) ls"
proof -
  assume "project_lines ls = Some new"
  then have "list_all2 (\<lambda>l x. project_item l = Some x) ls new"
    by (simp add: project_lines_def those_map_Some_iff)
  then show ?thesis
    by (induction rule: list_all2_induct) (auto simp: project_item_def Let_def split: option.splits)
qed

lemma project_lines_ids:
  "project_lines ls = Some new \<Longrightarrow> map item_id new = map (\<lambda>l. medication_id (line_medication l)) ls"
  by (drule project_lines_keys, drule arg_cong [where f = "map fst"]) (simp add: comp_def)

lemma resume_wf:
  assumes "cart_wf prev" "reply_wf r"
  shows "cart_wf (res_items (resume p r prev))"
  using assms
  by (cases p; cases r)
     (auto simp: engine_defs cart_wf_def project_lines_ids [unfolded project_lines_def]
           split: option.splits)

lemma complete_wf:
  "cart_wf prev \<Longrightarrow> list_all reply_wf rs \<Longrightarrow> cart_wf (run_items (complete c rs prev))"
  by (induction c rs prev rule: complete.induct) (auto simp: Let_def resume_wf)

subsection \<open>The abstraction to a finite map\<close>

lemma cart_map_set_quantity:
  "i \<in> set (map item_id items) \<Longrightarrow>
   cart_map (map (\<lambda>x. if item_id x = i then x\<lparr>item_quantity := q\<rparr> else x) items) =
   (cart_map items)(i \<mapsto> q)"
  unfolding cart_map_def by (subst map_of_map_keyed) auto

lemma cart_map_project:
  "project_lines ls = Some new \<Longrightarrow> cart_map new = server_map ls"
  by (simp add: cart_map_def server_map_def project_lines_keys)

subsection \<open>The derived subtotal\<close>

lemma foldl_add_sum:
  "foldl (\<lambda>acc x. acc + f x) a xs = a + sum_list (map f xs)" for a :: int
  by (induction xs arbitrary: a) (simp_all add: algebra_simps)

lemma subtotal_sum_list:
  "subtotal items = sum_list (map (\<lambda>it. item_price it * item_quantity it) items)"
  by (simp add: subtotal_def foldl_add_sum)

lemma subtotal_set_quantity:
  assumes "distinct (map item_id items)" "it \<in> set items"
  shows "subtotal (map (\<lambda>x. if item_id x = item_id it then x\<lparr>item_quantity := q\<rparr> else x) items) =
         subtotal items + item_price it * (q - item_quantity it)"
  using assms
proof (induction items)
  case Nil
  then show ?case by simp
next
  case (Cons x xs)
  show ?case
  proof (cases "x = it")
    case True
    with Cons.prems have "item_id it \<notin> set (map item_id xs)" by simp
    then have "map (\<lambda>y. if item_id y = item_id it then y\<lparr>item_quantity := q\<rparr> else y) xs = xs"
      by (induction xs) auto
    with True show ?thesis by (simp add: subtotal_sum_list algebra_simps)
  next
    case False
    with Cons.prems have "it \<in> set xs" and "item_id x \<noteq> item_id it"
      by (auto simp: image_iff)
    with Cons show ?thesis by (simp add: subtotal_sum_list algebra_simps)
  qed
qed

section \<open>Properties of the engine\<close>

text \<open>C1 (spec P1). Starting from a cart whose quantities are all within 1..10, any
  sequence of operations that do not import quantities from the server (quantity
  updates, removals, clears, local resets), each run to completion on any replies,
  leaves every quantity within 1..10.\<close>

theorem run_seq_quantity_bounded:
  assumes "qty_bounded items" "list_all (is_local_op \<circ> fst) ops"
  shows "qty_bounded (run_seq u ops items)"
  using assms
proof (induction u ops items rule: run_seq.induct)
  case (1 u items)
  then show ?case by simp
next
  case (2 u op rs ops items)
  then show ?case by (simp add: run_op_local_bounded)
qed

lemma run_seq_quantity_bounded_witness:
  "qty_bounded [line_of 1 50 2] \<and>
   list_all (is_local_op \<circ> fst) [(UpdateQuantity (Some 1) 1, [Reply empty_body])] \<and>
   qty_bounded (run_seq demo_login [(UpdateQuantity (Some 1) 1, [Reply empty_body])] [line_of 1 50 2])"
  using run_seq_quantity_bounded [of "[line_of 1 50 2]" "[(UpdateQuantity (Some 1) 1, [Reply empty_body])]"
      demo_login]
  by (simp add: qty_bounded_def line_of_def)

text \<open>C2 (spec P1, scenario 3). An update whose new quantity falls outside 1..10 is
  rejected before any request: the cart is unchanged, nothing is sent, and exactly one
  error toast names the violated bound.\<close>

theorem update_quantity_rejects_out_of_range:
  assumes "find (\<lambda>x. item_id x = i) items = Some it" "login_token u = Some t"
    "\<not> (1 \<le> item_quantity it + d \<and> item_quantity it + d \<le> 10)"
  shows "run_op u (UpdateQuantity (Some i) d) rs items =
     \<lparr>run_items = items, run_sent = [],
      run_effects = [ToastError (if item_quantity it + d < 1 then ''Quantity cannot be less than 1''
                                 else ''You cannot add more than 10 items of this medication'')]\<rparr>"
  using assms by (auto simp: engine_defs Let_def)

lemma update_quantity_rejects_out_of_range_witness:
  "find (\<lambda>x. item_id x = 1) [line_of 1 50 10] = Some (line_of 1 50 10) \<and>
   login_token demo_login = Some ''tok-1'' \<and>
   \<not> (1 \<le> item_quantity (line_of 1 50 10) + 1 \<and> item_quantity (line_of 1 50 10) + 1 \<le> 10) \<and>
   run_op demo_login (UpdateQuantity (Some 1) 1) [] [line_of 1 50 10] =
     \<lparr>run_items = [line_of 1 50 10], run_sent = [],
      run_effects = [ToastError ''You cannot add more than 10 items of this medication'']\<rparr>"
  using update_quantity_rejects_out_of_range [of 1 "[line_of 1 50 10]" "line_of 1 50 10" demo_login
      "''tok-1''" 1 "[]"]
  by (simp add: line_of_def demo_login_def)

text \<open>C3 (spec P5). Without a session credential every operation other than
  \<open>deleteCart\<close> sends no request, shows nothing and leaves the cart as it was (a
  local reset still empties it).\<close>

theorem session_gating:
  assumes "login_token u = None" "op \<noteq> DeleteCart"
  shows "run_sent (run_op u op rs items) = [] \<and> run_effects (run_op u op rs items) = [] \<and>
         run_items (run_op u op rs items) = (if op = ResetItems then [] else items)"
  using assms by (cases op) (auto simp: engine_defs split: option.splits)

lemma session_gating_witness:
  "login_token LoginNull = None \<and> RemoveItem 1 \<noteq> DeleteCart \<and>
   run_sent (run_op LoginNull (RemoveItem 1) [] [line_of 1 50 2]) = [] \<and>
   run_effects (run_op LoginNull (RemoveItem 1) [] [line_of 1 50 2]) = [] \<and>
   run_items (run_op LoginNull (RemoveItem 1) [] [line_of 1 50 2]) = [line_of 1 50 2]"
  using session_gating [of LoginNull "RemoveItem 1" "[]" "[line_of 1 50 2]"] by simp

text \<open>C4 (spec P4). A reload whose payload projects without error replaces the cart by
  the projection: nothing of the previous snapshot survives.\<close>

theorem fetch_cart_replaces:
  assumes "login_token u = Some t" "body_data b = Some ls" "project_lines ls = Some new"
  shows "run_op u FetchCart (Reply b # rs) items =
         \<lparr>run_items = new, run_sent = [GetCart t], run_effects = []\<rparr>"
  using assms by (simp add: fetch_cart_call_def fetch_cart_resume_def)

lemma fetch_cart_replaces_witness:
  "login_token demo_login = Some ''tok-1'' \<and>
   body_data (cart_body [server_line_of 2 30 1]) = Some [server_line_of 2 30 1] \<and>
   project_lines [server_line_of 2 30 1] = Some [line_of 2 30 1] \<and>
   run_op demo_login FetchCart [Reply (cart_body [server_line_of 2 30 1])] [line_of 1 50 3] =
     \<lparr>run_items = [line_of 2 30 1], run_sent = [GetCart ''tok-1''], run_effects = []\<rparr>"
proof -
  have p: "project_lines [server_line_of 2 30 1] = Some [line_of 2 30 1]"
    by (simp add: project_lines_def project_item_def server_line_of_def line_of_def)
  have b: "body_data (cart_body [server_line_of 2 30 1]) = Some [server_line_of 2 30 1]"
    by (simp add: cart_body_def empty_body_def)
  have l: "login_token demo_login = Some ''tok-1''" by (simp add: demo_login_def)
  show ?thesis using fetch_cart_replaces [OF l b p, of "[]" "[line_of 1 50 3]"] p b l by simp
qed

text \<open>C5. One line of the payload whose pharmacy is \<open>null\<close> makes the projection throw;
  the reload then keeps the whole previous snapshot and only logs the failure.\<close>

theorem fetch_cart_malformed_line_keeps_cart:
  assumes "login_token u = Some t" "body_data b = Some ls" "l \<in> set ls"
    "medication_pharmacy (line_medication l) = None"
  shows "run_op u FetchCart (Reply b # rs) items =
         \<lparr>run_items = items, run_sent = [GetCart t], run_effects = [ConsoleError ''Failed to load cart'']\<rparr>"
proof -
  from assms(4) have "project_item l = None" by (simp add: project_item_def Let_def)
  with assms(3) have "project_lines ls = None"
    by (auto simp: project_lines_def those_map_None_iff)
  with assms(1,2) show ?thesis by (simp add: fetch_cart_call_def fetch_cart_resume_def)
qed

lemma fetch_cart_malformed_line_keeps_cart_witness:
  "login_token demo_login = Some ''tok-1'' \<and>
   body_data (cart_body [server_line_of 2 30 1, server_line_of 3 10 1\<lparr>line_medication :=
     line_medication (server_line_of 3 10 1)\<lparr>medication_pharmacy := None\<rparr>\<rparr>]) =
     Some [server_line_of 2 30 1, server_line_of 3 10 1\<lparr>line_medication :=
     line_medication (server_line_of 3 10 1)\<lparr>medication_pharmacy := None\<rparr>\<rparr>] \<and>
   run_items (run_op demo_login FetchCart [Reply (cart_body [server_line_of 2 30 1,
     server_line_of 3 10 1\<lparr>line_medication :=
       line_medication (server_line_of 3 10 1)\<lparr>medication_pharmacy := None\<rparr>\<rparr>])] [line_of 1 50 3]) =
     [line_of 1 50 3]"
proof -
  let ?bad = "server_line_of 3 10 1\<lparr>line_medication :=
       line_medication (server_line_of 3 10 1)\<lparr>medication_pharmacy := None\<rparr>\<rparr>"
  have l: "login_token demo_login = Some ''tok-1''" by (simp add: demo_login_def)
  have b: "body_data (cart_body [server_line_of 2 30 1, ?bad]) = Some [server_line_of 2 30 1, ?bad]"
    by (simp add: cart_body_def empty_body_def)
  have m: "?bad \<in> set [server_line_of 2 30 1, ?bad]" by simp
  have n: "medication_pharmacy (line_medication ?bad) = None" by simp
  show ?thesis
    using fetch_cart_malformed_line_keeps_cart [OF l b m n, of "[]" "[line_of 1 50 3]"] l b by simp
qed

text \<open>C6 (spec P2). Clearing is idempotent: a \<open>"Cart is empty"\<close> answer counts as
  success, so the cart becomes empty and no error is logged.\<close>

theorem delete_cart_idempotent:
  assumes "bearer_token u = Some t" "body_message b = JsStr ''Cart is empty''"
  shows "run_op u DeleteCart (Reply b # rs) items =
         \<lparr>run_items = [], run_sent = [PostCartDelete t], run_effects = []\<rparr>"
  using assms by (simp add: delete_cart_call_def delete_cart_resume_def)

lemma delete_cart_idempotent_witness:
  "bearer_token demo_login = Some ''tok-1'' \<and>
   body_message (empty_body\<lparr>body_message := JsStr ''Cart is empty''\<rparr>) = JsStr ''Cart is empty'' \<and>
   run_op demo_login DeleteCart [Reply (empty_body\<lparr>body_message := JsStr ''Cart is empty''\<rparr>)] [] =
     \<lparr>run_items = [], run_sent = [PostCartDelete ''tok-1''], run_effects = []\<rparr>"
proof -
  have t: "bearer_token demo_login = Some ''tok-1''" by (simp add: demo_login_def)
  have m: "body_message (empty_body\<lparr>body_message := JsStr ''Cart is empty''\<rparr>) = JsStr ''Cart is empty''"
    by simp
  show ?thesis using delete_cart_idempotent [OF t m, of "[]" "[]"] t m by simp
qed

text \<open>C7. \<open>deleteCart\<close> has no session guard: with the bare-string login that
  registration leaves in the context, the guard of every other handler fails, yet
  \<open>deleteCart\<close> sends \<open>POST /cart/delete\<close> with the credential \<open>Bearer undefined\<close>.\<close>

theorem delete_cart_sends_without_session:
  "login_token (LoginStr s) = None \<and>
   run_sent (run_op (LoginStr s) DeleteCart rs items) = [PostCartDelete ''undefined'']"
  by (cases rs) (auto simp: delete_cart_call_def delete_cart_resume_def Let_def split: reply.splits)

text \<open>C8. Functional refinement of the abstract cart: when the server accepts every
  request and its cart payload projects without error, each operation of the context
  changes the cart's medication-to-quantity map exactly as \<open>abs_op\<close> prescribes.\<close>

theorem engine_refines_abstract_cart:
  assumes "login_token u = Some t" "project_lines ls = Some new"
  shows "cart_map (run_items (run_op u op (success_replies op ls) items)) =
         abs_op op (cart_map items) (server_map ls)"
proof (cases op)
  case FetchCart
  with assms show ?thesis
    by (simp add: engine_defs cart_body_def empty_body_def cart_map_project)
next
  case (AddToCart i q)
  with assms show ?thesis
    by (simp add: engine_defs cart_body_def empty_body_def cart_map_project)
next
  case (UpdateQuantity oid d)
  show ?thesis
  proof (cases oid)
    case None
    with UpdateQuantity show ?thesis by (simp add: engine_defs)
  next
    case (Some i)
    show ?thesis
    proof (cases "find (\<lambda>x. item_id x = i) items")
      case None
      then have "cart_map items i = None"
        by (simp add: cart_map_def map_of_find_keyed_None)
      with None UpdateQuantity Some show ?thesis by (simp add: engine_defs)
    next
      case (Some it)
      then have m: "cart_map items i = Some (item_quantity it)"
        by (simp add: cart_map_def map_of_find_keyed)
      from Some have idit: "item_id it = i" and mem: "i \<in> set (map item_id items)"
        by (auto dest: find_keyed_Some)
      show ?thesis
        using assms(1) Some m mem idit \<open>oid = Some i\<close> UpdateQuantity
        by (auto simp: engine_defs Let_def cart_map_set_quantity)
    qed
  qed
next
  case (RemoveItem i)
  with assms show ?thesis
    by (simp add: engine_defs cart_map_def map_of_filter_keyed)
next
  case DeleteCart
  with assms show ?thesis
    by (simp add: engine_defs empty_body_def cart_map_def)
next
  case ResetItems
  then show ?thesis by (simp add: engine_defs cart_map_def)
qed

lemma engine_refines_abstract_cart_witness:
  "login_token demo_login = Some ''tok-1'' \<and>
   project_lines [server_line_of 2 30 1] = Some [line_of 2 30 1] \<and>
   cart_map (run_items (run_op demo_login (UpdateQuantity (Some 1) 1)
     (success_replies (UpdateQuantity (Some 1) 1) [server_line_of 2 30 1]) [line_of 1 50 2])) =
   abs_op (UpdateQuantity (Some 1) 1) (cart_map [line_of 1 50 2]) (server_map [server_line_of 2 30 1])"
proof -
  have l: "login_token demo_login = Some ''tok-1''" by (simp add: demo_login_def)
  have p: "project_lines [server_line_of 2 30 1] = Some [line_of 2 30 1]"
    by (simp add: project_lines_def project_item_def server_line_of_def line_of_def)
  show ?thesis
    using engine_refines_abstract_cart [OF l p, of "UpdateQuantity (Some 1) 1" "[line_of 1 50 2]"] l p
    by simp
qed

text \<open>C9. A request that fails leaves the cart exactly as it was, for every operation
  (spec section 4.1: failures never half-mutate the snapshot).\<close>

theorem failed_call_keeps_cart:
  assumes "op \<noteq> ResetItems"
  shows "run_items (run_op u op (NetError # rs) items) = items"
  using assms by (cases op) (auto simp: engine_defs Let_def split: option.splits)

lemma failed_call_keeps_cart_witness:
  "AddToCart 1 2 \<noteq> ResetItems \<and>
   run_items (run_op demo_login (AddToCart 1 2) [NetError] [line_of 1 50 2]) = [line_of 1 50 2]"
  using failed_call_keeps_cart [of "AddToCart 1 2" demo_login "[]" "[line_of 1 50 2]"] by simp

text \<open>A failed request is never surfaced to the user: when an operation sent a
  request and the request failed, no error toast is shown (the failure is only logged),
  whereas spec section 4.1 has add, update and remove surface it.\<close>

theorem network_failure_not_surfaced:
  assumes "run_sent (run_op u op (NetError # rs) items) \<noteq> []"
  shows "\<not> list_ex is_toast_error (run_effects (run_op u op (NetError # rs) items))"
  using assms by (cases op) (auto simp: engine_defs Let_def split: option.splits)

lemma network_failure_not_surfaced_witness:
  "run_sent (run_op demo_login (UpdateQuantity (Some 1) 1) [NetError] [line_of 1 50 2]) \<noteq> [] \<and>
   \<not> list_ex is_toast_error (run_effects (run_op demo_login (UpdateQuantity (Some 1) 1) [NetError]
       [line_of 1 50 2]))"
proof -
  have s: "run_sent (run_op demo_login (UpdateQuantity (Some 1) 1) [NetError] [line_of 1 50 2]) \<noteq> []"
    by (simp add: engine_defs demo_login_def line_of_def)
  show ?thesis using network_failure_not_surfaced [OF s] s by simp
qed

text \<open>C11. One line per medication is an invariant: every operation run on replies whose
  cart payloads have distinct medications keeps the medications of the cart distinct.\<close>

theorem run_op_preserves_wf:
  assumes "cart_wf items" "list_all reply_wf rs"
  shows "cart_wf (run_items (run_op u op rs items))"
proof (cases "op = ResetItems")
  case True
  then show ?thesis by (simp add: engine_defs cart_wf_def)
next
  case False
  with assms show ?thesis by (simp add: run_op_complete complete_wf)
qed

lemma run_op_preserves_wf_witness:
  "cart_wf [line_of 1 50 2] \<and> list_all reply_wf [Reply (cart_body [server_line_of 2 30 1])] \<and>
   cart_wf (run_items (run_op demo_login FetchCart [Reply (cart_body [server_line_of 2 30 1])]
     [line_of 1 50 2]))"
proof -
  have a: "cart_wf [line_of 1 50 2]" by (simp add: cart_wf_def line_of_def)
  have b: "list_all reply_wf [Reply (cart_body [server_line_of 2 30 1])]"
    by (simp add: cart_body_def empty_body_def server_line_of_def)
  show ?thesis using run_op_preserves_wf [OF a b, of demo_login FetchCart] a b by simp
qed

text \<open>Spec scenario 2. A successful quantity update changes the subtotal by exactly
  the line's unit price times the delta.\<close>

theorem update_quantity_subtotal:
  assumes "cart_wf items" "find (\<lambda>x. item_id x = i) items = Some it" "login_token u = Some t"
    "1 \<le> item_quantity it + d" "item_quantity it + d \<le> 10"
  shows "subtotal (run_items (run_op u (UpdateQuantity (Some i) d) (Reply b # rs) items)) =
         subtotal items + item_price it * d"
proof -
  from assms(2) have it: "it \<in> set items" "item_id it = i" by (auto dest: find_keyed_Some)
  with assms have "run_items (run_op u (UpdateQuantity (Some i) d) (Reply b # rs) items) =
      map (\<lambda>x. if item_id x = item_id it then x\<lparr>item_quantity := item_quantity it + d\<rparr> else x) items"
    by (simp add: engine_defs Let_def)
  with assms(1) it show ?thesis
    using subtotal_set_quantity [of items it "item_quantity it + d"] by (simp add: cart_wf_def)
qed

lemma update_quantity_subtotal_witness:
  "cart_wf [line_of 1 50 2] \<and> find (\<lambda>x. item_id x = 1) [line_of 1 50 2] = Some (line_of 1 50 2) \<and>
   login_token demo_login = Some ''tok-1'' \<and>
   1 \<le> item_quantity (line_of 1 50 2) + 1 \<and> item_quantity (line_of 1 50 2) + 1 \<le> 10 \<and>
   subtotal (run_items (run_op demo_login (UpdateQuantity (Some 1) 1) [Reply empty_body] [line_of 1 50 2])) =
     150"
proof -
  have a: "cart_wf [line_of 1 50 2]" by (simp add: cart_wf_def line_of_def)
  have f: "find (\<lambda>x. item_id x = 1) [line_of 1 50 2] = Some (line_of 1 50 2)" by (simp add: line_of_def)
  have l: "login_token demo_login = Some ''tok-1''" by (simp add: demo_login_def)
  have q: "1 \<le> item_quantity (line_of 1 50 2) + 1" "item_quantity (line_of 1 50 2) + 1 \<le> 10"
    by (simp_all add: line_of_def)
  have s: "subtotal [line_of 1 50 2] = 100" by (simp add: subtotal_def line_of_def)
  show ?thesis
    using update_quantity_subtotal [OF a f l q, of empty_body "[]"] a f l q s
    by (simp add: line_of_def)
qed

end
