(* ===== verification/CartServer.thy ===== *)
theory CartServer
  imports CartEngine
begin

text \<open>
  The remote cart service as spec section 6 describes it (it is not code of this
  repository; this is the environment the client is verified against): one user's
  server cart, the catalog it adds from and the credential it accepts, and the reply to
  each request. Adding merges into an existing line (the spec leaves clamping to the
  server; this model merges without a bound), setting and removing act on the line of
  the medication, deleting answers \<open>"Cart is empty"\<close> on an empty cart, and a request
  with another credential is rejected. On top of it, \<open>serve_run\<close> runs one engine
  handler to completion against the server, request after request.
\<close>

record server =
  srv_lines :: "server_line list"
  srv_catalog :: "med_id \<rightharpoonup> medication"
  srv_token :: token

definition line_key :: "server_line \<Rightarrow> med_id" where
  "line_key l = medication_id (line_medication l)"

fun serve :: "request \<Rightarrow> server \<Rightarrow> server \<times> reply" where
  "serve (GetCart t) s =
     (if t \<noteq> srv_token s then (s, NetError) else (s, Reply (cart_body (srv_lines s))))"
| "serve (PostCartAdd t i q) s =
     (if t \<noteq> srv_token s then (s, NetError)
      else if i \<in> set (map line_key (srv_lines s)) then
        (s\<lparr>srv_lines := map (\<lambda>l. if line_key l = i then l\<lparr>line_quantity := line_quantity l + q\<rparr> else l)
                            (srv_lines s)\<rparr>, Reply empty_body)
      else (case srv_catalog s i of
              None \<Rightarrow> (s, NetError)
            | Some m \<Rightarrow> (s\<lparr>srv_lines := srv_lines s @ [\<lparr>line_medication = m, line_quantity = q\<rparr>]\<rparr>,
                         Reply empty_body)))"
| "serve (PostCartUpdate t i q) s =
     (if t \<noteq> srv_token s \<or> i \<notin> set (map line_key (srv_lines s)) then (s, NetError)
      else (s\<lparr>srv_lines := map (\<lambda>l. if line_key l = i then l\<lparr>line_quantity := q\<rparr> else l) (srv_lines s)\<rparr>,
            Reply empty_body))"
| "serve (PostCartRemove t i) s =
     (if t \<noteq> srv_token s then (s, NetError)
      else (s\<lparr>srv_lines := filter (\<lambda>l. line_key l \<noteq> i) (srv_lines s)\<rparr>, Reply empty_body))"
| "serve (PostCartDelete t) s =
     (if t \<noteq> srv_token s then (s, NetError)
      else if srv_lines s = [] then (s, Reply (empty_body\<lparr>body_message := JsStr ''Cart is empty''\<rparr>))
      else (s\<lparr>srv_lines := []\<rparr>, Reply (empty_body\<lparr>body_success := JsBool True\<rparr>)))"
| "serve (PostCheckout t a p n) s =
     (if t \<noteq> srv_token s then (s, NetError)
      else (s, Reply (empty_body\<lparr>body_success := JsBool (srv_lines s \<noteq> [])\<rparr>)))"

text \<open>
  A handler's requests go out one after another, each answered before the next (the
  engine awaits every request). Only \<open>addToCart\<close> has a second request, the reload, so
  the rank of what a handler waits for decreases along the chain.
\<close>

fun pending_rank :: "pending \<Rightarrow> nat" where
  "pending_rank (PAdd t) = 2"
| "pending_rank _ = 1"

lemma pending_rank_pos: "0 < pending_rank p"
  by (cases p) auto

lemma resume_next_rank:
  "res_next (resume p r prev) = Some (rq, p') \<Longrightarrow> pending_rank p' < pending_rank p"
  by (cases p; cases r) (auto simp: engine_defs split: option.splits if_splits)

function serve_run :: "(request \<times> pending) option \<Rightarrow> server \<Rightarrow> cart_item list \<Rightarrow> server \<times> cart_item list" where
  "serve_run None s items = (s, items)"
| "serve_run (Some (rq, p)) s items =
     (case serve rq s of
        (s', r) \<Rightarrow> serve_run (res_next (resume p r items)) s' (res_items (resume p r items)))"
  by pat_completeness auto
termination
  by (relation "measure (\<lambda>(c, s, items). case c of None \<Rightarrow> 0 | Some (rq, p) \<Rightarrow> pending_rank p)")
     (auto simp: pending_rank_pos split: option.splits dest: resume_next_rank)

definition served_op :: "user_login \<Rightarrow> cart_op \<Rightarrow> server \<Rightarrow> cart_item list \<Rightarrow> server \<times> cart_item list" where
  "served_op u op s items =
     (if op = ResetItems then (s, reset_items items)
      else serve_run (call_request (engine_call u items op)) s items)"

text \<open>Operations run one after another, each to completion, against the server.\<close>

fun served_seq :: "user_login \<Rightarrow> cart_op list \<Rightarrow> server \<Rightarrow> cart_item list \<Rightarrow> server \<times> cart_item list" where
  "served_seq u [] s items = (s, items)"
| "served_seq u (op # ops) s items =
     (case served_op u op s items of (s', items') \<Rightarrow> served_seq u ops s' items')"

section \<open>Agreement of client and server\<close>

text \<open>
  The client agrees with the server when their medication-to-quantity maps coincide. The
  server is well formed when every line and every catalog entry carries a pharmacy (so
  the client's projection never throws) and its lines have distinct medications.
\<close>

definition synced :: "cart_item list \<Rightarrow> server \<Rightarrow> bool" where
  "synced items s \<longleftrightarrow> cart_map items = server_map (srv_lines s)"

definition server_wf :: "server \<Rightarrow> bool" where
  "server_wf s \<longleftrightarrow>
     (\<forall>l \<in> set (srv_lines s). medication_pharmacy (line_medication l) \<noteq> None) \<and>
     (\<forall>i m. srv_catalog s i = Some m \<longrightarrow> medication_pharmacy m \<noteq> None \<and> medication_id m = i) \<and>
     distinct (map line_key (srv_lines s))"

definition demo_server :: "server_line list \<Rightarrow> server" where
  "demo_server ls = \<lparr>srv_lines = ls, srv_catalog = Map.empty, srv_token = ''tok-1''\<rparr>"

section \<open>Lemmas\<close>

lemma line_key_simps [simp]:
  "line_key (l\<lparr>line_quantity := q\<rparr>) = line_key l"
  "line_key \<lparr>line_medication = m, line_quantity = q\<rparr> = medication_id m"
  by (simp_all add: line_key_def)

lemma server_map_def2: "server_map ls = map_of (map (\<lambda>l. (line_key l, line_quantity l)) ls)"
  by (simp add: server_map_def line_key_def)

lemma server_map_set_quantity:
  "i \<in> set (map line_key ls) \<Longrightarrow>
   server_map (map (\<lambda>l. if line_key l = i then l\<lparr>line_quantity := q\<rparr> else l) ls) = (server_map ls)(i \<mapsto> q)"
  unfolding server_map_def2 by (subst map_of_map_keyed) (auto simp: line_key_def)

lemma server_map_filter:
  "server_map (filter (\<lambda>l. line_key l \<noteq> i) ls) = (server_map ls)(i := None)"
  unfolding server_map_def2 by (rule map_of_filter_keyed)

lemma server_wf_project:
  assumes "server_wf s"
  obtains new where "project_lines (srv_lines s) = Some new"
proof -
  from assms have "\<forall>l \<in> set (srv_lines s). project_item l \<noteq> None"
    by (auto simp: server_wf_def project_item_def Let_def split: option.splits)
  then have "project_lines (srv_lines s) \<noteq> None"
    by (simp add: project_lines_def those_map_None_iff)
  then show ?thesis using that by blast
qed

lemma serve_wf:
  assumes "server_wf s"
  shows "server_wf (fst (serve rq s))"
proof (cases rq)
  case (PostCartAdd t i q)
  show ?thesis
  proof (cases "t = srv_token s \<and> i \<notin> set (map line_key (srv_lines s))")
    case True
    with assms PostCartAdd show ?thesis
      by (auto simp: server_wf_def split: option.splits)
  next
    case False
    with assms PostCartAdd show ?thesis
      by (auto simp: server_wf_def)
  qed
next
  case (PostCartUpdate t i q)
  with assms show ?thesis by (auto simp: server_wf_def)
next
  case (PostCartRemove t i)
  with assms show ?thesis by (auto simp: server_wf_def)
qed (use assms in \<open>auto simp: server_wf_def\<close>)

lemma serve_token [simp]: "srv_token (fst (serve rq s)) = srv_token s"
  by (cases rq) (auto split: option.splits)

lemma serve_run_fetch:
  assumes "server_wf s" "srv_token s = t"
  shows "fst (serve_run (Some (GetCart t, PFetch)) s items) = s \<and>
         synced (snd (serve_run (Some (GetCart t, PFetch)) s items)) s"
proof -
  obtain new where p: "project_lines (srv_lines s) = Some new"
    using server_wf_project [OF assms(1)] .
  then show ?thesis
    using assms(2)
    by (simp add: fetch_cart_resume_def cart_body_def empty_body_def synced_def cart_map_project)
qed

lemma served_op_synced:
  assumes "server_wf s" "login_token u = Some (srv_token s)" "synced items s" "op \<noteq> ResetItems"
  shows "server_wf (fst (served_op u op s items)) \<and>
         synced (snd (served_op u op s items)) (fst (served_op u op s items))"
proof (cases op)
  case FetchCart
  with assms show ?thesis
    using serve_run_fetch [OF assms(1) refl, of items]
    by (simp add: served_op_def fetch_cart_call_def)
next
  case (AddToCart i q)
  obtain s' r where e: "serve (PostCartAdd (srv_token s) i q) s = (s', r)"
    by (cases "serve (PostCartAdd (srv_token s) i q) s")
  have wf': "server_wf s'"
    using serve_wf [OF assms(1), of "PostCartAdd (srv_token s) i q"] e by simp
  have tok: "srv_token s' = srv_token s"
    using serve_token [of "PostCartAdd (srv_token s) i q" s] e by simp
  show ?thesis
  proof (cases r)
    case NetError
    with e have "s' = s" by (auto split: if_splits option.splits)
    with NetError e AddToCart assms show ?thesis
      by (simp add: served_op_def add_to_cart_call_def add_to_cart_resume_def del: serve.simps)
  next
    case (Reply b)
    with serve_run_fetch [OF wf' tok, of items] e AddToCart assms(2) wf' show ?thesis
      by (simp add: served_op_def add_to_cart_call_def add_to_cart_resume_def del: serve.simps)
  qed
next
  case (UpdateQuantity oid d)
  show ?thesis
  proof (cases "\<exists>i it. oid = Some i \<and> find (\<lambda>x. item_id x = i) items = Some it \<and>
                     1 \<le> item_quantity it + d \<and> item_quantity it + d \<le> 10")
    case False
    with UpdateQuantity assms show ?thesis
      by (cases oid) (auto simp: served_op_def update_quantity_call_def no_call_def Let_def
                           split: option.splits)
  next
    case True
    then obtain i it where oid: "oid = Some i" and f: "find (\<lambda>x. item_id x = i) items = Some it"
      and b: "1 \<le> item_quantity it + d" "item_quantity it + d \<le> 10" by blast
    from f have idit: "item_id it = i" and mem: "i \<in> set (map item_id items)"
      by (auto dest: find_keyed_Some)
    have "cart_map items i = Some (item_quantity it)"
      using f by (simp add: cart_map_def map_of_find_keyed)
    with assms(3) have "server_map (srv_lines s) i \<noteq> None" by (simp add: synced_def)
    then have smem: "i \<in> set (map line_key (srv_lines s))"
      by (simp add: server_map_def2 map_of_eq_None_iff image_image)
    show ?thesis
      using assms UpdateQuantity oid f idit b mem smem
      by (auto simp: served_op_def update_quantity_call_def update_quantity_resume_def Let_def
                     synced_def cart_map_set_quantity server_map_set_quantity server_wf_def)
  qed
next
  case (RemoveItem i)
  with assms show ?thesis
    by (auto simp: served_op_def remove_item_call_def remove_item_resume_def synced_def
                   server_map_filter cart_map_def map_of_filter_keyed server_wf_def)
next
  case DeleteCart
  with assms show ?thesis
    by (auto simp: served_op_def delete_cart_call_def delete_cart_resume_def synced_def
                   cart_map_def server_map_def server_wf_def empty_body_def)
next
  case ResetItems
  with assms show ?thesis by simp
qed

lemma serve_run_token: "srv_token (fst (serve_run c s items)) = srv_token s"
proof (induction c s items rule: serve_run.induct)
  case (1 s items)
  then show ?case by simp
next
  case (2 rq p s items)
  obtain s' r where e: "serve rq s = (s', r)" by (cases "serve rq s")
  with "2" serve_token [of rq s] show ?case by (simp del: serve.simps)
qed

lemma served_op_token: "srv_token (fst (served_op u op s items)) = srv_token s"
  by (simp add: served_op_def serve_run_token)

text \<open>C18. Run one at a time against the specified server, each to completion, every
  sequence of cart operations other than the local reset keeps the client's cart in
  agreement with the server's (same medication-to-quantity map) and the server well
  formed, when it starts so.\<close>

theorem served_seq_synced:
  assumes "server_wf s" "login_token u = Some (srv_token s)" "synced items s" "ResetItems \<notin> set ops"
  shows "server_wf (fst (served_seq u ops s items)) \<and>
         synced (snd (served_seq u ops s items)) (fst (served_seq u ops s items))"
  using assms
proof (induction ops arbitrary: s items)
  case Nil
  then show ?case by simp
next
  case (Cons op ops)
  obtain s' items' where e: "served_op u op s items = (s', items')"
    by (cases "served_op u op s items")
  from Cons.prems(4) have "op \<noteq> ResetItems" by auto
  from served_op_synced [OF Cons.prems(1-3) this] e
  have "server_wf s'" "synced items' s'" by auto
  moreover from served_op_token [of u op s items] e Cons.prems(2)
  have "login_token u = Some (srv_token s')" by simp
  ultimately show ?case using Cons.IH [of s' items'] Cons.prems(4) e by simp
qed

lemma served_seq_synced_witness:
  "server_wf (demo_server [server_line_of 1 50 2]) \<and>
   login_token demo_login = Some (srv_token (demo_server [server_line_of 1 50 2])) \<and>
   synced [line_of 1 50 2] (demo_server [server_line_of 1 50 2]) \<and>
   ResetItems \<notin> set [UpdateQuantity (Some 1) 1, FetchCart, RemoveItem 1] \<and>
   synced (snd (served_seq demo_login [UpdateQuantity (Some 1) 1, FetchCart, RemoveItem 1]
                  (demo_server [server_line_of 1 50 2]) [line_of 1 50 2]))
          (fst (served_seq demo_login [UpdateQuantity (Some 1) 1, FetchCart, RemoveItem 1]
                  (demo_server [server_line_of 1 50 2]) [line_of 1 50 2]))"
proof -
  have a: "server_wf (demo_server [server_line_of 1 50 2])"
    by (simp add: server_wf_def demo_server_def server_line_of_def line_key_def)
  have b: "login_token demo_login = Some (srv_token (demo_server [server_line_of 1 50 2]))"
    by (simp add: demo_login_def demo_server_def)
  have c: "synced [line_of 1 50 2] (demo_server [server_line_of 1 50 2])"
    by (simp add: synced_def cart_map_def server_map_def demo_server_def server_line_of_def line_of_def)
  have d: "ResetItems \<notin> set [UpdateQuantity (Some 1) 1, FetchCart, RemoveItem 1]" by simp
  show ?thesis using served_seq_synced [OF a b c d] a b c d by simp
qed

end
