(* ===== verification/CartAsync.thy ===== *)
theory CartAsync
  imports CartServer
begin

text \<open>
  The cart engine under the event loop (spec section 5). A handler runs synchronously up
  to its \<open>await\<close> and suspends; the request travels to the server, is processed (or
  lost), and its reply is delivered later, when the continuation runs on the cart of that
  moment. Nothing serializes the handlers: any number may be in flight, and the server
  processes and the network delivers them in any order. The state is the client's cart,
  the server, the in-flight requests and the log of invoked operations; a scheduler event
  picks what happens next. \<open>sched_step\<close> is executable, so a concrete interleaving
  evaluates by \<open>simp\<close>; \<open>reach\<close> is the set of states reachable under all schedules.
\<close>

datatype flight = Sent request pending | Answered reply pending

record sys =
  sys_items :: "cart_item list"
  sys_server :: server
  sys_flight :: "flight list"
  sys_log :: "cart_op list"

datatype event = Invoke cart_op | Process nat | Lose nat | Deliver nat

fun flights_of :: "(request \<times> pending) option \<Rightarrow> flight list" where
  "flights_of None = []"
| "flights_of (Some (rq, p)) = [Sent rq p]"

definition remove_at :: "nat \<Rightarrow> 'a list \<Rightarrow> 'a list" where
  "remove_at k xs = take k xs @ drop (Suc k) xs"

fun is_sent :: "flight \<Rightarrow> bool" where
  "is_sent (Sent rq p) = True"
| "is_sent (Answered r p) = False"

definition enabled :: "event \<Rightarrow> sys \<Rightarrow> bool" where
  "enabled e s =
     (case e of
        Invoke op \<Rightarrow> True
      | Process k \<Rightarrow> k < length (sys_flight s) \<and> is_sent (sys_flight s ! k)
      | Lose k \<Rightarrow> k < length (sys_flight s) \<and> is_sent (sys_flight s ! k)
      | Deliver k \<Rightarrow> k < length (sys_flight s) \<and> \<not> is_sent (sys_flight s ! k))"

text \<open>
  \<open>Invoke\<close>: the synchronous part of a handler (the local reset completes at once).
  \<open>Process\<close>: the server handles a request and the reply is on its way. \<open>Lose\<close>: the
  request fails in transit. \<open>Deliver\<close>: the continuation runs on the current cart and may
  send the handler's next request.
\<close>

fun sched_step :: "user_login \<Rightarrow> event \<Rightarrow> sys \<Rightarrow> sys" where
  "sched_step u (Invoke ResetItems) s =
     s\<lparr>sys_items := reset_items (sys_items s), sys_log := sys_log s @ [ResetItems]\<rparr>"
| "sched_step u (Invoke op) s =
     s\<lparr>sys_flight := sys_flight s @ flights_of (call_request (engine_call u (sys_items s) op)),
       sys_log := sys_log s @ [op]\<rparr>"
| "sched_step u (Process k) s =
     (case sys_flight s ! k of
        Sent rq p \<Rightarrow>
          (case serve rq (sys_server s) of
             (srv', r) \<Rightarrow> s\<lparr>sys_server := srv', sys_flight := (sys_flight s)[k := Answered r p]\<rparr>)
      | Answered r p \<Rightarrow> s)"
| "sched_step u (Lose k) s =
     (case sys_flight s ! k of
        Sent rq p \<Rightarrow> s\<lparr>sys_flight := (sys_flight s)[k := Answered NetError p]\<rparr>
      | Answered r p \<Rightarrow> s)"
| "sched_step u (Deliver k) s =
     (case sys_flight s ! k of
        Answered r p \<Rightarrow>
          s\<lparr>sys_items := res_items (resume p r (sys_items s)),
            sys_flight := remove_at k (sys_flight s) @ flights_of (res_next (resume p r (sys_items s)))\<rparr>
      | Sent rq p \<Rightarrow> s)"

inductive reach :: "user_login \<Rightarrow> sys \<Rightarrow> sys \<Rightarrow> bool" for u s0 where
  start: "reach u s0 s0"
| step: "reach u s0 s \<Longrightarrow> enabled e s \<Longrightarrow> reach u s0 (sched_step u e s)"

fun run_sched :: "user_login \<Rightarrow> event list \<Rightarrow> sys \<Rightarrow> sys" where
  "run_sched u [] s = s"
| "run_sched u (e # es) s = run_sched u es (sched_step u e s)"

fun sched_ok :: "user_login \<Rightarrow> event list \<Rightarrow> sys \<Rightarrow> bool" where
  "sched_ok u [] s = True"
| "sched_ok u (e # es) s = (enabled e s \<and> sched_ok u es (sched_step u e s))"

section \<open>Specification\<close>

text \<open>The quantity an update carries, in the request and in the continuation.\<close>

fun request_ok :: "request \<Rightarrow> bool" where
  "request_ok (PostCartUpdate t i q) = (1 \<le> q \<and> q \<le> 10)"
| "request_ok _ = True"

fun pending_ok :: "pending \<Rightarrow> bool" where
  "pending_ok (PUpdate i q) = (1 \<le> q \<and> q \<le> 10)"
| "pending_ok _ = True"

fun flight_ok :: "flight \<Rightarrow> bool" where
  "flight_ok (Sent rq p) = (request_ok rq \<and> pending_ok p)"
| "flight_ok (Answered r p) = pending_ok p"

definition demo_sys :: sys where
  "demo_sys = \<lparr>sys_items = [line_of 1 50 2], sys_server = demo_server [server_line_of 1 50 2],
               sys_flight = [], sys_log = []\<rparr>"

section \<open>Lemmas\<close>

lemma reach_run_sched:
  "reach u s0 s \<Longrightarrow> sched_ok u es s \<Longrightarrow> reach u s0 (run_sched u es s)"
  by (induction es arbitrary: s) (auto intro: reach.step)

lemma engine_call_flight_ok:
  "call_request (engine_call u items op) = Some (rq, p) \<Longrightarrow> request_ok rq \<and> pending_ok p"
  by (cases op) (auto simp: engine_defs Let_def split: option.splits if_splits)

lemma flights_of_ok:
  "(\<And>rq p. c = Some (rq, p) \<Longrightarrow> request_ok rq \<and> pending_ok p) \<Longrightarrow> list_all flight_ok (flights_of c)"
  by (cases c) auto

lemma resume_next_ok:
  "res_next (resume p r prev) = Some (rq, p') \<Longrightarrow> request_ok rq \<and> pending_ok p'"
  by (cases p; cases r) (auto simp: engine_defs split: option.splits if_splits)

lemma list_all_update_ok:
  "list_all P xs \<Longrightarrow> P x \<Longrightarrow> list_all P (xs[k := x])"
  by (induction xs arbitrary: k) (auto split: nat.splits)

lemma list_all_remove_at:
  "list_all P xs \<Longrightarrow> list_all P (remove_at k xs)"
  by (auto simp: remove_at_def list_all_iff dest: in_set_takeD in_set_dropD)

lemma sched_step_flight_ok:
  assumes "list_all flight_ok (sys_flight s)" "enabled e s"
  shows "list_all flight_ok (sys_flight (sched_step u e s))"
proof (cases e)
  case (Invoke op)
  have "list_all flight_ok (flights_of (call_request (engine_call u (sys_items s) op)))"
    by (rule flights_of_ok) (rule engine_call_flight_ok)
  with Invoke assms(1) show ?thesis by (cases op) (simp_all del: engine_call.simps)
next
  case (Process k)
  with assms have k: "k < length (sys_flight s)" and ok: "flight_ok (sys_flight s ! k)"
    by (auto simp: enabled_def list_all_length)
  show ?thesis
    using Process assms(1) ok
    by (auto split: flight.splits prod.splits intro: list_all_update_ok)
next
  case (Lose k)
  with assms have k: "k < length (sys_flight s)" and ok: "flight_ok (sys_flight s ! k)"
    by (auto simp: enabled_def list_all_length)
  show ?thesis
    using Lose assms(1) ok
    by (auto split: flight.splits intro: list_all_update_ok)
next
  case (Deliver k)
  show ?thesis
    using Deliver assms(1)
    by (auto split: flight.splits intro!: list_all_remove_at flights_of_ok dest: resume_next_ok)
qed

lemma reach_flight_ok:
  assumes "reach u s0 s" "list_all flight_ok (sys_flight s0)"
  shows "list_all flight_ok (sys_flight s)"
  using assms by (induction rule: reach.induct) (auto intro: sched_step_flight_ok)

subsection \<open>Draining the in-flight requests\<close>

fun flight_weight :: "flight \<Rightarrow> nat" where
  "flight_weight (Sent rq p) = 2 * pending_rank p"
| "flight_weight (Answered r p) = 2 * pending_rank p - 1"

definition sys_weight :: "sys \<Rightarrow> nat" where
  "sys_weight s = sum_list (map flight_weight (sys_flight s))"

lemma sum_list_update_nat:
  "k < length xs \<Longrightarrow> sum_list (xs[k := x]) + xs ! k = sum_list xs + (x :: nat)"
  by (induction xs arbitrary: k) (auto split: nat.splits)

lemma drain_step:
  assumes "sys_flight s \<noteq> []"
  shows "\<exists>e. enabled e s \<and> sys_weight (sched_step u e s) < sys_weight s"
proof (cases "sys_flight s")
  case Nil
  with assms show ?thesis by simp
next
  case (Cons f fs)
  show ?thesis
  proof (cases f)
    case (Sent rq p)
    obtain srv' r where e: "serve rq (sys_server s) = (srv', r)" by (cases "serve rq (sys_server s)")
    have "enabled (Process 0) s" using Cons Sent by (simp add: enabled_def)
    moreover have "sys_weight (sched_step u (Process 0) s) < sys_weight s"
      using Cons Sent e pending_rank_pos [of p] by (simp add: sys_weight_def del: serve.simps)
    ultimately show ?thesis by blast
  next
    case (Answered r p)
    have "enabled (Deliver 0) s" using Cons Answered by (simp add: enabled_def)
    moreover have "sys_weight (sched_step u (Deliver 0) s) < sys_weight s"
    proof (cases "res_next (resume p r (sys_items s))")
      case None
      with Cons Answered pending_rank_pos [of p] show ?thesis
        by (simp add: sys_weight_def remove_at_def)
    next
      case (Some a)
      then obtain rq p' where n: "res_next (resume p r (sys_items s)) = Some (rq, p')" by (cases a) auto
      from resume_next_rank [OF n] have "pending_rank p' < pending_rank p" .
      with Cons Answered n show ?thesis by (simp add: sys_weight_def remove_at_def)
    qed
    ultimately show ?thesis by blast
  qed
qed

section \<open>Properties under interleaving\<close>

text \<open>C19 (spec P1 under section 5). Under every interleaving of handlers, server
  processing, losses and deliveries, every quantity-update request in flight, and every
  update continuation waiting for its reply, carries a quantity within 1..10, when this
  holds at the start (for instance with nothing in flight).\<close>

theorem reach_updates_bounded:
  assumes "reach u s0 s" "list_all flight_ok (sys_flight s0)"
  shows "list_all flight_ok (sys_flight s) \<and>
         (\<forall>f \<in> set (sys_flight s). \<forall>t i q p. f = Sent (PostCartUpdate t i q) p \<longrightarrow> 1 \<le> q \<and> q \<le> 10)"
proof -
  from assms have ok: "list_all flight_ok (sys_flight s)" by (rule reach_flight_ok)
  then have "\<forall>f \<in> set (sys_flight s). flight_ok f" by (simp add: list_all_iff)
  with ok show ?thesis by auto
qed

lemma reach_updates_bounded_witness:
  "reach demo_login demo_sys
     (run_sched demo_login [Invoke (UpdateQuantity (Some 1) 1), Invoke (UpdateQuantity (Some 1) 1)] demo_sys) \<and>
   list_all flight_ok (sys_flight demo_sys) \<and>
   list_all flight_ok (sys_flight (run_sched demo_login
     [Invoke (UpdateQuantity (Some 1) 1), Invoke (UpdateQuantity (Some 1) 1)] demo_sys))"
proof -
  have r: "reach demo_login demo_sys
     (run_sched demo_login [Invoke (UpdateQuantity (Some 1) 1), Invoke (UpdateQuantity (Some 1) 1)] demo_sys)"
    by (rule reach_run_sched [OF reach.start]) (simp add: enabled_def)
  have z: "list_all flight_ok (sys_flight demo_sys)" by (simp add: demo_sys_def)
  show ?thesis using reach_updates_bounded [OF r z] r z by simp
qed

text \<open>C20 (spec section 4.1, concurrency note). Increments are not serialized: from a
  cart holding quantity 2 in agreement with the server, two \<open>+1\<close> clicks before the
  first reply both compute 3 from the same snapshot, so after both complete the client
  and the server hold 3, not 4: one increment is lost.\<close>

theorem lost_update_reachable:
  "\<exists>s. reach demo_login demo_sys s \<and>
       sys_log s = [UpdateQuantity (Some 1) 1, UpdateQuantity (Some 1) 1] \<and> sys_flight s = [] \<and>
       cart_map (sys_items demo_sys) 1 = Some 2 \<and>
       cart_map (sys_items s) 1 = Some 3 \<and> server_map (srv_lines (sys_server s)) 1 = Some 3"
proof -
  let ?es = "[Invoke (UpdateQuantity (Some 1) 1), Invoke (UpdateQuantity (Some 1) 1),
              Process 0, Process 1, Deliver 0, Deliver 0]"
  have r: "reach demo_login demo_sys (run_sched demo_login ?es demo_sys)"
    by (rule reach_run_sched [OF reach.start])
       (simp add: enabled_def demo_sys_def demo_server_def demo_login_def engine_defs
                  line_of_def server_line_of_def line_key_def remove_at_def)
  have "sys_log (run_sched demo_login ?es demo_sys) = [UpdateQuantity (Some 1) 1, UpdateQuantity (Some 1) 1] \<and>
        sys_flight (run_sched demo_login ?es demo_sys) = [] \<and>
        cart_map (sys_items demo_sys) 1 = Some 2 \<and>
        cart_map (sys_items (run_sched demo_login ?es demo_sys)) 1 = Some 3 \<and>
        server_map (srv_lines (sys_server (run_sched demo_login ?es demo_sys))) 1 = Some 3"
    by (simp add: demo_sys_def demo_server_def demo_login_def engine_defs line_of_def
                  server_line_of_def line_key_def cart_map_def server_map_def remove_at_def)
  with r show ?thesis by blast
qed

text \<open>C21 (spec section 9, whole-snapshot reload against a single-line update). A reload
  whose reply was produced before a concurrent update was processed, but is delivered
  after the update's reply, overwrites the update: the system comes to rest, with no
  request in flight and no local reset, with a client cart that disagrees with the server
  although it agreed at the start.\<close>

theorem reload_race_diverges:
  "\<exists>s. reach demo_login demo_sys s \<and> synced (sys_items demo_sys) (sys_server demo_sys) \<and>
       ResetItems \<notin> set (sys_log s) \<and> sys_flight s = [] \<and> \<not> synced (sys_items s) (sys_server s)"
proof -
  let ?es = "[Invoke FetchCart, Process 0, Invoke (UpdateQuantity (Some 1) 1), Process 1,
              Deliver 1, Deliver 0]"
  have r: "reach demo_login demo_sys (run_sched demo_login ?es demo_sys)"
    by (rule reach_run_sched [OF reach.start])
       (simp add: enabled_def demo_sys_def demo_server_def demo_login_def engine_defs
                  line_of_def server_line_of_def line_key_def cart_body_def remove_at_def)
  have "synced (sys_items demo_sys) (sys_server demo_sys) \<and>
        ResetItems \<notin> set (sys_log (run_sched demo_login ?es demo_sys)) \<and>
        sys_flight (run_sched demo_login ?es demo_sys) = [] \<and>
        \<not> synced (sys_items (run_sched demo_login ?es demo_sys)) (sys_server (run_sched demo_login ?es demo_sys))"
    by (auto simp: demo_sys_def demo_server_def demo_login_def engine_defs line_of_def
                   server_line_of_def line_key_def cart_body_def empty_body_def synced_def
                   cart_map_def server_map_def remove_at_def dest: map_upd_eqD1)
  with r show ?thesis by blast
qed

text \<open>C22 (liveness). From every state some schedule (serving and delivering the oldest
  request first) brings the system to rest with nothing in flight: the chains of requests
  a handler sends are finite, \<open>addToCart\<close> being the only one with a second request.\<close>

theorem drain_to_rest:
  "\<exists>es. sched_ok u es s \<and> sys_flight (run_sched u es s) = []"
proof (induction "sys_weight s" arbitrary: s rule: less_induct)
  case less
  show ?case
  proof (cases "sys_flight s = []")
    case True
    then have "sched_ok u [] s \<and> sys_flight (run_sched u [] s) = []" by simp
    then show ?thesis by blast
  next
    case False
    then obtain e where e: "enabled e s" "sys_weight (sched_step u e s) < sys_weight s"
      using drain_step by blast
    with less obtain es where "sched_ok u es (sched_step u e s)"
      "sys_flight (run_sched u es (sched_step u e s)) = []" by blast
    with e have "sched_ok u (e # es) s \<and> sys_flight (run_sched u (e # es) s) = []" by simp
    then show ?thesis by blast
  qed
qed

end
