(* ===== verification/Orders.thy ===== *)
theory Orders
  imports RemoteApi
begin

text \<open>
  The pharmacy dashboard's order list, \<open>OrdersPage\<close> in
  \<open>src/src/Pages/PharmacyDashboard/Orders/Orders.jsx\<close>. The page keeps one current
  page number per status tab, a search box debounced into the query, a sort column and
  direction, and the orders of the last fetch. Fetching asks the server for one page of
  ten orders (\<open>paginate\<close>, \<open>page\<close>); rendering then slices that page again by the
  tab's page number and derives the page buttons from the fetched page alone. The
  handlers are modelled as functions on the page state, the rendering of each tab as a
  view model (rows, the range line, the page buttons, the arrows), and the page as a
  whole as a state machine over its events.
\<close>

section \<open>Data and page state\<close>

text \<open>An order as the list endpoint returns it; \<open>order_customer\<close> is the customer's
  name, \<open>None\<close> when \<open>order.customer\<close> is null.\<close>

record order =
  order_id :: nat
  order_code :: string
  order_customer :: "string option"
  order_created :: string
  order_status :: string
  order_total_items :: int
  order_total_amount :: int

text \<open>What \<open>viewOrderDetails\<close> stores: \<open>null\<close> before any, the empty object
  \<open>{}\<close> that \<open>fetchOrderDetails\<close> returns on failure, or the order.\<close>

datatype order_details = NoDetails | EmptyDetails | Details order

record orders_page =
  tab_pages :: "string \<Rightarrow> int"
  search_query :: string
  debounced_query :: string
  status_filter :: string
  sort_by :: string
  sort_order :: string
  orders :: "order list"
  orders_error :: "string option"
  total_pages :: int
  selected_order :: order_details
  modal_open :: bool

definition items_per_page :: nat where
  "items_per_page = 10"

definition order_tabs :: "string list" where
  "order_tabs = [''all'', ''pending'', ''processing'', ''shipped'', ''delivered'', ''cancelled'']"

definition orders_init :: orders_page where
  "orders_init = \<lparr>tab_pages = (\<lambda>_. 1), search_query = [], debounced_query = [], status_filter = ''all'',
     sort_by = ''date'', sort_order = ''desc'', orders = [], orders_error = None, total_pages = 1,
     selected_order = NoDetails, modal_open = False\<rparr>"

section \<open>Fetching\<close>

text \<open>The query of \<open>GET /orders\<close>: page size, the current tab's page, the debounced
  query (omitted when empty), the status (omitted on the \<open>all\<close> tab) and the sort key.\<close>

record orders_query =
  q_paginate :: nat
  q_page :: int
  q_search :: "string option"
  q_status :: "string option"
  q_sort :: string

definition sort_param :: "string \<Rightarrow> string \<Rightarrow> string" where
  "sort_param by ord =
     (if by = ''total'' then ''total-'' @ ord
      else if ord = ''asc'' then ''created_at-asc'' else ''created_at-desc'')"

definition fetch_orders_query :: "orders_page \<Rightarrow> orders_query" where
  "fetch_orders_query st =
     \<lparr>q_paginate = items_per_page, q_page = tab_pages st (status_filter st),
      q_search = (if debounced_query st = [] then None else Some (debounced_query st)),
      q_status = (if status_filter st \<noteq> ''all'' then Some (status_filter st) else None),
      q_sort = sort_param (sort_by st) (sort_order st)\<rparr>"

text \<open>The reply: a transport failure, or \<open>response.data.data\<close> with its \<open>data\<close> array
  (absent: \<open>None\<close>) and \<open>last_page\<close> (absent or 0: \<open>None\<close> or \<open>Some 0\<close>).\<close>

datatype orders_reply = OrdersNetError | OrdersReply "order list option" "int option"

definition fetch_orders_resume :: "orders_reply \<Rightarrow> orders_page \<Rightarrow> orders_page" where
  "fetch_orders_resume r st =
     (case r of
        OrdersNetError \<Rightarrow> st\<lparr>orders_error := Some ''Failed to fetch orders'', orders := []\<rparr>
      | OrdersReply None lp \<Rightarrow> st\<lparr>orders_error := None, orders := [], total_pages := 1\<rparr>
      | OrdersReply (Some os) lp \<Rightarrow>
          st\<lparr>orders_error := None,
             orders := map (\<lambda>od. if order_customer od = None then od\<lparr>order_customer := Some ''N/A''\<rparr> else od) os,
             total_pages := (case lp of None \<Rightarrow> 1 | Some n \<Rightarrow> if n = 0 then 1 else n)\<rparr>)"

text \<open>The search box's value reaches the query 500 ms after the last keystroke.\<close>

definition debounce_fire :: "orders_page \<Rightarrow> orders_page" where
  "debounce_fire st = st\<lparr>debounced_query := search_query st\<rparr>"

section \<open>Handlers\<close>

definition handle_sort :: "string \<Rightarrow> orders_page \<Rightarrow> orders_page" where
  "handle_sort column st =
     (if sort_by st = column then st\<lparr>sort_order := (if sort_order st = ''asc'' then ''desc'' else ''asc'')\<rparr>
      else st\<lparr>sort_by := column, sort_order := ''desc''\<rparr>)"

text \<open>A tab trigger selects its status and resets that tab's page to 1.\<close>

definition select_tab :: "string \<Rightarrow> orders_page \<Rightarrow> orders_page" where
  "select_tab s st = st\<lparr>status_filter := s, tab_pages := (tab_pages st)(s := 1)\<rparr>"

definition search_change :: "string \<Rightarrow> orders_page \<Rightarrow> orders_page" where
  "search_change q st = st\<lparr>search_query := q, tab_pages := (tab_pages st)(status_filter st := 1)\<rparr>"

text \<open>\<open>handleStatusChange\<close> after its request: on success a toast and the order's status
  set to the lower-cased new status, on failure an error toast and nothing else.\<close>

definition status_change_resume ::
  "nat \<Rightarrow> string \<Rightarrow> bool \<Rightarrow> orders_page \<Rightarrow> orders_page \<times> effect list" where
  "status_change_resume oid new ok st =
     (if ok then
        (st\<lparr>orders := map (\<lambda>od. if order_id od = oid then od\<lparr>order_status := js_lower new\<rparr> else od) (orders st)\<rparr>,
         [ToastSuccess ''Updated Status Successfully''])
      else (st, [ToastError ''Failed to update Status'', ConsoleError ''update-status failed'']))"

text \<open>\<open>viewOrderDetails\<close>: \<open>fetchOrderDetails\<close> returns \<open>response.data.data || {}\<close>,
  and \<open>{}\<close> after an error toast when the request fails (\<open>None\<close>); the dialog opens in
  every case.\<close>

definition view_order_details :: "order option option \<Rightarrow> orders_page \<Rightarrow> orders_page \<times> effect list" where
  "view_order_details d st =
     (case d of
        None \<Rightarrow> (st\<lparr>selected_order := EmptyDetails, modal_open := True\<rparr>,
                 [ToastError ''Failed to fetch order details''])
      | Some None \<Rightarrow> (st\<lparr>selected_order := EmptyDetails, modal_open := True\<rparr>, [])
      | Some (Some od) \<Rightarrow> (st\<lparr>selected_order := Details od, modal_open := True\<rparr>, []))"

section \<open>The view model of a tab\<close>

definition orders_by_status :: "orders_page \<Rightarrow> string \<Rightarrow> order list" where
  "orders_by_status st status =
     (if status = ''all'' then orders st else filter (\<lambda>od. js_lower (order_status od) = status) (orders st))"

definition tab_start :: "orders_page \<Rightarrow> string \<Rightarrow> int" where
  "tab_start st status = (tab_pages st status - 1) * int items_per_page"

definition tab_slice :: "orders_page \<Rightarrow> string \<Rightarrow> order list" where
  "tab_slice st status =
     js_slice (orders_by_status st status) (tab_start st status) (tab_start st status + int items_per_page)"

text \<open>The badge colour of a status (the table and the dialog use the same chain).\<close>

definition status_badge :: "string \<Rightarrow> string" where
  "status_badge s =
     (if s = ''delivered'' then ''green'' else if s = ''shipped'' then ''blue''
      else if s = ''processing'' then ''purple'' else if s = ''pending'' then ''yellow'' else ''red'')"

text \<open>The status items of a row's action menu: one per target status, hidden when the
  order's status equals the capitalised target.\<close>

definition row_actions :: "order \<Rightarrow> string list" where
  "row_actions od = filter (\<lambda>s. order_status od \<noteq> s) [''Processing'', ''Shipped'', ''Delivered'', ''Cancelled'']"

datatype status_cell = StatusBadge string string | ItemsCell int

record order_row =
  row_code :: string
  row_customer :: string
  row_date :: string
  row_cell :: status_cell
  row_total :: int
  row_actions_of :: "string list"

definition customer_text :: "string option \<Rightarrow> string" where
  "customer_text c = (case c of None \<Rightarrow> ''N/A'' | Some n \<Rightarrow> if n = [] then ''N/A'' else n)"

definition order_row_of :: "string \<Rightarrow> order \<Rightarrow> order_row" where
  "order_row_of status od =
     \<lparr>row_code = order_code od, row_customer = customer_text (order_customer od), row_date = order_created od,
      row_cell = (if status = ''all'' then StatusBadge (status_badge (order_status od)) (order_status od)
                  else ItemsCell (order_total_items od)),
      row_total = order_total_amount od, row_actions_of = row_actions od\<rparr>"

datatype table_body = NoOrdersFound | OrderRows "order_row list"

definition tab_body :: "orders_page \<Rightarrow> string \<Rightarrow> table_body" where
  "tab_body st status =
     (let rows = tab_slice st status in
      if rows = [] then NoOrdersFound else OrderRows (map (order_row_of status) rows))"

text \<open>The range line \<open>Showing a to b of n orders\<close> as the triple \<open>(a, b, n)\<close>.\<close>

definition showing_range :: "orders_page \<Rightarrow> string \<Rightarrow> int \<times> int \<times> int" where
  "showing_range st status =
     (let total = int (length (orders_by_status st status)); s = tab_start st status
      in (s + 1, min (s + int items_per_page) total, total))"

definition tab_total_pages :: "orders_page \<Rightarrow> string \<Rightarrow> int" where
  "tab_total_pages st status = ceil_div (length (orders_by_status st status)) items_per_page"

text \<open>The numbered buttons: at most five, centred on the current page when there are
  more than five pages.\<close>

definition page_window :: "int \<Rightarrow> int \<Rightarrow> int list" where
  "page_window tp cur =
     map (\<lambda>i. if tp \<le> 5 then i + 1 else if cur \<le> 3 then i + 1
               else if tp - 2 \<le> cur then tp - 4 + i else cur - 2 + i)
         (map int [0..<nat (min 5 tp)])"

definition page_buttons :: "orders_page \<Rightarrow> string \<Rightarrow> (int \<times> bool) list" where
  "page_buttons st status =
     map (\<lambda>n. (n, tab_pages st status = n)) (page_window (tab_total_pages st status) (tab_pages st status))"

definition prev_click :: "string \<Rightarrow> orders_page \<Rightarrow> orders_page" where
  "prev_click status st = st\<lparr>tab_pages := (tab_pages st)(status := max (tab_pages st status - 1) 1)\<rparr>"

definition prev_disabled :: "orders_page \<Rightarrow> string \<Rightarrow> bool" where
  "prev_disabled st status = (tab_pages st status = 1)"

definition page_click :: "string \<Rightarrow> int \<Rightarrow> orders_page \<Rightarrow> orders_page" where
  "page_click status n st = st\<lparr>tab_pages := (tab_pages st)(status := n)\<rparr>"

definition next_click :: "string \<Rightarrow> orders_page \<Rightarrow> orders_page" where
  "next_click status st =
     st\<lparr>tab_pages := (tab_pages st)(status := min (tab_pages st status + 1) (tab_total_pages st status))\<rparr>"

definition next_disabled :: "orders_page \<Rightarrow> string \<Rightarrow> bool" where
  "next_disabled st status = (tab_pages st status = tab_total_pages st status)"

text \<open>The dialog's description line.\<close>

definition dialog_description :: "order_details \<Rightarrow> string" where
  "dialog_description d =
     (case d of
        NoDetails \<Rightarrow> ''Loading...''
      | EmptyDetails \<Rightarrow> ''Order undefined from N/A''
      | Details od \<Rightarrow> ''Order '' @ order_code od @ '' from '' @ customer_text (order_customer od))"

section \<open>The page as a state machine\<close>

text \<open>The events of the page: the two sort buttons, the six tab triggers, typing in the
  search box, the debounce timer, a fetch reply, the arrows and numbered buttons of a
  tab, a status change reply, an order-details reply, and closing the dialog.\<close>

datatype orders_event =
    EvSort string | EvTab string | EvSearch string | EvDebounce | EvFetched orders_reply
  | EvPrev string | EvNext string | EvPage string int
  | EvStatus nat string bool | EvDetails "order option option" | EvCloseModal

fun orders_step :: "orders_event \<Rightarrow> orders_page \<Rightarrow> orders_page" where
  "orders_step (EvSort c) st = handle_sort c st"
| "orders_step (EvTab s) st = select_tab s st"
| "orders_step (EvSearch q) st = search_change q st"
| "orders_step EvDebounce st = debounce_fire st"
| "orders_step (EvFetched r) st = fetch_orders_resume r st"
| "orders_step (EvPrev s) st = prev_click s st"
| "orders_step (EvNext s) st = next_click s st"
| "orders_step (EvPage s n) st = page_click s n st"
| "orders_step (EvStatus oid new ok) st = fst (status_change_resume oid new ok st)"
| "orders_step (EvDetails d) st = fst (view_order_details d st)"
| "orders_step EvCloseModal st = st\<lparr>modal_open := False\<rparr>"

text \<open>When an event can happen: the buttons only offer their values, a disabled arrow
  cannot be clicked, a numbered button is one of the rendered ones, and the server honours
  the page size it is asked for.\<close>

fun orders_enabled :: "orders_event \<Rightarrow> orders_page \<Rightarrow> bool" where
  "orders_enabled (EvSort c) st = (c \<in> {''date'', ''total''})"
| "orders_enabled (EvTab s) st = (s \<in> set order_tabs)"
| "orders_enabled (EvFetched (OrdersReply (Some os) lp)) st = (length os \<le> items_per_page)"
| "orders_enabled (EvPrev s) st = (s \<in> set order_tabs \<and> \<not> prev_disabled st s)"
| "orders_enabled (EvNext s) st = (s \<in> set order_tabs \<and> \<not> next_disabled st s)"
| "orders_enabled (EvPage s n) st =
     (s \<in> set order_tabs \<and> n \<in> set (page_window (tab_total_pages st s) (tab_pages st s)))"
| "orders_enabled (EvStatus oid new ok) st = (new \<in> set [''Processing'', ''Shipped'', ''Delivered'', ''Cancelled''])"
| "orders_enabled _ st = True"

inductive orders_reach :: "orders_page \<Rightarrow> bool" where
  init: "orders_reach orders_init"
| step: "orders_reach st \<Longrightarrow> orders_enabled e st \<Longrightarrow> orders_reach (orders_step e st)"

fun orders_run :: "orders_event list \<Rightarrow> orders_page \<Rightarrow> orders_page" where
  "orders_run [] st = st"
| "orders_run (e # es) st = orders_run es (orders_step e st)"

fun orders_run_ok :: "orders_event list \<Rightarrow> orders_page \<Rightarrow> bool" where
  "orders_run_ok [] st = True"
| "orders_run_ok (e # es) st = (orders_enabled e st \<and> orders_run_ok es (orders_step e st))"

definition window_base :: "int \<Rightarrow> int \<Rightarrow> int" where
  "window_base tp cur = (if tp \<le> 5 \<or> cur \<le> 3 then 1 else if tp - 2 \<le> cur then tp - 4 else cur - 2)"

definition server_sort_keys :: "string list" where
  "server_sort_keys = [''total-asc'', ''total-desc'', ''created_at-asc'', ''created_at-desc'']"

definition demo_order :: "nat \<Rightarrow> order" where
  "demo_order i = \<lparr>order_id = i, order_code = ''ORD-1'', order_customer = Some ''Sara'', order_created = ''2025-05-01'',
     order_status = ''pending'', order_total_items = 2, order_total_amount = 120\<rparr>"

declare fetch_orders_resume_def [page_defs] handle_sort_def [page_defs] select_tab_def [page_defs]
  search_change_def [page_defs] status_change_resume_def [page_defs] prev_click_def [page_defs]
  page_click_def [page_defs] next_click_def [page_defs] debounce_fire_def [page_defs]


section \<open>Lemmas\<close>

lemma page_window_eq:
  "page_window tp cur = map (\<lambda>i. window_base tp cur + int i) [0..<nat (min 5 tp)]"
  by (auto simp: page_window_def window_base_def)

lemma window_base_bounds:
  "0 < tp \<Longrightarrow> 1 \<le> window_base tp cur \<and> window_base tp cur + min 5 tp \<le> tp + 1"
  by (simp add: window_base_def)

lemma page_window_range:
  assumes "n \<in> set (page_window tp cur)"
  shows "1 \<le> n \<and> n \<le> tp"
proof -
  from assms obtain i where i: "i < nat (min 5 tp)" "n = window_base tp cur + int i"
    by (auto simp: page_window_eq)
  then have "0 < tp" "int i < min 5 tp" by linarith+
  with window_base_bounds [of tp cur] i(2) show ?thesis by linarith
qed

lemma ceil_div_one_page:
  "n \<le> items_per_page \<Longrightarrow> ceil_div n items_per_page \<le> 1"
  by (auto simp: ceil_div_def items_per_page_def)

lemma orders_by_status_length:
  "length (orders_by_status st s) \<le> length (orders st)"
  by (simp add: orders_by_status_def)

lemma tab_total_pages_one:
  "length (orders st) \<le> items_per_page \<Longrightarrow> tab_total_pages st s \<le> 1"
  unfolding tab_total_pages_def
  using orders_by_status_length [of st s] by (intro ceil_div_one_page) simp

lemma orders_step_one_page:
  assumes "length (orders st) \<le> items_per_page" "\<forall>s. tab_pages st s \<le> 1" "orders_enabled e st"
  shows "length (orders (orders_step e st)) \<le> items_per_page \<and> (\<forall>s. tab_pages (orders_step e st) s \<le> 1)"
proof (cases e)
  case (EvNext s)
  with assms tab_total_pages_one [OF assms(1), of s] show ?thesis by (auto simp: next_click_def)
next
  case (EvPage s n)
  with assms page_window_range [of n] tab_total_pages_one [OF assms(1), of s] show ?thesis
    by (fastforce simp: page_click_def)
next
  case (EvPrev s)
  have "max (tab_pages st s - 1) 1 = 1" using spec [OF assms(2), of s] by linarith
  with assms(1,2) EvPrev show ?thesis by (simp add: prev_click_def)
next
  case (EvFetched r)
  with assms show ?thesis by (cases r) (auto simp: fetch_orders_resume_def split: option.splits)
next
  case (EvStatus oid new ok)
  with assms show ?thesis by (simp add: status_change_resume_def)
next
  case (EvDetails d)
  with assms show ?thesis by (simp add: view_order_details_def split: option.splits)
qed (use assms in \<open>auto simp: page_defs\<close>)

lemma fetch_orders_resume_keeps [simp]:
  "sort_by (fetch_orders_resume r st) = sort_by st \<and> sort_order (fetch_orders_resume r st) = sort_order st \<and>
   status_filter (fetch_orders_resume r st) = status_filter st \<and> tab_pages (fetch_orders_resume r st) = tab_pages st"
  by (simp add: fetch_orders_resume_def split: orders_reply.split option.split)

lemma status_change_resume_keeps [simp]:
  "sort_by (fst (status_change_resume oid new ok st)) = sort_by st \<and>
   sort_order (fst (status_change_resume oid new ok st)) = sort_order st \<and>
   status_filter (fst (status_change_resume oid new ok st)) = status_filter st \<and>
   tab_pages (fst (status_change_resume oid new ok st)) = tab_pages st"
  by (simp add: status_change_resume_def)

lemma view_order_details_keeps [simp]:
  "sort_by (fst (view_order_details d st)) = sort_by st \<and> sort_order (fst (view_order_details d st)) = sort_order st \<and>
   status_filter (fst (view_order_details d st)) = status_filter st \<and>
   tab_pages (fst (view_order_details d st)) = tab_pages st"
  by (simp add: view_order_details_def split: option.split)

lemma window_base_covers:
  "1 \<le> cur \<Longrightarrow> cur \<le> tp \<Longrightarrow> window_base tp cur \<le> cur \<and> cur < window_base tp cur + min 5 tp"
  by (auto simp: window_base_def)

lemma shifted_upt_sorted_distinct:
  "sorted (map (\<lambda>i. b + int i) [0..<k]) \<and> distinct (map (\<lambda>i. b + int i) [0..<k])"
  by (simp add: sorted_iff_nth_mono distinct_map inj_on_def)

lemma orders_reach_run:
  "orders_reach st \<Longrightarrow> orders_run_ok es st \<Longrightarrow> orders_reach (orders_run es st)"
  by (induction es arbitrary: st) (auto intro: orders_reach.step)

section \<open>Properties of the order list\<close>

text \<open>C29. The order list never leaves its first page: the server returns at most the ten orders it is asked for, the page buttons and the next arrow are computed from that one fetched page, so in every reachable state every tab is on page 1 or below and no request ever asks for a later server page.\<close>

theorem orders_pages_never_advance:
  assumes "orders_reach st"
  shows "length (orders st) \<le> items_per_page \<and> (\<forall>s. tab_pages st s \<le> 1) \<and> q_page (fetch_orders_query st) \<le> 1"
proof -
  from assms have "length (orders st) \<le> items_per_page \<and> (\<forall>s. tab_pages st s \<le> 1)"
  proof (induction rule: orders_reach.induct)
    case init
    then show ?case by (simp add: orders_init_def)
  next
    case (step st e)
    then show ?case using orders_step_one_page by blast
  qed
  then show ?thesis by (simp add: fetch_orders_query_def)
qed

text \<open>C30. With no orders the next arrow is enabled (the current page 1 differs from the zero pages computed from an empty list); clicking it moves the tab to page 0, which the next request sends to the server and the range line shows as "Showing -9 to 0 of 0 orders".\<close>

theorem next_reaches_page_zero:
  "\<exists>st. orders_reach st \<and> orders st = [] \<and> tab_pages st ''all'' = 0 \<and> q_page (fetch_orders_query st) = 0 \<and>
       showing_range st ''all'' = (-9, 0, 0) \<and> tab_body st ''all'' = NoOrdersFound"
proof -
  let ?es = "[EvFetched (OrdersReply (Some []) (Some 1)), EvNext ''all'']"
  have r: "orders_reach (orders_run ?es orders_init)"
    by (rule orders_reach_run [OF orders_reach.init])
       (simp add: orders_init_def fetch_orders_resume_def next_disabled_def tab_total_pages_def
          orders_by_status_def ceil_div_def items_per_page_def order_tabs_def)
  moreover have "orders (orders_run ?es orders_init) = [] \<and> tab_pages (orders_run ?es orders_init) ''all'' = 0 \<and>
      q_page (fetch_orders_query (orders_run ?es orders_init)) = 0 \<and>
      showing_range (orders_run ?es orders_init) ''all'' = (-9, 0, 0) \<and>
      tab_body (orders_run ?es orders_init) ''all'' = NoOrdersFound"
    by (simp add: orders_init_def fetch_orders_resume_def next_click_def tab_total_pages_def orders_by_status_def
          ceil_div_def items_per_page_def fetch_orders_query_def showing_range_def tab_start_def tab_body_def
          tab_slice_def js_slice_def js_index_def)
  ultimately show ?thesis by blast
qed

lemma orders_pages_never_advance_witness:
  "orders_reach (orders_run [EvFetched (OrdersReply (Some [demo_order 1]) (Some 3)), EvSort ''total''] orders_init) \<and>
   q_page (fetch_orders_query (orders_run [EvFetched (OrdersReply (Some [demo_order 1]) (Some 3)), EvSort ''total''] orders_init)) \<le> 1"
proof -
  have r: "orders_reach (orders_run [EvFetched (OrdersReply (Some [demo_order 1]) (Some 3)), EvSort ''total''] orders_init)"
    by (rule orders_reach_run [OF orders_reach.init]) (simp add: items_per_page_def)
  show ?thesis using orders_pages_never_advance [OF r] r by simp
qed

text \<open>C31. The numbered page buttons: for a current page within 1..n, at most five consecutive increasing page numbers, all within 1..n, among them the current page.\<close>

theorem page_window_bounds:
  assumes "1 \<le> cur" "cur \<le> tp"
  shows "length (page_window tp cur) = nat (min 5 tp) \<and> (\<forall>n \<in> set (page_window tp cur). 1 \<le> n \<and> n \<le> tp) \<and>
         cur \<in> set (page_window tp cur) \<and> sorted (page_window tp cur) \<and> distinct (page_window tp cur)"
proof -
  let ?b = "window_base tp cur"
  from window_base_covers [OF assms] have c: "?b \<le> cur" "cur < ?b + min 5 tp" by auto
  then have e: "cur = ?b + int (nat (cur - ?b))" and l: "nat (cur - ?b) \<in> set [0..<nat (min 5 tp)]" by auto
  have "cur \<in> (\<lambda>i. ?b + int i) ` set [0..<nat (min 5 tp)]" by (rule image_eqI [where f = "\<lambda>i. ?b + int i", OF e l])
  then have "cur \<in> set (page_window tp cur)" by (simp only: page_window_eq set_map)
  moreover have "sorted (page_window tp cur) \<and> distinct (page_window tp cur)"
    unfolding page_window_eq by (rule shifted_upt_sorted_distinct)
  moreover have "length (page_window tp cur) = nat (min 5 tp)" by (simp add: page_window_def)
  ultimately show ?thesis using page_window_range by blast
qed

lemma page_window_bounds_witness:
  "1 \<le> (7::int) \<and> (7::int) \<le> 12 \<and> page_window 12 7 = [5, 6, 7, 8, 9]"
  using page_window_bounds [of 7 12] by (simp add: page_window_def upt_rec)

text \<open>C32. In every reachable state the sort column is date or total, the direction is asc or desc, the status filter is one of the six tabs, and the sort key sent to the server is one of the four the endpoint understands.\<close>

theorem orders_sort_invariant:
  assumes "orders_reach st"
  shows "sort_by st \<in> {''date'', ''total''} \<and> sort_order st \<in> {''asc'', ''desc''} \<and>
         status_filter st \<in> set order_tabs \<and> q_sort (fetch_orders_query st) \<in> set server_sort_keys"
proof -
  from assms have "sort_by st \<in> {''date'', ''total''} \<and> sort_order st \<in> {''asc'', ''desc''} \<and>
                   status_filter st \<in> set order_tabs"
  proof (induction rule: orders_reach.induct)
    case init
    then show ?case by (simp add: orders_init_def order_tabs_def)
  next
    case (step st e)
    then show ?case
      by (cases e) (auto simp: handle_sort_def select_tab_def search_change_def debounce_fire_def
          prev_click_def next_click_def page_click_def)
  qed
  then show ?thesis
    by (auto simp: fetch_orders_query_def sort_param_def server_sort_keys_def)
qed

lemma orders_sort_invariant_witness:
  "orders_reach (orders_run [EvSort ''total'', EvSort ''total''] orders_init) \<and>
   q_sort (fetch_orders_query (orders_run [EvSort ''total'', EvSort ''total''] orders_init)) = ''total-asc''"
proof -
  have r: "orders_reach (orders_run [EvSort ''total'', EvSort ''total''] orders_init)"
    by (rule orders_reach_run [OF orders_reach.init]) simp
  show ?thesis using orders_sort_invariant [OF r] r
    by (simp add: orders_init_def handle_sort_def fetch_orders_query_def sort_param_def)
qed

text \<open>The row menu hides a target status by comparing the order's status with a capitalised name, while the API's statuses are lower case: for every lower-case status all four "Mark as" items are offered, including the status the order already has.\<close>

theorem row_actions_offer_current_status:
  assumes "js_lower (order_status od) = order_status od"
  shows "row_actions od = [''Processing'', ''Shipped'', ''Delivered'', ''Cancelled'']"
  using assms by (auto simp: row_actions_def js_lower_def lower_char_def)

lemma row_actions_offer_current_status_witness:
  "js_lower (order_status (demo_order 1)) = order_status (demo_order 1) \<and>
   row_actions (demo_order 1\<lparr>order_status := ''processing''\<rparr>) = [''Processing'', ''Shipped'', ''Delivered'', ''Cancelled'']"
proof -
  have "js_lower (order_status (demo_order 1\<lparr>order_status := ''processing''\<rparr>)) =
        order_status (demo_order 1\<lparr>order_status := ''processing''\<rparr>)"
    by (simp add: js_lower_def lower_char_def)
  from row_actions_offer_current_status [OF this] show ?thesis
    by (simp add: demo_order_def js_lower_def lower_char_def)
qed

end
