(* ===== verification/PromoCodes.thy ===== *)
theory PromoCodes
  imports Orders
begin

text \<open>
  The promo-code page of the pharmacy dashboard,
  \<open>src/src/Pages/PharmacyDashboard/PromoCodes/PromoCodes.jsx\<close>. Its data is a mock list
  of twenty codes generated with \<open>Math.random()\<close> when the module loads; the random
  draws of each code are a parameter (\<open>draws\<close>) and dates are day numbers. The page
  filters by a search text and a status, sorts with \<open>Array.prototype.sort\<close> (modelled as
  the stable insertion sort the standard requires, \<open>js_sort\<close>), paginates ten per page
  with the order list's page window, and its add, edit and delete handlers only show a
  toast.
\<close>

section \<open>The mock data\<close>

record promo =
  pr_id :: nat
  pr_code :: string
  pr_type :: string
  pr_value :: int
  pr_min_purchase :: int
  pr_start :: int
  pr_end :: int
  pr_usage_limit :: int
  pr_used :: int
  pr_active :: bool
  pr_expired :: bool
  pr_description :: string

text \<open>The draws of one code: day offsets of its start (0..29 before today) and end (0..59
  after today), the two coin flips and the numbers behind type, value, minimum purchase,
  usage limit and use count.\<close>

record draws =
  d_start_back :: nat
  d_end_ahead :: nat
  d_active :: bool
  d_percentage :: bool
  d_small_value :: bool
  d_value_small :: nat
  d_value_large :: nat
  d_min :: nat
  d_limit :: nat
  d_used :: nat

definition promo_code_names :: "string list" where
  "promo_code_names = [''WELCOME20'', ''SUMMER10'', ''FLASH25'', ''NEWUSER15'', ''HOLIDAY30'', ''WEEKEND5'',
     ''SPECIAL50'', ''LOYALTY10'', ''RETURN15'', ''BIRTHDAY20'']"

definition promo_descriptions :: "string list" where
  "promo_descriptions = [''Welcome discount for new customers'', ''Summer sale promotion'', ''Flash sale discount'',
     ''New user special offer'', ''Holiday season discount'', ''Weekend special offer'', ''Special promotion'',
     ''Loyalty program discount'', ''Return customer discount'', ''Birthday special offer'']"

text \<open>One generated code: \<open>isExpired\<close> compares the end date with now, \<open>isActive\<close> needs
  it unexpired and a draw above 0.2.\<close>

definition mock_promo :: "int \<Rightarrow> nat \<Rightarrow> draws \<Rightarrow> promo" where
  "mock_promo now i d =
     (let e = now + int (d_end_ahead d); expired = e < now in
      \<lparr>pr_id = i + 1, pr_code = promo_code_names ! (i mod 10),
       pr_type = (if d_percentage d then ''percentage'' else ''fixed''),
       pr_value = (if d_small_value d then int (d_value_small d) + 5 else int (d_value_large d) + 20),
       pr_min_purchase = int (d_min d) + 50, pr_start = now - int (d_start_back d), pr_end = e,
       pr_usage_limit = int (d_limit d) + 1, pr_used = int (d_used d),
       pr_active = (\<not> expired \<and> d_active d), pr_expired = expired,
       pr_description = promo_descriptions ! (i mod 10)\<rparr>)"

definition mock_promos :: "int \<Rightarrow> (nat \<Rightarrow> draws) \<Rightarrow> promo list" where
  "mock_promos now ds = map (\<lambda>i. mock_promo now i (ds i)) [0..<20]"

section \<open>Filtering and sorting\<close>

text \<open>\<open>String.prototype.includes\<close>.\<close>

definition js_includes :: "string \<Rightarrow> string \<Rightarrow> bool" where
  "js_includes s t = (t = [] \<or> list_ex (\<lambda>i. take (length t) (drop i s) = t) [0..<length s])"

definition promo_matches :: "string \<Rightarrow> string \<Rightarrow> promo \<Rightarrow> bool" where
  "promo_matches q status p =
     ((q = [] \<or> js_includes (js_lower (pr_code p)) (js_lower q) \<or> js_includes (js_lower (pr_description p)) (js_lower q)) \<and>
      (status = ''all'' \<or> (status = ''active'' \<and> pr_active p \<and> \<not> pr_expired p) \<or>
       (status = ''inactive'' \<and> \<not> pr_active p \<and> \<not> pr_expired p) \<or> (status = ''expired'' \<and> pr_expired p)))"

text \<open>\<open>Array.prototype.sort\<close> with a comparator: a stable sort in which \<open>a\<close> stays before
  \<open>b\<close> unless the comparator is positive.\<close>

fun insert_by :: "('a \<Rightarrow> 'a \<Rightarrow> int) \<Rightarrow> 'a \<Rightarrow> 'a list \<Rightarrow> 'a list" where
  "insert_by c x [] = [x]"
| "insert_by c x (y # ys) = (if c x y \<le> 0 then x # y # ys else y # insert_by c x ys)"

definition js_sort :: "('a \<Rightarrow> 'a \<Rightarrow> int) \<Rightarrow> 'a list \<Rightarrow> 'a list" where
  "js_sort c xs = foldr (insert_by c) xs []"

text \<open>The page's comparator; \<open>localeCompare\<close> is a parameter.\<close>

definition promo_cmp :: "(string \<Rightarrow> string \<Rightarrow> int) \<Rightarrow> string \<Rightarrow> string \<Rightarrow> promo \<Rightarrow> promo \<Rightarrow> int" where
  "promo_cmp lc by ord a b =
     (if by = ''code'' then (if ord = ''asc'' then lc (pr_code a) (pr_code b) else lc (pr_code b) (pr_code a))
      else if by = ''value'' then (if ord = ''asc'' then pr_value a - pr_value b else pr_value b - pr_value a)
      else (if ord = ''asc'' then pr_end a - pr_end b else pr_end b - pr_end a))"

section \<open>Page state and handlers\<close>

record promo_form =
  pf_code :: string
  pf_type :: string
  pf_value :: string
  pf_min_purchase :: string
  pf_start :: string
  pf_end :: string
  pf_usage_limit :: string
  pf_description :: string
  pf_active :: bool

definition empty_promo_form :: promo_form where
  "empty_promo_form = \<lparr>pf_code = [], pf_type = ''percentage'', pf_value = [], pf_min_purchase = [], pf_start = [],
     pf_end = [], pf_usage_limit = [], pf_description = [], pf_active = True\<rparr>"

record promo_page =
  pp_page :: int
  pp_search :: string
  pp_sort_by :: string
  pp_sort_order :: string
  pp_status :: string
  pp_add_open :: bool
  pp_edit_open :: bool
  pp_selected :: "promo option"
  pp_new :: promo_form

definition promo_init :: promo_page where
  "promo_init = \<lparr>pp_page = 1, pp_search = [], pp_sort_by = ''code'', pp_sort_order = ''asc'', pp_status = ''all'',
     pp_add_open = False, pp_edit_open = False, pp_selected = None, pp_new = empty_promo_form\<rparr>"

datatype promo_effect = PromoToast string string | Clipboard string

definition promo_sort :: "string \<Rightarrow> promo_page \<Rightarrow> promo_page" where
  "promo_sort column st =
     (if pp_sort_by st = column then st\<lparr>pp_sort_order := (if pp_sort_order st = ''asc'' then ''desc'' else ''asc'')\<rparr>
      else st\<lparr>pp_sort_by := column, pp_sort_order := ''asc''\<rparr>)"

definition promo_add :: "promo_page \<Rightarrow> promo_page \<times> promo_effect list" where
  "promo_add st =
     (st\<lparr>pp_add_open := False, pp_new := empty_promo_form\<rparr>,
      [PromoToast ''Promo code added'' (pf_code (pp_new st) @ '' has been added successfully.'')])"

definition promo_edit :: "promo_page \<Rightarrow> promo_page \<times> promo_effect list" where
  "promo_edit st =
     (st\<lparr>pp_edit_open := False, pp_selected := None\<rparr>,
      [PromoToast ''Promo code updated''
         ((case pp_selected st of None \<Rightarrow> ''undefined'' | Some p \<Rightarrow> pr_code p) @ '' has been updated successfully.'')])"

definition promo_delete :: "nat \<Rightarrow> promo_page \<Rightarrow> promo_page \<times> promo_effect list" where
  "promo_delete pid st = (st, [PromoToast ''Promo code deleted'' ''The promo code has been deleted successfully.''])"

definition promo_copy :: "string \<Rightarrow> promo_page \<Rightarrow> promo_page \<times> promo_effect list" where
  "promo_copy code st =
     (st, [Clipboard code, PromoToast ''Copied to clipboard'' (code @ '' has been copied to clipboard.'')])"

definition promo_search :: "string \<Rightarrow> promo_page \<Rightarrow> promo_page" where
  "promo_search q st = st\<lparr>pp_search := q, pp_page := 1\<rparr>"

definition promo_clear_search :: "promo_page \<Rightarrow> promo_page" where
  "promo_clear_search st = st\<lparr>pp_search := []\<rparr>"

definition promo_status_select :: "string \<Rightarrow> promo_page \<Rightarrow> promo_page" where
  "promo_status_select s st = st\<lparr>pp_status := s, pp_page := 1\<rparr>"

definition promo_open_edit :: "promo \<Rightarrow> promo_page \<Rightarrow> promo_page" where
  "promo_open_edit p st = st\<lparr>pp_selected := Some p, pp_edit_open := True\<rparr>"

section \<open>The view model\<close>

definition promo_filtered :: "promo list \<Rightarrow> promo_page \<Rightarrow> promo list" where
  "promo_filtered ps st = filter (promo_matches (pp_search st) (pp_status st)) ps"

definition promo_sorted :: "(string \<Rightarrow> string \<Rightarrow> int) \<Rightarrow> promo list \<Rightarrow> promo_page \<Rightarrow> promo list" where
  "promo_sorted lc ps st = js_sort (promo_cmp lc (pp_sort_by st) (pp_sort_order st)) (promo_filtered ps st)"

definition promo_total_pages :: "promo list \<Rightarrow> promo_page \<Rightarrow> int" where
  "promo_total_pages ps st = ceil_div (length (promo_filtered ps st)) 10"

definition promo_start :: "promo_page \<Rightarrow> int" where
  "promo_start st = (pp_page st - 1) * 10"

definition promo_rows :: "(string \<Rightarrow> string \<Rightarrow> int) \<Rightarrow> promo list \<Rightarrow> promo_page \<Rightarrow> promo list" where
  "promo_rows lc ps st = js_slice (promo_sorted lc ps st) (promo_start st) (promo_start st + 10)"

text \<open>A row: the code, the value with its unit, the minimum purchase line, usage
  \<open>used/limit\<close> (infinity for a zero limit), the dates and the status badge.\<close>

definition promo_badge :: "promo \<Rightarrow> string" where
  "promo_badge p = (if pr_expired p then ''Expired'' else if pr_active p then ''Active'' else ''Inactive'')"

definition promo_row :: "promo \<Rightarrow> string \<times> int \<times> string \<times> int option \<times> int \<times> int option \<times> string" where
  "promo_row p =
     (pr_code p, pr_value p, (if pr_type p = ''percentage'' then ''%'' else '' EGP''),
      (if pr_min_purchase p = 0 then None else Some (pr_min_purchase p)),
      pr_used p, (if pr_usage_limit p = 0 then None else Some (pr_usage_limit p)), promo_badge p)"

definition promo_showing :: "promo list \<Rightarrow> promo_page \<Rightarrow> int \<times> int \<times> int" where
  "promo_showing ps st =
     (let n = int (length (promo_filtered ps st)) in (promo_start st + 1, min (promo_start st + 10) n, n))"

definition promo_buttons :: "promo list \<Rightarrow> promo_page \<Rightarrow> (int \<times> bool) list" where
  "promo_buttons ps st = map (\<lambda>n. (n, pp_page st = n)) (page_window (promo_total_pages ps st) (pp_page st))"

definition promo_prev :: "promo_page \<Rightarrow> promo_page" where
  "promo_prev st = st\<lparr>pp_page := max (pp_page st - 1) 1\<rparr>"

definition promo_next :: "promo list \<Rightarrow> promo_page \<Rightarrow> promo_page" where
  "promo_next ps st = st\<lparr>pp_page := min (pp_page st + 1) (promo_total_pages ps st)\<rparr>"

definition promo_goto :: "int \<Rightarrow> promo_page \<Rightarrow> promo_page" where
  "promo_goto n st = st\<lparr>pp_page := n\<rparr>"

section \<open>Lemmas\<close>

lemma insert_by_insort_key:
  assumes "\<And>a b. c a b \<le> 0 \<longleftrightarrow> k a \<le> k b"
  shows "insert_by c x ys = insort_key k x ys"
  by (induction ys) (simp_all add: assms)

lemma js_sort_sort_key:
  assumes "\<And>a b. c a b \<le> 0 \<longleftrightarrow> k a \<le> k b"
  shows "js_sort c xs = sort_key k xs"
  by (induction xs) (simp_all add: js_sort_def insert_by_insort_key [OF assms])

lemma mock_promo_not_expired [simp]:
  "\<not> pr_expired (mock_promo now i d)"
  by (simp add: mock_promo_def Let_def)

section \<open>Properties of the promo-code page\<close>

text \<open>C36. Sorting by value or by end date with the page's comparator and the stable sort of Array.prototype.sort is the library's sort by key: ascending by the value itself, descending by its negation.\<close>

theorem promo_sort_equiv:
  "js_sort (promo_cmp lc ''value'' ''asc'') xs = sort_key pr_value xs \<and>
   js_sort (promo_cmp lc ''value'' ''desc'') xs = sort_key (\<lambda>p. - pr_value p) xs \<and>
   js_sort (promo_cmp lc ''endDate'' ''asc'') xs = sort_key pr_end xs \<and>
   js_sort (promo_cmp lc ''endDate'' ''desc'') xs = sort_key (\<lambda>p. - pr_end p) xs"
  by (intro conjI js_sort_sort_key) (auto simp: promo_cmp_def)

text \<open>No generated promo code is ever expired: its end date is today plus a non-negative number of days and expiry compares it with today, so the Expired filter shows nothing whatever the random draws.\<close>

theorem expired_filter_always_empty:
  "promo_filtered (mock_promos now ds) (promo_status_select ''expired'' st) = []"
  by (auto simp: promo_filtered_def promo_status_select_def mock_promos_def promo_matches_def filter_empty_conv)

end
