(* ===== verification/Checkout.thy ===== *)
theory Checkout
  imports CartEngine
begin

text \<open>
  The checkout orchestrator, \<open>handleCheckout\<close> in
  \<open>src/src/Pages/Checkout/Checkout.jsx\<close>. Its inputs are the page's form state
  (\<open>selectedAddressId\<close>, \<open>paymentMethod\<close>, \<open>notes\<close>), the session and the engine's
  cart. The synchronous prefix (\<open>checkout_call\<close>) checks the cart and the address and
  builds the request; the continuation (\<open>checkout_resume\<close>) runs on the reply and, on
  success, awaits the engine's \<open>deleteCart\<close>, then calls \<open>updateQuantity()\<close> without
  arguments and \<open>Resetitems()\<close>.
\<close>

section \<open>The handler\<close>

record checkout_form =
  selectedAddressId :: string
  paymentMethod :: string
  order_notes :: string

text \<open>
  The two guards in source order, then the request. Reading \<open>userLogin.token\<close> for the
  header throws on a \<open>null\<close> login inside the \<open>try\<close>; the \<open>catch\<close> logs it and shows
  the generic failure toast, and no request is sent.
\<close>

definition checkout_call :: "user_login \<Rightarrow> cart_item list \<Rightarrow> checkout_form \<Rightarrow> effect list \<times> request option" where
  "checkout_call u cartItems f =
     (if cartItems = [] then
        ([ToastError ''Your cart is empty, please add items before placing an order.''], None)
      else if selectedAddressId f = [] then
        ([ToastError ''Please select a shipping address.''], None)
      else
        (case bearer_token u of
           None \<Rightarrow> ([ConsoleError ''TypeError'', ToastError ''Can not Checkout Empty Cart''], None)
         | Some t \<Rightarrow> ([], Some (PostCheckout t (selectedAddressId f) (paymentMethod f) (order_notes f)))))"

text \<open>
  The continuation: \<open>drs\<close> are the replies the awaited \<open>deleteCart()\<close> receives.
  \<open>deleteCart\<close> sends one request; while it has no reply (\<open>drs = []\<close>) the handler
  stays suspended at \<open>await deleteCart()\<close> (line 58) with the deletion in flight, as
  \<open>complete\<close> leaves an unanswered request, and nothing after it runs. Once it is
  answered come the success toast, the navigation, \<open>updateQuantity()\<close> (the engine's
  handler with no identifier) and \<open>Resetitems()\<close>, which empties the cart.
\<close>

definition checkout_resume :: "user_login \<Rightarrow> reply \<Rightarrow> reply list \<Rightarrow> cart_item list \<Rightarrow> run_out" where
  "checkout_resume u r drs cartItems =
     (case r of
        NetError \<Rightarrow> \<lparr>run_items = cartItems, run_sent = [],
                     run_effects = [ConsoleError ''checkout request failed'',
                                    ToastError ''Can not Checkout Empty Cart'']\<rparr>
      | Reply b \<Rightarrow>
          (if js_truthy (body_success b) then
             (let d = run_op u DeleteCart drs cartItems
              in if drs = [] then d
                 else
                   (let uq = run_op u (UpdateQuantity None 0) [] (run_items d);
                        rst = run_op u ResetItems [] (run_items uq)
                    in \<lparr>run_items = run_items rst,
                        run_sent = run_sent d @ run_sent uq @ run_sent rst,
                        run_effects = run_effects d @
                                      [ToastSuccess ''Order placed successfully'', NavigateTo ''/userdashboard''] @
                                      run_effects uq @ run_effects rst\<rparr>))
           else \<lparr>run_items = cartItems, run_sent = [],
                 run_effects = [ToastError ''Can not Checkout Empty Cart'']\<rparr>))"

definition handle_checkout :: "user_login \<Rightarrow> checkout_form \<Rightarrow> reply list \<Rightarrow> cart_item list \<Rightarrow> run_out" where
  "handle_checkout u f rs cartItems =
     (case checkout_call u cartItems f of
        (effs, None) \<Rightarrow> \<lparr>run_items = cartItems, run_sent = [], run_effects = effs\<rparr>
      | (effs, Some rq) \<Rightarrow>
          (case rs of
             [] \<Rightarrow> \<lparr>run_items = cartItems, run_sent = [rq], run_effects = effs\<rparr>
           | r # drs \<Rightarrow>
               (let ro = checkout_resume u r drs cartItems
                in \<lparr>run_items = run_items ro, run_sent = rq # run_sent ro,
                    run_effects = effs @ run_effects ro\<rparr>)))"

section \<open>Specification of the checkout\<close>

text \<open>Step 1 of the protocol (spec section 4.2) reported success.\<close>

fun checkout_ok :: "reply \<Rightarrow> bool" where
  "checkout_ok NetError = False"
| "checkout_ok (Reply b) = js_truthy (body_success b)"

definition demo_form :: checkout_form where
  "demo_form = \<lparr>selectedAddressId = ''addr-1'', paymentMethod = ''cash_on_delivery'', order_notes = []\<rparr>"

definition ok_body :: api_body where
  "ok_body = empty_body\<lparr>body_success := JsBool True\<rparr>"

definition rejected_body :: api_body where
  "rejected_body = empty_body\<lparr>body_success := JsBool False\<rparr>"

declare checkout_call_def [engine_defs] checkout_resume_def [engine_defs]
  handle_checkout_def [engine_defs]

section \<open>Lemmas\<close>

lemma checkout_call_sends:
  assumes "cartItems \<noteq> []" "selectedAddressId f \<noteq> []" "bearer_token u = Some t"
  shows "checkout_call u cartItems f =
         ([], Some (PostCheckout t (selectedAddressId f) (paymentMethod f) (order_notes f)))"
  using assms by (simp add: checkout_call_def)

lemma run_op_update_no_id [simp]:
  "run_op u (UpdateQuantity None d) rs items = \<lparr>run_items = items, run_sent = [], run_effects = []\<rparr>"
  by (simp add: engine_defs)

lemma run_op_reset [simp]:
  "run_op u ResetItems rs items = \<lparr>run_items = [], run_sent = [], run_effects = []\<rparr>"
  by (simp add: engine_defs)

lemma delete_cart_no_toast:
  "\<not> list_ex is_toast_error (run_effects (run_op u DeleteCart drs items))"
  by (cases drs) (auto simp: engine_defs Let_def split: option.splits reply.splits)

lemma delete_cart_pending_items:
  "run_items (run_op u DeleteCart [] items) = items"
  by (simp add: engine_defs Let_def split: option.splits)

lemma delete_cart_sent:
  "bearer_token u = Some t \<Longrightarrow> drs \<noteq> [] \<Longrightarrow> run_sent (run_op u DeleteCart drs items) = [PostCartDelete t]"
  by (cases drs) (auto simp: engine_defs Let_def split: reply.splits)

section \<open>Properties of the checkout\<close>

text \<open>C13 (spec P3). With a non-empty cart, an address and a credential, the local cart
  after the checkout is empty if and only if the order endpoint reported success and
  the cart-deletion request that follows was answered, whatever that answer was;
  otherwise it is the cart as it was (after a success with the deletion unanswered the
  handler is still suspended at \<open>await deleteCart()\<close>).\<close>

theorem checkout_atomic:
  assumes "cartItems \<noteq> []" "selectedAddressId f \<noteq> []" "bearer_token u = Some t"
  shows "run_items (handle_checkout u f (r # drs) cartItems) =
         (if checkout_ok r \<and> drs \<noteq> [] then [] else cartItems)"
  using assms
  by (cases r) (auto simp: handle_checkout_def checkout_call_sends checkout_resume_def Let_def
                     delete_cart_pending_items simp del: run_op.simps)

lemma checkout_atomic_witness:
  "[line_of 1 50 2] \<noteq> [] \<and> selectedAddressId demo_form \<noteq> [] \<and> bearer_token demo_login = Some ''tok-1'' \<and>
   run_items (handle_checkout demo_login demo_form [Reply ok_body, NetError] [line_of 1 50 2]) = []"
proof -
  have a: "[line_of 1 50 2] \<noteq> []" "selectedAddressId demo_form \<noteq> []"
    "bearer_token demo_login = Some ''tok-1''"
    by (simp_all add: demo_form_def demo_login_def)
  show ?thesis
    using checkout_atomic [OF a, of "Reply ok_body" "[NetError]"] a by (simp add: ok_body_def)
qed

text \<open>C14 (spec scenario 1). A checkout with an empty cart, or without a selected
  address, sends no request, leaves the cart unchanged and shows one error toast.\<close>

theorem checkout_guards:
  assumes "cartItems = [] \<or> selectedAddressId f = []"
  shows "run_sent (handle_checkout u f rs cartItems) = [] \<and>
         run_items (handle_checkout u f rs cartItems) = cartItems \<and>
         (\<exists>m. run_effects (handle_checkout u f rs cartItems) = [ToastError m])"
  using assms by (auto simp: handle_checkout_def checkout_call_def)

lemma checkout_guards_witness:
  "([] = [] \<or> selectedAddressId demo_form = []) \<and>
   run_sent (handle_checkout demo_login demo_form [Reply ok_body] []) = [] \<and>
   run_effects (handle_checkout demo_login demo_form [Reply ok_body] []) =
     [ToastError ''Your cart is empty, please add items before placing an order.'']"
proof -
  have h: "([]::cart_item list) = [] \<or> selectedAddressId demo_form = []" by simp
  have "run_effects (handle_checkout demo_login demo_form [Reply ok_body] []) =
        [ToastError ''Your cart is empty, please add items before placing an order.'']"
    by (simp add: handle_checkout_def checkout_call_def)
  then show ?thesis using checkout_guards [OF h, of demo_login "[Reply ok_body]"] by simp
qed

text \<open>Spec scenario 4 and step 2a. After a successful order the client sends the
  cart deletion and reports success (a success toast and the navigation to the
  dashboard) whatever the deletion returns: a failed cleanup is never shown as an
  error.\<close>

theorem checkout_success_cleanup_best_effort:
  assumes "cartItems \<noteq> []" "selectedAddressId f \<noteq> []" "bearer_token u = Some t"
    "checkout_ok r" "drs \<noteq> []"
  shows "run_sent (handle_checkout u f (r # drs) cartItems) =
           [PostCheckout t (selectedAddressId f) (paymentMethod f) (order_notes f), PostCartDelete t] \<and>
         ToastSuccess ''Order placed successfully'' \<in> set (run_effects (handle_checkout u f (r # drs) cartItems)) \<and>
         NavigateTo ''/userdashboard'' \<in> set (run_effects (handle_checkout u f (r # drs) cartItems)) \<and>
         \<not> list_ex is_toast_error (run_effects (handle_checkout u f (r # drs) cartItems))"
proof (cases r)
  case NetError
  with assms(4) show ?thesis by simp
next
  case (Reply b)
  with assms(4) have ok: "js_truthy (body_success b)" by simp
  have nt: "\<not> list_ex is_toast_error (run_effects (run_op u DeleteCart drs cartItems))"
    by (rule delete_cart_no_toast)
  from assms(3,5) have snt: "run_sent (run_op u DeleteCart drs cartItems) = [PostCartDelete t]"
    by (rule delete_cart_sent)
  show ?thesis
    using assms(1-3,5) Reply ok nt snt
    by (simp add: handle_checkout_def checkout_call_sends checkout_resume_def Let_def
             del: run_op.simps)
qed

lemma checkout_success_cleanup_best_effort_witness:
  "[line_of 1 50 2] \<noteq> [] \<and> selectedAddressId demo_form \<noteq> [] \<and> bearer_token demo_login = Some ''tok-1'' \<and>
   checkout_ok (Reply ok_body) \<and> [NetError] \<noteq> [] \<and>
   ToastSuccess ''Order placed successfully'' \<in>
     set (run_effects (handle_checkout demo_login demo_form [Reply ok_body, NetError] [line_of 1 50 2]))"
proof -
  have a: "[line_of 1 50 2] \<noteq> []" "selectedAddressId demo_form \<noteq> []"
    "bearer_token demo_login = Some ''tok-1''" "checkout_ok (Reply ok_body)" "[NetError] \<noteq> []"
    by (simp_all add: demo_form_def demo_login_def ok_body_def)
  show ?thesis using checkout_success_cleanup_best_effort [OF a] a by simp
qed

text \<open>Spec scenario 5 and step 3. When the order endpoint reports failure, or the
  request itself fails, the cart is identical before and after, no cart request is sent
  after the checkout request, and the user sees \<open>"Can not Checkout Empty Cart"\<close>.\<close>

theorem checkout_failure_keeps_cart:
  assumes "cartItems \<noteq> []" "selectedAddressId f \<noteq> []" "bearer_token u = Some t"
    "\<not> checkout_ok r"
  shows "run_items (handle_checkout u f (r # drs) cartItems) = cartItems \<and>
         run_sent (handle_checkout u f (r # drs) cartItems) =
           [PostCheckout t (selectedAddressId f) (paymentMethod f) (order_notes f)] \<and>
         ToastError ''Can not Checkout Empty Cart'' \<in> set (run_effects (handle_checkout u f (r # drs) cartItems))"
  using assms by (cases r) (auto simp: handle_checkout_def checkout_call_sends checkout_resume_def)

lemma checkout_failure_keeps_cart_witness:
  "[line_of 1 50 2] \<noteq> [] \<and> selectedAddressId demo_form \<noteq> [] \<and> bearer_token demo_login = Some ''tok-1'' \<and>
   \<not> checkout_ok (Reply rejected_body) \<and>
   run_items (handle_checkout demo_login demo_form [Reply rejected_body] [line_of 1 50 2]) = [line_of 1 50 2]"
proof -
  have a: "[line_of 1 50 2] \<noteq> []" "selectedAddressId demo_form \<noteq> []"
    "bearer_token demo_login = Some ''tok-1''" "\<not> checkout_ok (Reply rejected_body)"
    by (simp_all add: demo_form_def demo_login_def rejected_body_def empty_body_def)
  show ?thesis using checkout_failure_keeps_cart [OF a, of "[]"] a by simp
qed

text \<open>Without a session the checkout sends nothing and leaves the cart, but reports
  the generic \<open>"Can not Checkout Empty Cart"\<close> (the \<open>TypeError\<close> of the header is
  caught), not an authentication failure as spec section 4.1 names it.\<close>

theorem checkout_without_session:
  assumes "cartItems \<noteq> []" "selectedAddressId f \<noteq> []"
  shows "handle_checkout LoginNull f rs cartItems =
         \<lparr>run_items = cartItems, run_sent = [],
          run_effects = [ConsoleError ''TypeError'', ToastError ''Can not Checkout Empty Cart'']\<rparr>"
  using assms by (simp add: handle_checkout_def checkout_call_def)

lemma checkout_without_session_witness:
  "[line_of 1 50 2] \<noteq> [] \<and> selectedAddressId demo_form \<noteq> [] \<and>
   run_sent (handle_checkout LoginNull demo_form [] [line_of 1 50 2]) = []"
proof -
  have a: "[line_of 1 50 2] \<noteq> []" "selectedAddressId demo_form \<noteq> []"
    by (simp_all add: demo_form_def)
  show ?thesis using checkout_without_session [OF a, of "[]"] a by simp
qed

end
