(* ===== verification/Validation.thy ===== *)
theory Validation
  imports Prelude
begin

text \<open>
  The form validation schemas of sign-in (\<open>src/src/Pages/SignIn/SignIn.jsx\<close>),
  customer registration (\<open>src/src/Pages/Signup/Signup.jsx\<close>) and pharmacy
  registration (\<open>src/src/Pages/Join/Join.jsx\<close>). A Yup field schema is a list of
  tests run in the order they are chained; Formik shows, per field, the message of the
  first test that fails, and calls the submit handler only when no field has an error.
  The regular expressions of the schemas are translated into matchers on character
  lists; Yup's own e-mail pattern lives in the library and is a parameter
  \<open>is_email\<close>.
\<close>

section \<open>Field tests\<close>

type_synonym field_test = "(string \<Rightarrow> bool) \<times> string"

fun first_failing :: "field_test list \<Rightarrow> string \<Rightarrow> string option" where
  "first_failing [] v = None"
| "first_failing ((t, msg) # ts) v = (if t v then first_failing ts v else Some msg)"

text \<open>\<open>required()\<close> on a string rejects the empty string; \<open>max(n)\<close> bounds the length;
  \<open>email()\<close> skips the empty string (it is built with \<open>excludeEmptyString\<close>);
  \<open>oneOf(xs)\<close> accepts the listed values.\<close>

definition required :: "string \<Rightarrow> bool" where
  "required v = (v \<noteq> [])"

definition max_len :: "nat \<Rightarrow> string \<Rightarrow> bool" where
  "max_len n v = (length v \<le> n)"

definition email_test :: "(string \<Rightarrow> bool) \<Rightarrow> string \<Rightarrow> bool" where
  "email_test is_email v = (v = [] \<or> is_email v)"

definition one_of :: "string list \<Rightarrow> string \<Rightarrow> bool" where
  "one_of xs v = (v \<in> set xs)"

section \<open>Character classes and the schemas' regular expressions\<close>

definition is_digit :: "char \<Rightarrow> bool" where
  "is_digit c = (c \<in> set ''0123456789'')"

definition is_upper :: "char \<Rightarrow> bool" where
  "is_upper c = (c \<in> set ''ABCDEFGHIJKLMNOPQRSTUVWXYZ'')"

definition is_lower :: "char \<Rightarrow> bool" where
  "is_lower c = (c \<in> set ''abcdefghijklmnopqrstuvwxyz'')"

text \<open>The class \<open>[A-Za-z0-9#?!@$%^&*-]\<close>.\<close>

definition password_char :: "char \<Rightarrow> bool" where
  "password_char c = (is_upper c \<or> is_lower c \<or> is_digit c \<or> c \<in> set ''#?!@$%^&*-'')"

text \<open>\<open>/^[A-Z][A-Za-z0-9#?!@$%^&*-]{5,10}$/\<close> (both registration forms).\<close>

fun password_regex :: "string \<Rightarrow> bool" where
  "password_regex [] = False"
| "password_regex (c # cs) = (is_upper c \<and> 5 \<le> length cs \<and> length cs \<le> 10 \<and> list_all password_char cs)"

text \<open>\<open>(\+201|01|00201)[0-2,5]{1}[0-9]{8}\<close>: the alternatives are literals, so the
  regular expression matches when one of them is a prefix and the rest matches. Inside
  the class \<open>[0-2,5]\<close> the comma is a literal character. \<open>Signup.jsx\<close> writes the
  pattern without the final \<open>$\<close> (any suffix is accepted); \<open>Join.jsx\<close> anchors it.\<close>

definition phone_prefixes :: "string list" where
  "phone_prefixes = [''+201'', ''01'', ''00201'']"

fun phone_tail :: "bool \<Rightarrow> string \<Rightarrow> bool" where
  "phone_tail anchored [] = False"
| "phone_tail anchored (c # ds) =
     (c \<in> set ''012,5'' \<and> (if anchored then length ds = 8 else 8 \<le> length ds) \<and>
      list_all is_digit (take 8 ds))"

definition phone_regex :: "bool \<Rightarrow> string \<Rightarrow> bool" where
  "phone_regex anchored s =
     list_ex (\<lambda>p. take (length p) s = p \<and> phone_tail anchored (drop (length p) s)) phone_prefixes"

text \<open>\<open>/^([0-1]?[0-9]|2[0-3]):[0-5][0-9]$/\<close> (opening and closing times in
  \<open>Join.jsx\<close>): an hour of one digit, of a digit after \<open>0\<close> or \<open>1\<close>, or
  \<open>20\<close>..\<open>23\<close>, then a colon and two minute digits.\<close>

fun hour_regex :: "string \<Rightarrow> bool" where
  "hour_regex [d] = is_digit d"
| "hour_regex [a, b] = ((a \<in> set ''01'' \<and> is_digit b) \<or> (a = CHR ''2'' \<and> b \<in> set ''0123''))"
| "hour_regex _ = False"

definition minute_regex :: "char \<Rightarrow> char \<Rightarrow> bool" where
  "minute_regex a b = (a \<in> set ''012345'' \<and> is_digit b)"

fun time_regex :: "string \<Rightarrow> bool" where
  "time_regex [h, c, m1, m2] = (hour_regex [h] \<and> c = CHR '':'' \<and> minute_regex m1 m2)"
| "time_regex [h1, h2, c, m1, m2] = (hour_regex [h1, h2] \<and> c = CHR '':'' \<and> minute_regex m1 m2)"
| "time_regex _ = False"

section \<open>The forms and their schemas\<close>

text \<open>Per field, the name and the message of its first failing test; the form's errors
  are the fields that have one (Formik's \<open>errors\<close> object).\<close>

definition field_errors :: "(string \<times> string option) list \<Rightarrow> (string \<times> string) list" where
  "field_errors xs = concat (map (\<lambda>(n, e). case e of None \<Rightarrow> [] | Some m \<Rightarrow> [(n, m)]) xs)"

subsection \<open>Sign-in\<close>

record signin_form =
  si_email :: string
  si_password :: string

definition signin_schema :: "(string \<Rightarrow> bool) \<Rightarrow> signin_form \<Rightarrow> (string \<times> string) list" where
  "signin_schema is_email f = field_errors
     [(''email'', first_failing [(email_test is_email, ''Invalid email format''),
                                (required, ''Email is required''),
                                (max_len 255, ''Email cannot exceed 255 characters'')] (si_email f)),
      (''password'', first_failing [(required, ''Password is required'')] (si_password f))]"

subsection \<open>Customer registration\<close>

record signup_form =
  su_first_name :: string
  su_last_name :: string
  su_email :: string
  su_password :: string
  su_password_confirmation :: string
  su_phone :: string
  su_gender :: string

definition password_message :: string where
  "password_message = ''Password must be at least 8 characters and contain an uppercase letter , a lowercase letter, a numbers, and a special character.''"

definition signup_password_tests :: "field_test list" where
  "signup_password_tests = [(required, ''Password is required''), (password_regex, password_message)]"

definition signup_schema :: "(string \<Rightarrow> bool) \<Rightarrow> signup_form \<Rightarrow> (string \<times> string) list" where
  "signup_schema is_email f = field_errors
     [(''first_name'', first_failing [(required, ''First Name is required''),
         (max_len 100, ''First Name cannot exceed 100 characters'')] (su_first_name f)),
      (''last_name'', first_failing [(required, ''Last Name is required''),
         (max_len 100, ''Last Name cannot exceed 100 characters'')] (su_last_name f)),
      (''email'', first_failing [(email_test is_email, ''Invalid email format''),
         (required, ''Email is required''), (max_len 255, ''Email cannot exceed 255 characters'')] (su_email f)),
      (''password'', first_failing signup_password_tests (su_password f)),
      (''password_confirmation'', first_failing [(required, ''Confirm Password is required''),
         (\<lambda>v. v = su_password f, ''Passwords must match'')] (su_password_confirmation f)),
      (''phone'', first_failing [(required, ''Phone Number is required''),
         (phone_regex False, ''Phone Number must start with +20 followed by 10 digits (e.g., +20 123 456 7890)'')]
         (su_phone f)),
      (''gender'', first_failing [(required, ''Gender is required''),
         (one_of [''male'', ''female''], ''Gender must be either male or female'')] (su_gender f))]"

subsection \<open>Pharmacy registration\<close>

record join_form =
  jn_first_name :: string
  jn_last_name :: string
  jn_email :: string
  jn_password :: string
  jn_password_confirmation :: string
  jn_gender :: string
  jn_position :: string
  jn_phone :: string
  jn_user_type_id :: string
  jn_governorate_id :: string
  jn_city_id :: string
  jn_pharmacy_name :: string
  jn_pharmacy_address :: string
  jn_pharmacy_postal_code :: string
  jn_pharmacy_phone :: string
  jn_opening_time :: string
  jn_closing_time :: string
  jn_working_days :: "string list"
  jn_delivery :: bool

definition week_days :: "string list" where
  "week_days = [''saturday'', ''sunday'', ''monday'', ''tuesday'', ''wednesday'', ''thursday'', ''friday'']"

text \<open>The array field: \<open>required()\<close> accepts an empty array (Yup 1), \<open>min(1)\<close> does
  not; an element outside the week fails its own \<open>oneOf\<close> (reported under the
  element's path, collapsed here onto the field). \<open>boolean().required()\<close> holds of
  both booleans.\<close>

definition working_days_error :: "string list \<Rightarrow> string option" where
  "working_days_error ds =
     (if ds = [] then Some ''At least one working day must be selected''
      else if list_all (one_of week_days) ds then None else Some ''Invalid day selection'')"

definition join_schema :: "(string \<Rightarrow> bool) \<Rightarrow> join_form \<Rightarrow> (string \<times> string) list" where
  "join_schema is_email f = field_errors
     [(''first_name'', first_failing [(required, ''First name is required''),
         (max_len 100, ''First name must be at most 100 characters'')] (jn_first_name f)),
      (''last_name'', first_failing [(required, ''Last name is required''),
         (max_len 100, ''Last name must be at most 100 characters'')] (jn_last_name f)),
      (''email'', first_failing [(required, ''Email is required''), (email_test is_email, ''Invalid email format''),
         (max_len 255, ''Email must be at most 255 characters'')] (jn_email f)),
      (''password'', first_failing [(required, ''Password is required''), (password_regex, password_message)]
         (jn_password f)),
      (''password_confirmation'', first_failing [(required, ''Confirm password is required''),
         (\<lambda>v. v = jn_password f, ''Passwords must match'')] (jn_password_confirmation f)),
      (''gender'', first_failing [(required, ''Gender is required''),
         (one_of [''male'', ''female''], ''Invalid gender selection'')] (jn_gender f)),
      (''position'', first_failing [(required, ''Position is required''),
         (max_len 100, ''Position must be at most 100 characters'')] (jn_position f)),
      (''phone'', first_failing [(required, ''Phone number is required''),
         (phone_regex True, ''Invalid phone number'')] (jn_phone f)),
      (''user_type_id'', first_failing [(required, ''User type is required''),
         (one_of [''2''], ''Invalid user type'')] (jn_user_type_id f)),
      (''governorate_id'', first_failing [(required, ''Governorate is required'')] (jn_governorate_id f)),
      (''city_id'', first_failing [(required, ''City is required'')] (jn_city_id f)),
      (''pharmacy_name'', first_failing [(required, ''Pharmacy name is required''),
         (max_len 100, ''Pharmacy name must be at most 100 characters'')] (jn_pharmacy_name f)),
      (''pharmacy_address'', first_failing [(required, ''Pharmacy address is required''),
         (max_len 255, ''Pharmacy address must be at most 255 characters'')] (jn_pharmacy_address f)),
      (''pharmacy_postal_code'', first_failing [(required, ''Postal code is required''),
         (max_len 20, ''Postal code must be at most 20 characters'')] (jn_pharmacy_postal_code f)),
      (''pharmacy_phone'', first_failing [(required, ''Pharmacy phone is required''),
         (phone_regex True, ''Invalid pharmacy phone'')] (jn_pharmacy_phone f)),
      (''pharmacy_opening_time'', first_failing [(required, ''Opening time is required''),
         (time_regex, ''Invalid time format (HH:MM)'')] (jn_opening_time f)),
      (''pharmacy_closing_time'', first_failing [(required, ''Closing time is required''),
         (time_regex, ''Invalid time format (HH:MM)'')] (jn_closing_time f)),
      (''pharmacy_working_days'', working_days_error (jn_working_days f))]"

text \<open>Formik runs the submit handler only when the schema reports no error.\<close>

definition submits :: "(string \<times> string) list \<Rightarrow> bool" where
  "submits errs = (errs = [])"


subsection \<open>Reading a time of day\<close>

text \<open>Specification helpers: the hour and minute a matched time denotes, and the two-digit
  rendering of a time of day.\<close>

definition digit_val :: "char \<Rightarrow> nat" where
  "digit_val c = of_char c - 48"

fun time_value :: "string \<Rightarrow> nat \<times> nat" where
  "time_value [h, c, m1, m2] = (digit_val h, 10 * digit_val m1 + digit_val m2)"
| "time_value [h1, h2, c, m1, m2] = (10 * digit_val h1 + digit_val h2, 10 * digit_val m1 + digit_val m2)"
| "time_value _ = (0, 0)"

definition digit_char :: "nat \<Rightarrow> char" where
  "digit_char n = ''0123456789'' ! n"

definition format_time :: "nat \<Rightarrow> nat \<Rightarrow> string" where
  "format_time h m = [digit_char (h div 10), digit_char (h mod 10), CHR '':'',
                      digit_char (m div 10), digit_char (m mod 10)]"

definition demo_email :: "string \<Rightarrow> bool" where
  "demo_email s = (CHR ''@'' \<in> set s)"

definition demo_join :: join_form where
  "demo_join = \<lparr>jn_first_name = ''Mona'', jn_last_name = ''Adel'', jn_email = ''mona@example.com'',
     jn_password = ''Abcdef1'', jn_password_confirmation = ''Abcdef1'', jn_gender = ''female'',
     jn_position = ''owner'', jn_phone = ''01012345678'', jn_user_type_id = ''2'',
     jn_governorate_id = ''1'', jn_city_id = ''3'', jn_pharmacy_name = ''Nile'',
     jn_pharmacy_address = ''1 Nile St'', jn_pharmacy_postal_code = ''11511'',
     jn_pharmacy_phone = ''01112345678'', jn_opening_time = ''22:00'', jn_closing_time = ''08:00'',
     jn_working_days = [''monday''], jn_delivery = False\<rparr>"

section \<open>Lemmas\<close>

lemma first_failing_None [simp]:
  "first_failing ts v = None \<longleftrightarrow> list_all (\<lambda>(t, m). t v) ts"
  by (induction ts v rule: first_failing.induct) auto

lemma field_errors_Nil [simp]:
  "field_errors xs = [] \<longleftrightarrow> list_all (\<lambda>(n, e). e = None) xs"
  by (induction xs) (auto simp: field_errors_def split: option.splits)

lemma digit_val_le:
  "is_digit c \<Longrightarrow> digit_val c \<le> 9"
  by (auto simp: is_digit_def digit_val_def)

lemma below_ten:
  "(n::nat) < 10 \<Longrightarrow> n \<in> {0, 1, 2, 3, 4, 5, 6, 7, 8, 9}"
  by auto

lemma digit_char_in:
  assumes "n < k" "k \<le> 10"
  shows "digit_char n \<in> set (take k ''0123456789'')"
proof -
  have "take k ''0123456789'' ! n \<in> set (take k ''0123456789'')"
    by (rule nth_mem) (use assms in simp)
  with assms show ?thesis by (simp add: digit_char_def)
qed

lemma digit_val_char [simp]:
  "n < 10 \<Longrightarrow> digit_val (digit_char n) = n"
  by (drule below_ten) (auto simp: digit_val_def digit_char_def)

lemma is_digit_char [simp]:
  "n < 10 \<Longrightarrow> is_digit (digit_char n)"
  by (drule below_ten) (auto simp: is_digit_def digit_char_def)

lemma phone_tail_extend:
  "phone_tail True t \<Longrightarrow> phone_tail False (t @ s) \<and> (s \<noteq> [] \<longrightarrow> \<not> phone_tail True (t @ s))"
  by (cases t) auto

lemma take_common_prefix:
  "take (length q) xs = q \<Longrightarrow> take (length q') xs = q' \<Longrightarrow> take (length q') q = take (length q) q'"
  by (metis min.commute take_take)

lemma phone_prefix_unique:
  assumes "q \<in> set phone_prefixes" "q' \<in> set phone_prefixes"
    "take (length q) xs = q" "take (length q') xs = q'"
  shows "q = q'"
  using take_common_prefix [OF assms(3,4)] assms(1,2) by (auto simp: phone_prefixes_def)

lemma phone_regex_iff:
  "phone_regex a s \<longleftrightarrow> (\<exists>q \<in> set phone_prefixes. take (length q) s = q \<and> phone_tail a (drop (length q) s))"
  by (simp add: phone_regex_def list_ex_iff)

lemma phone_comma_accepted:
  "phone_regex True ''01,12345678'' \<and> phone_regex False ''01,12345678''"
  by (simp add: phone_regex_def phone_prefixes_def is_digit_def)

section \<open>Properties of the schemas\<close>

text \<open>C23. A password that passes the registration schema has between 6 and 11 characters and starts with an uppercase letter: the pattern bounds the length to 6..11, not to the 8 or more its message announces.\<close>

theorem signup_password_length:
  assumes "first_failing signup_password_tests p = None"
  shows "6 \<le> length p \<and> length p \<le> 11 \<and> is_upper (hd p)"
  using assms by (cases p) (auto simp: signup_password_tests_def required_def split: if_splits)

lemma signup_password_length_witness:
  "first_failing signup_password_tests ''Abcdef'' = None \<and> 6 \<le> length ''Abcdef'' \<and> length ''Abcdef'' \<le> 11"
  using signup_password_length [of "''Abcdef''"]
  by (simp add: signup_password_tests_def required_def is_upper_def password_char_def is_lower_def)

text \<open>The password rule is not the one its message states: a six-character password without digit or special character passes, and a twelve-character password with all four kinds of character is rejected with the message that asks for them.\<close>

theorem password_message_not_enforced:
  "first_failing signup_password_tests ''Abcdef'' = None \<and>
   first_failing signup_password_tests ''Abcdefgh12#$'' = Some password_message"
  by (simp add: signup_password_tests_def required_def is_upper_def password_char_def is_lower_def is_digit_def)

text \<open>The customer registration phone pattern has no end anchor: a number accepted by the anchored pattern of the pharmacy registration stays accepted with any suffix, which the anchored pattern rejects.\<close>

theorem signup_phone_accepts_suffix:
  assumes "phone_regex True p"
  shows "phone_regex False (p @ s) \<and> (s \<noteq> [] \<longrightarrow> \<not> phone_regex True (p @ s))"
proof -
  from assms obtain q where q: "q \<in> set phone_prefixes" "take (length q) p = q"
    "phone_tail True (drop (length q) p)" by (auto simp: phone_regex_iff)
  then have "drop (length q) p \<noteq> []" by auto
  then have len: "length q \<le> length p" by simp
  then have tk: "take (length q) (p @ s) = q" and dr: "drop (length q) (p @ s) = drop (length q) p @ s"
    using q(2) by simp_all
  have "phone_regex False (p @ s)"
    using q(1) tk dr phone_tail_extend [OF q(3)] by (auto simp: phone_regex_iff)
  moreover have "\<not> phone_regex True (p @ s)" if "s \<noteq> []"
  proof
    assume "phone_regex True (p @ s)"
    then obtain q' where q': "q' \<in> set phone_prefixes" "take (length q') (p @ s) = q'"
      "phone_tail True (drop (length q') (p @ s))" by (auto simp: phone_regex_iff)
    with q(1) tk have "q' = q" using phone_prefix_unique by blast
    with q' dr phone_tail_extend [OF q(3)] that show False by simp
  qed
  ultimately show ?thesis by blast
qed

lemma signup_phone_accepts_suffix_witness:
  "phone_regex True ''01012345678'' \<and> phone_regex False ''01012345678xyz'' \<and> \<not> phone_regex True ''01012345678xyz''"
  using signup_phone_accepts_suffix [of "''01012345678''" "''xyz''"]
  by (simp add: phone_regex_def phone_prefixes_def is_digit_def)

text \<open>C26. Round trip of the opening and closing time pattern: every time of day with hour below 24 and minute below 60, written with two-digit fields, matches the pattern and reads back as the same hour and minute.\<close>

theorem time_regex_roundtrip:
  assumes "h < 24" "m < 60"
  shows "time_regex (format_time h m) \<and> time_value (format_time h m) = (h, m)"
proof -
  have hr: "hour_regex [digit_char (h div 10), digit_char (h mod 10)]"
  proof (cases "h < 20")
    case True
    then have "digit_char (h div 10) \<in> set ''01''" using digit_char_in [of "h div 10" 2] by simp
    then show ?thesis by simp
  next
    case False
    with assms have "h div 10 = 2" "h mod 10 < 4" by presburger+
    then have "digit_char (h div 10) = CHR ''2''" "digit_char (h mod 10) \<in> set ''0123''"
      using digit_char_in [of "h mod 10" 4] by (simp_all add: digit_char_def)
    then show ?thesis by simp
  qed
  have "digit_char (m div 10) \<in> set ''012345''" using assms digit_char_in [of "m div 10" 6] by simp
  then have mr: "minute_regex (digit_char (m div 10)) (digit_char (m mod 10))"
    by (simp add: minute_regex_def)
  have tr: "time_regex (format_time h m)"
    using hr mr by (simp add: format_time_def del: hour_regex.simps)
  have "h div 10 < 10" "h mod 10 < 10" "m div 10 < 10" "m mod 10 < 10" using assms by auto
  then have "time_value (format_time h m) = (h, m)" by (simp add: format_time_def)
  with tr show ?thesis by simp
qed

lemma time_regex_roundtrip_witness:
  "(22::nat) < 24 \<and> (5::nat) < 60 \<and> time_regex (format_time 22 5) \<and> time_value (format_time 22 5) = (22, 5)"
  using time_regex_roundtrip [of 22 5] by simp

text \<open>Every string the time pattern accepts denotes an hour below 24 and a minute below 60.\<close>

theorem time_regex_sound:
  assumes "time_regex s"
  shows "fst (time_value s) < 24 \<and> snd (time_value s) < 60"
proof (cases s rule: time_regex.cases)
  case (1 h c m1 m2)
  with assms have "is_digit h" "m1 \<in> set ''012345''" "is_digit m2" by (simp_all add: minute_regex_def)
  then show ?thesis using 1 by (auto simp: digit_val_def dest!: digit_val_le)
next
  case (2 h1 h2 c m1 m2)
  with assms have "(h1 \<in> set ''01'' \<and> is_digit h2) \<or> (h1 = CHR ''2'' \<and> h2 \<in> set ''0123'')"
    "m1 \<in> set ''012345''" "is_digit m2" by (simp_all add: minute_regex_def)
  then show ?thesis using 2 by (auto simp: digit_val_def dest!: digit_val_le)
qed (use assms in simp_all)

lemma time_regex_sound_witness:
  "time_regex ''9:30'' \<and> fst (time_value ''9:30'') < 24 \<and> snd (time_value ''9:30'') < 60"
proof -
  have m: "time_regex ''9:30''" by (simp add: is_digit_def minute_regex_def)
  show ?thesis using time_regex_sound [OF m] m by simp
qed

text \<open>The pharmacy registration schema checks each time on its own: a form whose closing time comes before its opening time on the same day passes validation and is submitted.\<close>

theorem join_accepts_inverted_hours:
  "submits (join_schema demo_email demo_join) \<and>
   fst (time_value (jn_closing_time demo_join)) < fst (time_value (jn_opening_time demo_join))"
  by (simp add: submits_def join_schema_def demo_join_def demo_email_def required_def max_len_def email_test_def one_of_def
       password_char_def is_upper_def is_lower_def is_digit_def phone_regex_def phone_prefixes_def
       minute_regex_def working_days_error_def week_days_def digit_val_def)

end
