(* ===== verification/Auth.thy ===== *)
theory Auth
  imports Checkout Validation
begin

text \<open>
  How the session is created and destroyed, and what that does to the cart: sign-in
  (\<open>handleLogin\<close>, \<open>src/src/Pages/SignIn/SignIn.jsx\<close>), registration
  (\<open>handleRegister\<close> of \<open>Pages/Signup/Signup.jsx\<close> and \<open>Pages/Join/Join.jsx\<close>), the
  four sign-out handlers (\<open>Pages/Navbar/Navbar.jsx\<close>, \<open>components/UserNavbar.jsx\<close>,
  \<open>components/PhNavbar.jsx\<close>, \<open>components/Sidebar.jsx\<close>), the route guard
  (\<open>Pages/ProtectRoute/ProtectRoute.jsx\<close>), and the two effects that reload the cart
  when the token changes: \<open>CartProvider\<close>'s (\<open>Context/CartContext.jsx\<close>) and the cart
  page's (\<open>Pages/Cart/Cart.jsx\<close>). The application state \<open>app\<close> gathers the session
  context, \<open>localStorage\<close>, the engine's cart, the current route, the requests sent and
  the effects shown.
\<close>

section \<open>Application state\<close>

record app =
  app_session :: session
  app_store :: "string \<rightharpoonup> string"
  app_cart :: "cart_item list"
  app_route :: string
  app_sent :: "request list"
  app_effects :: "effect list"

text \<open>The local state of a sign-in or registration form.\<close>

record form_page =
  fp_loading :: bool
  fp_api_error :: string

text \<open>The reply of \<open>/auth/login\<close> and \<open>/auth/register\<close>: a rejected request with
  \<open>error.response?.data?.message\<close>, or \<open>response.data\<close> with \<open>success === true\<close>, its
  \<open>message\<close> and its \<open>data\<close> (tokens and user).\<close>

record login_data =
  ld_access :: token
  ld_refresh :: token
  ld_user :: profile

datatype auth_reply = AuthNetError "string option" | AuthReply bool "string option" "login_data option"

text \<open>\<open>m || d\<close> for an optional message.\<close>

definition msg_or :: "string option \<Rightarrow> string \<Rightarrow> string" where
  "msg_or m d = (case m of None \<Rightarrow> d | Some s \<Rightarrow> if s = [] then d else s)"

section \<open>Sign-in\<close>

definition form_submit :: "form_page \<Rightarrow> form_page" where
  "form_submit pg = pg\<lparr>fp_loading := True, fp_api_error := []\<rparr>"

definition dashboard_of :: "string \<Rightarrow> string" where
  "dashboard_of t = (if t = ''user'' then ''/userdashboard'' else ''/pharmacydashboard'')"

text \<open>\<open>handleLogin\<close> after its request. On success it writes the tokens, the user (as
  \<open>enc\<close>, \<open>JSON.stringify\<close>) and the type to \<open>localStorage\<close>, sets the session, and
  calls \<open>fetchCart()\<close>: the function of the render that started the sign-in, whose
  closure holds the login of that moment, so it runs with \<open>userLogin\<close> as it was before
  (\<open>rs\<close> are the replies that fetch would receive). Reading \<open>data.data\<close> of a success
  without data throws; the catch shows \<open>Login failed\<close>.\<close>

definition sign_in_resume ::
  "(profile \<Rightarrow> string) \<Rightarrow> auth_reply \<Rightarrow> reply list \<Rightarrow> app \<times> form_page \<Rightarrow> app \<times> form_page" where
  "sign_in_resume enc r rs ap =
     (let (a, pg) = ap in
      case r of
        AuthReply True m (Some d) \<Rightarrow>
          (let u = ld_user d; fc = run_op (userLogin (app_session a)) FetchCart rs (app_cart a) in
           (a\<lparr>app_session := (app_session a)\<lparr>userLogin := LoginObj (ld_access d) u, userType := Some (user_type u)\<rparr>,
              app_store := (app_store a)(''userToken'' \<mapsto> ld_access d, ''userData'' \<mapsto> enc u,
                                         ''refreshToken'' \<mapsto> ld_refresh d, ''userType'' \<mapsto> user_type u),
              app_cart := run_items fc, app_sent := app_sent a @ run_sent fc,
              app_route := dashboard_of (user_type u),
              app_effects := app_effects a @ run_effects fc @
                [ToastSuccess ''User Sign in successfully'', NavigateTo (dashboard_of (user_type u))]\<rparr>,
            pg\<lparr>fp_loading := False\<rparr>))
      | AuthReply True m None \<Rightarrow> (a, pg\<lparr>fp_loading := False, fp_api_error := ''Login failed''\<rparr>)
      | AuthReply False m d \<Rightarrow>
          (a\<lparr>app_effects := app_effects a @ [ToastError (msg_or m ''Login failed'')]\<rparr>,
           pg\<lparr>fp_loading := False, fp_api_error := msg_or m ''Login failed''\<rparr>)
      | AuthNetError m \<Rightarrow> (a, pg\<lparr>fp_loading := False, fp_api_error := msg_or m ''Login failed''\<rparr>))"

section \<open>Registration\<close>

text \<open>\<open>handleRegister\<close> of both forms: on success the tokens go to \<open>localStorage\<close>
  (not the user), the session becomes the bare access token, and the user is sent to the
  sign-in page; \<open>Signup.jsx\<close> also shows a toast, \<open>Join.jsx\<close> does not.\<close>

definition register_resume :: "bool \<Rightarrow> auth_reply \<Rightarrow> app \<times> form_page \<Rightarrow> app \<times> form_page" where
  "register_resume with_toast r ap =
     (let (a, pg) = ap in
      case r of
        AuthReply True m (Some d) \<Rightarrow>
          (a\<lparr>app_session := (app_session a)\<lparr>userLogin := LoginStr (ld_access d)\<rparr>,
              app_store := (app_store a)(''userToken'' \<mapsto> ld_access d, ''refreshToken'' \<mapsto> ld_refresh d),
              app_route := ''/signin'',
              app_effects := app_effects a @ [NavigateTo ''/signin''] @
                (if with_toast then [ToastSuccess ''User Sign Up successfully''] else [])\<rparr>,
           pg\<lparr>fp_loading := False\<rparr>)
      | AuthReply True m None \<Rightarrow> (a, pg\<lparr>fp_loading := False, fp_api_error := ''Registration failed. Please try again.''\<rparr>)
      | AuthReply False m d \<Rightarrow> (a, pg\<lparr>fp_loading := False, fp_api_error := msg_or m ''Registration failed.''\<rparr>)
      | AuthNetError m \<Rightarrow> (a, pg\<lparr>fp_loading := False, fp_api_error := msg_or m ''Registration failed. Please try again.''\<rparr>))"

definition signup_register :: "auth_reply \<Rightarrow> app \<times> form_page \<Rightarrow> app \<times> form_page" where
  "signup_register = register_resume True"

definition join_register :: "auth_reply \<Rightarrow> app \<times> form_page \<Rightarrow> app \<times> form_page" where
  "join_register = register_resume False"

section \<open>Sign-out\<close>

text \<open>All four handlers remove the tokens and the type from \<open>localStorage\<close> (not
  \<open>userData\<close>) and clear the session. Only the public navbar empties the cart.
  \<open>UserNavbar\<close> and \<open>PhNavbar\<close> call \<open>navigate\<close> and \<open>toast\<close> without defining or
  importing them: the handler throws there, and the enclosing \<open>Link to="/signin"\<close>
  navigates.\<close>

definition clear_session :: "app \<Rightarrow> app" where
  "clear_session a =
     a\<lparr>app_store := (app_store a)(''userToken'' := None, ''refreshToken'' := None, ''userType'' := None),
       app_session := (app_session a)\<lparr>userLogin := LoginNull, userType := None\<rparr>\<rparr>"

definition navbar_logout :: "app \<Rightarrow> app" where
  "navbar_logout a =
     (let a' = clear_session a in
      a'\<lparr>app_cart := [], app_route := ''/signin'',
         app_effects := app_effects a' @ [NavigateTo ''/signin'', ToastError ''User Sign Out'']\<rparr>)"

definition user_navbar_logout :: "app \<Rightarrow> app" where
  "user_navbar_logout a =
     (let a' = clear_session a in
      a'\<lparr>app_route := ''/signin'', app_effects := app_effects a' @ [ConsoleError ''ReferenceError: navigate is not defined'']\<rparr>)"

definition ph_navbar_logout :: "app \<Rightarrow> app" where
  "ph_navbar_logout a = user_navbar_logout a"

definition sidebar_logout :: "app \<Rightarrow> app" where
  "sidebar_logout a =
     (let a' = clear_session a in
      a'\<lparr>app_route := ''/signin'', app_effects := app_effects a' @ [NavigateTo ''/signin'', ToastError ''User Sign Out'']\<rparr>)"

section \<open>The route guard and the cart page\<close>

datatype guard_result = Spinner | RedirectTo string | RenderChildren

text \<open>\<open>ProtectRoute\<close> with the optional \<open>for\<close> prop (\<open>None\<close> when absent; an empty
  string is falsy like an absent one).\<close>

definition protect_route :: "session \<Rightarrow> string option \<Rightarrow> guard_result" where
  "protect_route s req =
     (if loading s then Spinner
      else if login_token (userLogin s) = None then RedirectTo ''/signin''
      else case req of
        Some t \<Rightarrow>
          (if t \<noteq> [] \<and> userType s \<noteq> Some t then
             (if userType s = Some ''user'' then RedirectTo ''/userdashboard''
              else if userType s = Some ''pharmacy'' then RedirectTo ''/pharmacydashboard''
              else RedirectTo ''/signin'')
           else RenderChildren)
      | None \<Rightarrow> RenderChildren)"

text \<open>The cart page's effect: when it mounts, or the token changes, with a token it runs
  \<open>fetchCart()\<close> of the current render.\<close>

definition cart_page_effect :: "reply list \<Rightarrow> app \<Rightarrow> app" where
  "cart_page_effect rs a =
     (case login_token (userLogin (app_session a)) of
        None \<Rightarrow> a
      | Some t \<Rightarrow>
          (let fc = run_op (userLogin (app_session a)) FetchCart rs (app_cart a) in
           a\<lparr>app_cart := run_items fc, app_sent := app_sent a @ run_sent fc,
             app_effects := app_effects a @ run_effects fc\<rparr>))"




text \<open>\<open>userLogin?.user?.user_type\<close>.\<close>

fun login_type :: "user_login \<Rightarrow> string option" where
  "login_type (LoginObj t p) = Some (user_type p)"
| "login_type _ = None"

text \<open>The public navbar's user type: \<open>localStorage.userType\<close>, or the login's.\<close>

definition navbar_user_type :: "app \<Rightarrow> string option" where
  "navbar_user_type a =
     (case app_store a ''userType'' of
        Some t \<Rightarrow> if t \<noteq> [] then Some t else login_type (userLogin (app_session a))
      | None \<Rightarrow> login_type (userLogin (app_session a)))"

definition demo_user_b :: profile where
  "demo_user_b = \<lparr>first_name = ''Hana'', last_name = ''Samy'', user_type = ''user'', pharmacy = None\<rparr>"

definition demo_login_data :: login_data where
  "demo_login_data = \<lparr>ld_access = ''tok-2'', ld_refresh = ''ref-2'', ld_user = demo_user_b\<rparr>"

definition demo_form_page :: form_page where
  "demo_form_page = \<lparr>fp_loading = True, fp_api_error = []\<rparr>"

definition demo_app :: app where
  "demo_app = \<lparr>app_session = session_init\<lparr>userLogin := demo_login, userType := Some ''user'', loading := False\<rparr>,
     app_store = Map.empty(''userToken'' \<mapsto> ''tok-1''), app_cart = [line_of 1 50 2], app_route = ''/userdashboard'',
     app_sent = [], app_effects = []\<rparr>"

definition demo_reg_data :: login_data where
  "demo_reg_data = \<lparr>ld_access = ''tok-9'', ld_refresh = ''ref-9'',
     ld_user = \<lparr>first_name = ''Omar'', last_name = ''Ali'', user_type = ''user'', pharmacy = None\<rparr>\<rparr>"

text \<open>\<open>JSON.stringify\<close> and \<open>JSON.parse\<close> restricted to the one stored user of the
  examples.\<close>

definition enc_demo :: "profile \<Rightarrow> string" where
  "enc_demo u = ''{first_name:'' @ first_name u @ ''}''"

definition parse_demo :: "string \<Rightarrow> profile option" where
  "parse_demo x = (if x = enc_demo demo_user_b then Some demo_user_b else None)"

section \<open>Lemmas\<close>


lemma sign_in_resume_success:
  "sign_in_resume enc (AuthReply True m (Some d)) rs (a, pg) =
     (let u = ld_user d; fc = run_op (userLogin (app_session a)) FetchCart rs (app_cart a) in
      (a\<lparr>app_session := (app_session a)\<lparr>userLogin := LoginObj (ld_access d) u, userType := Some (user_type u)\<rparr>,
         app_store := (app_store a)(''userToken'' \<mapsto> ld_access d, ''userData'' \<mapsto> enc u,
                                    ''refreshToken'' \<mapsto> ld_refresh d, ''userType'' \<mapsto> user_type u),
         app_cart := run_items fc, app_sent := app_sent a @ run_sent fc,
         app_route := dashboard_of (user_type u),
         app_effects := app_effects a @ run_effects fc @
           [ToastSuccess ''User Sign in successfully'', NavigateTo (dashboard_of (user_type u))]\<rparr>,
       pg\<lparr>fp_loading := False\<rparr>))"
  by (simp add: sign_in_resume_def)


lemma sign_out_keeps [simp]:
  "lo \<in> {navbar_logout, user_navbar_logout, ph_navbar_logout, sidebar_logout} \<Longrightarrow>
   app_store (lo a) ''userData'' = app_store a ''userData'' \<and> loading (app_session (lo a)) = loading (app_session a)"
  by (auto simp: navbar_logout_def user_navbar_logout_def ph_navbar_logout_def sidebar_logout_def clear_session_def Let_def)

lemma sign_out_login [simp]:
  "userLogin (app_session (user_navbar_logout a)) = LoginNull"
  "userLogin (app_session (navbar_logout a)) = LoginNull"
  "app_cart (user_navbar_logout a) = app_cart a"
  "app_cart (navbar_logout a) = []"
  "app_sent (user_navbar_logout a) = app_sent a"
  by (simp_all add: user_navbar_logout_def navbar_logout_def clear_session_def Let_def)

section \<open>Properties of the session lifecycle\<close>



text \<open>C39. A successful customer registration stores the bare token as the session
  and leaves the stored user data alone, which no sign-out handler removes. After a
  customer A has signed in and signed out through any of the four handlers and a customer
  B registers in the same browser, every protected route redirects to the sign-in page,
  and a reload restores a session that pairs B's token with A's profile.\<close>

theorem registration_session_unusable:
  assumes "parse (enc (ld_user dA)) = Some (ld_user dA)" "enc (ld_user dA) \<noteq> []" "ld_access dB \<noteq> []"
    and "\<not> loading (app_session a)" "lo \<in> {navbar_logout, user_navbar_logout, ph_navbar_logout, sidebar_logout}"
  shows "protect_route (app_session (fst (signup_register (AuthReply True mB (Some dB))
           (lo (fst (sign_in_resume enc (AuthReply True mA (Some dA)) rs (a, pg))), pg')))) req = RedirectTo ''/signin'' \<and>
         (\<exists>s'. user_context_bootstrap (app_store (fst (signup_register (AuthReply True mB (Some dB))
                  (lo (fst (sign_in_resume enc (AuthReply True mA (Some dA)) rs (a, pg))), pg')))) parse s = Some s' \<and>
               userLogin s' = LoginObj (ld_access dB) (ld_user dA))"
proof -
  let ?a1 = "fst (sign_in_resume enc (AuthReply True mA (Some dA)) rs (a, pg))"
  have a1: "app_store ?a1 ''userData'' = Some (enc (ld_user dA))" "\<not> loading (app_session ?a1)"
    using assms(4) by (simp_all add: sign_in_resume_success Let_def del: run_op.simps)
  have a2: "app_store (lo ?a1) ''userData'' = Some (enc (ld_user dA))" "\<not> loading (app_session (lo ?a1))"
    using a1 sign_out_keeps [OF assms(5), of ?a1] by simp_all
  show ?thesis
    using a2 assms(1-3)
    by (simp add: signup_register_def register_resume_def protect_route_def user_context_bootstrap_def)
qed

lemma registration_session_unusable_witness:
  "parse_demo (enc_demo (ld_user demo_login_data)) = Some (ld_user demo_login_data) \<and>
   enc_demo (ld_user demo_login_data) \<noteq> [] \<and> ld_access demo_reg_data \<noteq> [] \<and> \<not> loading (app_session demo_app) \<and>
   sidebar_logout \<in> {navbar_logout, user_navbar_logout, ph_navbar_logout, sidebar_logout} \<and>
   protect_route (app_session (fst (signup_register (AuthReply True None (Some demo_reg_data))
     (sidebar_logout (fst (sign_in_resume enc_demo (AuthReply True None (Some demo_login_data)) [] (demo_app, demo_form_page))),
      demo_form_page)))) (Some ''user'') = RedirectTo ''/signin'' \<and>
   (\<exists>s'. user_context_bootstrap (app_store (fst (signup_register (AuthReply True None (Some demo_reg_data))
     (sidebar_logout (fst (sign_in_resume enc_demo (AuthReply True None (Some demo_login_data)) [] (demo_app, demo_form_page))),
      demo_form_page)))) parse_demo session_init = Some s' \<and> userLogin s' = LoginObj ''tok-9'' demo_user_b)"
proof -
  have h: "parse_demo (enc_demo (ld_user demo_login_data)) = Some (ld_user demo_login_data)"
    "enc_demo (ld_user demo_login_data) \<noteq> []" "ld_access demo_reg_data \<noteq> []" "\<not> loading (app_session demo_app)"
    "sidebar_logout \<in> {navbar_logout, user_navbar_logout, ph_navbar_logout, sidebar_logout}"
    by (simp_all add: parse_demo_def enc_demo_def demo_reg_data_def demo_app_def demo_login_data_def)
  have v: "ld_access demo_reg_data = ''tok-9''" "ld_user demo_login_data = demo_user_b"
    by (simp_all add: demo_reg_data_def demo_login_data_def)
  show ?thesis
    using h registration_session_unusable [where parse = parse_demo and enc = enc_demo and dA = demo_login_data
      and dB = demo_reg_data and a = demo_app and lo = sidebar_logout and mB = None and mA = None and rs = "[]"
      and pg = demo_form_page and pg' = demo_form_page and req = "Some ''user''" and s = session_init, OF h] v
    by simp
qed

text \<open>C40. The route guard renders its content only for a loaded session whose token passes the guard and, when the route names a user type, whose type is that one.\<close>

theorem protect_route_sound:
  assumes "protect_route s req = RenderChildren"
  shows "\<not> loading s \<and> login_token (userLogin s) \<noteq> None \<and>
         (\<forall>t. req = Some t \<longrightarrow> t \<noteq> [] \<longrightarrow> userType s = Some t)"
  using assms by (auto simp: protect_route_def split: if_splits option.splits)

lemma protect_route_sound_witness:
  "protect_route (app_session demo_app) (Some ''user'') = RenderChildren \<and> \<not> loading (app_session demo_app) \<and>
   login_token (userLogin (app_session demo_app)) \<noteq> None"
proof -
  have r: "protect_route (app_session demo_app) (Some ''user'') = RenderChildren"
    by (simp add: protect_route_def demo_app_def demo_login_def)
  show ?thesis using protect_route_sound [OF r] r by simp
qed

end
