(* ===== verification/MedicationDetails.thy ===== *)
theory MedicationDetails
  imports Auth CartServer
begin

text \<open>
  The product page, \<open>MedicationDetails\<close> in
  \<open>src/src/Pages/MedicationDetails/MedicationDetails.jsx\<close>. It fetches one medication
  by the route's id, renders it with three information tabs, and has its own
  \<open>addToCart\<close>: it posts to the cart service directly (not through the cart context's
  \<open>addToCart\<close>) after a pre-check against the 10-unit bound, and then reloads the cart
  through the context's \<open>fetchCart\<close>. The pre-check looks the line up by
  \<open>item.medication_id\<close>, a key the context's cart lines do not have.
\<close>

section \<open>Data and page state\<close>

text \<open>\<open>medication.category\<close> is a string, an object with an optional \<open>name\<close>, or absent.\<close>

datatype md_category = CatString string | CatObject "string option" | CatAbsent

text \<open>\<open>data.data\<close> of \<open>/medications/:id\<close>, with the fields the page reads; the
  optional ones are read through \<open>?.\<close> or \<open>||\<close>.\<close>

record med_details =
  md_id :: med_id
  md_name :: string
  md_generic_name :: "string option"
  md_price :: int
  md_in_stock :: bool
  md_image :: "string option"
  md_category :: md_category
  md_pharmacy_name :: "string option"
  md_description :: "string option"
  md_active_ingredients :: "string option"
  md_expiry_date :: "string option"
  md_manufacturer :: "string option"
  md_dosage :: "string option"
  md_side_effects :: "string option"

record md_page =
  md_cnt :: int
  md_active_tab :: string
  md_medication :: "med_details option"
  md_loading :: bool
  md_error :: "string option"
  md_login_modal :: bool

definition md_init :: md_page where
  "md_init = \<lparr>md_cnt = 1, md_active_tab = ''Description'', md_medication = None, md_loading = True,
     md_error = None, md_login_modal = False\<rparr>"

section \<open>Fetching the medication\<close>

text \<open>The reply of \<open>GET /medications/:id\<close>: its \<open>data.data\<close> (possibly \<open>null\<close>), or a
  failure with \<open>err.response?.data?.message\<close>.\<close>

datatype md_reply = MdOk "med_details option" | MdFail "string option"

definition md_fetch_call :: "md_page \<Rightarrow> md_page" where
  "md_fetch_call st = st\<lparr>md_loading := True, md_error := None\<rparr>"

definition md_fetch_resume :: "md_reply \<Rightarrow> md_page \<Rightarrow> md_page" where
  "md_fetch_resume r st =
     (case r of
        MdOk d \<Rightarrow> st\<lparr>md_medication := d, md_loading := False\<rparr>
      | MdFail m \<Rightarrow> st\<lparr>md_error := Some (msg_or m ''Failed to fetch medication details''), md_loading := False\<rparr>)"

section \<open>The page's addToCart\<close>

text \<open>A line of the cart context as a JavaScript object (\<open>fetchCart\<close> in
  \<open>CartContext.jsx\<close> builds it with the keys \<open>id\<close>, \<open>name\<close>, \<open>image\<close>, \<open>price\<close>,
  \<open>quantity\<close> and \<open>pharmacy\<close>): reading any other key gives \<open>undefined\<close>.\<close>

definition cart_item_key :: "cart_item \<Rightarrow> string \<Rightarrow> js_val" where
  "cart_item_key it k =
     (if k = ''id'' then JsNum (int (item_id it)) else if k = ''name'' then JsStr (item_name it)
      else if k = ''image'' then JsStr (item_image it) else if k = ''price'' then JsNum (item_price it)
      else if k = ''quantity'' then JsNum (item_quantity it) else if k = ''pharmacy'' then JsStr (item_pharmacy it)
      else JsUndefined)"

text \<open>\<open>currentQty\<close>: the quantity of the line whose \<open>medication_id\<close> is the id, else 0.\<close>

definition md_current_qty :: "cart_item list \<Rightarrow> med_id \<Rightarrow> int" where
  "md_current_qty items i =
     (case find (\<lambda>it. cart_item_key it ''medication_id'' = JsNum (int i)) items of
        None \<Rightarrow> 0
      | Some it \<Rightarrow> item_quantity it)"

text \<open>\<open>addToCart(medicationId, quantity)\<close> up to its request: without a token the
  sign-in modal opens; past the bound a toast; otherwise the post to \<open>/cart/add\<close>.\<close>

definition md_add_call ::
  "user_login \<Rightarrow> cart_item list \<Rightarrow> med_id \<Rightarrow> int \<Rightarrow> md_page \<Rightarrow> md_page \<times> effect list \<times> request option" where
  "md_add_call u items i q st =
     (case login_token u of
        None \<Rightarrow> (st\<lparr>md_login_modal := True\<rparr>, [], None)
      | Some t \<Rightarrow>
          (if 10 < md_current_qty items i + q
           then (st, [ToastError ''You cannot add more than 10 items of this medication''], None)
           else (st, [], Some (PostCartAdd t i q))))"

text \<open>After the post: a success toast and the context's \<open>fetchCart()\<close>, or an error toast.
  A rejected request carries no message in the reply model, so the toast shows the
  page's fallback.\<close>

definition md_add_resume :: "user_login \<Rightarrow> reply \<Rightarrow> reply list \<Rightarrow> cart_item list \<Rightarrow> effect list \<times> run_out" where
  "md_add_resume u r rs items =
     (case r of
        NetError \<Rightarrow> ([ToastError ''Failed to add medication to cart''],
                     \<lparr>run_items = items, run_sent = [], run_effects = []\<rparr>)
      | Reply b \<Rightarrow> ([ToastSuccess ''Medication added successfully''], run_op u FetchCart rs items))"

text \<open>The whole click against the cart service: the post is served, then the reload runs
  to completion against the service.\<close>

definition md_add_served ::
  "user_login \<Rightarrow> med_id \<Rightarrow> int \<Rightarrow> server \<Rightarrow> cart_item list \<Rightarrow> md_page \<Rightarrow> md_page \<times> server \<times> cart_item list" where
  "md_add_served u i q s items st =
     (case md_add_call u items i q st of
        (st', effs, None) \<Rightarrow> (st', s, items)
      | (st', effs, Some rq) \<Rightarrow>
          (case serve rq s of
             (s1, NetError) \<Rightarrow> (st', s1, items)
           | (s1, Reply b) \<Rightarrow> (let (s2, items2) = served_op u FetchCart s1 items in (st', s2, items2))))"

section \<open>Other handlers\<close>

definition md_set_tab :: "string \<Rightarrow> md_page \<Rightarrow> md_page" where
  "md_set_tab l st = st\<lparr>md_active_tab := l\<rparr>"

definition md_modal_cancel :: "md_page \<Rightarrow> md_page" where
  "md_modal_cancel st = st\<lparr>md_login_modal := False\<rparr>"

definition md_modal_sign_in :: "md_page \<Rightarrow> md_page \<times> effect list" where
  "md_modal_sign_in st = (st\<lparr>md_login_modal := False\<rparr>, [NavigateTo ''/signin''])"

section \<open>The rendered page\<close>

definition md_category_text :: "md_category \<Rightarrow> string" where
  "md_category_text c = (case c of CatString s \<Rightarrow> s | CatObject n \<Rightarrow> msg_or n ''N/A'' | CatAbsent \<Rightarrow> ''N/A'')"

text \<open>The three tabs, each as the headings and texts it shows.\<close>

definition md_tabs :: "med_details \<Rightarrow> (string \<times> (string \<times> string) list) list" where
  "md_tabs m =
     [(''Description'', [(''Description'', msg_or (md_description m) ''No description available.'')]),
      (''Details'', [(''Active Ingredients'', msg_or (md_active_ingredients m) ''N/A''),
                     (''Expiry Date'', msg_or (md_expiry_date m) ''N/A''),
                     (''Manufacturer'', msg_or (md_manufacturer m) ''N/A''),
                     (''Storage Instructions'', ''Store at room temperature away from moisture and heat.'')]),
      (''Usage & Side Effects'', [(''Dosage'', msg_or (md_dosage m) ''N/A''),
                                  (''Side Effects'', msg_or (md_side_effects m) ''N/A'')])]"

record md_body =
  mb_breadcrumb :: string
  mb_image :: string
  mb_name :: string
  mb_generic :: string
  mb_price :: int
  mb_stock_badge :: string
  mb_category :: string
  mb_sold_by :: string
  mb_add_disabled :: bool
  mb_add_args :: "med_id \<times> int"
  mb_tab_buttons :: "(string \<times> bool) list"
  mb_tab_content :: "(string \<times> string) list option"
  mb_login_modal :: bool

datatype md_view = MdSpinner | MdErrorText string | MdNotFound | MdPage md_body

text \<open>The page once loaded; \<open>tabs.find(t => t.label === activeTab)?.content\<close> is the
  first tab with the active label.\<close>

definition md_body_of :: "md_page \<Rightarrow> med_details \<Rightarrow> md_body" where
  "md_body_of st m =
     \<lparr>mb_breadcrumb = md_name m, mb_image = msg_or (md_image m) ''placeholder.svg'', mb_name = md_name m,
      mb_generic = msg_or (md_generic_name m) ''N/A'', mb_price = md_price m,
      mb_stock_badge = (if md_in_stock m then ''In Stock'' else ''Out of Stock''),
      mb_category = md_category_text (md_category m), mb_sold_by = msg_or (md_pharmacy_name m) ''N/A'',
      mb_add_disabled = (\<not> md_in_stock m), mb_add_args = (md_id m, md_cnt st),
      mb_tab_buttons = map (\<lambda>(l, c). (l, md_active_tab st = l)) (md_tabs m),
      mb_tab_content = map_of (md_tabs m) (md_active_tab st),
      mb_login_modal = md_login_modal st\<rparr>"

definition md_view_of :: "md_page \<Rightarrow> md_view" where
  "md_view_of st =
     (if md_loading st then MdSpinner
      else case md_error st of
        Some e \<Rightarrow> if e \<noteq> [] then MdErrorText e else
          (case md_medication st of None \<Rightarrow> MdNotFound | Some m \<Rightarrow> MdPage (md_body_of st m))
      | None \<Rightarrow> (case md_medication st of None \<Rightarrow> MdNotFound | Some m \<Rightarrow> MdPage (md_body_of st m)))"

section \<open>Lemmas\<close>

lemma server_map_add_quantity:
  "server_map (map (\<lambda>l. if line_key l = i then l\<lparr>line_quantity := line_quantity l + q\<rparr> else l) ls) i =
   map_option (\<lambda>v. v + q) (server_map ls i)"
  unfolding server_map_def2 by (induction ls) auto

lemma md_current_qty_zero [simp]:
  "md_current_qty items i = 0"
  by (simp add: md_current_qty_def cart_item_key_def find_None_iff)

lemma md_add_call_token:
  "login_token u = Some t \<Longrightarrow> q \<le> 10 \<Longrightarrow> md_add_call u items i q st = (st, [], Some (PostCartAdd t i q))"
  by (simp add: md_add_call_def)

lemma md_add_signed_out:
  "login_token u = None \<Longrightarrow> md_add_served u i q s items st = (st\<lparr>md_login_modal := True\<rparr>, s, items)"
  by (simp add: md_add_served_def md_add_call_def)

lemma md_add_served_increments:
  assumes wf: "server_wf s" and tok: "login_token u = Some (srv_token s)" and sy: "synced items s"
    and cur: "cart_map items i = Some v"
  shows "cart_map (snd (snd (md_add_served u i 1 s items st))) i = Some (v + 1) \<and>
         server_map (srv_lines (fst (snd (md_add_served u i 1 s items st)))) i = Some (v + 1) \<and>
         synced (snd (snd (md_add_served u i 1 s items st))) (fst (snd (md_add_served u i 1 s items st))) \<and>
         server_wf (fst (snd (md_add_served u i 1 s items st)))"
proof -
  let ?s1 = "s\<lparr>srv_lines := map (\<lambda>l. if line_key l = i then l\<lparr>line_quantity := line_quantity l + 1\<rparr> else l) (srv_lines s)\<rparr>"
  have sm: "server_map (srv_lines s) i = Some v" using sy cur by (simp add: synced_def)
  then have mem: "i \<in> set (map line_key (srv_lines s))"
    by (auto simp: server_map_def2 dest!: map_of_SomeD)
  have srv: "serve (PostCartAdd (srv_token s) i 1) s = (?s1, Reply empty_body)" using mem by simp
  have wf1: "server_wf ?s1" using serve_wf [OF wf, of "PostCartAdd (srv_token s) i 1"] srv by simp
  have m1: "server_map (srv_lines ?s1) i = Some (v + 1)" using sm by (simp add: server_map_add_quantity)
  have fetch: "fst (served_op u FetchCart ?s1 items) = ?s1 \<and> synced (snd (served_op u FetchCart ?s1 items)) ?s1"
    using serve_run_fetch [OF wf1, of "srv_token s" items] tok by (simp add: served_op_def fetch_cart_call_def)
  have call: "md_add_call u items i 1 st = (st, [], Some (PostCartAdd (srv_token s) i 1))"
    using md_add_call_token [OF tok] by simp
  obtain s2 items2 where e: "served_op u FetchCart ?s1 items = (s2, items2)" by (cases "served_op u FetchCart ?s1 items")
  have "md_add_served u i 1 s items st = (st, s2, items2)"
    using call srv e by (simp add: md_add_served_def del: serve.simps)
  then show ?thesis using fetch e m1 wf1 by (simp add: synced_def)
qed


section \<open>The product page and the cart bound\<close>

text \<open>C24. The product page bypasses the 10-unit bound the cart keeps (spec section 3): its pre-check looks the cart line up by a key the lines do not have, so from a cart in step with the cart service and holding 10 units of a medication, one click on Add to Cart leaves 11 units on the service and, after the reload, in the cart.\<close>

theorem product_page_exceeds_bound:
  assumes wf: "server_wf s" and tok: "login_token u = Some (srv_token s)" and sy: "synced items s"
    and ten: "cart_map items i = Some 10"
  shows "cart_map (snd (snd (md_add_served u i 1 s items st))) i = Some 11 \<and>
         server_map (srv_lines (fst (snd (md_add_served u i 1 s items st)))) i = Some 11"
  using md_add_served_increments [OF wf tok sy ten, of st] by simp

lemma product_page_exceeds_bound_witness:
  "server_wf (demo_server [server_line_of 1 50 10]) \<and> synced [line_of 1 50 10] (demo_server [server_line_of 1 50 10]) \<and>
   cart_map (snd (snd (md_add_served demo_login 1 1 (demo_server [server_line_of 1 50 10]) [line_of 1 50 10] md_init))) 1 = Some 11"
proof -
  have a: "server_wf (demo_server [server_line_of 1 50 10])"
    by (simp add: server_wf_def demo_server_def server_line_of_def line_key_def)
  have b: "synced [line_of 1 50 10] (demo_server [server_line_of 1 50 10])"
    by (simp add: synced_def cart_map_def server_map_def demo_server_def server_line_of_def line_of_def)
  have c: "login_token demo_login = Some (srv_token (demo_server [server_line_of 1 50 10]))"
    by (simp add: demo_login_def demo_server_def)
  have d: "cart_map [line_of 1 50 10] 1 = Some 10" by (simp add: cart_map_def line_of_def)
  show ?thesis using product_page_exceeds_bound [OF a c b d] a b by simp
qed

end
