(* ===== verification/Inventory.thy ===== *)
theory Inventory
  imports PromoCodes Auth "HOL-Library.Multiset" "HOL-Library.List_Lexorder" "HOL-Library.Char_ord"
begin

text \<open>
  The pharmacy dashboard's inventory, \<open>InventoryPage\<close> in
  \<open>src/src/Pages/PharmacyDashboard/Inventory/Inventory.jsx\<close>. A mount effect fetches the
  categories and one server page of twelve medications of the session's pharmacy; the
  page then slices that page again by its own page number. Products are selected by
  checkbox, sorted by a column with a comparator that reads the sort column of the
  render, added and edited through two dialogs whose form object \<open>newProduct\<close> has
  dynamic keys, and posted as \<open>FormData\<close>. The theory holds the data, the effect with
  its interleaving of two concurrent requests, every handler, the rendered view as data,
  and the page as a state machine over its events.
\<close>

section \<open>Products, form values and requests\<close>

text \<open>A medication as \<open>/medications\<close> returns it. \<open>lowStockAlert\<close> is not a field of
  the server's medication (\<open>None\<close>); \<open>category\<close> may be absent too.\<close>

record inv_product =
  prod_id :: nat
  prod_name :: string
  prod_category_id :: "nat option"
  prod_category :: "string option"
  prod_generic_name :: string
  prod_price :: int
  prod_stock :: int
  prod_low_alert :: "int option"
  prod_description :: string
  prod_image :: string
  prod_active_ingredients :: string
  prod_manufacturer :: string
  prod_side_effects :: string
  prod_dosage :: string

text \<open>A value held by the form object or appended to \<open>FormData\<close>: a string from an
  input, a number, \<open>NaN\<close>, \<open>null\<close>, \<open>undefined\<close> (a key the object lacks), a file, or
  \<open>parseFloat\<close> of a string with a numeric prefix (kept symbolic).\<close>

datatype fd_val = FdStr string | FdNum int | FdNaN | FdNull | FdUndefined | FdFile string | FdFloat string

type_synonym product_form = "string \<rightharpoonup> fd_val"

definition fd_get :: "product_form \<Rightarrow> string \<Rightarrow> fd_val" where
  "fd_get f k = (case f k of None \<Rightarrow> FdUndefined | Some v \<Rightarrow> v)"

definition digits_val :: "string \<Rightarrow> nat" where
  "digits_val ds = foldl (\<lambda>n c. 10 * n + digit_val c) 0 ds"

text \<open>\<open>parseInt\<close> and \<open>parseFloat\<close> of a number input's value (no white space): an
  optional sign, then the digits; \<open>NaN\<close> when no digit follows.\<close>

definition parse_int_str :: "string \<Rightarrow> fd_val" where
  "parse_int_str s =
     (let neg = (take 1 s = ''-''); r = (if take 1 s \<in> {''-'', ''+''} then drop 1 s else s);
          ds = takeWhile is_digit r
      in if ds = [] then FdNaN else FdNum ((if neg then -1 else 1) * int (digits_val ds)))"

fun js_parse_int :: "fd_val \<Rightarrow> fd_val" where
  "js_parse_int (FdNum n) = FdNum n"
| "js_parse_int (FdStr s) = parse_int_str s"
| "js_parse_int (FdFloat s) = parse_int_str s"
| "js_parse_int _ = FdNaN"

fun js_parse_float :: "fd_val \<Rightarrow> fd_val" where
  "js_parse_float (FdNum n) = FdNum n"
| "js_parse_float (FdStr s) =
     (let r = (if take 1 s \<in> {''-'', ''+''} then drop 1 s else s) in
      if (r \<noteq> [] \<and> is_digit (hd r)) \<or> (take 1 r = ''.'' \<and> 2 \<le> length r \<and> is_digit (r ! 1))
      then FdFloat s else FdNaN)"
| "js_parse_float (FdFloat s) = FdFloat s"
| "js_parse_float _ = FdNaN"

fun fd_truthy :: "fd_val \<Rightarrow> bool" where
  "fd_truthy (FdStr s) = (s \<noteq> [])"
| "fd_truthy (FdNum n) = (n \<noteq> 0)"
| "fd_truthy (FdFile f) = True"
| "fd_truthy (FdFloat s) = True"
| "fd_truthy _ = False"

text \<open>The requests of the page, with the bearer token first.\<close>

record meds_query =
  mq_paginate :: nat
  mq_page :: int
  mq_q :: "string option"
  mq_category :: "string option"
  mq_pharmacy :: "nat option"

datatype inv_request =
    GetPharmacy token nat
  | GetCategories
  | GetMedications token meds_query
  | PostCreate token "(string \<times> fd_val) list"
  | PostUpdate token nat "(string \<times> fd_val) list"
  | PostStock token nat fd_val

section \<open>Page state\<close>

text \<open>\<open>paginationLinks\<close> is stored and never read, \<open>editMode\<close> never changes: both are
  left out.\<close>

record inv_page =
  inv_meds :: "inv_product list"
  inv_categories :: "(nat \<times> string) list"
  inv_selected_category :: string
  inv_search :: string
  inv_pending :: "string option"
  inv_current_page :: int
  inv_last_page :: int
  inv_error :: "string option"
  inv_loading :: bool
  inv_selected :: "nat list"
  inv_sort_by :: "string option"
  inv_add_open :: bool
  inv_mobile_filters :: bool
  inv_edit_mode :: bool
  inv_new_product :: product_form
  inv_selected_product :: "inv_product option"
  inv_edit_open :: bool

definition inv_items_per_page :: nat where
  "inv_items_per_page = 12"

definition new_product_init :: product_form where
  "new_product_init = map_of [(''name'', FdStr []), (''category'', FdStr []), (''price'', FdStr []),
     (''stock'', FdStr []), (''lowStockAlert'', FdStr []), (''description'', FdStr []),
     (''imageFile'', FdNull), (''imageUrl'', FdStr [])]"

definition inv_init :: inv_page where
  "inv_init = \<lparr>inv_meds = [], inv_categories = [], inv_selected_category = [], inv_search = [],
     inv_pending = None, inv_current_page = 1, inv_last_page = 1, inv_error = None, inv_loading = False,
     inv_selected = [], inv_sort_by = None, inv_add_open = False, inv_mobile_filters = False,
     inv_edit_mode = False, inv_new_product = new_product_init, inv_selected_product = None,
     inv_edit_open = False\<rparr>"

section \<open>The fetch effect\<close>

text \<open>The replies. \<open>PharmOk\<close>: \<open>/pharmacies/:id\<close> answered; the page then calls
  \<open>setPharmacy\<close>, which it neither defines nor takes from the context, so the call throws
  a \<open>ReferenceError\<close>. A failure carries \<open>err.response?.data?.message\<close>.\<close>

datatype pharm_reply = PharmOk | PharmFail "string option"
datatype cats_reply = CatsOk "(nat \<times> string) list option" | CatsFail "string option"
datatype meds_reply = MedsOk "inv_product list" int int | MedsFail "string option"

definition pharmacy_missing_msg :: string where
  "pharmacy_missing_msg =
     ''Pharmacy ID is missing. Please check the URL or ensure you are logged in with a valid pharmacy.''"

text \<open>\<open>id || pharmacyId\<close> and \<open>pharmacy?.id || null\<close>: an id of 0 is falsy.\<close>

definition truthy_id :: "nat option \<Rightarrow> nat option" where
  "truthy_id i = (case i of Some n \<Rightarrow> if n = 0 then None else Some n | None \<Rightarrow> None)"

definition meds_query_of :: "session \<Rightarrow> int \<Rightarrow> string \<Rightarrow> string \<Rightarrow> meds_query" where
  "meds_query_of s page q cat =
     \<lparr>mq_paginate = inv_items_per_page, mq_page = page, mq_q = (if q = [] then None else Some q),
      mq_category = (if cat = [] then None else Some cat), mq_pharmacy = truthy_id (session_pharmacy s)\<rparr>"

text \<open>Each of the two concurrent calls of \<open>Promise.all\<close> sets its data on success, and on
  failure sets its own message and rethrows; the second component is the rejection, with
  the server's message, if any.\<close>

definition cats_settle :: "cats_reply \<Rightarrow> (inv_page \<Rightarrow> inv_page) \<times> string option option" where
  "cats_settle r =
     (case r of
        CatsOk d \<Rightarrow> (\<lambda>st. st\<lparr>inv_categories := (case d of None \<Rightarrow> [] | Some cs \<Rightarrow> cs)\<rparr>, None)
      | CatsFail m \<Rightarrow> (\<lambda>st. st\<lparr>inv_error := Some ''Failed to load categories''\<rparr>, Some m))"

definition meds_settle :: "meds_reply \<Rightarrow> (inv_page \<Rightarrow> inv_page) \<times> string option option" where
  "meds_settle r =
     (case r of
        MedsOk items cp lp \<Rightarrow>
          (\<lambda>st. st\<lparr>inv_meds := items, inv_current_page := cp, inv_last_page := lp\<rparr>, None)
      | MedsFail m \<Rightarrow> (\<lambda>st. st\<lparr>inv_error := Some (msg_or m ''Failed to fetch medications'')\<rparr>, Some m))"

definition outer_catch :: "string option \<Rightarrow> inv_page \<Rightarrow> inv_page" where
  "outer_catch m st = st\<lparr>inv_error := Some (msg_or m ''Failed to fetch data''), inv_loading := False\<rparr>"

text \<open>The two calls settle in the order given: the first rejection runs the effect's
  \<open>catch\<close> and \<open>finally\<close> at once; a call settling later still sets its data or its own
  message.\<close>

definition settle_all ::
  "(inv_page \<Rightarrow> inv_page) \<times> string option option \<Rightarrow> (inv_page \<Rightarrow> inv_page) \<times> string option option \<Rightarrow>
   inv_page \<Rightarrow> inv_page" where
  "settle_all a b st =
     (let st1 = fst a st in
      case snd a of
        Some m \<Rightarrow> fst b (outer_catch m st1)
      | None \<Rightarrow> (let st2 = fst b st1 in
                 case snd b of Some m \<Rightarrow> outer_catch m st2 | None \<Rightarrow> st2\<lparr>inv_loading := False\<rparr>))"

text \<open>The \<open>Promise.all\<close> branch: the categories request (no token) and the page of
  medications. Without a token \<open>getAllMedications\<close> throws before its request and its
  rejection comes first.\<close>

definition inv_fetch_all ::
  "session \<Rightarrow> cats_reply \<Rightarrow> meds_reply \<Rightarrow> bool \<Rightarrow> inv_page \<Rightarrow> inv_page \<times> inv_request list" where
  "inv_fetch_all s cr mr cats_first st =
     (case bearer_token (userLogin s) of
        None \<Rightarrow> (settle_all (meds_settle (MedsFail None)) (cats_settle cr) st, [GetCategories])
      | Some t \<Rightarrow>
          (if cats_first then settle_all (cats_settle cr) (meds_settle mr) st
           else settle_all (meds_settle mr) (cats_settle cr) st,
           [GetCategories,
            GetMedications t (meds_query_of s (inv_current_page st) (inv_search st) (inv_selected_category st))]))"

text \<open>\<open>fetchData\<close> of the effect, run to its end with the given replies; \<open>rid\<close> is the
  route's numeric \<open>id\<close> (the dashboard route has none), \<open>cats_first\<close> says which of the
  two concurrent calls settles first. Without a token \<open>getAllMedications\<close> throws before
  its request.\<close>

definition inv_fetch ::
  "nat option \<Rightarrow> session \<Rightarrow> pharm_reply \<Rightarrow> cats_reply \<Rightarrow> meds_reply \<Rightarrow> bool \<Rightarrow> inv_page \<Rightarrow>
   inv_page \<times> inv_request list" where
  "inv_fetch rid s pr cr mr cats_first st =
     (let st0 = st\<lparr>inv_loading := True, inv_error := None\<rparr> in
      case (truthy_id rid, truthy_id (session_pharmacy s)) of
        (None, None) \<Rightarrow> (st0\<lparr>inv_error := Some pharmacy_missing_msg, inv_loading := False\<rparr>, [])
      | (Some i, _) \<Rightarrow> (if session_pharmacy s = None then
          (case bearer_token (userLogin s) of
             None \<Rightarrow> (outer_catch None st0, [])
           | Some t \<Rightarrow> (outer_catch (case pr of PharmOk \<Rightarrow> None | PharmFail m \<Rightarrow> m) st0, [GetPharmacy t i]))
          else inv_fetch_all s cr mr cats_first st0)
      | (None, Some p) \<Rightarrow> inv_fetch_all s cr mr cats_first st0)"

section \<open>Handlers\<close>

text \<open>The search box is controlled by \<open>searchQuery\<close> while its \<open>onChange\<close> only feeds
  the debounced setter: the typed value waits in \<open>inv_pending\<close> until the debounce
  fires, which sets the query and returns to page 1.\<close>

definition inv_search_input :: "string \<Rightarrow> inv_page \<Rightarrow> inv_page" where
  "inv_search_input v st = st\<lparr>inv_pending := Some v\<rparr>"

definition inv_debounce_fire :: "inv_page \<Rightarrow> inv_page" where
  "inv_debounce_fire st =
     (case inv_pending st of
        None \<Rightarrow> st
      | Some v \<Rightarrow> st\<lparr>inv_search := v, inv_current_page := 1, inv_pending := None\<rparr>)"

definition inv_clear_search :: "inv_page \<Rightarrow> inv_page" where
  "inv_clear_search st = st\<lparr>inv_search := []\<rparr>"

definition toggle_category :: "string \<Rightarrow> inv_page \<Rightarrow> inv_page" where
  "toggle_category cid st =
     st\<lparr>inv_selected_category := (if cid = inv_selected_category st then [] else cid), inv_current_page := 1\<rparr>"

definition clear_category :: "inv_page \<Rightarrow> inv_page" where
  "clear_category st = st\<lparr>inv_selected_category := []\<rparr>"

text \<open>The rows on screen: the fetched page sliced again by the page number.\<close>

definition inv_start :: "inv_page \<Rightarrow> int" where
  "inv_start st = (inv_current_page st - 1) * int inv_items_per_page"

definition inv_paginated :: "inv_page \<Rightarrow> inv_product list" where
  "inv_paginated st = js_slice (inv_meds st) (inv_start st) (inv_start st + int inv_items_per_page)"

definition inv_total_pages :: "inv_page \<Rightarrow> int" where
  "inv_total_pages st = ceil_div (length (inv_meds st)) inv_items_per_page"

definition toggle_select_all :: "bool \<Rightarrow> inv_page \<Rightarrow> inv_page" where
  "toggle_select_all checked st = st\<lparr>inv_selected := (if checked then map prod_id (inv_paginated st) else [])\<rparr>"

definition toggle_product_selection :: "nat \<Rightarrow> inv_page \<Rightarrow> inv_page" where
  "toggle_product_selection pid st =
     st\<lparr>inv_selected := (if pid \<in> set (inv_selected st) then filter (\<lambda>i. i \<noteq> pid) (inv_selected st)
                        else inv_selected st @ [pid])\<rparr>"

text \<open>\<open>a[field] > b[field]\<close> for the three sortable columns (strings compare by code
  unit); on any other key both sides are \<open>undefined\<close> and the test is false.\<close>

definition field_gt :: "string \<Rightarrow> inv_product \<Rightarrow> inv_product \<Rightarrow> bool" where
  "field_gt f a b =
     (if f = ''name'' then prod_name b < prod_name a
      else if f = ''price'' then prod_price b < prod_price a
      else if f = ''stock'' then prod_stock b < prod_stock a else False)"

definition inv_cmp :: "bool \<Rightarrow> string \<Rightarrow> inv_product \<Rightarrow> inv_product \<Rightarrow> int" where
  "inv_cmp asc f a b =
     (if asc then (if field_gt f a b then 1 else -1) else (if field_gt f a b then -1 else 1))"

text \<open>\<open>handleSort\<close>: the comparator reads \<open>sortBy\<close> of the render, before the update:
  ascending when the column was already the sort column, descending otherwise.\<close>

definition inv_handle_sort :: "string \<Rightarrow> inv_page \<Rightarrow> inv_page" where
  "inv_handle_sort f st =
     st\<lparr>inv_sort_by := (if inv_sort_by st = Some f then None else Some f),
        inv_meds := js_sort (inv_cmp (inv_sort_by st = Some f) f) (inv_meds st)\<rparr>"

text \<open>A reply to a create or update: the server's medication, or a failure with
  \<open>err.response?.data?.message\<close> and \<open>err.message\<close>.\<close>

datatype inv_reply = InvOk inv_product | InvFail "string option" string

definition null_token_msg :: string where
  "null_token_msg = ''Cannot read properties of null (reading 'token')''"

text \<open>\<open>handleUpdateStock\<close> with \<open>parseInt(newStock)\<close> a number \<open>n\<close>; no control of
  the page calls it (both menu items call \<open>handleEdit\<close>).\<close>

definition inv_update_stock :: "session \<Rightarrow> int \<Rightarrow> inv_reply \<Rightarrow> inv_page \<Rightarrow> inv_page \<times> inv_request list" where
  "inv_update_stock s n r st =
     (case inv_selected_product st of
        None \<Rightarrow> (st, [])
      | Some p \<Rightarrow>
          (case bearer_token (userLogin s) of
             None \<Rightarrow> (st\<lparr>inv_error := Some (''Failed to update stock: '' @ null_token_msg)\<rparr>, [])
           | Some t \<Rightarrow>
               (case r of
                  InvOk d \<Rightarrow> st\<lparr>inv_meds := map (\<lambda>q. if prod_id q = prod_id p then q\<lparr>prod_stock := n\<rparr> else q) (inv_meds st)\<rparr>
                | InvFail m e \<Rightarrow> st\<lparr>inv_error := Some (''Failed to update stock: '' @ msg_or m e)\<rparr>,
                [PostStock t (prod_id p) (FdNum n)])))"

text \<open>\<open>x || ""\<close> on the product's numbers: 0 becomes the empty string.\<close>

definition num_or_empty :: "int \<Rightarrow> fd_val" where
  "num_or_empty n = (if n = 0 then FdStr [] else FdNum n)"

definition form_of_product :: "inv_product \<Rightarrow> product_form" where
  "form_of_product p = map_of
     [(''name'', FdStr (prod_name p)),
      (''category_id'', (case prod_category_id p of None \<Rightarrow> FdStr [] | Some c \<Rightarrow> num_or_empty (int c))),
      (''price'', num_or_empty (prod_price p)), (''stock'', num_or_empty (prod_stock p)),
      (''lowStockAlert'', (case prod_low_alert p of None \<Rightarrow> FdStr [] | Some a \<Rightarrow> num_or_empty a)),
      (''description'', FdStr (prod_description p)), (''imageUrl'', FdStr (prod_image p)), (''imageFile'', FdNull),
      (''active_ingredients'', FdStr (prod_active_ingredients p)), (''manufacturer'', FdStr (prod_manufacturer p)),
      (''side_effects'', FdStr (prod_side_effects p)), (''dosage'', FdStr (prod_dosage p))]"

definition inv_handle_edit :: "inv_product \<Rightarrow> inv_page \<Rightarrow> inv_page" where
  "inv_handle_edit p st =
     st\<lparr>inv_selected_product := Some p, inv_edit_mode := True, inv_new_product := form_of_product p,
        inv_edit_open := True\<rparr>"

definition image_entry :: "product_form \<Rightarrow> (string \<times> fd_val) list" where
  "image_entry f = (if fd_truthy (fd_get f ''imageFile'') then [(''image'', fd_get f ''imageFile'')] else [])"

definition update_form_data :: "product_form \<Rightarrow> (string \<times> fd_val) list" where
  "update_form_data f =
     [(''name'', fd_get f ''name''), (''category_id'', fd_get f ''category_id''),
      (''price'', js_parse_float (fd_get f ''price'')), (''stock'', js_parse_int (fd_get f ''stock'')),
      (''lowStockAlert'', js_parse_int (fd_get f ''lowStockAlert'')), (''dosage'', fd_get f ''dosage''),
      (''side_effects'', fd_get f ''side_effects''), (''manufacturer'', fd_get f ''manufacturer''),
      (''active_ingredients'', fd_get f ''active_ingredients''), (''description'', fd_get f ''description'')]
     @ image_entry f"

definition update_reset :: product_form where
  "update_reset = map_of [(''name'', FdStr []), (''category_id'', FdStr []), (''price'', FdStr []),
     (''stock'', FdStr []), (''lowStockAlert'', FdStr []), (''description'', FdStr []), (''imageUrl'', FdStr []),
     (''imageFile'', FdNull)]"

text \<open>\<open>handleUpdateProduct\<close>: the server's object replaces the product of the same id
  (\<open>{...p, ...response.data.data}\<close>, the response carrying every field).\<close>

definition inv_update_product :: "session \<Rightarrow> inv_reply \<Rightarrow> inv_page \<Rightarrow> inv_page \<times> inv_request list" where
  "inv_update_product s r st =
     (case inv_selected_product st of
        None \<Rightarrow> (st, [])
      | Some p \<Rightarrow>
          (case bearer_token (userLogin s) of
             None \<Rightarrow> (st\<lparr>inv_error := Some (''Failed to update product: '' @ null_token_msg)\<rparr>, [])
           | Some t \<Rightarrow>
               (case r of
                  InvOk d \<Rightarrow> st\<lparr>inv_meds := map (\<lambda>q. if prod_id q = prod_id p then d else q) (inv_meds st),
                                inv_edit_open := False, inv_edit_mode := False, inv_selected_product := None,
                                inv_new_product := update_reset\<rparr>
                | InvFail m e \<Rightarrow> st\<lparr>inv_error := Some (''Failed to update product: '' @ msg_or m e)\<rparr>,
                [PostUpdate t (prod_id p) (update_form_data (inv_new_product st))])))"

text \<open>\<open>handleAddProduct\<close>. Its \<open>FormData\<close> lists no active ingredients,
  manufacturer, side effects or dosage; a key the form object lacks is appended as
  \<open>undefined\<close>.\<close>

definition add_form_data :: "product_form \<Rightarrow> (string \<times> fd_val) list" where
  "add_form_data f =
     [(''name'', fd_get f ''name''), (''category_id'', fd_get f ''category_id''),
      (''generic_name'', fd_get f ''generic_name''), (''expiry_date'', fd_get f ''expiry_date''),
      (''price'', js_parse_float (fd_get f ''price'')), (''stock'', js_parse_int (fd_get f ''stock'')),
      (''lowStockAlert'', js_parse_int (fd_get f ''lowStockAlert'')), (''description'', fd_get f ''description'')]
     @ image_entry f"

definition add_reset :: product_form where
  "add_reset = map_of [(''name'', FdStr []), (''generic_name'', FdStr []), (''category_id'', FdStr []),
     (''price'', FdStr []), (''stock'', FdStr []), (''expiry_date'', FdStr []), (''lowStockAlert'', FdStr []),
     (''description'', FdStr []), (''imageFile'', FdNull), (''imageUrl'', FdStr []),
     (''active_ingredients'', FdStr []), (''manufacturer'', FdStr []), (''side_effects'', FdStr []),
     (''dosage'', FdStr [])]"

definition inv_add_product :: "session \<Rightarrow> inv_reply \<Rightarrow> inv_page \<Rightarrow> inv_page \<times> inv_request list" where
  "inv_add_product s r st =
     (case bearer_token (userLogin s) of
        None \<Rightarrow> (st\<lparr>inv_error := Some (''Failed to add product: '' @ null_token_msg)\<rparr>, [])
      | Some t \<Rightarrow>
          (case r of
             InvOk d \<Rightarrow> st\<lparr>inv_meds := d # inv_meds st, inv_add_open := False, inv_new_product := add_reset\<rparr>
           | InvFail m e \<Rightarrow> st\<lparr>inv_error := Some (''Failed to add product: '' @ msg_or m e)\<rparr>,
           [PostCreate t (add_form_data (inv_new_product st))]))"

text \<open>\<open>handleInputChange\<close> with the input's \<open>name\<close>, \<open>value\<close> and first file (its
  name and the object URL \<open>URL.createObjectURL\<close> gives it). No input is named
  \<open>category\<close>: the selects are named \<open>category_id\<close> and take the generic branch.\<close>

definition inv_input_change :: "string \<Rightarrow> string \<Rightarrow> (string \<times> string) option \<Rightarrow> inv_page \<Rightarrow> inv_page" where
  "inv_input_change nm v file st =
     (case file of
        Some (f, url) \<Rightarrow>
          if nm = ''imageUpload'' then st\<lparr>inv_new_product := (inv_new_product st)(''imageFile'' \<mapsto> FdFile f, ''imageUrl'' \<mapsto> FdStr url)\<rparr>
          else if nm = ''category'' then st\<lparr>inv_new_product := (inv_new_product st)(''category_id'' \<mapsto> parse_int_str v)\<rparr>
          else st\<lparr>inv_new_product := (inv_new_product st)(nm \<mapsto> FdStr v)\<rparr>
      | None \<Rightarrow>
          if nm = ''category'' then st\<lparr>inv_new_product := (inv_new_product st)(''category_id'' \<mapsto> parse_int_str v)\<rparr>
          else st\<lparr>inv_new_product := (inv_new_product st)(nm \<mapsto> FdStr v)\<rparr>)"

definition inv_remove_image :: "inv_page \<Rightarrow> inv_page" where
  "inv_remove_image st = st\<lparr>inv_new_product := (inv_new_product st)(''imageUrl'' \<mapsto> FdStr [], ''imageFile'' \<mapsto> FdNull)\<rparr>"

definition inv_prev :: "inv_page \<Rightarrow> inv_page" where
  "inv_prev st = st\<lparr>inv_current_page := max (inv_current_page st - 1) 1\<rparr>"

definition inv_next :: "inv_page \<Rightarrow> inv_page" where
  "inv_next st = st\<lparr>inv_current_page := min (inv_current_page st + 1) (inv_last_page st)\<rparr>"

definition inv_goto :: "int \<Rightarrow> inv_page \<Rightarrow> inv_page" where
  "inv_goto n st = st\<lparr>inv_current_page := n\<rparr>"

section \<open>Events\<close>

text \<open>What a user action or a settled request does to the page: one constructor per
  handler the markup binds, and the effect run to its end (\<open>InvFetched\<close>). The edit
  dialog's submit runs \<open>isEditMode ? handleUpdateProduct() : handleAddProduct()\<close>.\<close>

datatype inv_event =
    InvSearchInput string | InvDebounce | InvClearSearch | InvToggleMobileFilters
  | InvToggleCategory string | InvClearCategory
  | InvSelectAll bool | InvToggleProduct nat | InvSort string
  | InvPrev | InvNext | InvGoto int
  | InvSetAddOpen bool | InvInput string string "(string \<times> string) option" | InvRemoveImage
  | InvSubmitAdd inv_reply | InvEdit inv_product | InvSetEditOpen bool | InvSubmitEdit inv_reply
  | InvFetched pharm_reply cats_reply meds_reply bool

section \<open>The rendered page\<close>

text \<open>\<open>category.id.toString()\<close>.\<close>

fun nat_str :: "nat \<Rightarrow> string" where
  "nat_str n = (if n < 10 then [digit_char n] else nat_str (n div 10) @ [digit_char (n mod 10)])"

record inv_toolbar =
  tb_search_value :: string
  tb_clear_button :: bool
  tb_toggle_filters :: inv_event
  tb_filter_badge :: bool

definition inv_toolbar_view :: "inv_page \<Rightarrow> inv_toolbar" where
  "inv_toolbar_view st =
     \<lparr>tb_search_value = inv_search st, tb_clear_button = (inv_search st \<noteq> []),
      tb_toggle_filters = InvToggleMobileFilters, tb_filter_badge = (inv_selected_category st \<noteq> [])\<rparr>"

text \<open>A labelled input of the dialogs: the label's \<open>htmlFor\<close>, the control's \<open>id\<close>
  and \<open>name\<close>, its kind, its value \<open>newProduct[name]\<close> and \<open>required\<close>.\<close>

datatype input_kind = TextInput | NumberInput | DateInput | TextAreaInput | SelectInput "(string \<times> string) list"

record form_field =
  ff_label :: string
  ff_for :: string
  ff_id :: string
  ff_name :: string
  ff_kind :: input_kind
  ff_value :: fd_val
  ff_required :: bool

definition field :: "string \<Rightarrow> string \<Rightarrow> input_kind \<Rightarrow> bool \<Rightarrow> product_form \<Rightarrow> form_field" where
  "field label nm k req f =
     \<lparr>ff_label = label, ff_for = nm, ff_id = nm, ff_name = nm, ff_kind = k, ff_value = fd_get f nm, ff_required = req\<rparr>"

text \<open>The category select: labelled for \<open>category\<close>, with id and name \<open>category_id\<close>.\<close>

definition category_field :: "(nat \<times> string) list \<Rightarrow> product_form \<Rightarrow> form_field" where
  "category_field cs f =
     \<lparr>ff_label = ''Category'', ff_for = ''category'', ff_id = ''category_id'', ff_name = ''category_id'',
      ff_kind = SelectInput (([], ''Select category'') # map (\<lambda>(i, n). (nat_str i, n)) cs),
      ff_value = fd_get f ''category_id'', ff_required = True\<rparr>"

datatype image_area = ImagePreview string | ImageUpload

definition image_area_of :: "product_form \<Rightarrow> image_area \<times> string" where
  "image_area_of f =
     (case fd_get f ''imageUrl'' of
        FdStr u \<Rightarrow> if u \<noteq> [] then (ImagePreview u, ''Click the X to remove'') else (ImageUpload, ''Click to upload'')
      | _ \<Rightarrow> (ImageUpload, ''Click to upload''))"

record inv_dialog =
  dlg_open :: bool
  dlg_title :: string
  dlg_fields :: "form_field list"
  dlg_image :: "image_area \<times> string"
  dlg_submit :: string

text \<open>The add dialog (its form submits \<open>handleAddProduct\<close>).\<close>

definition add_dialog_view :: "inv_page \<Rightarrow> inv_dialog" where
  "add_dialog_view st =
     (let f = inv_new_product st in
      \<lparr>dlg_open = inv_add_open st, dlg_title = ''Add New Product'',
       dlg_fields =
         [field ''Product Name'' ''name'' TextInput True f, category_field (inv_categories st) f,
          field ''Expiry Date'' ''expiry_date'' DateInput False f, field ''Generic Name'' ''generic_name'' TextInput True f,
          field ''Active Ingredients'' ''active_ingredients'' TextInput True f,
          field ''Manufacturer'' ''manufacturer'' TextInput True f, field ''Side Effects'' ''side_effects'' TextInput True f,
          field ''Dosage'' ''dosage'' TextInput True f, field ''Price (EGP)'' ''price'' NumberInput True f,
          field ''Stock Quantity'' ''stock'' NumberInput True f,
          field ''Low Stock Alert Threshold'' ''lowStockAlert'' NumberInput True f,
          field ''Description'' ''description'' TextAreaInput False f],
       dlg_image = image_area_of f, dlg_submit = ''Add Product''\<rparr>)"

text \<open>The edit dialog: no expiry date and no generic name.\<close>

definition edit_dialog_view :: "inv_page \<Rightarrow> inv_dialog" where
  "edit_dialog_view st =
     (let f = inv_new_product st in
      \<lparr>dlg_open = inv_edit_open st, dlg_title = ''Edit Product'',
       dlg_fields =
         [field ''Product Name'' ''name'' TextInput True f, category_field (inv_categories st) f,
          field ''Active Ingredients'' ''active_ingredients'' TextInput True f,
          field ''Manufacturer'' ''manufacturer'' TextInput True f, field ''Side Effects'' ''side_effects'' TextInput True f,
          field ''Dosage'' ''dosage'' TextInput True f, field ''Price (EGP)'' ''price'' NumberInput True f,
          field ''Stock Quantity'' ''stock'' NumberInput True f,
          field ''Low Stock Alert Threshold'' ''lowStockAlert'' NumberInput True f,
          field ''Description'' ''description'' TextAreaInput False f],
       dlg_image = image_area_of f, dlg_submit = ''Save Changes''\<rparr>)"

text \<open>The browser's constraint validation: a form with an empty required control does not
  submit. A control shows a string, or a number (\<open>NaN\<close> shows nothing).\<close>

fun fd_shown :: "fd_val \<Rightarrow> bool" where
  "fd_shown (FdStr s) = (s \<noteq> [])"
| "fd_shown (FdNum n) = True"
| "fd_shown (FdFloat s) = True"
| "fd_shown _ = False"

definition dialog_submits :: "inv_dialog \<Rightarrow> bool" where
  "dialog_submits d = list_all (\<lambda>x. ff_required x \<longrightarrow> fd_shown (ff_value x)) (dlg_fields d)"

text \<open>The filter card: one checkbox per category (checked when its id string is the
  selected category), and the active filter's badge.\<close>

record inv_filters =
  fl_shown_mobile :: bool
  fl_categories :: "(string \<times> string \<times> bool) list"
  fl_active :: "string list option"

definition inv_filters_view :: "inv_page \<Rightarrow> inv_filters" where
  "inv_filters_view st =
     \<lparr>fl_shown_mobile = inv_mobile_filters st,
      fl_categories = map (\<lambda>(i, n). (nat_str i, n, inv_selected_category st = nat_str i)) (inv_categories st),
      fl_active = (if inv_selected_category st = [] then None
                   else Some (map snd (filter (\<lambda>(i, n). nat_str i = inv_selected_category st) (inv_categories st))))\<rparr>"

datatype stock_level = StockRed | StockAmber | StockGreen

text \<open>\<open>product.stock < product.lowStockAlert\<close> and \<open>< lowStockAlert * 2\<close>: with no
  threshold both comparisons are with \<open>undefined\<close> or \<open>NaN\<close> and false.\<close>

definition stock_level_of :: "inv_product \<Rightarrow> stock_level" where
  "stock_level_of p =
     (case prod_low_alert p of
        None \<Rightarrow> StockGreen
      | Some a \<Rightarrow> if prod_stock p < a then StockRed else if prod_stock p < a * 2 then StockAmber else StockGreen)"

definition stock_alert :: "inv_product \<Rightarrow> bool" where
  "stock_alert p = (case prod_low_alert p of None \<Rightarrow> False | Some a \<Rightarrow> prod_stock p < a)"

record inv_row =
  ir_checked :: bool
  ir_toggle :: inv_event
  ir_name :: string
  ir_badge :: string
  ir_price :: int
  ir_stock :: int
  ir_level :: stock_level
  ir_alert :: bool
  ir_menu :: "(string \<times> inv_event) list"

definition inv_row_of :: "inv_page \<Rightarrow> inv_product \<Rightarrow> inv_row" where
  "inv_row_of st p =
     \<lparr>ir_checked = (prod_id p \<in> set (inv_selected st)), ir_toggle = InvToggleProduct (prod_id p),
      ir_name = prod_name p,
      ir_badge = (case prod_category p of None \<Rightarrow> prod_generic_name p | Some c \<Rightarrow> if c = [] then prod_generic_name p else c),
      ir_price = prod_price p, ir_stock = prod_stock p, ir_level = stock_level_of p, ir_alert = stock_alert p,
      ir_menu = [(''Edit'', InvEdit p), (''Update Stock'', InvEdit p)]\<rparr>"

text \<open>The table: the select-all box (checked when as many products are selected as
  there are rows), the three sort buttons with their highlighted arrow, the rows.\<close>

record inv_table =
  tbl_all_checked :: bool
  tbl_sort_buttons :: "(string \<times> bool) list"
  tbl_rows :: "inv_row list"

definition inv_table_view :: "inv_page \<Rightarrow> inv_table" where
  "inv_table_view st =
     \<lparr>tbl_all_checked = (0 < length (inv_paginated st) \<and> length (inv_selected st) = length (inv_paginated st)),
      tbl_sort_buttons = map (\<lambda>f. (f, inv_sort_by st = Some f)) [''name'', ''price'', ''stock''],
      tbl_rows = map (inv_row_of st) (inv_paginated st)\<rparr>"

text \<open>The footer: \<open>Showing {startIndex + 1} to {min(startIndex + 12, length)} of
  {length} products\<close>, the arrows (disabled on the first and on the last page) and the
  page window of the order list over \<open>lastPage\<close>.\<close>

record inv_footer =
  ft_showing :: "int \<times> int \<times> int"
  ft_prev_disabled :: bool
  ft_buttons :: "(int \<times> bool) list"
  ft_next_disabled :: bool

definition inv_footer_view :: "inv_page \<Rightarrow> inv_footer" where
  "inv_footer_view st =
     \<lparr>ft_showing = (inv_start st + 1, min (inv_start st + int inv_items_per_page) (int (length (inv_meds st))),
                    int (length (inv_meds st))),
      ft_prev_disabled = (inv_current_page st = 1),
      ft_buttons = map (\<lambda>n. (n, inv_current_page st = n)) (page_window (inv_last_page st) (inv_current_page st)),
      ft_next_disabled = (inv_current_page st = inv_last_page st)\<rparr>"

record inv_view =
  iv_toolbar :: inv_toolbar
  iv_add_dialog :: inv_dialog
  iv_filters :: inv_filters
  iv_table :: inv_table
  iv_footer :: inv_footer
  iv_edit_dialog :: inv_dialog

definition inv_view_of :: "inv_page \<Rightarrow> inv_view" where
  "inv_view_of st =
     \<lparr>iv_toolbar = inv_toolbar_view st, iv_add_dialog = add_dialog_view st, iv_filters = inv_filters_view st,
      iv_table = inv_table_view st, iv_footer = inv_footer_view st, iv_edit_dialog = edit_dialog_view st\<rparr>"

section \<open>The page as a state machine\<close>

text \<open>The step of an event, in the session \<open>s\<close> and for the route id \<open>rid\<close>.\<close>

primrec inv_step :: "nat option \<Rightarrow> session \<Rightarrow> inv_event \<Rightarrow> inv_page \<Rightarrow> inv_page" where
  "inv_step rid s (InvSearchInput v) st = inv_search_input v st"
| "inv_step rid s InvDebounce st = inv_debounce_fire st"
| "inv_step rid s InvClearSearch st = inv_clear_search st"
| "inv_step rid s InvToggleMobileFilters st = st\<lparr>inv_mobile_filters := \<not> inv_mobile_filters st\<rparr>"
| "inv_step rid s (InvToggleCategory c) st = toggle_category c st"
| "inv_step rid s InvClearCategory st = clear_category st"
| "inv_step rid s (InvSelectAll b) st = toggle_select_all b st"
| "inv_step rid s (InvToggleProduct i) st = toggle_product_selection i st"
| "inv_step rid s (InvSort f) st = inv_handle_sort f st"
| "inv_step rid s InvPrev st = inv_prev st"
| "inv_step rid s InvNext st = inv_next st"
| "inv_step rid s (InvGoto n) st = inv_goto n st"
| "inv_step rid s (InvSetAddOpen b) st = st\<lparr>inv_add_open := b\<rparr>"
| "inv_step rid s (InvInput nm v f) st = inv_input_change nm v f st"
| "inv_step rid s InvRemoveImage st = inv_remove_image st"
| "inv_step rid s (InvSubmitAdd r) st = fst (inv_add_product s r st)"
| "inv_step rid s (InvEdit p) st = inv_handle_edit p st"
| "inv_step rid s (InvSetEditOpen b) st = st\<lparr>inv_edit_open := b\<rparr>"
| "inv_step rid s (InvSubmitEdit r) st =
     (if inv_edit_mode st then fst (inv_update_product s r st) else fst (inv_add_product s r st))"
| "inv_step rid s (InvFetched pr cr mr b) st = fst (inv_fetch rid s pr cr mr b st)"

text \<open>When an event can happen: a control is on screen and not disabled, a dialog submits
  only when the browser accepts its form, and the server answers a page request with at
  most twelve medications and a current page between 1 and the last page.\<close>

fun meds_reply_ok :: "meds_reply \<Rightarrow> bool" where
  "meds_reply_ok (MedsOk items cp lp) = (length items \<le> inv_items_per_page \<and> 1 \<le> cp \<and> cp \<le> lp)"
| "meds_reply_ok (MedsFail m) = True"

primrec inv_enabled :: "inv_event \<Rightarrow> inv_page \<Rightarrow> bool" where
  "inv_enabled (InvSearchInput v) st = True"
| "inv_enabled InvDebounce st = True"
| "inv_enabled InvClearSearch st = (inv_search st \<noteq> [])"
| "inv_enabled InvToggleMobileFilters st = True"
| "inv_enabled (InvToggleCategory c) st = (c \<in> set (map (nat_str \<circ> fst) (inv_categories st)))"
| "inv_enabled InvClearCategory st = (inv_selected_category st \<noteq> [])"
| "inv_enabled (InvSelectAll b) st = True"
| "inv_enabled (InvToggleProduct i) st = (i \<in> set (map prod_id (inv_paginated st)))"
| "inv_enabled (InvSort f) st = (f \<in> set [''name'', ''price'', ''stock''])"
| "inv_enabled InvPrev st = (\<not> ft_prev_disabled (inv_footer_view st))"
| "inv_enabled InvNext st = (\<not> ft_next_disabled (inv_footer_view st))"
| "inv_enabled (InvGoto n) st = (n \<in> set (page_window (inv_last_page st) (inv_current_page st)))"
| "inv_enabled (InvSetAddOpen b) st = True"
| "inv_enabled (InvInput nm v f) st = True"
| "inv_enabled InvRemoveImage st = True"
| "inv_enabled (InvSubmitAdd r) st = (inv_add_open st \<and> dialog_submits (add_dialog_view st))"
| "inv_enabled (InvEdit p) st = (p \<in> set (inv_paginated st))"
| "inv_enabled (InvSetEditOpen b) st = True"
| "inv_enabled (InvSubmitEdit r) st = (inv_edit_open st \<and> dialog_submits (edit_dialog_view st))"
| "inv_enabled (InvFetched pr cr mr b) st = meds_reply_ok mr"

inductive inv_reach :: "nat option \<Rightarrow> session \<Rightarrow> inv_page \<Rightarrow> bool" where
  init: "inv_reach rid s inv_init"
| step: "inv_reach rid s st \<Longrightarrow> inv_enabled e st \<Longrightarrow> inv_reach rid s (inv_step rid s e st)"

fun inv_run :: "nat option \<Rightarrow> session \<Rightarrow> inv_event list \<Rightarrow> inv_page \<Rightarrow> inv_page" where
  "inv_run rid s [] st = st"
| "inv_run rid s (e # es) st = inv_run rid s es (inv_step rid s e st)"

fun inv_run_ok :: "nat option \<Rightarrow> session \<Rightarrow> inv_event list \<Rightarrow> inv_page \<Rightarrow> bool" where
  "inv_run_ok rid s [] st = True"
| "inv_run_ok rid s (e # es) st = (inv_enabled e st \<and> inv_run_ok rid s es (inv_step rid s e st))"

section \<open>The effect's re-runs\<close>

text \<open>The effect depends on \<open>currentPage\<close>, which the fetch itself sets from the reply
  (\<open>setCurrentPage(data.data.current_page)\<close>): when the reply reports another page than
  the one requested, the effect runs again. \<open>srv p\<close> is the server's answer to a request
  for page \<open>p\<close>; the other dependencies do not change between the runs. The loop may
  not end, so it is a \<open>partial_function\<close> in the option monad.\<close>

definition reply_page :: "meds_reply \<Rightarrow> int \<Rightarrow> int" where
  "reply_page r p = (case r of MedsOk items cp lp \<Rightarrow> cp | MedsFail m \<Rightarrow> p)"

partial_function (option) inv_effect_loop ::
  "(int \<Rightarrow> meds_reply) \<Rightarrow> nat option \<Rightarrow> session \<Rightarrow> cats_reply \<Rightarrow> inv_page \<Rightarrow> inv_page option" where
  "inv_effect_loop srv rid s cr st =
     (let st' = fst (inv_fetch rid s PharmOk cr (srv (inv_current_page st)) True st) in
      if inv_current_page st' = inv_current_page st then Some st' else inv_effect_loop srv rid s cr st')"

text \<open>The page a run of the effect leaves in \<open>currentPage\<close> when it reaches the request
  (\<open>setCurrentPage(data.data.current_page)\<close>, or the page unchanged on a failure).\<close>

definition inv_page_next :: "(int \<Rightarrow> meds_reply) \<Rightarrow> int \<Rightarrow> int" where
  "inv_page_next srv p = reply_page (srv p) p"

section \<open>Page invariant and sample data\<close>

text \<open>The page number lies between 1 and the last page the server reported.\<close>

definition inv_wf :: "inv_page \<Rightarrow> bool" where
  "inv_wf st = (1 \<le> inv_current_page st \<and> inv_current_page st \<le> inv_last_page st)"

definition demo_product :: "nat \<Rightarrow> inv_product" where
  "demo_product i = \<lparr>prod_id = i, prod_name = ''Panadol'', prod_category_id = Some 1, prod_category = None,
     prod_generic_name = ''paracetamol'', prod_price = 50, prod_stock = 20, prod_low_alert = None,
     prod_description = [], prod_image = [], prod_active_ingredients = [], prod_manufacturer = [],
     prod_side_effects = [], prod_dosage = []\<rparr>"

definition demo_pharmacy_session :: session where
  "demo_pharmacy_session = \<lparr>userLogin = LoginObj ''tok-3'' \<lparr>first_name = ''Nour'', last_name = ''Adel'',
     user_type = ''pharmacy'', pharmacy = Some 7\<rparr>, userType = Some ''pharmacy'', session_pharmacy = Some 7,
     loading = False\<rparr>"

definition demo_pharmacy_app :: app where
  "demo_pharmacy_app = demo_app\<lparr>app_session := (app_session demo_app)\<lparr>session_pharmacy := Some 7\<rparr>\<rparr>"

section \<open>Lemmas\<close>

lemma cats_settle_wf:
  "inv_wf st \<Longrightarrow> inv_wf (fst (cats_settle r) st)"
  by (cases r) (simp_all add: cats_settle_def inv_wf_def)

lemma outer_catch_wf:
  "inv_wf st \<Longrightarrow> inv_wf (outer_catch m st)"
  by (simp add: outer_catch_def inv_wf_def)

lemma meds_settle_wf:
  "inv_wf st \<Longrightarrow> meds_reply_ok mr \<Longrightarrow> inv_wf (fst (meds_settle mr) st)"
  by (cases mr) (auto simp: meds_settle_def inv_wf_def)

lemma settle_all_wf:
  assumes a: "\<And>x. inv_wf x \<Longrightarrow> inv_wf (fst a x)" and b: "\<And>x. inv_wf x \<Longrightarrow> inv_wf (fst b x)" and "inv_wf st"
  shows "inv_wf (settle_all a b st)"
proof -
  have a1: "inv_wf (fst a st)" using a assms(3) .
  show ?thesis
  proof (cases "snd a")
    case (Some m)
    then show ?thesis using b outer_catch_wf [OF a1] by (simp add: settle_all_def)
  next
    case None
    have "inv_wf (fst b (fst a st))" using b a1 .
    then show ?thesis using None outer_catch_wf
      by (cases "snd b") (simp_all add: settle_all_def Let_def inv_wf_def)
  qed
qed

lemma inv_fetch_wf:
  assumes "inv_wf st" "meds_reply_ok mr"
  shows "inv_wf (fst (inv_fetch rid s pr cr mr b st))"
proof -
  let ?st0 = "st\<lparr>inv_loading := True, inv_error := None\<rparr>"
  have w0: "inv_wf ?st0" using assms(1) by (simp add: inv_wf_def)
  have c: "\<And>x. inv_wf x \<Longrightarrow> inv_wf (fst (cats_settle cr) x)" by (rule cats_settle_wf)
  have m: "\<And>x. inv_wf x \<Longrightarrow> inv_wf (fst (meds_settle mr) x)" by (rule meds_settle_wf [OF _ assms(2)])
  have m0: "\<And>x. inv_wf x \<Longrightarrow> inv_wf (fst (meds_settle (MedsFail None)) x)" by (rule meds_settle_wf) simp_all
  have all: "inv_wf (fst (inv_fetch_all s cr mr b ?st0))"
    using settle_all_wf [OF c m w0] settle_all_wf [OF m c w0] settle_all_wf [OF m0 c w0]
    by (simp add: inv_fetch_all_def split: option.split)
  have "inv_wf (?st0\<lparr>inv_error := Some pharmacy_missing_msg, inv_loading := False\<rparr>)" using w0 by (simp add: inv_wf_def)
  then show ?thesis using all outer_catch_wf [OF w0]
    by (simp add: inv_fetch_def Let_def split: option.split prod.split)
qed

lemma inv_handlers_pages [simp]:
  "inv_current_page (fst (inv_add_product s r st)) = inv_current_page st \<and> inv_last_page (fst (inv_add_product s r st)) = inv_last_page st"
  "inv_current_page (fst (inv_update_product s r st)) = inv_current_page st \<and> inv_last_page (fst (inv_update_product s r st)) = inv_last_page st"
  "inv_current_page (inv_input_change nm v f st) = inv_current_page st \<and> inv_last_page (inv_input_change nm v f st) = inv_last_page st"
  by (simp_all add: inv_add_product_def inv_update_product_def inv_input_change_def
      split: option.split inv_reply.split prod.split)


lemma inv_step_wf:
  assumes "inv_wf st" "inv_enabled e st"
  shows "inv_wf (inv_step rid s e st)"
proof (cases e)
  case (InvGoto n)
  then have "n \<in> set (page_window (inv_last_page st) (inv_current_page st))" using assms(2) by simp
  then show ?thesis using page_window_range InvGoto by (simp add: inv_goto_def inv_wf_def)
next
  case InvPrev
  then show ?thesis using assms(1) by (simp add: inv_prev_def inv_wf_def)
next
  case InvNext
  then show ?thesis using assms(1) by (simp add: inv_next_def inv_wf_def)
next
  case (InvFetched pr cr mr b)
  then show ?thesis using inv_fetch_wf assms by simp
qed (use assms(1) in \<open>simp_all add: inv_wf_def inv_search_input_def inv_debounce_fire_def inv_clear_search_def
       toggle_category_def clear_category_def toggle_select_all_def toggle_product_selection_def
       inv_handle_sort_def inv_handle_edit_def inv_remove_image_def split: option.split\<close>)

lemma inv_reach_wf:
  "inv_reach rid s st \<Longrightarrow> inv_wf st"
proof (induction rule: inv_reach.induct)
  case init
  then show ?case by (simp add: inv_init_def inv_wf_def)
next
  case (step rid s st e)
  then show ?case by (simp add: inv_step_wf)
qed

lemma inv_reach_run:
  "inv_reach rid s st \<Longrightarrow> inv_run_ok rid s es st \<Longrightarrow> inv_reach rid s (inv_run rid s es st)"
  by (induction es arbitrary: st) (auto intro: inv_reach.step)

lemma inv_paginated_beyond_fetched:
  "2 \<le> inv_current_page st \<Longrightarrow> length (inv_meds st) \<le> inv_items_per_page \<Longrightarrow> inv_paginated st = []"
  by (simp add: inv_paginated_def inv_start_def inv_items_per_page_def js_slice_past_end)

lemma inv_second_page_empty:
  "let es = [InvFetched PharmOk (CatsOk None) (MedsOk (map demo_product [1..<13]) 1 2) True, InvNext,
             InvFetched PharmOk (CatsOk None) (MedsOk (map demo_product [13..<25]) 2 2) True];
       st = inv_run None demo_pharmacy_session es inv_init
   in inv_reach None demo_pharmacy_session st \<and> tbl_rows (inv_table_view st) = [] \<and>
      ft_showing (inv_footer_view st) = (13, 12, 12) \<and> length (inv_meds st) = 12"
proof -
  let ?es = "[InvFetched PharmOk (CatsOk None) (MedsOk (map demo_product [1..<13]) 1 2) True, InvNext,
             InvFetched PharmOk (CatsOk None) (MedsOk (map demo_product [13..<25]) 2 2) True]"
  let ?st = "inv_run None demo_pharmacy_session ?es inv_init"
  have f: "\<And>st cp lp items. inv_fetch None demo_pharmacy_session PharmOk (CatsOk None) (MedsOk items cp lp) True st =
      (st\<lparr>inv_loading := False, inv_error := None, inv_categories := [], inv_meds := items, inv_current_page := cp,
          inv_last_page := lp\<rparr>,
       [GetCategories, GetMedications ''tok-3'' (meds_query_of demo_pharmacy_session (inv_current_page st) (inv_search st)
          (inv_selected_category st))])"
    by (simp add: inv_fetch_def inv_fetch_all_def demo_pharmacy_session_def truthy_id_def settle_all_def
        cats_settle_def meds_settle_def)
  have r: "inv_reach None demo_pharmacy_session ?st"
    by (rule inv_reach_run [OF inv_reach.init]) (simp add: f inv_items_per_page_def inv_next_def inv_footer_view_def)
  have "inv_current_page ?st = 2" "inv_meds ?st = map demo_product [13..<25]"
    by (simp_all add: f inv_next_def inv_init_def)
  moreover have "inv_paginated ?st = []"
    using calculation by (intro inv_paginated_beyond_fetched) (simp_all add: inv_items_per_page_def)
  ultimately show ?thesis using r
    by (simp add: inv_table_view_def inv_footer_view_def inv_start_def inv_items_per_page_def)
qed


lemma set_insert_by [simp]:
  "set (insert_by c x ys) = insert x (set ys)"
  by (induction ys) auto

lemma mset_insert_by [simp]:
  "mset (insert_by c x ys) = add_mset x (mset ys)"
  by (induction ys) auto

lemma js_sort_mset:
  "mset (js_sort c xs) = mset xs"
  by (induction xs) (simp_all add: js_sort_def)

lemma insert_by_sorted_desc:
  fixes k :: "'a \<Rightarrow> 'k::linorder"
  assumes "\<And>a b. c a b \<le> 0 \<longleftrightarrow> k b < k a" "sorted_wrt (\<lambda>a b. k b \<le> k a) ys"
  shows "sorted_wrt (\<lambda>a b. k b \<le> k a) (insert_by c x ys)"
  using assms(2) by (induction ys) (auto simp: assms(1) intro: order.trans less_imp_le)

lemma js_sort_sorted_desc:
  fixes k :: "'a \<Rightarrow> 'k::linorder"
  assumes "\<And>a b. c a b \<le> 0 \<longleftrightarrow> k b < k a"
  shows "sorted_wrt (\<lambda>a b. k b \<le> k a) (js_sort c xs)"
  by (induction xs) (simp_all add: js_sort_def insert_by_sorted_desc [OF assms])

lemma inv_cmp_column:
  fixes k :: "inv_product \<Rightarrow> 'k::linorder"
  assumes "\<And>a b. field_gt f a b \<longleftrightarrow> k b < k a"
  shows "js_sort (inv_cmp True f) xs = sort_key k xs \<and>
         sorted_wrt (\<lambda>a b. k b \<le> k a) (js_sort (inv_cmp False f) xs) \<and> mset (js_sort (inv_cmp False f) xs) = mset xs"
proof (intro conjI js_sort_sort_key js_sort_sorted_desc js_sort_mset)
  show "inv_cmp True f a b \<le> 0 \<longleftrightarrow> k a \<le> k b" for a b by (auto simp: inv_cmp_def assms)
  show "inv_cmp False f a b \<le> 0 \<longleftrightarrow> k b < k a" for a b by (auto simp: inv_cmp_def assms)
qed

lemma inv_sort_columns:
  "js_sort (inv_cmp True ''name'') xs = sort_key prod_name xs \<and>
   sorted_wrt (\<lambda>a b. prod_name b \<le> prod_name a) (js_sort (inv_cmp False ''name'') xs) \<and>
   js_sort (inv_cmp True ''price'') xs = sort_key prod_price xs \<and>
   sorted_wrt (\<lambda>a b. prod_price b \<le> prod_price a) (js_sort (inv_cmp False ''price'') xs) \<and>
   js_sort (inv_cmp True ''stock'') xs = sort_key prod_stock xs \<and>
   sorted_wrt (\<lambda>a b. prod_stock b \<le> prod_stock a) (js_sort (inv_cmp False ''stock'') xs)"
  using inv_cmp_column [of "''name''" prod_name xs] inv_cmp_column [of "''price''" prod_price xs]
        inv_cmp_column [of "''stock''" prod_stock xs]
  by (simp add: field_gt_def)

lemma inv_sort_alternates:
  "inv_sort_by st = None \<Longrightarrow> f \<in> set [''name'', ''price'', ''stock''] \<Longrightarrow>
   inv_meds (inv_handle_sort f st) = js_sort (inv_cmp False f) (inv_meds st) \<and>
   inv_sort_by (inv_handle_sort f st) = Some f \<and>
   inv_meds (inv_handle_sort f (inv_handle_sort f st)) = js_sort (inv_cmp True f) (js_sort (inv_cmp False f) (inv_meds st)) \<and>
   inv_sort_by (inv_handle_sort f (inv_handle_sort f st)) = None"
  by (simp add: inv_handle_sort_def)

lemma inv_selection_survives_refetch:
  "let es = [InvFetched PharmOk (CatsOk None) (MedsOk [demo_product 1, demo_product 2] 1 1) True,
             InvToggleProduct 1, InvSearchInput ''amox'', InvDebounce,
             InvFetched PharmOk (CatsOk None) (MedsOk [demo_product 3] 1 1) True];
       st = inv_run None demo_pharmacy_session es inv_init
   in inv_reach None demo_pharmacy_session st \<and> tbl_all_checked (inv_table_view st) \<and>
      map ir_checked (tbl_rows (inv_table_view st)) = [False]"
proof -
  let ?es = "[InvFetched PharmOk (CatsOk None) (MedsOk [demo_product 1, demo_product 2] 1 1) True,
             InvToggleProduct 1, InvSearchInput ''amox'', InvDebounce,
             InvFetched PharmOk (CatsOk None) (MedsOk [demo_product 3] 1 1) True]"
  let ?st = "inv_run None demo_pharmacy_session ?es inv_init"
  have f: "\<And>st cp lp items. inv_fetch None demo_pharmacy_session PharmOk (CatsOk None) (MedsOk items cp lp) True st =
      (st\<lparr>inv_loading := False, inv_error := None, inv_categories := [], inv_meds := items, inv_current_page := cp,
          inv_last_page := lp\<rparr>,
       [GetCategories, GetMedications ''tok-3'' (meds_query_of demo_pharmacy_session (inv_current_page st) (inv_search st)
          (inv_selected_category st))])"
    by (simp add: inv_fetch_def inv_fetch_all_def demo_pharmacy_session_def truthy_id_def settle_all_def
        cats_settle_def meds_settle_def)
  have p: "\<And>xs. length xs \<le> 12 \<Longrightarrow> js_slice xs 0 12 = xs"
    by (simp add: js_slice_def js_index_def)
  have r: "inv_reach None demo_pharmacy_session ?st"
    by (rule inv_reach_run [OF inv_reach.init])
       (simp add: f p inv_items_per_page_def inv_paginated_def inv_start_def demo_product_def inv_init_def
          toggle_product_selection_def inv_search_input_def inv_debounce_fire_def)
  then show ?thesis
    by (simp add: Let_def f p inv_items_per_page_def inv_paginated_def inv_start_def demo_product_def inv_init_def
          toggle_product_selection_def inv_search_input_def inv_debounce_fire_def inv_table_view_def inv_row_of_def)
qed


lemma add_request_omits_required_fields:
  "set (map fst (add_form_data f)) \<inter> {''active_ingredients'', ''manufacturer'', ''side_effects'', ''dosage''} = {} \<and>
   {''active_ingredients'', ''manufacturer'', ''side_effects'', ''dosage''} \<subseteq>
     set (map ff_name (filter ff_required (dlg_fields (add_dialog_view st))))"
  by (cases "fd_truthy (fd_get f ''imageFile'')")
     (simp_all add: add_form_data_def image_entry_def add_dialog_view_def field_def category_field_def Let_def)

lemma first_add_request:
  "let es = [InvSetAddOpen True, InvInput ''name'' ''Panadol'' None, InvInput ''category_id'' ''1'' None,
             InvInput ''generic_name'' ''paracetamol'' None, InvInput ''active_ingredients'' ''paracetamol'' None,
             InvInput ''manufacturer'' ''GSK'' None, InvInput ''side_effects'' ''none'' None,
             InvInput ''dosage'' ''500mg'' None, InvInput ''price'' ''50'' None, InvInput ''stock'' ''20'' None,
             InvInput ''lowStockAlert'' ''5'' None];
       st = inv_run None demo_pharmacy_session es inv_init
   in inv_run_ok None demo_pharmacy_session (es @ [InvSubmitAdd r]) inv_init \<and>
      snd (inv_add_product demo_pharmacy_session r st) =
        [PostCreate ''tok-3'' [(''name'', FdStr ''Panadol''), (''category_id'', FdStr ''1''),
           (''generic_name'', FdStr ''paracetamol''), (''expiry_date'', FdUndefined), (''price'', FdFloat ''50''),
           (''stock'', FdNum 20), (''lowStockAlert'', FdNum 5), (''description'', FdStr [])]]"
  by (simp add: inv_input_change_def inv_init_def new_product_init_def inv_add_product_def demo_pharmacy_session_def
      add_form_data_def image_entry_def fd_get_def parse_int_str_def digits_val_def digit_val_def is_digit_def
      dialog_submits_def add_dialog_view_def field_def category_field_def)

lemma edit_blocks_save_without_stock_or_threshold:
  "prod_stock p = 0 \<or> prod_low_alert p = None \<Longrightarrow> \<not> dialog_submits (edit_dialog_view (inv_handle_edit p st))"
  by (auto simp: dialog_submits_def edit_dialog_view_def field_def category_field_def fd_get_def inv_handle_edit_def
      form_of_product_def num_or_empty_def Let_def split: option.split)

lemma sign_in_keeps_pharmacy:
  "session_pharmacy (app_session (fst (sign_in_resume enc r rs (a, pg)))) = session_pharmacy (app_session a)"
  by (simp add: sign_in_resume_def Let_def split: auth_reply.split bool.split option.split)

lemma sign_out_keeps_pharmacy:
  "session_pharmacy (app_session (navbar_logout a)) = session_pharmacy (app_session a) \<and>
   session_pharmacy (app_session (user_navbar_logout a)) = session_pharmacy (app_session a) \<and>
   session_pharmacy (app_session (ph_navbar_logout a)) = session_pharmacy (app_session a) \<and>
   session_pharmacy (app_session (sidebar_logout a)) = session_pharmacy (app_session a)"
  by (simp add: navbar_logout_def user_navbar_logout_def ph_navbar_logout_def sidebar_logout_def clear_session_def Let_def)

lemma inventory_after_fresh_sign_in:
  assumes "session_pharmacy (app_session a) = None"
  shows "inv_fetch None (app_session (fst (sign_in_resume enc r rs (a, pg)))) pr cr mr b st =
         (st\<lparr>inv_loading := False, inv_error := Some pharmacy_missing_msg\<rparr>, [])"
  using assms sign_in_keeps_pharmacy [of enc r rs a pg] by (simp add: inv_fetch_def truthy_id_def)

lemma inv_view_ignores_error:
  "inv_view_of (st\<lparr>inv_error := x, inv_loading := y\<rparr>) = inv_view_of st"
  by (simp add: inv_view_of_def inv_toolbar_view_def add_dialog_view_def edit_dialog_view_def inv_filters_view_def
      inv_table_view_def inv_footer_view_def inv_paginated_def inv_start_def inv_row_of_def Let_def)

lemma settle_parts_page [simp]:
  "inv_current_page (fst (cats_settle r) st) = inv_current_page st"
  "inv_current_page (outer_catch m st) = inv_current_page st"
  "inv_current_page (fst (meds_settle mr) st) = reply_page mr (inv_current_page st)"
  by (cases r, simp_all add: cats_settle_def outer_catch_def) (cases mr, simp_all add: meds_settle_def reply_page_def)

lemma settle_parts_meds [simp]:
  "inv_meds (fst (cats_settle r) st) = inv_meds st"
  "inv_meds (outer_catch m st) = inv_meds st"
  "inv_meds (fst (meds_settle (MedsOk items p lp)) st) = items"
  by (cases r, simp_all add: cats_settle_def outer_catch_def) (simp add: meds_settle_def)

lemma settle_all_page:
  "inv_current_page (settle_all (cats_settle cr) (meds_settle mr) st) = reply_page mr (inv_current_page st)"
  "inv_current_page (settle_all (meds_settle mr) (cats_settle cr) st) = reply_page mr (inv_current_page st)"
  by (simp_all add: settle_all_def Let_def split: option.split)

lemma settle_all_meds:
  "inv_meds (settle_all (cats_settle cr) (meds_settle (MedsOk items p lp)) st) = items"
  "inv_meds (settle_all (meds_settle (MedsOk items p lp)) (cats_settle cr) st) = items"
  by (simp_all add: settle_all_def Let_def meds_settle_def split: option.split)

lemma reply_page_fail [simp]: "reply_page (MedsFail m) p = p"
  by (simp add: reply_page_def)

lemma inv_fetch_page:
  "inv_current_page (fst (inv_fetch rid s pr cr mr b st)) \<in> {inv_current_page st, reply_page mr (inv_current_page st)}"
  by (simp add: inv_fetch_def inv_fetch_all_def settle_all_page Let_def split: option.split prod.split)

lemma inv_fetch_all_reached:
  assumes "truthy_id (session_pharmacy s) \<noteq> None"
  shows "inv_fetch rid s pr cr mr b st = inv_fetch_all s cr mr b (st\<lparr>inv_loading := True, inv_error := None\<rparr>)"
proof -
  obtain n where n: "session_pharmacy s = Some n" "truthy_id (session_pharmacy s) = Some n"
    using assms by (auto simp: truthy_id_def split: option.splits if_splits)
  then show ?thesis by (cases "truthy_id rid") (simp_all add: inv_fetch_def Let_def)
qed

lemma inv_fetch_reached_page:
  assumes "truthy_id (session_pharmacy s) \<noteq> None" "login_token (userLogin s) \<noteq> None"
  shows "inv_current_page (fst (inv_fetch rid s pr cr mr b st)) = reply_page mr (inv_current_page st)"
proof -
  obtain t where t: "bearer_token (userLogin s) = Some t"
    using assms(2) by (cases "login_token (userLogin s)") auto
  then show ?thesis
    by (simp add: inv_fetch_all_reached [OF assms(1)] inv_fetch_all_def settle_all_page)
qed

lemma inv_effect_loop_unf:
  assumes "truthy_id (session_pharmacy s) \<noteq> None" "login_token (userLogin s) \<noteq> None"
  shows "inv_effect_loop srv rid s cr st =
         (let st' = fst (inv_fetch rid s PharmOk cr (srv (inv_current_page st)) True st) in
          if inv_page_next srv (inv_current_page st) = inv_current_page st then Some st'
          else inv_effect_loop srv rid s cr st')"
  by (subst inv_effect_loop.simps) (simp add: Let_def inv_fetch_reached_page [OF assms] inv_page_next_def)

text \<open>When the re-runs end, the pages the server reported reached a page it reports back
  (induction over the fixpoint, with \<open>raw_induct\<close>).\<close>

lemma inv_effect_loop_some_fixed:
  assumes "inv_effect_loop srv rid s cr st = Some st'"
  shows "truthy_id (session_pharmacy s) \<noteq> None \<longrightarrow> login_token (userLogin s) \<noteq> None \<longrightarrow>
         (\<exists>n. inv_page_next srv ((inv_page_next srv ^^ n) (inv_current_page st)) =
              (inv_page_next srv ^^ n) (inv_current_page st))"
proof (rule inv_effect_loop.raw_induct [where P = "\<lambda>srv rid s cr st st'.
    truthy_id (session_pharmacy s) \<noteq> None \<longrightarrow> login_token (userLogin s) \<noteq> None \<longrightarrow>
    (\<exists>n. inv_page_next srv ((inv_page_next srv ^^ n) (inv_current_page st)) =
         (inv_page_next srv ^^ n) (inv_current_page st))", OF _ assms])
  fix lp :: "(int \<Rightarrow> meds_reply) \<Rightarrow> nat option \<Rightarrow> session \<Rightarrow> cats_reply \<Rightarrow> inv_page \<Rightarrow> inv_page option"
    and srv rid s cr st st'
  assume IH: "\<And>srv rid s cr st st'. lp srv rid s cr st = Some st' \<Longrightarrow>
      truthy_id (session_pharmacy s) \<noteq> None \<longrightarrow> login_token (userLogin s) \<noteq> None \<longrightarrow>
      (\<exists>n. inv_page_next srv ((inv_page_next srv ^^ n) (inv_current_page st)) =
           (inv_page_next srv ^^ n) (inv_current_page st))"
    and h: "(let st'' = fst (inv_fetch rid s PharmOk cr (srv (inv_current_page st)) True st) in
             if inv_current_page st'' = inv_current_page st then Some st'' else lp srv rid s cr st'') = Some st'"
  show "truthy_id (session_pharmacy s) \<noteq> None \<longrightarrow> login_token (userLogin s) \<noteq> None \<longrightarrow>
        (\<exists>n. inv_page_next srv ((inv_page_next srv ^^ n) (inv_current_page st)) =
             (inv_page_next srv ^^ n) (inv_current_page st))"
  proof (intro impI)
    assume r: "truthy_id (session_pharmacy s) \<noteq> None" "login_token (userLogin s) \<noteq> None"
    let ?st = "fst (inv_fetch rid s PharmOk cr (srv (inv_current_page st)) True st)"
    have pg: "inv_current_page ?st = inv_page_next srv (inv_current_page st)"
      by (simp add: inv_fetch_reached_page [OF r] inv_page_next_def)
    show "\<exists>n. inv_page_next srv ((inv_page_next srv ^^ n) (inv_current_page st)) =
              (inv_page_next srv ^^ n) (inv_current_page st)"
    proof (cases "inv_page_next srv (inv_current_page st) = inv_current_page st")
      case True
      then show ?thesis by (intro exI [of _ 0]) simp
    next
      case False
      then have "lp srv rid s cr ?st = Some st'" using h pg by (simp add: Let_def)
      then obtain n where "inv_page_next srv ((inv_page_next srv ^^ n) (inv_page_next srv (inv_current_page st))) =
                           (inv_page_next srv ^^ n) (inv_page_next srv (inv_current_page st))"
        using IH r pg by fastforce
      then show ?thesis by (intro exI [of _ "Suc n"]) (simp add: funpow_Suc_right del: funpow.simps)
    qed
  qed
qed

lemma inv_effect_loop_fixed_some:
  assumes "truthy_id (session_pharmacy s) \<noteq> None" "login_token (userLogin s) \<noteq> None"
  shows "inv_page_next srv ((inv_page_next srv ^^ n) (inv_current_page st)) = (inv_page_next srv ^^ n) (inv_current_page st) \<Longrightarrow>
         \<exists>st'. inv_effect_loop srv rid s cr st = Some st'"
proof (induction n arbitrary: st)
  case 0
  then show ?case by (simp add: inv_effect_loop_unf [OF assms] Let_def)
next
  case (Suc n)
  let ?st = "fst (inv_fetch rid s PharmOk cr (srv (inv_current_page st)) True st)"
  have pg: "inv_current_page ?st = inv_page_next srv (inv_current_page st)"
    by (simp add: inv_fetch_reached_page [OF assms] inv_page_next_def)
  have "\<exists>st'. inv_effect_loop srv rid s cr ?st = Some st'"
    using Suc.prems pg by (intro Suc.IH) (simp add: funpow_Suc_right del: funpow.simps)
  then show ?case by (simp add: inv_effect_loop_unf [OF assms] Let_def)
qed

section \<open>Properties of the inventory page\<close>

text \<open>C33. The page slices the server's page again: every successful fetch of a page after the first, with at most twelve medications as the server sends, renders an empty table and a range line whose start lies past its end (Showing 13 to 12 of 12 products).\<close>

theorem inv_fetch_later_page_empty:
  assumes "truthy_id (session_pharmacy s) \<noteq> None" "login_token (userLogin s) \<noteq> None"
    and "2 \<le> p" "length items \<le> inv_items_per_page"
  shows "tbl_rows (inv_table_view (fst (inv_fetch rid s pr cr (MedsOk items p lp) b st))) = [] \<and>
         ft_showing (inv_footer_view (fst (inv_fetch rid s pr cr (MedsOk items p lp) b st))) =
           ((p - 1) * 12 + 1, int (length items), int (length items))"
proof -
  let ?st = "fst (inv_fetch rid s pr cr (MedsOk items p lp) b st)"
  obtain t where t: "bearer_token (userLogin s) = Some t"
    using assms(2) by (cases "login_token (userLogin s)") auto
  have m: "inv_meds ?st = items" and c: "inv_current_page ?st = p"
    using t by (simp_all add: inv_fetch_all_reached [OF assms(1)] inv_fetch_all_def settle_all_meds settle_all_page
      reply_page_def)
  have "inv_paginated ?st = []"
    using m c assms(3,4) by (intro inv_paginated_beyond_fetched) simp_all
  then show ?thesis
    using m c assms(3,4) by (simp add: inv_table_view_def inv_footer_view_def inv_start_def inv_items_per_page_def)
qed

lemma inv_fetch_later_page_empty_witness:
  "truthy_id (session_pharmacy demo_pharmacy_session) \<noteq> None \<and> login_token (userLogin demo_pharmacy_session) \<noteq> None \<and>
   tbl_rows (inv_table_view (fst (inv_fetch None demo_pharmacy_session PharmOk (CatsOk None)
      (MedsOk (map demo_product [13..<25]) 2 2) True inv_init))) = []"
proof -
  have h: "truthy_id (session_pharmacy demo_pharmacy_session) \<noteq> None" "login_token (userLogin demo_pharmacy_session) \<noteq> None"
    by (simp_all add: demo_pharmacy_session_def truthy_id_def)
  show ?thesis
    using inv_fetch_later_page_empty [OF h, of 2 "map demo_product [13..<25]" None PharmOk "CatsOk None" 2 True inv_init] h
    by (simp add: inv_items_per_page_def)
qed

text \<open>C35. The inventory queries the pharmacy of the session, which sign-in never sets and sign-out never clears: after one pharmacy signs out from the sidebar and another signs in, the medications request carries the new token and the previous pharmacy's id.\<close>

theorem inventory_queries_previous_pharmacy:
  assumes "session_pharmacy (app_session a) = Some p" "p \<noteq> 0"
    and "a' = fst (sign_in_resume enc (AuthReply True m (Some d)) rs (sidebar_logout a, pg))"
  shows "\<exists>q. snd (inv_fetch None (app_session a') pr cr mr b st) = [GetCategories, GetMedications (ld_access d) q] \<and>
             mq_pharmacy q = Some p"
proof -
  have s: "session_pharmacy (app_session a') = Some p" "userLogin (app_session a') = LoginObj (ld_access d) (ld_user d)"
    using assms sign_in_keeps_pharmacy sign_out_keeps_pharmacy by (simp_all add: sign_in_resume_def Let_def)
  then show ?thesis using assms(2)
    by (simp add: inv_fetch_def inv_fetch_all_def truthy_id_def meds_query_of_def Let_def)
qed

lemma inventory_queries_previous_pharmacy_witness:
  "session_pharmacy (app_session demo_pharmacy_app) = Some 7 \<and>
   (\<exists>q. snd (inv_fetch None (app_session (fst (sign_in_resume (\<lambda>u. first_name u) (AuthReply True None (Some demo_login_data)) []
          (sidebar_logout demo_pharmacy_app, demo_form_page)))) PharmOk (CatsOk None) (MedsOk [] 1 1) True inv_init) =
        [GetCategories, GetMedications ''tok-2'' q] \<and> mq_pharmacy q = Some 7)"
proof -
  have h: "session_pharmacy (app_session demo_pharmacy_app) = Some 7" by (simp add: demo_pharmacy_app_def)
  show ?thesis
    using inventory_queries_previous_pharmacy [OF h _ refl, of "\<lambda>u. first_name u" None demo_login_data "[]" demo_form_page
      PharmOk "CatsOk None" "MedsOk [] 1 1" True inv_init] h
    by (simp add: demo_login_data_def)
qed

text \<open>C37. The fetch effect re-runs while the page the server reports differs from
  the one requested. For a session with a pharmacy and a token, the re-runs end exactly
  when the pages the server reports, starting from the current page, reach a page it
  reports back for itself: a server that echoes the requested page stops after one
  fetch, and a server that always reports another page makes the page fetch forever.\<close>

theorem inv_effect_loop_terminates:
  assumes "truthy_id (session_pharmacy s) \<noteq> None" "login_token (userLogin s) \<noteq> None"
  shows "(\<exists>st'. inv_effect_loop srv rid s cr st = Some st') \<longleftrightarrow>
         (\<exists>n. inv_page_next srv ((inv_page_next srv ^^ n) (inv_current_page st)) =
              (inv_page_next srv ^^ n) (inv_current_page st))"
  using inv_effect_loop_some_fixed [of srv rid s cr st] inv_effect_loop_fixed_some [OF assms] assms
  by blast

lemma inv_effect_loop_terminates_witness:
  "truthy_id (session_pharmacy demo_pharmacy_session) \<noteq> None \<and> login_token (userLogin demo_pharmacy_session) \<noteq> None \<and>
   (\<exists>st'. inv_effect_loop (\<lambda>p. MedsOk [] p 1) None demo_pharmacy_session (CatsOk None) inv_init = Some st') \<and>
   inv_effect_loop (\<lambda>p. MedsOk [] (p + 1) 1) None demo_pharmacy_session (CatsOk None) inv_init = None"
proof -
  have h: "truthy_id (session_pharmacy demo_pharmacy_session) \<noteq> None"
    "login_token (userLogin demo_pharmacy_session) \<noteq> None"
    by (simp_all add: demo_pharmacy_session_def truthy_id_def)
  have echo: "inv_page_next (\<lambda>p. MedsOk [] p 1) ((inv_page_next (\<lambda>p. MedsOk [] p 1) ^^ 0) (inv_current_page inv_init)) =
              (inv_page_next (\<lambda>p. MedsOk [] p 1) ^^ 0) (inv_current_page inv_init)"
    by (simp add: inv_page_next_def reply_page_def)
  have shift: "inv_page_next (\<lambda>p. MedsOk [] (p + 1) 1) q \<noteq> q" for q
    by (simp add: inv_page_next_def reply_page_def)
  have "\<not> (\<exists>st'. inv_effect_loop (\<lambda>p. MedsOk [] (p + 1) 1) None demo_pharmacy_session (CatsOk None) inv_init = Some st')"
    using inv_effect_loop_terminates [OF h, of "\<lambda>p. MedsOk [] (p + 1) 1" None "CatsOk None" inv_init] shift by blast
  then show ?thesis
    using h inv_effect_loop_terminates [OF h, of "\<lambda>p. MedsOk [] p 1" None "CatsOk None" inv_init] echo
    by (metis not_Some_eq)
qed

end
