(* ===== verification/Customers.thy ===== *)
theory Customers
  imports Orders
begin

text \<open>
  The pharmacy dashboard's customer list, \<open>CustomersPage\<close> in
  \<open>src/src/Pages/PharmacyDashboard/Customers/Customers.jsx\<close>. Unlike the order list it
  is paginated by the server only (\<open>paginate: 5\<close>, the reply's \<open>current_page\<close> and
  \<open>last_page\<close>), and it reuses the order list's page-button window
  (\<open>Orders.page_window\<close>). The page renders a loading line, an error line, or the table
  with its pagination and the customer dialog; the events the user can cause are those of
  the controls the current view renders.
\<close>

section \<open>Data and page state\<close>

text \<open>An order of a customer's history as the details endpoint returns it.\<close>

record history_order =
  ho_code :: string
  ho_date :: "string option"
  ho_status :: string
  ho_total_items :: int
  ho_total_amount :: int

text \<open>A customer; optional fields are \<open>None\<close> when the API sends \<open>null\<close>, numeric ones
  are kept with 0 for \<open>null\<close> (the page only prints them with \<open>|| 0\<close>).\<close>

record customer =
  cu_id :: nat
  cu_first_name :: "string option"
  cu_last_name :: "string option"
  cu_email :: "string option"
  cu_phone :: "string option"
  cu_address :: "string option"
  cu_join_date :: "string option"
  cu_total_orders :: int
  cu_total_amount :: int
  cu_last_order_date :: "string option"
  cu_orders :: "history_order list"

text \<open>\<open>sortOption\<close> is the string \<open>field-direction\<close>; the fields contain no hyphen, so
  it is kept as the pair that \<open>split("-")\<close> yields.\<close>

record customers_page =
  customers :: "customer list"
  cu_search :: string
  sort_option :: "string \<times> string"
  current_page :: int
  last_page :: int
  total_customers :: int
  cu_loading :: bool
  cu_error :: "string option"
  selected_customer :: "customer option"
  dialog_open :: bool

definition customers_init :: customers_page where
  "customers_init = \<lparr>customers = [], cu_search = [], sort_option = (''alphabetical'', ''asc''), current_page = 1,
     last_page = 1, total_customers = 0, cu_loading = True, cu_error = None, selected_customer = None,
     dialog_open = False\<rparr>"

section \<open>Fetching\<close>

record customers_query =
  cq_paginate :: nat
  cq_page :: int
  cq_search :: "string option"
  cq_sort :: string

definition customers_query_of :: "customers_page \<Rightarrow> customers_query" where
  "customers_query_of st =
     \<lparr>cq_paginate = 5, cq_page = current_page st,
      cq_search = (if cu_search st = [] then None else Some (cu_search st)),
      cq_sort = fst (sort_option st) @ ''-'' @ snd (sort_option st)\<rparr>"

text \<open>\<open>fetchCustomers\<close>: its synchronous part sets \<open>loading\<close> and clears the error; the
  reply carries the page of customers, \<open>current_page\<close>, \<open>last_page\<close> and \<open>total\<close>.\<close>

datatype customers_reply = CustomersNetError | CustomersReply "customer list" int int int

definition fetch_customers_call :: "customers_page \<Rightarrow> customers_page" where
  "fetch_customers_call st = st\<lparr>cu_loading := True, cu_error := None\<rparr>"

definition fetch_customers_resume :: "customers_reply \<Rightarrow> customers_page \<Rightarrow> customers_page" where
  "fetch_customers_resume r st =
     (case r of
        CustomersNetError \<Rightarrow> st\<lparr>cu_error := Some ''Failed to fetch customers'', cu_loading := False\<rparr>
      | CustomersReply cs cp lp tot \<Rightarrow>
          st\<lparr>customers := cs, current_page := cp, last_page := lp, total_customers := tot,
             cu_loading := False\<rparr>)"

text \<open>\<open>fetchCustomerDetails\<close>: the dialog opens on success; a failure sets the page's
  error.\<close>

definition customer_details_resume :: "customer option \<Rightarrow> customers_page \<Rightarrow> customers_page" where
  "customer_details_resume d st =
     (case d of
        None \<Rightarrow> st\<lparr>cu_error := Some ''Failed to load customer details''\<rparr>
      | Some c \<Rightarrow> st\<lparr>selected_customer := Some c, dialog_open := True\<rparr>)"

section \<open>Handlers\<close>

text \<open>\<open>handleSort\<close> flips the direction of the current option, whatever its field, and
  pairs it with the clicked field.\<close>

definition customers_sort :: "string \<Rightarrow> customers_page \<Rightarrow> customers_page" where
  "customers_sort opt st =
     st\<lparr>sort_option := (opt, if snd (sort_option st) = ''asc'' then ''desc'' else ''asc''), current_page := 1\<rparr>"

definition customers_search :: "string \<Rightarrow> customers_page \<Rightarrow> customers_page" where
  "customers_search q st = st\<lparr>cu_search := q, current_page := 1\<rparr>"

definition customers_clear_search :: "customers_page \<Rightarrow> customers_page" where
  "customers_clear_search st = st\<lparr>cu_search := []\<rparr>"

definition customers_prev :: "customers_page \<Rightarrow> customers_page" where
  "customers_prev st = st\<lparr>current_page := max (current_page st - 1) 1\<rparr>"

definition customers_next :: "customers_page \<Rightarrow> customers_page" where
  "customers_next st = st\<lparr>current_page := min (current_page st + 1) (last_page st)\<rparr>"

definition customers_goto :: "int \<Rightarrow> customers_page \<Rightarrow> customers_page" where
  "customers_goto n st = st\<lparr>current_page := n\<rparr>"

section \<open>The view model\<close>

text \<open>\<open>`${a || ''} ${b || ''}`.trim()\<close> and the avatar initials
  \<open>name.split(" ").map(n => n[0]).join("")\<close>.\<close>

definition opt_str :: "string option \<Rightarrow> string" where
  "opt_str v = (case v of None \<Rightarrow> [] | Some s \<Rightarrow> s)"

definition js_trim :: "string \<Rightarrow> string" where
  "js_trim s = rev (dropWhile (\<lambda>c. c = CHR '' '') (rev (dropWhile (\<lambda>c. c = CHR '' '') s)))"

fun split_space :: "string \<Rightarrow> string list" where
  "split_space [] = [[]]"
| "split_space (c # cs) =
     (if c = CHR '' '' then [] # split_space cs
      else (case split_space cs of w # ws \<Rightarrow> (c # w) # ws | [] \<Rightarrow> [[c]]))"

definition customer_name :: "customer \<Rightarrow> string" where
  "customer_name c = js_trim (opt_str (cu_first_name c) @ '' '' @ opt_str (cu_last_name c))"

definition initials :: "string \<Rightarrow> string" where
  "initials name = concat (map (take 1) (split_space name))"

definition or_na :: "string option \<Rightarrow> string" where
  "or_na v = (case v of None \<Rightarrow> ''N/A'' | Some s \<Rightarrow> if s = [] then ''N/A'' else s)"

record customer_row =
  cr_avatar :: string
  cr_name :: string
  cr_email :: string
  cr_phone :: string
  cr_join :: string
  cr_orders :: int
  cr_spent :: int
  cr_last :: string

definition customer_row_of :: "customer \<Rightarrow> customer_row" where
  "customer_row_of c =
     (let n = customer_name c in
      \<lparr>cr_avatar = (if n = [] then ''U'' else initials n), cr_name = (if n = [] then ''Unknown Customer'' else n),
       cr_email = or_na (cu_email c), cr_phone = or_na (cu_phone c), cr_join = or_na (cu_join_date c),
       cr_orders = cu_total_orders c, cr_spent = cu_total_amount c, cr_last = or_na (cu_last_order_date c)\<rparr>)"

text \<open>A template literal prints \<open>null\<close> for an absent name.\<close>

definition js_template :: "string option \<Rightarrow> string" where
  "js_template v = (case v of None \<Rightarrow> ''null'' | Some s \<Rightarrow> s)"

definition dialog_title :: "customer option \<Rightarrow> string" where
  "dialog_title c =
     (case c of None \<Rightarrow> []
      | Some c \<Rightarrow> ''Customer information for '' @ js_template (cu_first_name c) @ '' '' @ js_template (cu_last_name c))"

text \<open>The order history: a table on wide screens, cards on narrow ones; each row is the
  order's code, the date shown, status, items and total.\<close>

definition history_desktop :: "customer \<Rightarrow> (string \<times> string \<times> string) list" where
  "history_desktop c = map (\<lambda>ho. (ho_code ho, or_na (cu_join_date c), ho_status ho)) (cu_orders c)"

definition history_mobile :: "customer \<Rightarrow> (string \<times> string \<times> string) list" where
  "history_mobile c = map (\<lambda>ho. (ho_code ho, or_na (ho_date ho), ho_status ho)) (cu_orders c)"

text \<open>The page buttons: the order list's window over \<open>lastPage\<close>.\<close>

definition customers_page_buttons :: "customers_page \<Rightarrow> (int \<times> bool) list" where
  "customers_page_buttons st =
     map (\<lambda>n. (n, current_page st = n)) (page_window (last_page st) (current_page st))"

text \<open>The controls a view offers, and the view itself.\<close>

datatype cu_control =
    CSort string | CSearch | CClearSearch | CPrev | CNext | CPage int | CView nat | CClose

datatype customers_view =
    CuLoading | CuError string
  | CuTable "customer_row list" "int \<times> int" "(int \<times> bool) list" bool bool "cu_control list"

definition customers_controls :: "customers_page \<Rightarrow> cu_control list" where
  "customers_controls st =
     [CSort ''alphabetical'', CSort ''orders'', CSort ''total_amount'', CSearch] @
     (if cu_search st \<noteq> [] then [CClearSearch] else []) @
     (if current_page st = 1 then [] else [CPrev]) @
     map (CPage \<circ> fst) (customers_page_buttons st) @
     (if current_page st = last_page st then [] else [CNext]) @
     map (CView \<circ> cu_id) (customers st) @ (if dialog_open st then [CClose] else [])"

definition customers_view_of :: "customers_page \<Rightarrow> customers_view" where
  "customers_view_of st =
     (if cu_loading st then CuLoading
      else case cu_error st of
        Some e \<Rightarrow> CuError e
      | None \<Rightarrow> CuTable (map customer_row_of (customers st)) (int (length (customers st)), total_customers st)
                        (customers_page_buttons st) (current_page st = 1) (current_page st = last_page st)
                        (customers_controls st))"

fun view_controls :: "customers_view \<Rightarrow> cu_control list" where
  "view_controls (CuTable rows sh bs pd nd cs) = cs"
| "view_controls _ = []"

section \<open>The page as a state machine\<close>

text \<open>User events act through a rendered control; the effect re-fetches when the
  search, the sort option or the page changes; replies arrive for the fetches and the
  details requests.\<close>

datatype cu_event =
    CuClick cu_control string | CuFetchReply customers_reply | CuDetailsReply "customer option"

text \<open>The fetch effect runs again exactly when one of its dependencies (search, sort
  option, current page) changed.\<close>

definition cu_deps :: "customers_page \<Rightarrow> string \<times> (string \<times> string) \<times> int" where
  "cu_deps st = (cu_search st, sort_option st, current_page st)"

definition cu_effect :: "customers_page \<Rightarrow> customers_page \<Rightarrow> customers_page" where
  "cu_effect st st' = (if cu_deps st' \<noteq> cu_deps st then fetch_customers_call st' else st')"

fun cu_click :: "cu_control \<Rightarrow> string \<Rightarrow> customers_page \<Rightarrow> customers_page" where
  "cu_click (CSort f) q st = customers_sort f st"
| "cu_click CSearch q st = customers_search q st"
| "cu_click CClearSearch q st = customers_clear_search st"
| "cu_click CPrev q st = customers_prev st"
| "cu_click CNext q st = customers_next st"
| "cu_click (CPage n) q st = customers_goto n st"
| "cu_click (CView i) q st = st"
| "cu_click CClose q st = st\<lparr>dialog_open := False\<rparr>"

fun cu_step :: "cu_event \<Rightarrow> customers_page \<Rightarrow> customers_page" where
  "cu_step (CuClick c q) st = cu_effect st (cu_click c q st)"
| "cu_step (CuFetchReply r) st = cu_effect st (fetch_customers_resume r st)"
| "cu_step (CuDetailsReply d) st = customer_details_resume d st"

fun cu_enabled :: "cu_event \<Rightarrow> customers_page \<Rightarrow> bool" where
  "cu_enabled (CuClick c q) st = (c \<in> set (view_controls (customers_view_of st)))"
| "cu_enabled (CuFetchReply r) st = cu_loading st"
| "cu_enabled (CuDetailsReply d) st = True"

definition demo_customer :: customer where
  "demo_customer = \<lparr>cu_id = 7, cu_first_name = Some ''Omar'', cu_last_name = Some ''Ali'', cu_email = None,
     cu_phone = Some ''01012345678'', cu_address = None, cu_join_date = Some ''2024-01-10'', cu_total_orders = 2,
     cu_total_amount = 300, cu_last_order_date = Some ''2025-04-02'',
     cu_orders = [\<lparr>ho_code = ''ORD-9'', ho_date = Some ''2025-04-02'', ho_status = ''delivered'',
                   ho_total_items = 3, ho_total_amount = 300\<rparr>]\<rparr>"

section \<open>Lemmas\<close>

lemma customers_error_view:
  "\<not> cu_loading st \<Longrightarrow> cu_error st = Some m \<Longrightarrow> view_controls (customers_view_of st) = []"
  by (simp add: customers_view_of_def)

section \<open>Properties of the customer list\<close>

text \<open>C34. A failure of the customer-details request sets the page-level error, after which the page renders only the error line: it offers no control, no fetch is in flight, and every event that can still happen leaves the error in place, so the list cannot be brought back without leaving the page.\<close>

theorem customers_error_absorbing:
  assumes "cu_error st \<noteq> None" "\<not> cu_loading st" "cu_enabled e st"
  shows "cu_error (cu_step e st) \<noteq> None \<and> \<not> cu_loading (cu_step e st)"
proof (cases e)
  case (CuClick c q)
  from assms(1) obtain m where "cu_error st = Some m" by blast
  with assms(2,3) CuClick show ?thesis by (simp add: customers_error_view)
next
  case (CuFetchReply r)
  with assms(2,3) show ?thesis by simp
next
  case (CuDetailsReply d)
  with assms(1,2) show ?thesis by (simp add: customer_details_resume_def split: option.splits)
qed

lemma customers_error_absorbing_witness:
  "cu_error (customers_init\<lparr>cu_loading := False, cu_error := Some ''Failed to load customer details''\<rparr>) \<noteq> None \<and>
   \<not> cu_loading (customers_init\<lparr>cu_loading := False, cu_error := Some ''Failed to load customer details''\<rparr>) \<and>
   cu_enabled (CuDetailsReply (Some demo_customer))
     (customers_init\<lparr>cu_loading := False, cu_error := Some ''Failed to load customer details''\<rparr>) \<and>
   cu_error (cu_step (CuDetailsReply (Some demo_customer))
     (customers_init\<lparr>cu_loading := False, cu_error := Some ''Failed to load customer details''\<rparr>)) \<noteq> None"
  using customers_error_absorbing [of "customers_init\<lparr>cu_loading := False, cu_error := Some ''Failed to load customer details''\<rparr>"
      "CuDetailsReply (Some demo_customer)"]
  by simp

text \<open>The order history of the customer dialog: the wide-screen table prints the customer's join date in every order's Date column while the narrow-screen cards print the order's own date, so the two layouts agree exactly when every order carries the join date.\<close>

theorem history_layouts_agree_iff:
  "history_desktop c = history_mobile c \<longleftrightarrow> (\<forall>ho \<in> set (cu_orders c). or_na (ho_date ho) = or_na (cu_join_date c))"
  by (auto simp: history_desktop_def history_mobile_def map_eq_conv)

lemma history_layouts_agree_iff_witness:
  "history_desktop demo_customer \<noteq> history_mobile demo_customer"
  using history_layouts_agree_iff [of demo_customer]
  by (simp add: demo_customer_def or_na_def)

end
