(* ===== verification/CartPages.thy ===== *)
theory CartPages
  imports MedicationDetails Inventory Customers
begin

text \<open>
  The two pages over the cart context: the cart page (\<open>src/src/Pages/Cart/Cart.jsx\<close>),
  whose steppers, remove buttons and clear button call the context's handlers, and the
  checkout page (\<open>src/src/Pages/Checkout/Checkout.jsx\<close>) around \<open>handleCheckout\<close>
  (theory \<open>Checkout\<close>): its address list loaded on mount, the address select, the
  payment radios, the notes, the buttons, and the order summary both pages render.
\<close>

section \<open>The order summary\<close>

text \<open>\<open>Subtotal ({cartItems.length} items)\<close>, the total (shipping is free), and the hint
  \<open>Add {200 - subtotal} EGP more\<close> below 200.\<close>

record order_summary =
  os_count :: nat
  os_subtotal :: int
  os_total :: int
  os_hint :: "int option"

definition order_summary_of :: "cart_item list \<Rightarrow> order_summary" where
  "order_summary_of items =
     \<lparr>os_count = length items, os_subtotal = subtotal items, os_total = subtotal items,
      os_hint = (if subtotal items < 200 then Some (200 - subtotal items) else None)\<rparr>"

section \<open>The cart page\<close>

text \<open>A click on a line's control runs with the line of that render (\<open>item\<close> in the
  closure).\<close>

datatype cart_click = ClickMinus cart_item | ClickPlus cart_item | ClickRemove cart_item | ClickClear

record cart_line_view =
  cl_image :: string
  cl_name :: string
  cl_sold_by :: string
  cl_quantity :: int
  cl_price :: int
  cl_clicks :: "cart_click list"

definition cart_line_view_of :: "cart_item \<Rightarrow> cart_line_view" where
  "cart_line_view_of it =
     \<lparr>cl_image = (if item_image it = [] then ''placeholder.svg'' else item_image it), cl_name = item_name it,
      cl_sold_by = item_pharmacy it, cl_quantity = item_quantity it, cl_price = item_price it,
      cl_clicks = [ClickMinus it, ClickPlus it, ClickRemove it]\<rparr>"

datatype cart_view = CartEmptyView | CartListView "cart_line_view list" order_summary

definition cart_view_of :: "cart_item list \<Rightarrow> cart_view" where
  "cart_view_of items =
     (if items = [] then CartEmptyView else CartListView (map cart_line_view_of items) (order_summary_of items))"

text \<open>The steppers test \<open>item.quantity > 10\<close> before calling \<open>updateQuantity\<close> and then
  call \<open>toast\<close>, which \<open>Cart.jsx\<close> does not import: the handler throws a
  \<open>ReferenceError\<close> and nothing else happens.\<close>

definition cart_stepper :: "user_login \<Rightarrow> cart_item \<Rightarrow> int \<Rightarrow> reply list \<Rightarrow> cart_item list \<Rightarrow> run_out" where
  "cart_stepper u it d rs items =
     (if 10 < item_quantity it
      then \<lparr>run_items = items, run_sent = [], run_effects = [ConsoleError ''ReferenceError: toast is not defined'']\<rparr>
      else run_op u (UpdateQuantity (Some (item_id it)) d) rs items)"

fun cart_click_run :: "user_login \<Rightarrow> cart_click \<Rightarrow> reply list \<Rightarrow> cart_item list \<Rightarrow> run_out" where
  "cart_click_run u (ClickMinus it) rs items = cart_stepper u it (-1) rs items"
| "cart_click_run u (ClickPlus it) rs items = cart_stepper u it 1 rs items"
| "cart_click_run u (ClickRemove it) rs items = run_op u (RemoveItem (item_id it)) rs items"
| "cart_click_run u ClickClear rs items = run_op u DeleteCart rs items"

section \<open>The checkout page\<close>

text \<open>An address of \<open>/user/addresses\<close>; \<open>city\<close> and \<open>governorate\<close> are read with
  \<open>?.name\<close>.\<close>

record address =
  addr_id :: nat
  addr_name :: string
  addr_city :: "string option"
  addr_governorate :: "string option"
  addr_line :: string
  addr_postal :: string

text \<open>\<open>addresses\<close> holds \<open>res.data.data\<close>, which may be absent (\<open>None\<close>, rendered
  through \<open>addresses?.map\<close>).\<close>

record checkout_page =
  co_addresses :: "address list option"
  co_form :: checkout_form

definition checkout_page_init :: checkout_page where
  "checkout_page_init =
     \<lparr>co_addresses = Some [], co_form = \<lparr>selectedAddressId = [], paymentMethod = ''cash_on_delivery'', order_notes = []\<rparr>\<rparr>"

datatype addresses_reply = AddrOk "address list option" | AddrFail

text \<open>The mount effect builds the header from \<open>userLogin.token\<close> outside any
  \<open>try\<close>: on a \<open>null\<close> login it throws out of the effect and the page does not render
  (\<open>None\<close>); otherwise it sends the request (its token is returned) and stores the
  reply's list, or logs the failure.\<close>

definition checkout_addresses_effect ::
  "user_login \<Rightarrow> addresses_reply \<Rightarrow> checkout_page \<Rightarrow> (checkout_page \<times> token \<times> effect list) option" where
  "checkout_addresses_effect u r st =
     (case bearer_token u of
        None \<Rightarrow> None
      | Some t \<Rightarrow> Some (case r of
                          AddrOk d \<Rightarrow> (st\<lparr>co_addresses := d\<rparr>, t, [])
                        | AddrFail \<Rightarrow> (st, t, [ConsoleError ''addresses request failed''])))"

definition co_select_address :: "string \<Rightarrow> checkout_page \<Rightarrow> checkout_page" where
  "co_select_address v st = st\<lparr>co_form := (co_form st)\<lparr>selectedAddressId := v\<rparr>\<rparr>"

definition co_set_payment :: "string \<Rightarrow> checkout_page \<Rightarrow> checkout_page" where
  "co_set_payment v st = st\<lparr>co_form := (co_form st)\<lparr>paymentMethod := v\<rparr>\<rparr>"

definition co_set_notes :: "string \<Rightarrow> checkout_page \<Rightarrow> checkout_page" where
  "co_set_notes v st = st\<lparr>co_form := (co_form st)\<lparr>order_notes := v\<rparr>\<rparr>"

definition co_add_address :: "effect list" where
  "co_add_address = [NavigateTo ''/userdashboard/manageaddresses'']"

text \<open>Back to Cart calls \<open>setStep\<close>, which the page does not define: the handler throws
  and the enclosing \<open>Link\<close> navigates.\<close>

definition co_back_to_cart :: "effect list" where
  "co_back_to_cart = [ConsoleError ''ReferenceError: setStep is not defined'', NavigateTo ''/cart'']"

definition co_place_order :: "user_login \<Rightarrow> checkout_page \<Rightarrow> reply list \<Rightarrow> cart_item list \<Rightarrow> run_out" where
  "co_place_order u st rs items = handle_checkout u (co_form st) rs items"

text \<open>An option of the select: the value \<open>addr.id\<close> and the text
  \<open>{addr.name} ,{addr.city?.name}, {addr.governorate?.name}, {addr.address},{addr.postal_code}\<close>
  (an absent name renders as nothing).\<close>

definition address_option :: "address \<Rightarrow> string \<times> string" where
  "address_option a =
     (nat_str (addr_id a),
      addr_name a @ '' ,'' @ opt_str (addr_city a) @ '', '' @ opt_str (addr_governorate a) @ '', '' @
      addr_line a @ '','' @ addr_postal a)"

record checkout_view =
  cv_options :: "(string \<times> string) list"
  cv_selected :: string
  cv_cash_checked :: bool
  cv_card_checked :: bool
  cv_summary :: order_summary

definition checkout_view_of :: "checkout_page \<Rightarrow> cart_item list \<Rightarrow> checkout_view" where
  "checkout_view_of st items =
     \<lparr>cv_options = ([], ''Select an address'') #
                   (case co_addresses st of None \<Rightarrow> [] | Some as \<Rightarrow> map address_option as),
      cv_selected = selectedAddressId (co_form st),
      cv_cash_checked = (paymentMethod (co_form st) = ''cash_on_delivery''),
      cv_card_checked = (paymentMethod (co_form st) = ''credit_card''),
      cv_summary = order_summary_of items\<rparr>"

section \<open>Lemmas\<close>

lemma digits_val_snoc [simp]:
  "digits_val (xs @ [c]) = 10 * digits_val xs + digit_val c"
  by (simp add: digits_val_def)

lemma nat_str_roundtrip:
  "digits_val (nat_str n) = n \<and> nat_str n \<noteq> [] \<and> list_all is_digit (nat_str n)"
proof (induction n rule: nat_str.induct)
  case (1 n)
  show ?case
  proof (cases "n < 10")
    case True
    then show ?thesis by (simp add: digits_val_def)
  next
    case False
    then have "digits_val (nat_str (n div 10)) = n div 10 \<and> list_all is_digit (nat_str (n div 10))"
      using 1 by simp
    with False show ?thesis by (subst nat_str.simps) simp
  qed
qed

lemma cart_stepper_within_bound:
  "item_quantity it \<le> 10 \<Longrightarrow>
   cart_click_run u (ClickPlus it) rs items = run_op u (UpdateQuantity (Some (item_id it)) 1) rs items \<and>
   cart_click_run u (ClickMinus it) rs items = run_op u (UpdateQuantity (Some (item_id it)) (-1)) rs items"
  by (simp add: cart_stepper_def)

lemma cart_line_above_bound_stuck:
  fixes st :: md_page
  assumes "server_wf s" "login_token u = Some (srv_token s)" "synced items s" "cart_map items i = Some 10"
  defines "items' \<equiv> snd (snd (md_add_served u i 1 s items st))"
  shows "\<exists>it \<in> set items'. item_id it = i \<and> item_quantity it = 11 \<and> ClickMinus it \<in> set (cl_clicks (cart_line_view_of it)) \<and>
           cart_click_run u (ClickMinus it) rs items' =
             \<lparr>run_items = items', run_sent = [], run_effects = [ConsoleError ''ReferenceError: toast is not defined'']\<rparr>"
proof -
  have "cart_map items' i = Some 11"
    using md_add_served_increments [OF assms(1-4), of st] by (simp add: items'_def)
  then obtain it where "it \<in> set items'" "item_id it = i" "item_quantity it = 11"
    by (auto simp: cart_map_def dest!: map_of_SomeD)
  then show ?thesis by (intro bexI [of _ it]) (simp_all add: cart_stepper_def cart_line_view_of_def)
qed

lemma checkout_effect_under_guard:
  assumes "protect_route s None = RenderChildren"
  shows "checkout_addresses_effect (userLogin s) r st \<noteq> None"
proof -
  obtain t where "login_token (userLogin s) = Some t"
    using assms by (auto simp: protect_route_def split: if_splits)
  then have "bearer_token (userLogin s) = Some t" by simp
  then show ?thesis by (simp add: checkout_addresses_effect_def)
qed

lemma checkout_posts_selected_address:
  fixes st :: checkout_page
  assumes "a \<in> set as" "items \<noteq> []" "bearer_token u = Some t"
  defines "st' \<equiv> co_select_address (fst (address_option a)) (st\<lparr>co_addresses := Some as\<rparr>)"
  shows "fst (address_option a) \<in> set (map fst (cv_options (checkout_view_of st' items))) \<and>
         run_sent (co_place_order u st' [] items) =
           [PostCheckout t (nat_str (addr_id a)) (paymentMethod (co_form st)) (order_notes (co_form st))] \<and>
         digits_val (nat_str (addr_id a)) = addr_id a"
proof -
  have r: "digits_val (nat_str (addr_id a)) = addr_id a" "nat_str (addr_id a) \<noteq> []"
    using nat_str_roundtrip [of "addr_id a"] by simp_all
  have f: "co_form st' = (co_form st)\<lparr>selectedAddressId := nat_str (addr_id a)\<rparr>" "co_addresses st' = Some as"
    by (simp_all add: st'_def co_select_address_def address_option_def del: nat_str.simps)
  have c: "cv_options (checkout_view_of st' items) = ([], ''Select an address'') # map address_option as"
    using f(2) by (simp add: checkout_view_of_def)
  have "fst (address_option a) \<in> fst ` set (map address_option as)" using assms(1) by (intro imageI) simp
  then have o: "fst (address_option a) \<in> set (map fst (cv_options (checkout_view_of st' items)))"
    unfolding c by (simp add: image_image del: nat_str.simps)
  have s: "run_sent (co_place_order u st' [] items) =
        [PostCheckout t (nat_str (addr_id a)) (paymentMethod (co_form st)) (order_notes (co_form st))]"
    using f(1) r(2) assms(2,3) by (simp add: co_place_order_def handle_checkout_def checkout_call_def del: nat_str.simps)
  show ?thesis using o s r(1) by blast
qed

end
