(* ===== verification/Navbars.thy ===== *)
theory Navbars
  imports Auth Customers
begin

text \<open>
  The navigation bars over the session: the public \<open>Navbar\<close>
  (\<open>src/src/Pages/Navbar/Navbar.jsx\<close>) with its cart badge and sign-in/sign-out
  controls, the customer dashboard's \<open>UserNavbar\<close> and the pharmacy dashboard's
  \<open>PhNavbar\<close> (\<open>src/src/components/\<close>) with their account menus, the pharmacy
  \<open>Sidebar\<close>, and the two dashboard layouts that hold them
  (\<open>src/src/Pages/Layout/\<close>). Their sign-out handlers are in theory \<open>Auth\<close>; this
  theory holds what they render.
\<close>

section \<open>The public navbar\<close>

text \<open>\<open>userLogin ? ... : ...\<close>: the login is truthy unless it is \<open>null\<close> or the empty
  string.\<close>

fun login_truthy :: "user_login \<Rightarrow> bool" where
  "login_truthy LoginNull = False"
| "login_truthy (LoginObj t p) = True"
| "login_truthy (LoginStr s) = (s \<noteq> [])"

definition navbar_links :: "(string \<times> string) list" where
  "navbar_links = [(''Home'', ''/''), (''Medications'', ''/medications''), (''Pharmacies'', ''/pharmacies''),
     (''About'', ''/about''), (''Contact'', ''/contact'')]"

datatype nav_control = NavTo string string | SignOutButton

text \<open>The account controls: the dashboard button of the navbar's user type and Sign Out
  for a truthy login, Sign In and Join as Pharmacy otherwise.\<close>

definition navbar_controls :: "app \<Rightarrow> nav_control list" where
  "navbar_controls a =
     (if login_truthy (userLogin (app_session a)) then
        (if navbar_user_type a = Some ''user'' then [NavTo ''User Dashboard'' ''/userdashboard''] else []) @
        (if navbar_user_type a = Some ''pharmacy'' then [NavTo ''Pharmacy Dashboard'' ''/pharmacydashboard''] else []) @
        [SignOutButton]
      else [NavTo ''Sign In'' ''/signin'', NavTo ''Join as Pharmacy'' ''/join''])"

definition navbar_badge :: "cart_item list \<Rightarrow> int option" where
  "navbar_badge items = (if 0 < total_quantity items then Some (total_quantity items) else None)"

record navbar_view =
  nv_links :: "(string \<times> string) list"
  nv_badge :: "int option"
  nv_controls :: "nav_control list"
  nv_mobile :: "((string \<times> string) list \<times> int option \<times> nav_control list) option"

text \<open>The desktop bar, and the mobile panel with the same content while the menu is open.\<close>

definition navbar_view_of :: "app \<Rightarrow> bool \<Rightarrow> navbar_view" where
  "navbar_view_of a is_open =
     \<lparr>nv_links = navbar_links, nv_badge = navbar_badge (app_cart a), nv_controls = navbar_controls a,
      nv_mobile = (if is_open then Some (navbar_links, navbar_badge (app_cart a), navbar_controls a) else None)\<rparr>"

definition navbar_toggle :: "bool \<Rightarrow> bool" where
  "navbar_toggle is_open = (\<not> is_open)"

text \<open>The document's \<open>mousedown\<close> listener: an open menu closes on a press outside any
  button and outside the panel (\<open>div.flex-col\<close>).\<close>

definition navbar_click_outside :: "bool \<Rightarrow> bool \<Rightarrow> bool \<Rightarrow> bool" where
  "navbar_click_outside is_open in_button in_panel =
     (if is_open \<and> \<not> in_button \<and> \<not> in_panel then False else is_open)"

section \<open>The dashboard bars\<close>

text \<open>What \<open>UserNavbar\<close> and \<open>PhNavbar\<close> render: a loading line, for a falsy login a
  \<open>Navigate\<close> element (which neither file imports, so rendering throws), or the bar
  with the name and the avatar's initials (\<open>split(/\s+/)\<close>, first letters).\<close>

datatype dash_bar = BarLoading | BarReferenceError | Bar string string "(string \<times> string) list"

definition user_full_name :: "user_login \<Rightarrow> string" where
  "user_full_name u =
     (let n = (case u of LoginObj t p \<Rightarrow> js_trim (first_name p @ '' '' @ last_name p) | _ \<Rightarrow> js_trim '' '')
      in if n = [] then ''User Name'' else n)"

definition user_navbar_view :: "session \<Rightarrow> dash_bar" where
  "user_navbar_view s =
     (if loading s then BarLoading
      else if \<not> login_truthy (userLogin s) then BarReferenceError
      else Bar (user_full_name (userLogin s)) (initials (user_full_name (userLogin s)))
               [(''Settings'', ''accountsettings''), (''Logout'', ''/signin''), (''Continue Shopping'', ''/medications'')])"

text \<open>\<open>userData?.pharmacy?.name || 'PH'\<close>: the session's profile carries the pharmacy's
  id, not its name (the model's \<open>profile\<close>), so the name is a parameter.\<close>

definition ph_navbar_view :: "(nat \<Rightarrow> string) \<Rightarrow> session \<Rightarrow> dash_bar" where
  "ph_navbar_view phname s =
     (if loading s then BarLoading
      else if \<not> login_truthy (userLogin s) then BarReferenceError
      else (let n = (case userLogin s of
                       LoginObj t p \<Rightarrow> (case pharmacy p of Some i \<Rightarrow> if phname i = [] then ''PH'' else phname i
                                                         | None \<Rightarrow> ''PH'')
                     | _ \<Rightarrow> ''PH'')
            in Bar n (initials n) [(''Settings'', ''settingsdashboard''), (''Profile'', ''/''), (''Logout'', ''/signin'')]))"

section \<open>The pharmacy sidebar and the layouts\<close>

text \<open>The sidebar's items (path, label, whether it is the Logout button) with the
  highlight of the current path.\<close>

definition sidebar_items :: "(string \<times> string \<times> bool) list" where
  "sidebar_items =
     [(''/pharmacydashboard'', ''Dashboard'', False), (''/pharmacydashboard/orders'', ''Orders'', False),
      (''/pharmacydashboard/inventory'', ''Inventory'', False), (''/pharmacydashboard/customers'', ''Customers'', False),
      (''/pharmacydashboard/promocodes'', ''Promo Codes'', False),
      (''/pharmacydashboard/settingsdashboard'', ''Settings'', False), (''/signin'', ''Logout'', True)]"

record sidebar_view =
  sb_shown :: bool
  sb_items :: "(string \<times> string \<times> bool \<times> bool) list"

definition sidebar_view_of :: "bool \<Rightarrow> string \<Rightarrow> sidebar_view" where
  "sidebar_view_of is_open path =
     \<lparr>sb_shown = is_open, sb_items = map (\<lambda>(t, l, b). (t, l, b, path = t)) sidebar_items\<rparr>"

text \<open>\<open>PharmacyDashboardLayout\<close>: the sidebar state, toggled by the bar's menu button and
  closed by the overlay, shown only while the sidebar is open.\<close>

record ph_layout =
  pl_sidebar_open :: bool

definition ph_layout_toggle :: "ph_layout \<Rightarrow> ph_layout" where
  "ph_layout_toggle l = l\<lparr>pl_sidebar_open := \<not> pl_sidebar_open l\<rparr>"

definition ph_layout_overlay_click :: "ph_layout \<Rightarrow> ph_layout" where
  "ph_layout_overlay_click l = l\<lparr>pl_sidebar_open := False\<rparr>"

definition ph_layout_overlay :: "ph_layout \<Rightarrow> bool" where
  "ph_layout_overlay l = pl_sidebar_open l"

text \<open>\<open>MainHeader\<close> (no module imports it): the same links and badge as the public
  navbar, and always Sign In and Join as Pharmacy.\<close>

definition main_header_view :: "cart_item list \<Rightarrow> (string \<times> string) list \<times> int option \<times> nav_control list" where
  "main_header_view items =
     (navbar_links, navbar_badge items, [NavTo ''Sign In'' ''/signin'', NavTo ''Join as Pharmacy'' ''/join''])"

section \<open>Lemmas\<close>

lemma navbar_after_registration:
  assumes "ld_access d \<noteq> []" "app_store a ''userType'' = None"
  shows "navbar_controls (fst (signup_register (AuthReply True m (Some d)) (a, pg))) = [SignOutButton] \<and>
         user_navbar_view (app_session (fst (signup_register (AuthReply True m (Some d)) (a, pg)))) =
           (if loading (app_session a) then BarLoading
            else Bar ''User Name'' ''UN'' [(''Settings'', ''accountsettings''), (''Logout'', ''/signin''),
                                          (''Continue Shopping'', ''/medications'')])"
  using assms
  by (simp add: signup_register_def register_resume_def navbar_controls_def navbar_user_type_def
      user_navbar_view_def user_full_name_def js_trim_def initials_def)

end
