(* ===== verification/Routing.thy ===== *)
theory Routing
  imports Navbars Inventory
begin

text \<open>
  The route table of \<open>src/src/AppRouter.jsx\<close> as data, and what a path renders in a
  session: the page under its layout, the route guard's spinner or redirect. The two
  dashboards are wrapped in \<open>ProtectRoute\<close> with a prop spelled \<open>For\<close>, while the
  guard reads the prop \<open>for\<close> (theory \<open>Auth\<close>, \<open>protect_route\<close>).
\<close>

section \<open>The route table\<close>

datatype page =
    PHome | PMedications | PPharmacies | PAbout | PContact | PJoin | PMedicationDetails string
  | PPharmacyDetails string | PCheckout | PForgetPassword | PCategories | PSignIn | PSignOut | PNavbar
  | PSignup | PCart | PNotFound
  | PPhDashboard | PCustomers | PInventory | POrders | PPromoCodes | PSettingsDashboard
  | PUserDashboard | PPaymentMethods | PManageAddresses | PAccountSettings | POrderDetails string

datatype layout = MainLayout | PharmacyLayout | UserLayout

text \<open>A route is open or wrapped in \<open>ProtectRoute\<close> with the props the element passes.\<close>

datatype guard = Open | Guarded "(string \<times> string) list"

definition main_pages :: "(string \<times> guard \<times> page) list" where
  "main_pages =
     [(''medications'', Open, PMedications), (''pharmacies'', Open, PPharmacies), (''about'', Open, PAbout),
      (''contact'', Open, PContact), (''join'', Open, PJoin), (''checkout'', Guarded [], PCheckout),
      (''forgetpassword'', Open, PForgetPassword), (''categories'', Open, PCategories), (''signin'', Open, PSignIn),
      (''signout'', Open, PSignOut), (''navbar'', Open, PNavbar), (''signup'', Open, PSignup), (''cart'', Open, PCart)]"

text \<open>The children of \<open>/\<close> below the first segment: the static pages, the two pages
  with an \<open>:id\<close>, and \<open>*\<close> for everything else.\<close>

definition main_child :: "string \<Rightarrow> string list \<Rightarrow> guard \<times> layout \<times> page" where
  "main_child s r =
     (case r of
        [] \<Rightarrow> (case map_of main_pages s of Some (g, p) \<Rightarrow> (g, MainLayout, p) | None \<Rightarrow> (Open, MainLayout, PNotFound))
      | [x] \<Rightarrow> (if s = ''medicationdetails'' then (Open, MainLayout, PMedicationDetails x)
                else if s = ''pharmacydetails'' then (Open, MainLayout, PPharmacyDetails x)
                else (Open, MainLayout, PNotFound))
      | _ \<Rightarrow> (Open, MainLayout, PNotFound))"

definition ph_pages :: "(string list \<times> page) list" where
  "ph_pages = [([], PPhDashboard), ([''customers''], PCustomers), ([''inventory''], PInventory),
     ([''orders''], POrders), ([''promocodes''], PPromoCodes), ([''settingsdashboard''], PSettingsDashboard)]"

definition user_pages :: "string list \<Rightarrow> page option" where
  "user_pages r =
     (case r of
        [] \<Rightarrow> Some PUserDashboard
      | [s] \<Rightarrow> map_of [(''paymentmethods'', PPaymentMethods), (''manageaddresses'', PManageAddresses),
                       (''accountsettings'', PAccountSettings)] s
      | [s, x] \<Rightarrow> (if s = ''orderdetails'' then Some (POrderDetails x) else None)
      | _ \<Rightarrow> None)"

text \<open>The route a path (its segments) matches: a dashboard child under its layout and
  guard, else a child of \<open>/\<close> (the \<open>*\<close> route of \<open>/\<close> also takes the dashboard
  paths no dashboard child matches).\<close>

definition resolve :: "string list \<Rightarrow> guard \<times> layout \<times> page" where
  "resolve segs =
     (case segs of
        [] \<Rightarrow> (Open, MainLayout, PHome)
      | s # r \<Rightarrow>
          (case (if s = ''pharmacydashboard'' then map_of ph_pages r else None) of
             Some p \<Rightarrow> (Guarded [(''For'', ''2'')], PharmacyLayout, p)
           | None \<Rightarrow>
               (case (if s = ''userdashboard'' then user_pages r else None) of
                  Some p \<Rightarrow> (Guarded [(''For'', ''1'')], UserLayout, p)
                | None \<Rightarrow> main_child s r)))"

section \<open>Rendering a path\<close>

datatype rendered = RSpinner | RRedirect string | RPage layout page

text \<open>\<open>ProtectRoute\<close> destructures \<open>{ children, for: requiredType }\<close>: the required
  type is the prop named \<open>for\<close>.\<close>

definition render_route :: "session \<Rightarrow> string list \<Rightarrow> rendered" where
  "render_route s segs =
     (case resolve segs of
        (Open, l, p) \<Rightarrow> RPage l p
      | (Guarded props, l, p) \<Rightarrow>
          (case protect_route s (map_of props ''for'') of
             Spinner \<Rightarrow> RSpinner
           | RedirectTo t \<Rightarrow> RRedirect t
           | RenderChildren \<Rightarrow> RPage l p))"

section \<open>Lemmas\<close>

lemma dashboards_ignore_user_type:
  assumes "\<not> loading s" "login_token (userLogin s) \<noteq> None"
  shows "render_route s [''pharmacydashboard'', ''inventory''] = RPage PharmacyLayout PInventory \<and>
         render_route s [''pharmacydashboard''] = RPage PharmacyLayout PPhDashboard \<and>
         render_route s [''userdashboard''] = RPage UserLayout PUserDashboard \<and>
         render_route s [''checkout''] = RPage MainLayout PCheckout"
  using assms by (auto simp: render_route_def resolve_def ph_pages_def user_pages_def protect_route_def
      main_child_def main_pages_def)

lemma intended_guard_admits_nobody:
  "userType s \<in> {Some ''user'', Some ''pharmacy''} \<Longrightarrow>
   protect_route s (Some ''2'') \<noteq> RenderChildren \<and> protect_route s (Some ''1'') \<noteq> RenderChildren"
  by (auto simp: protect_route_def)

lemma unknown_dashboard_path_open:
  "render_route s [''pharmacydashboard'', ''reports''] = RPage MainLayout PNotFound \<and>
   render_route s [''userdashboard'', ''orders''] = RPage MainLayout PNotFound"
  by (simp add: render_route_def resolve_def ph_pages_def user_pages_def main_child_def)

lemma customer_reaches_inventory:
  assumes "\<not> loading s" "login_token (userLogin s) \<noteq> None" "userType s = Some ''user''" "session_pharmacy s = None"
  shows "render_route s [''pharmacydashboard'', ''inventory''] = RPage PharmacyLayout PInventory \<and>
         inv_fetch None s pr cr mr b st = (st\<lparr>inv_loading := False, inv_error := Some pharmacy_missing_msg\<rparr>, [])"
  using assms dashboards_ignore_user_type [OF assms(1,2)] by (simp add: inv_fetch_def truthy_id_def)

end
