(* ===== verification/Addresses.thy ===== *)
theory Addresses
  imports Navbars "HOL-Library.AList"
begin

text \<open>
  The customer's address book, \<open>ManageAddresses\<close> in
  \<open>src/src/Pages/UserDashboard/ManageAddresses/ManageAddresses.jsx\<close>: the address
  cards with their Edit, Set as Default and Delete buttons, and one Formik form that
  creates an address or, after an Edit click, updates the address being edited. The
  form's values are a JavaScript object whose fields the handlers write with values of
  different types (strings from the inputs, a boolean from the checkbox, numeric ids
  from the two selects); the model keeps it as an association list of \<open>js_val\<close>s, and
  a typing of its fields (after \<open>IMP/Types\<close>: a type environment and a typing of the
  state) is an invariant of every event.
\<close>

section \<open>Data\<close>

text \<open>A governorate or a city as \<open>/items/governorates\<close> and \<open>/items/cities\<close> return it.\<close>

record place =
  place_id :: nat
  place_name :: string

text \<open>An address of \<open>/user/addresses\<close>. A \<open>null\<close> text field and the empty string
  behave the same in every expression of the page (\<open>x || ''\<close>, \<open>x || '+20 ...'\<close>,
  interpolation), so both are the empty string here.\<close>

record user_address =
  ua_id :: nat
  ua_name :: string
  ua_phone :: string
  ua_address :: string
  ua_governorate :: "place option"
  ua_city :: "place option"
  ua_postal :: string
  ua_is_default :: bool

text \<open>Formik's \<open>values\<close>: the object literal of \<open>initialValues\<close>, field by field.\<close>

type_synonym form_values = "(string \<times> js_val) list"

definition addr_form_init :: form_values where
  "addr_form_init =
     [(''name'', JsStr []), (''phone'', JsStr []), (''address'', JsStr []), (''governorate_id'', JsStr []),
      (''city_id'', JsStr []), (''postal_code'', JsStr []), (''is_default'', JsBool False)]"

record addr_page =
  ap_governorates :: "place list"
  ap_cities :: "place list"
  ap_edit :: "user_address option"
  ap_addresses :: "user_address list option"
  ap_default :: "nat option"
  ap_values :: form_values
  ap_edit_current :: bool

text \<open>\<open>useState([])\<close>, \<open>useState(null)\<close> and \<open>useState(1)\<close>: the default id starts at 1.
  \<open>ap_edit_current\<close> records whether \<open>editAddress\<close> is an element of the current
  \<open>addresses\<close> array: React compares the stored address by identity, and a refetch
  makes new objects.\<close>

definition addr_page_init :: addr_page where
  "addr_page_init =
     \<lparr>ap_governorates = [], ap_cities = [], ap_edit = None, ap_addresses = Some [], ap_default = Some 1,
      ap_values = addr_form_init, ap_edit_current = False\<rparr>"

text \<open>The requests of the page, with the bearer token where the page sends one.\<close>

datatype addr_request =
    GetAddresses token
  | PostAddressDelete token nat
  | PostAddressDefault token nat
  | PostAddressCreate token form_values
  | PostAddressUpdate token nat form_values
  | GetGovernorates
  | GetCities nat

section \<open>Handlers\<close>

text \<open>\<open>x?.id || ''\<close>: an absent object or the id 0 gives the empty string.\<close>

definition id_or_empty :: "place option \<Rightarrow> js_val" where
  "id_or_empty p = (case p of None \<Rightarrow> JsStr [] | Some g \<Rightarrow> if place_id g = 0 then JsStr [] else JsNum (int (place_id g)))"

text \<open>A select's \<open>onChange\<close> value: \<open>option ? option.value : ''\<close>.\<close>

definition option_value :: "place option \<Rightarrow> js_val" where
  "option_value p = (case p of None \<Rightarrow> JsStr [] | Some g \<Rightarrow> JsNum (int (place_id g)))"

text \<open>The mount effects: the address list (\<open>if (userLogin) fetchAddresses()\<close>; the page
  only gets here with a truthy login) and the governorates.\<close>

definition addr_mount :: "token \<Rightarrow> addr_request list" where
  "addr_mount t = [GetAddresses t, GetGovernorates]"

text \<open>\<open>setAddresses(res.data.data)\<close> (absent data: \<open>None\<close>), followed by the effect on
  \<open>[addresses]\<close>: for a non-empty list the default id becomes the id of the first
  address flagged default, or \<open>null\<close> (\<open>defaultAddr?.id || null\<close>). A rejected
  request has no \<open>catch\<close> and changes nothing.\<close>

definition addr_default_effect :: "addr_page \<Rightarrow> addr_page" where
  "addr_default_effect st =
     (case ap_addresses st of
        Some (a # as) \<Rightarrow>
          st\<lparr>ap_default := (case find ua_is_default (a # as) of
                              None \<Rightarrow> None
                            | Some d \<Rightarrow> if ua_id d = 0 then None else Some (ua_id d))\<rparr>
      | _ \<Rightarrow> st)"

definition addresses_resume :: "user_address list option \<Rightarrow> addr_page \<Rightarrow> addr_page" where
  "addresses_resume d st = addr_default_effect (st\<lparr>ap_addresses := d, ap_edit_current := False\<rparr>)"

text \<open>\<open>handleDelete\<close>: on success it refetches and clears the default id when the
  deleted id equals \<open>defaultId\<close> of the render that created the handler (\<open>d\<close>).\<close>

definition addr_delete_resume :: "token \<Rightarrow> nat \<Rightarrow> nat option \<Rightarrow> bool \<Rightarrow> addr_page \<Rightarrow> addr_page \<times> addr_request list" where
  "addr_delete_resume t i d ok st =
     (if ok then (if d = Some i then st\<lparr>ap_default := None\<rparr> else st, [GetAddresses t]) else (st, []))"

text \<open>\<open>handleSetDefault\<close>: on success a refetch, on failure a console error.\<close>

definition addr_set_default_resume :: "token \<Rightarrow> bool \<Rightarrow> addr_request list \<times> effect list" where
  "addr_set_default_resume t ok =
     (if ok then ([GetAddresses t], []) else ([], [ConsoleError ''Failed to set default address'']))"

text \<open>\<open>handleGovernorateChange\<close>: the governorate id and an empty city id are written,
  then the cities of a truthy id are requested; a falsy id empties the city list at
  once. Whatever request the cities reply answers, it replaces the list.\<close>

definition addr_governorate_change :: "place option \<Rightarrow> addr_page \<Rightarrow> addr_page \<times> addr_request list" where
  "addr_governorate_change p st =
     (let st' = st\<lparr>ap_values := AList.update ''city_id'' (JsStr [])
                                  (AList.update ''governorate_id'' (option_value p) (ap_values st))\<rparr>
      in case p of
           Some g \<Rightarrow> if place_id g \<noteq> 0 then (st', [GetCities (place_id g)]) else (st'\<lparr>ap_cities := []\<rparr>, [])
         | None \<Rightarrow> (st'\<lparr>ap_cities := []\<rparr>, []))"

definition cities_resume :: "place list \<Rightarrow> addr_page \<Rightarrow> addr_page" where
  "cities_resume cs st = st\<lparr>ap_cities := cs\<rparr>"

definition addr_city_change :: "place option \<Rightarrow> addr_page \<Rightarrow> addr_page" where
  "addr_city_change p st = st\<lparr>ap_values := AList.update ''city_id'' (option_value p) (ap_values st)\<rparr>"

text \<open>The four text inputs and the checkbox go through \<open>formik.handleChange\<close>, which
  writes the input's string value, or the checkbox's boolean \<open>checked\<close>, under the
  input's \<open>name\<close>.\<close>

datatype text_input = InName | InPhone | InAddress | InPostal

fun input_name :: "text_input \<Rightarrow> string" where
  "input_name InName = ''name''"
| "input_name InPhone = ''phone''"
| "input_name InAddress = ''address''"
| "input_name InPostal = ''postal_code''"

definition addr_input :: "text_input \<Rightarrow> string \<Rightarrow> addr_page \<Rightarrow> addr_page" where
  "addr_input i v st = st\<lparr>ap_values := AList.update (input_name i) (JsStr v) (ap_values st)\<rparr>"

definition addr_default_box :: "bool \<Rightarrow> addr_page \<Rightarrow> addr_page" where
  "addr_default_box b st = st\<lparr>ap_values := AList.update ''is_default'' (JsBool b) (ap_values st)\<rparr>"

text \<open>The values \<open>formik.setValues\<close> loads for an address being edited.\<close>

definition addr_values_of :: "user_address \<Rightarrow> form_values" where
  "addr_values_of e =
     [(''name'', JsStr (ua_name e)), (''phone'', JsStr (ua_phone e)), (''address'', JsStr (ua_address e)),
      (''governorate_id'', id_or_empty (ua_governorate e)), (''city_id'', id_or_empty (ua_city e)),
      (''postal_code'', JsStr (ua_postal e)), (''is_default'', JsBool (ua_is_default e))]"

text \<open>An Edit click stores the address; the effect on \<open>[editAddress]\<close> runs when the
  stored object changes (the same card of the same fetched list is the same object; after
  a refetch it is a new one), loads its values and requests the cities of its
  governorate.\<close>

definition addr_edit_click :: "user_address \<Rightarrow> addr_page \<Rightarrow> addr_page \<times> addr_request list" where
  "addr_edit_click e st =
     (if ap_edit st = Some e \<and> ap_edit_current st then (st, [])
      else (st\<lparr>ap_edit := Some e, ap_edit_current := True, ap_values := addr_values_of e\<rparr>,
            (case ua_governorate e of
               Some g \<Rightarrow> if place_id g \<noteq> 0 then [GetCities (place_id g)] else []
             | None \<Rightarrow> [])))"

text \<open>Save Address (\<open>formik.handleSubmit\<close>, there is no validation schema): an update
  of the edited address, or a create, with the form's values as the body. On success
  the form is reset, the edit cleared and the list refetched; a failure has no
  \<open>catch\<close>.\<close>

definition addr_submit :: "token \<Rightarrow> addr_page \<Rightarrow> addr_request list" where
  "addr_submit t st =
     (case ap_edit st of
        Some e \<Rightarrow> [PostAddressUpdate t (ua_id e) (ap_values st)]
      | None \<Rightarrow> [PostAddressCreate t (ap_values st)])"

definition addr_submit_resume :: "token \<Rightarrow> bool \<Rightarrow> addr_page \<Rightarrow> addr_page \<times> addr_request list" where
  "addr_submit_resume t ok st =
     (if ok then (st\<lparr>ap_values := addr_form_init, ap_edit := None\<rparr>, [GetAddresses t]) else (st, []))"

section \<open>The page as a state machine\<close>

text \<open>Every event of the page: the user's inputs and clicks, and the replies of its
  requests. The Cancel button has no handler and is not an event.\<close>

datatype addr_event =
    AddrMount
  | AddrInput text_input string
  | AddrDefaultBox bool
  | AddrGovernorate "place option"
  | AddrCity "place option"
  | AddrEdit user_address
  | AddrSubmit
  | AddrSubmitReply bool
  | AddrDelete nat
  | AddrDeleteReply nat "nat option" bool
  | AddrSetDefault nat
  | AddrSetDefaultReply bool
  | AddrAddressesReply "user_address list option"
  | AddrGovernoratesReply "place list"
  | AddrCitiesReply "place list"

primrec addr_step :: "token \<Rightarrow> addr_event \<Rightarrow> addr_page \<Rightarrow> addr_page \<times> addr_request list \<times> effect list" where
  "addr_step t AddrMount st = (st, addr_mount t, [])"
| "addr_step t (AddrInput i v) st = (addr_input i v st, [], [])"
| "addr_step t (AddrDefaultBox b) st = (addr_default_box b st, [], [])"
| "addr_step t (AddrGovernorate p) st = (let (st', rs) = addr_governorate_change p st in (st', rs, []))"
| "addr_step t (AddrCity p) st = (addr_city_change p st, [], [])"
| "addr_step t (AddrEdit e) st = (let (st', rs) = addr_edit_click e st in (st', rs, []))"
| "addr_step t AddrSubmit st = (st, addr_submit t st, [])"
| "addr_step t (AddrSubmitReply ok) st = (let (st', rs) = addr_submit_resume t ok st in (st', rs, []))"
| "addr_step t (AddrDelete i) st = (st, [PostAddressDelete t i], [])"
| "addr_step t (AddrDeleteReply i d ok) st = (let (st', rs) = addr_delete_resume t i d ok st in (st', rs, []))"
| "addr_step t (AddrSetDefault i) st = (st, [PostAddressDefault t i], [])"
| "addr_step t (AddrSetDefaultReply ok) st = (st, addr_set_default_resume t ok)"
| "addr_step t (AddrAddressesReply d) st = (addresses_resume d st, [], [])"
| "addr_step t (AddrGovernoratesReply gs) st = (st\<lparr>ap_governorates := gs\<rparr>, [], [])"
| "addr_step t (AddrCitiesReply cs) st = (cities_resume cs st, [], [])"

text \<open>A run of events from a state: the final state and every request sent, in order.\<close>

fun addr_run :: "token \<Rightarrow> addr_event list \<Rightarrow> addr_page \<Rightarrow> addr_page \<times> addr_request list" where
  "addr_run t [] st = (st, [])"
| "addr_run t (ev # evs) st =
     (let (st', rs, es) = addr_step t ev st; (st'', rs') = addr_run t evs st' in (st'', rs @ rs'))"

inductive addr_reach :: "addr_page \<Rightarrow> bool" where
  addr_reach_init: "addr_reach addr_page_init"
| addr_reach_step: "addr_reach st \<Longrightarrow> addr_reach (fst (addr_step t ev st))"

section \<open>What the page renders\<close>

text \<open>An address card: the name, the Default badge (\<open>defaultId === addr.id\<close>), the
  customer's full name, the phone or a fixed placeholder number, the city and
  governorate names, the street and postal code, and the Set as Default button, shown
  unless the address is the default one.\<close>

record addr_card =
  card_name :: string
  card_default_badge :: bool
  card_full_name :: string
  card_phone :: string
  card_place :: string
  card_line :: string
  card_set_default :: bool

definition addr_card_of :: "string \<Rightarrow> nat option \<Rightarrow> user_address \<Rightarrow> addr_card" where
  "addr_card_of full d a =
     \<lparr>card_name = ua_name a, card_default_badge = (d = Some (ua_id a)), card_full_name = full,
      card_phone = (if ua_phone a = [] then ''+20 123 456 7890'' else ua_phone a),
      card_place = opt_str (map_option place_name (ua_city a)) @ '', '' @ opt_str (map_option place_name (ua_governorate a)),
      card_line = ua_address a @ '', '' @ ua_postal a,
      card_set_default = (d \<noteq> Some (ua_id a))\<rparr>"

text \<open>\<open>formik.values[k]\<close>: \<open>undefined\<close> for a field the object does not have.\<close>

definition form_field :: "form_values \<Rightarrow> string \<Rightarrow> js_val" where
  "form_field vs k = (case map_of vs k of None \<Rightarrow> JsUndefined | Some v \<Rightarrow> v)"

text \<open>The options of the two selects (\<open>{value: id, label: name}\<close>) and the option each
  shows as selected, found by strict equality with the form's value.\<close>

definition place_options :: "place list \<Rightarrow> (int \<times> string) list" where
  "place_options ps = map (\<lambda>g. (int (place_id g), place_name g)) ps"

definition selected_option :: "(int \<times> string) list \<Rightarrow> js_val \<Rightarrow> (int \<times> string) option" where
  "selected_option os v = find (\<lambda>(i, l). v = JsNum i) os"

record addr_form_view =
  fv_values :: form_values
  fv_gov_options :: "(int \<times> string) list"
  fv_gov_selected :: "(int \<times> string) option"
  fv_city_options :: "(int \<times> string) list"
  fv_city_selected :: "(int \<times> string) option"
  fv_city_disabled :: bool

definition addr_form_view_of :: "addr_page \<Rightarrow> addr_form_view" where
  "addr_form_view_of st =
     \<lparr>fv_values = ap_values st, fv_gov_options = place_options (ap_governorates st),
      fv_gov_selected = selected_option (place_options (ap_governorates st)) (form_field (ap_values st) ''governorate_id''),
      fv_city_options = place_options (ap_cities st),
      fv_city_selected = selected_option (place_options (ap_cities st)) (form_field (ap_values st) ''city_id''),
      fv_city_disabled = (\<not> js_truthy (form_field (ap_values st) ''governorate_id''))\<rparr>"

text \<open>The page: a loading line, the redirect for a falsy login, or the cards
  (\<open>addresses?.map\<close>) and the form.\<close>

datatype addr_view = AddrLoading | AddrRedirect | AddrPageView "addr_card list" addr_form_view

definition addr_render :: "session \<Rightarrow> addr_page \<Rightarrow> addr_view" where
  "addr_render s st =
     (if loading s then AddrLoading
      else if \<not> login_truthy (userLogin s) then AddrRedirect
      else AddrPageView (map (addr_card_of (user_full_name (userLogin s)) (ap_default st))
                             (case ap_addresses st of None \<Rightarrow> [] | Some as \<Rightarrow> as))
                        (addr_form_view_of st))"

section \<open>The typing of the form\<close>

text \<open>The type each field of the form is meant to hold (the types of
  \<open>initialValues\<close>): strings for the four text fields, a boolean for
  \<open>is_default\<close>, and for the two ids a number or the empty string that stands for
  no selection.\<close>

datatype js_ty = TyStr | TyBool | TyIdOrEmpty

fun js_has_ty :: "js_ty \<Rightarrow> js_val \<Rightarrow> bool" where
  "js_has_ty TyStr (JsStr s) = True"
| "js_has_ty TyBool (JsBool b) = True"
| "js_has_ty TyIdOrEmpty (JsNum n) = True"
| "js_has_ty TyIdOrEmpty (JsStr s) = (s = [])"
| "js_has_ty _ _ = False"

definition addr_tyenv :: "(string \<times> js_ty) list" where
  "addr_tyenv =
     [(''name'', TyStr), (''phone'', TyStr), (''address'', TyStr), (''governorate_id'', TyIdOrEmpty),
      (''city_id'', TyIdOrEmpty), (''postal_code'', TyStr), (''is_default'', TyBool)]"

text \<open>A values object is typed by an environment when it has the environment's fields,
  in its order, each holding a value of its type.\<close>

definition values_typed :: "(string \<times> js_ty) list \<Rightarrow> form_values \<Rightarrow> bool" where
  "values_typed env vs = list_all2 (\<lambda>(k, ty) (k', v). k = k' \<and> js_has_ty ty v) env vs"

text \<open>The body a request posts, if it posts the form.\<close>

fun posted_body :: "addr_request \<Rightarrow> form_values option" where
  "posted_body (PostAddressCreate t b) = Some b"
| "posted_body (PostAddressUpdate t i b) = Some b"
| "posted_body _ = None"

section \<open>Sample data\<close>

text \<open>Places and an address for the instances below.\<close>

definition demo_address :: user_address where
  "demo_address = \<lparr>ua_id = 4, ua_name = ''Home'', ua_phone = [], ua_address = ''12 Nile St'',
     ua_governorate = Some \<lparr>place_id = 1, place_name = ''Cairo''\<rparr>, ua_city = Some \<lparr>place_id = 3, place_name = ''Maadi''\<rparr>,
     ua_postal = ''11431'', ua_is_default = True\<rparr>"

definition demo_cairo :: place where "demo_cairo = \<lparr>place_id = 1, place_name = ''Cairo''\<rparr>"

definition demo_giza :: place where "demo_giza = \<lparr>place_id = 2, place_name = ''Giza''\<rparr>"

definition demo_maadi :: place where "demo_maadi = \<lparr>place_id = 3, place_name = ''Maadi''\<rparr>"

definition demo_dokki :: place where "demo_dokki = \<lparr>place_id = 7, place_name = ''Dokki''\<rparr>"

section \<open>Lemmas\<close>

lemma values_typed_update:
  "values_typed env vs \<Longrightarrow> map_of env k = Some ty \<Longrightarrow> js_has_ty ty v \<Longrightarrow>
   values_typed env (AList.update k v vs)"
  unfolding values_typed_def
proof (induction env arbitrary: vs)
  case Nil
  then show ?case by simp
next
  case (Cons p env)
  then show ?case by (cases vs) (auto split: if_splits)
qed

lemma id_or_empty_typed [simp]: "js_has_ty TyIdOrEmpty (id_or_empty p)"
  by (simp add: id_or_empty_def split: option.splits)

lemma option_value_typed [simp]: "js_has_ty TyIdOrEmpty (option_value p)"
  by (simp add: option_value_def split: option.splits)

lemma addr_form_init_typed [simp]: "values_typed addr_tyenv addr_form_init"
  by (simp add: values_typed_def addr_tyenv_def addr_form_init_def)

lemma addr_values_of_typed [simp]: "values_typed addr_tyenv (addr_values_of e)"
  by (simp add: values_typed_def addr_tyenv_def addr_values_of_def)

lemma input_name_typed [simp]: "map_of addr_tyenv (input_name i) = Some TyStr"
  by (cases i) (simp_all add: addr_tyenv_def)

lemma addr_tyenv_fields [simp]:
  "map_of addr_tyenv ''governorate_id'' = Some TyIdOrEmpty"
  "map_of addr_tyenv ''city_id'' = Some TyIdOrEmpty"
  "map_of addr_tyenv ''is_default'' = Some TyBool"
  by (simp_all add: addr_tyenv_def)

lemma addr_step_typed:
  assumes "values_typed addr_tyenv (ap_values st)"
  shows "values_typed addr_tyenv (ap_values (fst (addr_step t ev st)))"
proof (cases ev)
  case (AddrGovernorate p)
  then show ?thesis using assms
    by (auto simp: addr_governorate_change_def Let_def intro!: values_typed_update split: option.splits)
next
  case (AddrEdit e)
  then show ?thesis using assms by (simp add: addr_edit_click_def)
next
  case (AddrSubmitReply ok)
  then show ?thesis using assms by (simp add: addr_submit_resume_def)
next
  case (AddrDeleteReply i d ok)
  then show ?thesis using assms by (simp add: addr_delete_resume_def)
qed (use assms in \<open>auto simp: addr_input_def addr_default_box_def addr_city_change_def
        addresses_resume_def addr_default_effect_def cities_resume_def intro!: values_typed_update split: list.splits option.splits\<close>)

lemma addr_reach_typed: "addr_reach st \<Longrightarrow> values_typed addr_tyenv (ap_values st)"
  by (induction rule: addr_reach.induct) (simp_all add: addr_page_init_def addr_step_typed)

lemma addr_step_posts_values:
  "r \<in> set (fst (snd (addr_step t ev st))) \<Longrightarrow> posted_body r = Some b \<Longrightarrow> b = ap_values st"
  by (cases ev) (auto simp: addr_mount_def addr_submit_def addr_governorate_change_def addr_edit_click_def
      addr_submit_resume_def addr_delete_resume_def addr_set_default_resume_def Let_def
      split: option.splits if_splits prod.splits)

lemma form_field_update [simp]:
  "form_field (AList.update k v vs) k' = (if k' = k then v else form_field vs k')"
  by (simp add: form_field_def update_conv')

lemma addr_step_keeps_edit:
  "ap_edit st \<noteq> None \<Longrightarrow> ev \<noteq> AddrSubmitReply True \<Longrightarrow> ap_edit (fst (addr_step t ev st)) \<noteq> None"
  by (cases ev) (auto simp: addr_input_def addr_default_box_def addr_governorate_change_def Let_def
      addr_city_change_def addr_edit_click_def addr_submit_resume_def addr_delete_resume_def addresses_resume_def
      addr_default_effect_def cities_resume_def split: option.splits list.splits)

lemma addr_step_no_create:
  "ap_edit st \<noteq> None \<Longrightarrow> PostAddressCreate t' b \<notin> set (fst (snd (addr_step t ev st)))"
  by (cases ev) (auto simp: addr_mount_def addr_submit_def addr_governorate_change_def addr_edit_click_def
      addr_submit_resume_def addr_delete_resume_def addr_set_default_resume_def Let_def
      split: option.splits if_splits prod.splits)

lemma addr_run_Cons:
  "addr_run t (ev # evs) st =
     (fst (addr_run t evs (fst (addr_step t ev st))),
      fst (snd (addr_step t ev st)) @ snd (addr_run t evs (fst (addr_step t ev st))))"
  by (simp add: split_def Let_def)

declare addr_run.simps(2) [simp del]

subsection \<open>Properties of the address page\<close>

text \<open>C12. Typing of the posted address. In every reachable state of the page, whatever
  event happens next, each address the page posts (create or update) has exactly the
  form's seven fields, in order, with strings in the four text fields, a boolean in
  \<open>is_default\<close>, and a number or the empty string in each id.\<close>

theorem addr_posted_bodies_typed:
  assumes "addr_reach st" "r \<in> set (fst (snd (addr_step t ev st)))" "posted_body r = Some b"
  shows "values_typed addr_tyenv b"
  using addr_step_posts_values [OF assms(2,3)] addr_reach_typed [OF assms(1)] by simp

theorem addr_posted_bodies_typed_witness:
  "addr_reach addr_page_init \<and> PostAddressCreate ''tk'' addr_form_init \<in> set (fst (snd (addr_step ''tk'' AddrSubmit addr_page_init))) \<and>
   posted_body (PostAddressCreate ''tk'' addr_form_init) = Some addr_form_init \<and> values_typed addr_tyenv addr_form_init"
proof -
  have r: "addr_reach addr_page_init" by (rule addr_reach_init)
  have p: "PostAddressCreate ''tk'' addr_form_init \<in> set (fst (snd (addr_step ''tk'' AddrSubmit addr_page_init)))"
    by (simp add: addr_submit_def addr_page_init_def)
  show ?thesis using r p addr_posted_bodies_typed [OF r p] by simp
qed

text \<open>C17. Edit mode cannot be left. Once an address is being edited, no event but a
  successful save clears it (the Cancel button has no handler): along every run of
  events without a successful save the page stays in edit mode and never posts a new
  address, so a Save under the heading \<open>Add New Address\<close> overwrites the edited one.\<close>

theorem addr_edit_mode_sticky:
  assumes "ap_edit st \<noteq> None" "AddrSubmitReply True \<notin> set evs"
  shows "ap_edit (fst (addr_run t evs st)) \<noteq> None \<and> (\<forall>t' b. PostAddressCreate t' b \<notin> set (snd (addr_run t evs st)))"
  using assms
proof (induction evs arbitrary: st)
  case Nil
  then show ?case by simp
next
  case (Cons ev evs)
  from Cons.prems have "ap_edit (fst (addr_step t ev st)) \<noteq> None" by (intro addr_step_keeps_edit) auto
  with Cons show ?case by (simp add: addr_run_Cons addr_step_no_create)
qed

theorem addr_edit_mode_sticky_witness:
  "ap_edit (addr_page_init\<lparr>ap_edit := Some demo_address\<rparr>) \<noteq> None \<and>
   AddrSubmitReply True \<notin> set [AddrInput InName ''Work'', AddrSubmit, AddrSubmitReply False, AddrSubmit] \<and>
   ap_edit (fst (addr_run ''tk'' [AddrInput InName ''Work'', AddrSubmit, AddrSubmitReply False, AddrSubmit]
             (addr_page_init\<lparr>ap_edit := Some demo_address\<rparr>))) \<noteq> None \<and>
   (\<forall>t' b. PostAddressCreate t' b \<notin> set (snd (addr_run ''tk''
             [AddrInput InName ''Work'', AddrSubmit, AddrSubmitReply False, AddrSubmit]
             (addr_page_init\<lparr>ap_edit := Some demo_address\<rparr>))))"
  using addr_edit_mode_sticky [of "addr_page_init\<lparr>ap_edit := Some demo_address\<rparr>"
      "[AddrInput InName ''Work'', AddrSubmit, AddrSubmitReply False, AddrSubmit]" "''tk''"] by simp

text \<open>C25. The cities reply is not matched to its request. When the customer picks
  governorate \<open>a\<close> and then \<open>b\<close>, and the cities of \<open>b\<close> arrive before those of
  \<open>a\<close>, the city select offers the cities of \<open>a\<close> while the form holds \<open>b\<close>, and
  the address saved pairs governorate \<open>b\<close> with a city \<open>c\<close> picked from that list.\<close>

theorem governorate_reply_race:
  assumes "place_id a \<noteq> 0" "place_id b \<noteq> 0" "ap_edit st = None"
  shows "let R = addr_run t [AddrGovernorate (Some a), AddrGovernorate (Some b), AddrCitiesReply cb,
                              AddrCitiesReply ca, AddrCity (Some c), AddrSubmit] st
         in snd R = [GetCities (place_id a), GetCities (place_id b), PostAddressCreate t (ap_values (fst R))] \<and>
            fv_city_options (addr_form_view_of (fst R)) = place_options ca \<and>
            form_field (ap_values (fst R)) ''governorate_id'' = JsNum (int (place_id b)) \<and>
            form_field (ap_values (fst R)) ''city_id'' = JsNum (int (place_id c))"
  using assms
  by (simp add: addr_run_Cons addr_governorate_change_def Let_def cities_resume_def addr_city_change_def
      addr_submit_def addr_form_view_of_def option_value_def)

theorem governorate_reply_race_witness:
  "place_id demo_cairo \<noteq> 0 \<and> place_id demo_giza \<noteq> 0 \<and> ap_edit addr_page_init = None \<and>
   (let R = addr_run ''tk'' [AddrGovernorate (Some demo_cairo), AddrGovernorate (Some demo_giza),
                            AddrCitiesReply [demo_dokki], AddrCitiesReply [demo_maadi], AddrCity (Some demo_maadi),
                            AddrSubmit] addr_page_init
    in snd R = [GetCities 1, GetCities 2, PostAddressCreate ''tk'' (ap_values (fst R))] \<and>
       fv_city_options (addr_form_view_of (fst R)) = [(3, ''Maadi'')] \<and>
       form_field (ap_values (fst R)) ''governorate_id'' = JsNum 2 \<and>
       form_field (ap_values (fst R)) ''city_id'' = JsNum 3)"
  using governorate_reply_race [of demo_cairo demo_giza addr_page_init "''tk''" "[demo_dokki]" "[demo_maadi]" demo_maadi]
  by (simp add: demo_cairo_def demo_giza_def demo_maadi_def demo_dokki_def addr_page_init_def place_options_def Let_def)

end
