(* ===== verification/UserDashboard.thy ===== *)
theory UserDashboard
  imports CartPages Addresses "HOL-Library.While_Combinator"
begin

text \<open>
  The customer dashboard, \<open>UserDashboard\<close> in
  \<open>src/src/Pages/UserDashboard/UsDashboard/UserDashboard.jsx\<close>, and the order page it
  links to, \<open>OrderDetails\<close> in \<open>src/src/Pages/UserDashboard/OrderDetails/OrderDetails.jsx\<close>.
  The dashboard keeps its tab and its orders page both in React state and in the URL's
  search parameters, and four effects copy one into the other. The model runs those
  effects the way React does: after each render, every effect one of whose dependencies
  changed runs with the values of that render, their state updates (and the
  \<open>setSearchParams\<close> navigation, which the router completes before React renders the
  batched updates) form the next render, and the page is at rest when a render changes
  no dependency. The run to rest is \<open>while_option\<close>, so a page that never comes to
  rest is the value \<open>None\<close>.
\<close>

section \<open>Strings of the URL\<close>

text \<open>\<open>String.prototype.split\<close> on one character.\<close>

fun js_split :: "char \<Rightarrow> string \<Rightarrow> string list" where
  "js_split d [] = [[]]"
| "js_split d (c # cs) =
     (if c = d then [] # js_split d cs
      else (case js_split d cs of w # ws \<Rightarrow> (c # w) # ws | [] \<Rightarrow> [[c]]))"

text \<open>\<open>String(n)\<close> of an integer, as \<open>URLSearchParams\<close> and \<open>toString\<close> write it.\<close>

definition int_str :: "int \<Rightarrow> string" where
  "int_str i = (if i < 0 then ''-'' @ nat_str (nat (- i)) else nat_str (nat i))"

text \<open>The search parameters of a URL (\<open>?k=v&...\<close>), in order; none of the page's
  keys or values needs percent-decoding.\<close>

definition url_query_params :: "string \<Rightarrow> (string \<times> string) list" where
  "url_query_params url =
     (case dropWhile (\<lambda>c. c \<noteq> CHR ''?'') url of
        [] \<Rightarrow> []
      | q # qs \<Rightarrow> map (\<lambda>p. (takeWhile (\<lambda>c. c \<noteq> CHR ''='') p, drop 1 (dropWhile (\<lambda>c. c \<noteq> CHR ''='') p)))
                     (filter (\<lambda>p. p \<noteq> []) (js_split CHR ''&'' qs)))"

text \<open>\<open>parseInt(searchParams.get(k))\<close>: \<open>get\<close> returns the first value or \<open>null\<close>, and
  \<open>parseInt(null)\<close> is \<open>NaN\<close> (\<open>None\<close>).\<close>

definition param_int :: "(string \<times> string) list \<Rightarrow> string \<Rightarrow> int option" where
  "param_int ps k =
     (case map_of ps k of
        None \<Rightarrow> None
      | Some s \<Rightarrow> (case parse_int_str s of FdNum n \<Rightarrow> Some n | _ \<Rightarrow> None))"

section \<open>The tab and page effects\<close>

text \<open>The part of the dashboard the URL effects read and write: \<open>activeTab\<close>,
  \<open>currentPage\<close>, the search parameters, and the \<open>returnPage\<close> entry of
  \<open>sessionStorage\<close> (written only by this page, from \<open>currentPage.toString()\<close>, so
  it is kept as the number it encodes).\<close>

record ud_sync =
  us_tab :: string
  us_page :: int
  us_params :: "(string \<times> string) list"
  us_stored :: "int option"

text \<open>A render with the dependencies it changed since the previous commit.\<close>

record ud_render =
  ur_state :: ud_sync
  ur_tab_changed :: bool
  ur_page_changed :: bool
  ur_params_changed :: bool

text \<open>Each effect reads the render's values \<open>s\<close> and adds its updates to the
  accumulated next state \<open>a\<close>. The first writes the URL from the tab and page.\<close>

definition ud_url_effect :: "ud_sync \<Rightarrow> ud_sync \<Rightarrow> ud_sync" where
  "ud_url_effect s a =
     (if us_tab s = ''orders'' then a\<lparr>us_params := [(''tab'', ''orders''), (''page'', int_str (us_page s))]\<rparr>
      else if us_tab s = ''overview'' then a\<lparr>us_params := []\<rparr>
      else a)"

text \<open>The second copies a truthy \<open>page\<close> parameter that differs into the page.\<close>

definition ud_page_effect :: "ud_sync \<Rightarrow> ud_sync \<Rightarrow> ud_sync" where
  "ud_page_effect s a =
     (case param_int (us_params s) ''page'' of
        Some n \<Rightarrow> if n \<noteq> 0 \<and> n \<noteq> us_page s then a\<lparr>us_page := n\<rparr> else a
      | None \<Rightarrow> a)"

text \<open>The third sets the tab from a truthy \<open>tab\<close> parameter, with the page from a
  truthy \<open>returnPage\<close> parameter, and otherwise sets the overview tab.\<close>

definition ud_tab_effect :: "ud_sync \<Rightarrow> ud_sync \<Rightarrow> ud_sync" where
  "ud_tab_effect s a =
     (case map_of (us_params s) ''tab'' of
        Some t \<Rightarrow>
          if t \<noteq> [] then
            (case param_int (us_params s) ''returnPage'' of
               Some n \<Rightarrow> if n \<noteq> 0 then a\<lparr>us_tab := t, us_page := n\<rparr> else a\<lparr>us_tab := t\<rparr>
             | None \<Rightarrow> a\<lparr>us_tab := t\<rparr>)
          else a\<lparr>us_tab := ''overview''\<rparr>
      | None \<Rightarrow> a\<lparr>us_tab := ''overview''\<rparr>)"

text \<open>The last restores a stored page on the orders tab and removes it from the
  storage at once (\<open>sessionStorage\<close> is synchronous).\<close>

definition ud_return_effect :: "ud_sync \<Rightarrow> ud_sync \<Rightarrow> ud_sync" where
  "ud_return_effect s a =
     (case us_stored a of
        Some n \<Rightarrow> if us_tab s = ''orders'' then a\<lparr>us_page := n, us_stored := None\<rparr> else a
      | None \<Rightarrow> a)"

text \<open>One commit: the effects in source order, each when one of its dependencies
  changed, and the next render with what changed. The first effect's dependencies are
  \<open>[currentPage, activeTab, setSearchParams]\<close>, and the router's \<open>setSearchParams\<close>
  is a new function whenever \<open>searchParams\<close> changes, so it also runs after a change of
  the URL; the next two depend on \<open>[searchParams]\<close>, the last on \<open>[activeTab]\<close>.\<close>

definition ud_pass :: "ud_render \<Rightarrow> ud_render" where
  "ud_pass r =
     (let s = ur_state r;
          a1 = (if ur_tab_changed r \<or> ur_page_changed r \<or> ur_params_changed r then ud_url_effect s s else s);
          a2 = (if ur_params_changed r then ud_tab_effect s (ud_page_effect s a1) else a1);
          a3 = (if ur_tab_changed r then ud_return_effect s a2 else a2)
      in \<lparr>ur_state = a3, ur_tab_changed = (us_tab a3 \<noteq> us_tab s), ur_page_changed = (us_page a3 \<noteq> us_page s),
          ur_params_changed = (us_params a3 \<noteq> us_params s)\<rparr>)"

definition ud_quiet :: "ud_render \<Rightarrow> bool" where
  "ud_quiet r = (\<not> ur_tab_changed r \<and> \<not> ur_page_changed r \<and> \<not> ur_params_changed r)"

text \<open>Commits until a render changes no dependency; \<open>None\<close> when that never happens.\<close>

definition ud_settle :: "ud_render \<Rightarrow> ud_render option" where
  "ud_settle r = while_option (\<lambda>r. \<not> ud_quiet r) ud_pass r"

text \<open>The first render: \<open>useState('overview')\<close>, \<open>parseInt(searchParams.get('page')) || 1\<close>,
  and every effect runs after it.\<close>

definition ud_mount :: "(string \<times> string) list \<Rightarrow> int option \<Rightarrow> ud_render" where
  "ud_mount ps stored =
     \<lparr>ur_state = \<lparr>us_tab = ''overview'',
                   us_page = (case param_int ps ''page'' of Some n \<Rightarrow> if n \<noteq> 0 then n else 1 | None \<Rightarrow> 1),
                   us_params = ps, us_stored = stored\<rparr>,
      ur_tab_changed = True, ur_page_changed = True, ur_params_changed = True\<rparr>"

text \<open>The tab buttons, View All Orders, and the pagination controls set one state
  value; the render that follows changed that dependency only.\<close>

definition ud_set_tab :: "string \<Rightarrow> ud_render \<Rightarrow> ud_render" where
  "ud_set_tab t r =
     \<lparr>ur_state = (ur_state r)\<lparr>us_tab := t\<rparr>, ur_tab_changed = (t \<noteq> us_tab (ur_state r)),
      ur_page_changed = False, ur_params_changed = False\<rparr>"

definition ud_set_page :: "int \<Rightarrow> ud_render \<Rightarrow> ud_render" where
  "ud_set_page p r =
     \<lparr>ur_state = (ur_state r)\<lparr>us_page := p\<rparr>, ur_tab_changed = False,
      ur_page_changed = (p \<noteq> us_page (ur_state r)), ur_params_changed = False\<rparr>"

text \<open>\<open>handleViewDetails\<close>: the current page is stored and the order page opened.\<close>

definition ud_view_details :: "ud_sync \<Rightarrow> nat \<Rightarrow> int option \<times> string" where
  "ud_view_details s oid = (Some (us_page s), ''/userdashboard/orderdetails/'' @ nat_str oid)"

text \<open>The order page's Back to Orders target.\<close>

definition od_back_target :: string where
  "od_back_target = ''/userdashboard?tab=orders''"

section \<open>Orders and addresses of the dashboard\<close>

text \<open>An order of \<open>GET /orders/?page=..&paginate=5&sort=desc\<close>; amounts are integral EGP
  as in the cart.\<close>

record ud_api_order =
  ao_id :: nat
  ao_code :: string
  ao_status :: string
  ao_created :: string
  ao_pharmacy :: "string option"
  ao_total_items :: int
  ao_total_amount :: int

text \<open>The row the page keeps (\<open>json.data.data.map(order => ...)\<close>); the date is
  \<open>new Date(order.created_at).toDateString()\<close>, a parameter \<open>date\<close> of the model.\<close>

record ud_order =
  uo_id :: nat
  uo_code :: string
  uo_status :: string
  uo_date :: string
  uo_pharmacy :: "string option"
  uo_items :: string
  uo_amount :: string
  uo_tracking :: string

definition ud_order_of :: "(string \<Rightarrow> string) \<Rightarrow> ud_api_order \<Rightarrow> ud_order" where
  "ud_order_of date od =
     \<lparr>uo_id = ao_id od, uo_code = ao_code od, uo_status = ao_status od, uo_date = date (ao_created od),
      uo_pharmacy = ao_pharmacy od, uo_items = int_str (ao_total_items od) @ '' items'',
      uo_amount = ''EGP '' @ int_str (ao_total_amount od), uo_tracking = []\<rparr>"

text \<open>The dashboard's state besides the tab and page.\<close>

record ud_page =
  up_orders :: "ud_order list"
  up_addresses :: "user_address list"
  up_total_pages :: int
  up_loading_orders :: bool
  up_total_orders :: int

definition ud_page_init :: ud_page where
  "ud_page_init = \<lparr>up_orders = [], up_addresses = [], up_total_pages = 1, up_loading_orders = False, up_total_orders = 0\<rparr>"

datatype ud_request = GetUserOrders token int | GetUserAddresses token | GetOrderDetails token string

text \<open>The orders effect (\<open>[apiUrl, userLogin, currentPage]\<close>) runs with a truthy token:
  it sets the loading flag and asks for the current page.\<close>

definition ud_fetch_orders_call :: "user_login \<Rightarrow> int \<Rightarrow> ud_page \<Rightarrow> ud_page \<times> ud_request list" where
  "ud_fetch_orders_call u p st =
     (case login_token u of
        Some t \<Rightarrow> (st\<lparr>up_loading_orders := True\<rparr>, [GetUserOrders t p])
      | None \<Rightarrow> (st, []))"

text \<open>The reply: a thrown request or body (\<open>UdOrdersThrow\<close>), or the JSON with
  \<open>success\<close>, \<open>data.data\<close> and \<open>data.total\<close>.\<close>

datatype ud_orders_reply = UdOrdersThrow | UdOrdersJson bool "ud_api_order list" nat

definition ud_fetch_orders_resume ::
  "(string \<Rightarrow> string) \<Rightarrow> ud_orders_reply \<Rightarrow> ud_page \<Rightarrow> ud_page \<times> effect list" where
  "ud_fetch_orders_resume date r st =
     (case r of
        UdOrdersJson True os tot \<Rightarrow>
          (st\<lparr>up_orders := map (ud_order_of date) os, up_total_pages := ceil_div tot 5,
              up_total_orders := int tot, up_loading_orders := False\<rparr>, [])
      | UdOrdersJson False os tot \<Rightarrow>
          (st\<lparr>up_orders := [], up_total_pages := 1, up_total_orders := 0, up_loading_orders := False\<rparr>, [])
      | UdOrdersThrow \<Rightarrow>
          (st\<lparr>up_orders := [], up_total_pages := 1, up_total_orders := 0, up_loading_orders := False\<rparr>,
           [ConsoleError ''Error fetching orders:'']))"

text \<open>The addresses effect sits after the early returns. Its \<open>catch (err)\<close> logs
  \<open>error\<close>, which is not defined: the log itself throws, and the rejection is
  unhandled.\<close>

datatype ud_addresses_reply = UdAddrThrow | UdAddrJson bool "user_address list"

definition ud_fetch_addresses_call :: "user_login \<Rightarrow> ud_request list" where
  "ud_fetch_addresses_call u = (case login_token u of Some t \<Rightarrow> [GetUserAddresses t] | None \<Rightarrow> [])"

definition ud_fetch_addresses_resume :: "ud_addresses_reply \<Rightarrow> ud_page \<Rightarrow> ud_page \<times> effect list" where
  "ud_fetch_addresses_resume r st =
     (case r of
        UdAddrJson ok as \<Rightarrow> (if ok then st\<lparr>up_addresses := as\<rparr> else st, [])
      | UdAddrThrow \<Rightarrow> (st, [ConsoleError ''Uncaught (in promise) ReferenceError: error is not defined'']))"

section \<open>What the dashboard renders\<close>

text \<open>\<open>statusStyle[order.status]\<close>: a class for four spellings, \<open>undefined\<close> otherwise.\<close>

definition ud_status_style :: "string \<Rightarrow> string option" where
  "ud_status_style st =
     map_of [(''Delivered'', ''border border-gray-300''), (''Processing'', ''bg-gray-100 text-gray-800''),
             (''Shipped'', ''bg-black text-white''), (''pending'', ''border border-gray-300'')] st"

record ud_order_row =
  row_code :: string
  row_style :: "string option"
  row_status :: string
  row_date :: string
  row_pharmacy :: "string option"
  row_items :: string
  row_amount :: string
  row_tracking :: "string option"
  row_reorder :: bool
  row_view_details :: nat

definition ud_order_row_of :: "ud_order \<Rightarrow> ud_order_row" where
  "ud_order_row_of od =
     \<lparr>row_code = uo_code od, row_style = ud_status_style (uo_status od), row_status = uo_status od,
      row_date = uo_date od, row_pharmacy = uo_pharmacy od, row_items = uo_items od, row_amount = uo_amount od,
      row_tracking = (if uo_tracking od = [] then None else Some (uo_tracking od)),
      row_reorder = (uo_status od = ''Delivered''), row_view_details = uo_id od\<rparr>"

text \<open>The page controls, for pages \<open>1..totalPages\<close>: a button for the first, the
  last and the neighbours of the current page, an ellipsis two pages away from it.\<close>

datatype ud_page_item = UdPageButton int bool | UdEllipsis int

definition ud_page_items :: "int \<Rightarrow> int \<Rightarrow> ud_page_item list" where
  "ud_page_items cur tp =
     List.map_filter
       (\<lambda>n. if n = 1 \<or> n = tp \<or> (cur - 1 \<le> n \<and> n \<le> cur + 1) then Some (UdPageButton n (cur = n))
            else if n = cur - 2 \<or> n = cur + 2 then Some (UdEllipsis n) else None)
       [1..tp]"

record ud_pager =
  pg_prev_disabled :: bool
  pg_items :: "ud_page_item list"
  pg_next_disabled :: bool

definition ud_pager_of :: "int \<Rightarrow> int \<Rightarrow> ud_pager option" where
  "ud_pager_of cur tp =
     (if 1 < tp then Some \<lparr>pg_prev_disabled = (cur = 1), pg_items = ud_page_items cur tp,
                              pg_next_disabled = (cur = tp)\<rparr>
      else None)"

text \<open>Previous and Next: \<open>Math.max(prev - 1, 1)\<close> and \<open>Math.min(prev + 1, totalPages)\<close>.\<close>

definition ud_prev_page :: "int \<Rightarrow> int" where
  "ud_prev_page p = max (p - 1) 1"

definition ud_next_page :: "int \<Rightarrow> int \<Rightarrow> int" where
  "ud_next_page tp p = min (p + 1) tp"

datatype ud_main =
    UdOverview int "ud_order_row list"
  | UdOrdersLoading
  | UdOrdersList "ud_order_row list" "ud_pager option"
  | UdNoTab

definition ud_main_of :: "ud_sync \<Rightarrow> ud_page \<Rightarrow> ud_main" where
  "ud_main_of s st =
     (if us_tab s = ''overview'' then UdOverview (up_total_orders st) (map ud_order_row_of (take 3 (up_orders st)))
      else if us_tab s = ''orders'' then
        (if up_loading_orders st then UdOrdersLoading
         else UdOrdersList (map ud_order_row_of (up_orders st)) (ud_pager_of (us_page s) (up_total_pages st)))
      else UdNoTab)"

text \<open>An address of the side card. It reads \<open>addr.city.id\<close>, \<open>addr.city.name\<close> and
  \<open>addr.governorate.name\<close> without optional chaining: an address without a city or a
  governorate makes the render throw (\<open>None\<close>).\<close>

definition ud_address_entry :: "user_address \<Rightarrow> (string \<times> bool \<times> string \<times> string \<times> string) option" where
  "ud_address_entry a =
     (case (ua_city a, ua_governorate a) of
        (Some c, Some g) \<Rightarrow>
          Some (ua_name a, ua_is_default a, nat_str (place_id c) @ '' '' @ place_name c @ '', '' @ place_name g @ '' Egypt'',
                ua_postal a, ua_phone a)
      | _ \<Rightarrow> None)"

text \<open>\<open>`${first_name ?? ''} ${last_name ?? ''}`.trim()\<close>, empty for a login that is
  not an object.\<close>

definition ud_trimmed_name :: "user_login \<Rightarrow> string" where
  "ud_trimmed_name u = (case u of LoginObj t p \<Rightarrow> js_trim (first_name p @ '' '' @ last_name p) | _ \<Rightarrow> [])"

record ud_side =
  side_welcome :: string
  side_avatar :: string
  side_name :: string
  side_links :: "(string \<times> string) list"
  side_addresses :: "(string \<times> bool \<times> string \<times> string \<times> string) list"

datatype ud_view = UdLoading | UdRenderError string | UdView ud_main ud_side

text \<open>The page: the loading line; for a falsy login a \<open>Navigate\<close> element, which the
  file does not import; otherwise the tabs' content and the side cards. The welcome
  line reads \<open>userData?.first_name || 'User'\<close>, the avatar shows the initials or
  \<open>User Name\<close>.\<close>

definition ud_render_page :: "session \<Rightarrow> ud_sync \<Rightarrow> ud_page \<Rightarrow> ud_view" where
  "ud_render_page se s st =
     (if loading se then UdLoading
      else if \<not> login_truthy (userLogin se) then UdRenderError ''ReferenceError: Navigate is not defined''
      else (case those (map ud_address_entry (up_addresses st)) of
              None \<Rightarrow> UdRenderError ''TypeError: Cannot read properties of null''
            | Some es \<Rightarrow>
                UdView (ud_main_of s st)
                  \<lparr>side_welcome = (case userLogin se of LoginObj t p \<Rightarrow> if first_name p = [] then ''User'' else first_name p
                                                    | _ \<Rightarrow> ''User''),
                   side_avatar = (if ud_trimmed_name (userLogin se) = [] then ''User Name''
                                  else initials (ud_trimmed_name (userLogin se))),
                   side_name = user_full_name (userLogin se),
                   side_links = [(''Account Settings'', ''/userdashboard/accountsettings''),
                                 (''Manage Addresses'', ''/userdashboard/manageaddresses''),
                                 (''Payment Methods'', ''/userdashboard/paymentmethods'')],
                   side_addresses = es\<rparr>))"

section \<open>The order page\<close>

record od_item =
  odi_name :: string
  odi_image :: string
  odi_quantity :: int
  odi_price :: int
  odi_total :: int

record order_detail =
  odd_code :: string
  odd_status :: string
  odd_pharmacy :: "string option"
  odd_items :: "od_item list"
  odd_total_amount :: int
  odd_phone :: string
  odd_payment :: string
  odd_created :: string
  odd_address :: string

text \<open>The effect on \<open>[apiUrl, userLogin, orderId]\<close>: nothing without a truthy token or
  an id; the reply sets the details on success and \<open>null\<close> otherwise.\<close>

definition od_fetch_call :: "user_login \<Rightarrow> string \<Rightarrow> ud_request list" where
  "od_fetch_call u oid =
     (case login_token u of Some t \<Rightarrow> if oid = [] then [] else [GetOrderDetails t oid] | None \<Rightarrow> [])"

datatype od_reply = OdThrow | OdJson bool "order_detail option"

definition od_fetch_resume :: "od_reply \<Rightarrow> order_detail option \<times> effect list" where
  "od_fetch_resume r =
     (case r of
        OdJson True d \<Rightarrow> (d, [])
      | OdJson False d \<Rightarrow> (None, [])
      | OdThrow \<Rightarrow> (None, [ConsoleError ''El API Mesh Rayd,boooooooh'']))"

fun js_join :: "string \<Rightarrow> string list \<Rightarrow> string" where
  "js_join sep [] = []"
| "js_join sep [w] = w"
| "js_join sep (w # ws) = w @ sep @ js_join sep ws"

text \<open>The delivery line: \<open>location.split(',').slice(-3).map(part => part.trim()).join(', ')\<close>.\<close>

definition od_location :: "string \<Rightarrow> string" where
  "od_location l = js_join '', '' (map js_trim (js_slice (js_split CHR '','' l) (-3) (int (length (js_split CHR '','' l)))))"

text \<open>\<open>payment_method.replace(/_/g, ' ')\<close>.\<close>

definition od_payment_text :: "string \<Rightarrow> string" where
  "od_payment_text m = map (\<lambda>c. if c = CHR ''_'' then CHR '' '' else c) m"

text \<open>The summary's total, \<open>(parseFloat(subTotal) + 10 + 0.75).toFixed(3)\<close>, in
  thousandths of an EGP: a shipping fee and a tax the order does not carry.\<close>

definition od_total_milli :: "order_detail \<Rightarrow> int" where
  "od_total_milli d = 1000 * odd_total_amount d + 10000 + 750"

record od_data =
  odv_code :: string
  odv_status :: string
  odv_style :: "string option"
  odv_pharmacy :: "string option"
  odv_items :: "(string \<times> string \<times> int \<times> int \<times> int) list"
  odv_subtotal :: int
  odv_total_milli :: int
  odv_location :: string
  odv_phone :: string
  odv_date :: string
  odv_time :: string
  odv_payment :: string

datatype od_view = OdLoading | OdRenderError string | OdLoadingDetails | OdView od_data

text \<open>The page renders the loading line, a \<open>Navigate\<close> element that
  \<open>OrderDetails.jsx\<close> does not import, a second loading line while the details are
  \<open>null\<close>, or the details; \<open>toLocaleDateString\<close> and \<open>toLocaleTimeString\<close> are
  parameters. Its status classes lack \<open>pending\<close>.\<close>

definition od_render :: "(string \<Rightarrow> string) \<Rightarrow> (string \<Rightarrow> string) \<Rightarrow> session \<Rightarrow> order_detail option \<Rightarrow> od_view" where
  "od_render date time se d =
     (if loading se then OdLoading
      else if \<not> login_truthy (userLogin se) then OdRenderError ''ReferenceError: Navigate is not defined''
      else (case d of
              None \<Rightarrow> OdLoadingDetails
            | Some od \<Rightarrow> OdView
                \<lparr>odv_code = odd_code od, odv_status = odd_status od,
                 odv_style = map_of [(''Delivered'', ''border border-gray-300''), (''Processing'', ''bg-gray-100 text-gray-800''),
                                     (''Shipped'', ''bg-black text-white'')] (odd_status od),
                 odv_pharmacy = odd_pharmacy od,
                 odv_items = map (\<lambda>i. (odi_name i, odi_image i, odi_quantity i, odi_price i, odi_total i)) (odd_items od),
                 odv_subtotal = odd_total_amount od, odv_total_milli = od_total_milli od,
                 odv_location = od_location (odd_address od), odv_phone = odd_phone od,
                 odv_date = date (odd_created od), odv_time = time (odd_created od),
                 odv_payment = od_payment_text (odd_payment od)\<rparr>))"

text \<open>The two renders the dashboard alternates between once it has lost its place: the
  orders tab with no parameters, and the overview tab with the orders parameters.\<close>

definition ud_loop_orders :: ud_render where
  "ud_loop_orders =
     \<lparr>ur_state = \<lparr>us_tab = ''orders'', us_page = 1, us_params = [], us_stored = None\<rparr>,
      ur_tab_changed = True, ur_page_changed = False, ur_params_changed = True\<rparr>"

definition ud_loop_overview :: ud_render where
  "ud_loop_overview =
     \<lparr>ur_state = \<lparr>us_tab = ''overview'', us_page = 1, us_params = [(''tab'', ''orders''), (''page'', ''1'')],
                   us_stored = None\<rparr>,
      ur_tab_changed = True, ur_page_changed = False, ur_params_changed = True\<rparr>"

section \<open>Lemmas\<close>

lemma while_option_cycle:
  assumes "b x" "b y" "c x = y" "c y = x"
  shows "while_option b c x = None"
proof -
  have "(c ^^ k) x = x \<or> (c ^^ k) x = y" for k
    by (induction k) (use assms in auto)
  then have "\<forall>k. b ((c ^^ k) x)" using assms(1,2) by metis
  then show ?thesis by (simp add: while_option_def)
qed

lemma nat_str_one [simp]: "nat_str 1 = ''1''" "nat_str (Suc 0) = ''1''"
  by (simp_all only: nat_str.simps [of 1] One_nat_def [symmetric]) (simp_all add: digit_char_def)

lemma int_str_one [simp]: "int_str 1 = ''1''"
  by (simp add: int_str_def del: nat_str.simps)

lemma parse_nat_str:
  "parse_int_str (nat_str n) = FdNum (int n)" "parse_int_str (CHR ''-'' # nat_str n) = FdNum (- int n)"
proof -
  obtain c cs where ne: "nat_str n = c # cs" "is_digit c" "list_all is_digit cs" "digits_val (c # cs) = n"
    using nat_str_roundtrip [of n] by (cases "nat_str n") auto
  have tw: "takeWhile is_digit cs = cs"
    using ne(3) by (simp add: list_all_iff)
  have nd: "c \<noteq> CHR ''-''" "c \<noteq> CHR ''+''" using ne(2) by (auto simp: is_digit_def)
  show "parse_int_str (nat_str n) = FdNum (int n)"
    using nd ne(2,4) by (simp add: ne(1) tw parse_int_str_def del: nat_str.simps)
  show "parse_int_str (CHR ''-'' # nat_str n) = FdNum (- int n)"
    using ne(2,4) by (simp add: ne(1) tw parse_int_str_def Let_def del: nat_str.simps)
qed

lemma parse_int_str_int_str [simp]: "parse_int_str (int_str i) = FdNum i"
  by (simp add: int_str_def parse_nat_str del: nat_str.simps)

lemma param_int_page [simp]:
  "param_int [(''tab'', t), (''page'', int_str i)] ''page'' = Some i"
  "param_int [(''tab'', t), (''page'', int_str i)] ''returnPage'' = None"
  "param_int [] k = None"
  by (simp_all add: param_int_def del: nat_str.simps)

lemma ud_loop_passes:
  "ud_pass ud_loop_orders = ud_loop_overview" "ud_pass ud_loop_overview = ud_loop_orders"
  by (simp_all add: ud_pass_def ud_loop_orders_def ud_loop_overview_def ud_url_effect_def ud_page_effect_def
      ud_tab_effect_def ud_return_effect_def param_int_def parse_int_str_def digits_val_def is_digit_def
      digit_val_def del: nat_str.simps)

lemma ud_loop_never_settles:
  "while_option (\<lambda>r. \<not> ud_quiet r) ud_pass ud_loop_orders = None"
  "while_option (\<lambda>r. \<not> ud_quiet r) ud_pass ud_loop_overview = None"
  by (rule while_option_cycle [OF _ _ ud_loop_passes(1,2)] while_option_cycle [OF _ _ ud_loop_passes(2,1)];
      simp add: ud_quiet_def ud_loop_orders_def ud_loop_overview_def)+

lemmas ud_effect_defs = ud_pass_def ud_url_effect_def ud_page_effect_def ud_tab_effect_def ud_return_effect_def
  param_int_def Let_def

lemma parse_one [simp]: "parse_int_str ''1'' = FdNum 1"
  using parse_int_str_int_str [of 1] by simp

lemma ud_settle_pass: "\<not> ud_quiet r \<Longrightarrow> ud_settle r = ud_settle (ud_pass r)"
  unfolding ud_settle_def by (subst while_option_unfold) simp

lemma ud_settle_quiet: "ud_quiet r \<Longrightarrow> ud_settle r = Some r"
  unfolding ud_settle_def by (subst while_option_unfold) simp

subsection \<open>Properties of the dashboard's tab and page effects\<close>

text \<open>C28. The dashboard never comes to rest on the link back from an order. The order
  page's Back to Orders opens \<open>/userdashboard?tab=orders\<close>; whatever page
  \<open>handleViewDetails\<close> stored, the dashboard's effects then alternate forever between
  the orders tab without parameters and the overview tab with the orders parameters,
  and the stored page is not the one shown.\<close>

theorem ud_back_to_orders_never_settles:
  "ud_settle (ud_mount (url_query_params od_back_target) stored) = None"
proof -
  have ps: "url_query_params od_back_target = [(''tab'', ''orders'')]"
    by (simp add: url_query_params_def od_back_target_def)
  let ?m = "ud_mount [(''tab'', ''orders'')] stored"
  have nq: "\<not> ud_quiet ?m" by (simp add: ud_quiet_def ud_mount_def)
  have m: "ud_pass ?m =
     \<lparr>ur_state = \<lparr>us_tab = ''orders'', us_page = 1, us_params = [], us_stored = stored\<rparr>,
      ur_tab_changed = True, ur_page_changed = False, ur_params_changed = True\<rparr>"
    by (simp add: ud_mount_def ud_effect_defs split: option.split)
  have "ud_settle (ud_pass ?m) = None"
  proof (cases stored)
    case None
    with m have "ud_pass ?m = ud_loop_orders" by (simp add: ud_loop_orders_def)
    then show ?thesis using ud_loop_never_settles(1) by (simp add: ud_settle_def)
  next
    case (Some p)
    define z1 where "z1 = \<lparr>ur_state = \<lparr>us_tab = ''orders'', us_page = 1, us_params = [], us_stored = Some p\<rparr>,
      ur_tab_changed = True, ur_page_changed = False, ur_params_changed = True\<rparr>"
    define z2 where "z2 = \<lparr>ur_state = \<lparr>us_tab = ''overview'', us_page = p,
      us_params = [(''tab'', ''orders''), (''page'', ''1'')], us_stored = None\<rparr>,
      ur_tab_changed = True, ur_page_changed = (p \<noteq> 1), ur_params_changed = True\<rparr>"
    define z3 where "z3 = \<lparr>ur_state = \<lparr>us_tab = ''orders'', us_page = 1, us_params = [], us_stored = None\<rparr>,
      ur_tab_changed = True, ur_page_changed = (p \<noteq> 1), ur_params_changed = True\<rparr>"
    have p1: "ud_pass z1 = z2" by (simp add: z1_def z2_def ud_effect_defs)
    have p2: "ud_pass z2 = z3" by (simp add: z2_def z3_def ud_effect_defs)
    have z3: "ud_settle z3 = None"
    proof (cases "p = 1")
      case True
      then have "z3 = ud_loop_orders" by (simp add: z3_def ud_loop_orders_def)
      then show ?thesis using ud_loop_never_settles(1) by (simp add: ud_settle_def)
    next
      case False
      then have "ud_pass z3 = ud_loop_overview" by (simp add: z3_def ud_loop_overview_def ud_effect_defs)
      then show ?thesis using ud_settle_pass [of z3] ud_loop_never_settles(2)
        by (simp add: ud_settle_def z3_def ud_quiet_def)
    qed
    have "ud_pass ?m = z1" using m Some by (simp add: z1_def)
    moreover have "ud_settle z1 = ud_settle z2" using ud_settle_pass [of z1] p1 by (simp add: z1_def ud_quiet_def)
    moreover have "ud_settle z2 = ud_settle z3" using ud_settle_pass [of z2] p2 by (simp add: z2_def ud_quiet_def)
    ultimately show ?thesis using z3 by simp
  qed
  then show ?thesis using ps nq ud_settle_pass [of ?m] by simp
qed

text \<open>C27. The tab buttons come to rest. From the overview tab with no stored page, the
  Orders button brings the dashboard to rest on the orders tab with the URL
  \<open>?tab=orders&page=p\<close> of its current page, after at most two commits.\<close>

theorem ud_orders_tab_settles:
  assumes "us_tab (ur_state r) = ''overview''" "us_stored (ur_state r) = None"
  shows "ud_settle (ud_set_tab ''orders'' r) =
           Some \<lparr>ur_state = (ur_state r)\<lparr>us_tab := ''orders'',
                    us_params := [(''tab'', ''orders''), (''page'', int_str (us_page (ur_state r)))]\<rparr>,
                 ur_tab_changed = False, ur_page_changed = False, ur_params_changed = False\<rparr>"
proof -
  define P where "P = [(''tab'', ''orders''), (''page'', int_str (us_page (ur_state r)))]"
  define q where "q = \<lparr>ur_state = (ur_state r)\<lparr>us_tab := ''orders'', us_params := P\<rparr>,
    ur_tab_changed = False, ur_page_changed = False, ur_params_changed = (P \<noteq> us_params (ur_state r))\<rparr>"
  have nq: "\<not> ud_quiet (ud_set_tab ''orders'' r)" using assms by (simp add: ud_set_tab_def ud_quiet_def)
  have p1: "ud_pass (ud_set_tab ''orders'' r) = q"
    using assms by (simp add: q_def P_def ud_set_tab_def ud_effect_defs del: param_int_page)
  have "ud_settle q = Some (q\<lparr>ur_params_changed := False\<rparr>)"
  proof (cases "P = us_params (ur_state r)")
    case True
    then show ?thesis by (intro ud_settle_quiet [THEN trans]) (simp_all add: q_def ud_quiet_def)
  next
    case False
    have "ud_pass q = q\<lparr>ur_params_changed := False\<rparr>"
      using False by (simp add: q_def P_def ud_pass_def ud_url_effect_def ud_page_effect_def ud_tab_effect_def Let_def)
    then show ?thesis using False ud_settle_pass [of q] ud_settle_quiet [of "q\<lparr>ur_params_changed := False\<rparr>"]
      by (simp add: q_def ud_quiet_def)
  qed
  then show ?thesis using nq p1 ud_settle_pass [of "ud_set_tab ''orders'' r"] by (simp add: q_def P_def)
qed

theorem ud_orders_tab_settles_witness:
  "us_tab (ur_state (the (ud_settle (ud_mount [] None)))) = ''overview'' \<and>
   us_stored (ur_state (the (ud_settle (ud_mount [] None)))) = None \<and>
   ud_settle (ud_set_tab ''orders'' (the (ud_settle (ud_mount [] None)))) =
     Some \<lparr>ur_state = \<lparr>us_tab = ''orders'', us_page = 1, us_params = [(''tab'', ''orders''), (''page'', ''1'')],
                        us_stored = None\<rparr>,
           ur_tab_changed = False, ur_page_changed = False, ur_params_changed = False\<rparr>"
proof -
  have m: "ud_settle (ud_mount [] None) =
     Some \<lparr>ur_state = \<lparr>us_tab = ''overview'', us_page = 1, us_params = [], us_stored = None\<rparr>,
           ur_tab_changed = False, ur_page_changed = False, ur_params_changed = False\<rparr>"
  proof -
    have "ud_pass (ud_mount [] None) =
       \<lparr>ur_state = \<lparr>us_tab = ''overview'', us_page = 1, us_params = [], us_stored = None\<rparr>,
        ur_tab_changed = False, ur_page_changed = False, ur_params_changed = False\<rparr>"
      by (simp add: ud_mount_def ud_effect_defs)
    then show ?thesis using ud_settle_pass [of "ud_mount [] None"] ud_settle_quiet
      by (simp add: ud_mount_def ud_quiet_def)
  qed
  show ?thesis
    using ud_orders_tab_settles [of "the (ud_settle (ud_mount [] None))"] by (simp add: m)
qed

lemma ud_page_click_settles:
  assumes "us_tab (ur_state r) = ''orders''" "q \<noteq> us_page (ur_state r)"
  shows "ud_settle (ud_set_page q r) =
           Some \<lparr>ur_state = (ur_state r)\<lparr>us_page := q, us_params := [(''tab'', ''orders''), (''page'', int_str q)]\<rparr>,
                 ur_tab_changed = False, ur_page_changed = False, ur_params_changed = False\<rparr>"
proof -
  define P where "P = [(''tab'', ''orders''), (''page'', int_str q)]"
  define z where "z = \<lparr>ur_state = (ur_state r)\<lparr>us_page := q, us_params := P\<rparr>,
    ur_tab_changed = False, ur_page_changed = False, ur_params_changed = (P \<noteq> us_params (ur_state r))\<rparr>"
  have nq: "\<not> ud_quiet (ud_set_page q r)" using assms by (simp add: ud_set_page_def ud_quiet_def)
  have p1: "ud_pass (ud_set_page q r) = z"
    using assms by (simp add: z_def P_def ud_set_page_def ud_effect_defs del: param_int_page)
  have "ud_settle z = Some (z\<lparr>ur_params_changed := False\<rparr>)"
  proof (cases "P = us_params (ur_state r)")
    case True
    then show ?thesis by (intro ud_settle_quiet [THEN trans]) (simp_all add: z_def ud_quiet_def)
  next
    case False
    have "ud_pass z = z\<lparr>ur_params_changed := False\<rparr>"
      using False assms by (simp add: z_def P_def ud_pass_def ud_url_effect_def ud_page_effect_def ud_tab_effect_def Let_def)
    then show ?thesis using False ud_settle_pass [of z] ud_settle_quiet [of "z\<lparr>ur_params_changed := False\<rparr>"]
      by (simp add: z_def ud_quiet_def)
  qed
  then show ?thesis using nq p1 ud_settle_pass [of "ud_set_page q r"] by (simp add: z_def P_def)
qed

lemma dashboard_address_without_city:
  assumes "\<not> loading se" "login_truthy (userLogin se)" "a \<in> set (up_addresses st)" "ua_city a = None"
  shows "ud_render_page se s st = UdRenderError ''TypeError: Cannot read properties of null'' \<and>
         (\<exists>cs fv. addr_render se (ap\<lparr>ap_addresses := Some (up_addresses st)\<rparr>) = AddrPageView cs fv \<and>
                  length cs = length (up_addresses st))"
proof -
  have "ud_address_entry a = None" using assms(4) by (simp add: ud_address_entry_def)
  then have "those (map ud_address_entry (up_addresses st)) = None"
    using assms(3) by (auto simp: those_map_None_iff)
  then show ?thesis using assms(1,2) by (simp add: ud_render_page_def addr_render_def)
qed

lemma od_total_adds_fees:
  "odd_total_amount d = os_total (order_summary_of items) \<Longrightarrow>
   od_total_milli d = 1000 * os_total (order_summary_of items) + 10750"
  by (simp add: od_total_milli_def)

end
