(* ===== verification/PharmacyOverview.thy ===== *)
theory PharmacyOverview
  imports UserDashboard
begin

text \<open>
  The pharmacy dashboard's two remaining pages: the overview
  (\<open>src/src/Pages/PharmacyDashboard/PhDashboard/PharmacyDashboard.jsx\<close>), which loads
  the orders, the statistics and the low-stock medications on mount and derives the
  summary cards and the recent orders from them, and the settings page
  (\<open>src/src/Pages/PharmacyDashboard/SettingsDashboard/SettingsDashboard.jsx\<close>), a form
  over a local profile object with a save button that waits a second and raises a toast
  through the page-local hook of \<open>src/src/components/UI/use-toast.jsx\<close>.
\<close>

section \<open>The overview page\<close>

text \<open>An order of \<open>GET /orders\<close>: \<open>created_at\<close> as the time value \<open>new Date\<close> reads
  from it, and \<open>total_amount\<close> in integral EGP (\<open>None\<close> when absent).\<close>

record ph_order =
  po_id :: nat
  po_code :: string
  po_customer :: "string option"
  po_created :: int
  po_status :: string
  po_total :: "int option"

text \<open>\<open>statistics\<close>: \<open>null\<close> before the reply, then \<open>res.data\<close>, which may lack the
  \<open>data\<close> object the cards read.\<close>

datatype ph_stats = StatsNull | StatsNoData | Stats "int option" "int option"

record low_item =
  li_id :: nat
  li_name :: string
  li_category :: "string option"
  li_stock :: int

text \<open>The page state; \<open>orders\<close> is whatever \<open>res.data.data.data\<close> holds (\<open>None\<close>:
  \<open>undefined\<close>).\<close>

record ph_dash =
  pd_orders :: "ph_order list option"
  pd_recent :: "ph_order list"
  pd_stats :: ph_stats
  pd_low :: "low_item list"
  pd_order_loading :: bool


datatype ph_request = GetPhOrders token | GetStatistics token | GetLowStock token nat

text \<open>The three mount effects (\<open>[userLogin]\<close>), each guarded by a truthy token.\<close>

definition ph_dash_mount :: "user_login \<Rightarrow> ph_request list" where
  "ph_dash_mount u =
     (case login_token u of
        Some t \<Rightarrow> [GetPhOrders t, GetStatistics t, GetLowStock t 3]
      | None \<Rightarrow> [])"

text \<open>The orders reply (the loading flag drops in \<open>finally\<close>), followed by the effect on
  \<open>[orders]\<close>: a non-empty array is sorted by \<open>new Date(b.created_at) - new
  Date(a.created_at)\<close> and its first five kept as the recent orders.\<close>

definition recent_cmp :: "ph_order \<Rightarrow> ph_order \<Rightarrow> int" where
  "recent_cmp a b = po_created b - po_created a"

definition ph_recent_effect :: "ph_dash \<Rightarrow> ph_dash" where
  "ph_recent_effect st =
     (case pd_orders st of
        Some (od # os) \<Rightarrow> st\<lparr>pd_recent := take 5 (js_sort recent_cmp (od # os))\<rparr>
      | _ \<Rightarrow> st)"



datatype ph_stats_reply = StatsThrow | StatsBody ph_stats

definition ph_stats_resume :: "ph_stats_reply \<Rightarrow> ph_dash \<Rightarrow> ph_dash \<times> effect list" where
  "ph_stats_resume r st =
     (case r of
        StatsBody d \<Rightarrow> (st\<lparr>pd_stats := d\<rparr>, [])
      | StatsThrow \<Rightarrow> (st, [ConsoleError ''Failed to fetch pharmacy statistics:'']))"

text \<open>\<open>setLowStockItems(res.data.data.data || [])\<close>, and \<open>[]\<close> on failure.\<close>

datatype ph_low_reply = LowThrow | LowBody "low_item list option"

definition ph_low_resume :: "ph_low_reply \<Rightarrow> ph_dash \<Rightarrow> ph_dash \<times> effect list" where
  "ph_low_resume r st =
     (case r of
        LowBody d \<Rightarrow> (st\<lparr>pd_low := (case d of None \<Rightarrow> [] | Some xs \<Rightarrow> xs)\<rparr>, [])
      | LowThrow \<Rightarrow> (st\<lparr>pd_low := []\<rparr>, [ConsoleError ''Failed to fetch low stock items'']))"


text \<open>A low-stock line: the stock against the fixed 5 and the bar's width,
  \<open>(item.stock / 5) * 100\<close> per cent.\<close>

definition low_bar_width :: "low_item \<Rightarrow> int" where
  "low_bar_width i = li_stock i * 100 div 5"

record low_row =
  lr_name :: string
  lr_category :: string
  lr_stock :: string
  lr_width :: int

definition low_row_of :: "low_item \<Rightarrow> low_row" where
  "low_row_of i =
     \<lparr>lr_name = li_name i, lr_category = (case li_category i of None \<Rightarrow> ''Unknown Category'' | Some c \<Rightarrow> c),
      lr_stock = int_str (li_stock i) @ '' / 5'', lr_width = low_bar_width i\<rparr>"







section \<open>The toast hook\<close>

text \<open>\<open>useToast\<close>: \<open>toast(props)\<close> appends the props to the hook's list and logs them;
  a timer removes them five seconds later (\<open>prev.filter(t => t !== props)\<close>, by value
  here). Nothing renders the list.\<close>

record toast =
  toast_title :: string
  toast_description :: string
  toast_destructive :: bool

definition use_toast_toast :: "toast \<Rightarrow> toast list \<Rightarrow> toast list \<times> string list" where
  "use_toast_toast p ts = (ts @ [p], [''Toast: '' @ toast_title p])"

definition use_toast_expire :: "toast \<Rightarrow> toast list \<Rightarrow> toast list" where
  "use_toast_expire p ts = filter (\<lambda>t. t \<noteq> p) ts"

section \<open>The settings page\<close>

text \<open>The local \<open>profileData\<close> object, which the handlers update by key.\<close>

definition settings_profile_init :: "(string \<times> js_val) list" where
  "settings_profile_init =
     [(''name'', JsStr ''Cairo Pharmacy''), (''email'', JsStr ''info@cairopharmacy.com''),
      (''phone'', JsStr ''+20 123 456 7890''), (''address'', JsStr ''123 El-Nasr Rd, Cairo, Egypt''),
      (''website'', JsStr ''www.cairopharmacy.com''), (''description'', JsStr ''Cairo Pharmacy is a leading pharmacy in Egypt''),
      (''openingHours'', JsStr ''9:00 AM - 10:00 PM''), (''workingDays'', JsStr ''Saturday - Thursday''),
      (''deliveryAvailable'', JsBool True), (''deliveryFee'', JsStr ''30''), (''freeDeliveryThreshold'', JsStr ''200''),
      (''notifyLowStock'', JsBool True), (''lowStockThreshold'', JsStr ''10''),
      (''notifyNewOrders'', JsBool True), (''notifyOrderUpdates'', JsBool True)]"

record settings_page =
  sp_saving :: bool
  sp_profile :: "(string \<times> js_val) list"
  sp_toasts :: "toast list"

definition settings_init :: settings_page where
  "settings_init = \<lparr>sp_saving = False, sp_profile = settings_profile_init, sp_toasts = []\<rparr>"

text \<open>The page's text inputs by their \<open>name\<close> attribute: the Closing Hours input is
  named \<open>openingHours\<close> too.\<close>

datatype settings_input =
    SiName | SiEmail | SiPhone | SiWebsite | SiAddress | SiDescription | SiOpening | SiClosing
  | SiWorkingDays | SiDeliveryFee | SiFreeThreshold | SiLowStockThreshold

fun settings_input_name :: "settings_input \<Rightarrow> string" where
  "settings_input_name SiName = ''name''"
| "settings_input_name SiEmail = ''email''"
| "settings_input_name SiPhone = ''phone''"
| "settings_input_name SiWebsite = ''website''"
| "settings_input_name SiAddress = ''address''"
| "settings_input_name SiDescription = ''description''"
| "settings_input_name SiOpening = ''openingHours''"
| "settings_input_name SiClosing = ''openingHours''"
| "settings_input_name SiWorkingDays = ''workingDays''"
| "settings_input_name SiDeliveryFee = ''deliveryFee''"
| "settings_input_name SiFreeThreshold = ''freeDeliveryThreshold''"
| "settings_input_name SiLowStockThreshold = ''lowStockThreshold''"

text \<open>The switches; the Low Stock Notifications and Low Stock Alerts switches both
  write \<open>notifyLowStock\<close>.\<close>

datatype settings_switch = SwDelivery | SwLowStock | SwNewOrders | SwOrderUpdates | SwLowStockAlerts

fun settings_switch_name :: "settings_switch \<Rightarrow> string" where
  "settings_switch_name SwDelivery = ''deliveryAvailable''"
| "settings_switch_name SwLowStock = ''notifyLowStock''"
| "settings_switch_name SwNewOrders = ''notifyNewOrders''"
| "settings_switch_name SwOrderUpdates = ''notifyOrderUpdates''"
| "settings_switch_name SwLowStockAlerts = ''notifyLowStock''"

definition handle_input_change :: "settings_input \<Rightarrow> string \<Rightarrow> settings_page \<Rightarrow> settings_page" where
  "handle_input_change i v st = st\<lparr>sp_profile := AList.update (settings_input_name i) (JsStr v) (sp_profile st)\<rparr>"

definition handle_switch_change :: "settings_switch \<Rightarrow> bool \<Rightarrow> settings_page \<Rightarrow> settings_page" where
  "handle_switch_change w b st = st\<lparr>sp_profile := AList.update (settings_switch_name w) (JsBool b) (sp_profile st)\<rparr>"

text \<open>\<open>handleSaveProfile\<close>, split at its \<open>await\<close> of a one-second timer: no request is
  made; the resumption raises the success toast (the timer cannot reject, so the
  \<open>catch\<close> is dead) and clears the flag.\<close>

definition save_profile_call :: "settings_page \<Rightarrow> settings_page" where
  "save_profile_call st = st\<lparr>sp_saving := True\<rparr>"

definition save_profile_resume :: "settings_page \<Rightarrow> settings_page \<times> string list" where
  "save_profile_resume st =
     (let (ts, logs) = use_toast_toast \<lparr>toast_title = ''Profile updated'',
                         toast_description = ''Your pharmacy profile has been updated successfully.'',
                         toast_destructive = False\<rparr> (sp_toasts st)
      in (st\<lparr>sp_toasts := ts, sp_saving := False\<rparr>, logs))"

text \<open>The events of the page. An input or switch acts only while it is enabled (the
  fee inputs need delivery, the threshold needs low-stock notifications), the save
  buttons only while no save is running.\<close>

datatype settings_event =
    SetInput settings_input string
  | SetSwitch settings_switch bool
  | SaveClick
  | SaveTimer
  | ToastTimer toast

definition settings_flag :: "settings_page \<Rightarrow> string \<Rightarrow> bool" where
  "settings_flag st k = js_truthy (form_field (sp_profile st) k)"

fun settings_enabled :: "settings_event \<Rightarrow> settings_page \<Rightarrow> bool" where
  "settings_enabled (SetInput i v) st =
     (if i \<in> {SiDeliveryFee, SiFreeThreshold} then settings_flag st ''deliveryAvailable''
      else if i = SiLowStockThreshold then settings_flag st ''notifyLowStock'' else True)"
| "settings_enabled (SetSwitch w b) st = True"
| "settings_enabled SaveClick st = (\<not> sp_saving st)"
| "settings_enabled SaveTimer st = sp_saving st"
| "settings_enabled (ToastTimer t) st = True"

fun settings_step :: "settings_event \<Rightarrow> settings_page \<Rightarrow> settings_page \<times> string list" where
  "settings_step (SetInput i v) st = (handle_input_change i v st, [])"
| "settings_step (SetSwitch w b) st = (handle_switch_change w b st, [])"
| "settings_step SaveClick st = (save_profile_call st, [])"
| "settings_step SaveTimer st = save_profile_resume st"
| "settings_step (ToastTimer t) st = (st\<lparr>sp_toasts := use_toast_expire t (sp_toasts st)\<rparr>, [])"

fun settings_run :: "settings_event list \<Rightarrow> settings_page \<Rightarrow> settings_page" where
  "settings_run [] st = st"
| "settings_run (e # es) st = settings_run es (if settings_enabled e st then fst (settings_step e st) else st)"

text \<open>The pharmacy object of the session's user, which the model's profile identifies
  by id: a parameter from the id to its fields.\<close>

record pharmacy_info =
  pi_name :: "string option"
  pi_phone :: "string option"
  pi_address :: "string option"
  pi_opening :: "string option"
  pi_closing :: "string option"
  pi_working_days :: "string option"

text \<open>What the inputs show. Name, email, phone, address, the two hours and the working
  days are bound to the session's user (\<open>value={userData?.pharmacy.phone}\<close>), the
  rest to \<open>profileData\<close>; \<open>`${userData?.pharmacy.name}` || 'PH'\<close> is a template
  string and never falsy.\<close>

record settings_view =
  sv_avatar :: string
  sv_name :: string
  sv_email :: "string option"
  sv_phone :: "string option"
  sv_address :: "string option"
  sv_opening :: "string option"
  sv_closing :: "string option"
  sv_working_days :: "string option"
  sv_website :: js_val
  sv_description :: js_val
  sv_delivery :: js_val
  sv_delivery_fee :: "js_val \<times> bool"
  sv_free_threshold :: "js_val \<times> bool"
  sv_notify_low :: js_val
  sv_low_threshold :: "js_val \<times> bool"
  sv_notify_new :: js_val
  sv_notify_updates :: js_val
  sv_save_label :: string
  sv_save_disabled :: bool

datatype settings_render = SetLoading | SetRenderError string | SetView settings_view

definition settings_view_of :: "pharmacy_info \<Rightarrow> string option \<Rightarrow> settings_page \<Rightarrow> settings_view" where
  "settings_view_of ph em st =
     (let name = (case pi_name ph of None \<Rightarrow> ''undefined'' | Some n \<Rightarrow> n);
          f = form_field (sp_profile st)
      in \<lparr>sv_avatar = initials name, sv_name = name, sv_email = em, sv_phone = pi_phone ph,
          sv_address = pi_address ph, sv_opening = pi_opening ph, sv_closing = pi_closing ph,
          sv_working_days = pi_working_days ph, sv_website = f ''website'', sv_description = f ''description'',
          sv_delivery = f ''deliveryAvailable'',
          sv_delivery_fee = (f ''deliveryFee'', \<not> settings_flag st ''deliveryAvailable''),
          sv_free_threshold = (f ''freeDeliveryThreshold'', \<not> settings_flag st ''deliveryAvailable''),
          sv_notify_low = f ''notifyLowStock'',
          sv_low_threshold = (f ''lowStockThreshold'', \<not> settings_flag st ''notifyLowStock''),
          sv_notify_new = f ''notifyNewOrders'', sv_notify_updates = f ''notifyOrderUpdates'',
          sv_save_label = (if sp_saving st then ''Saving...'' else ''Save Changes''),
          sv_save_disabled = sp_saving st\<rparr>)"

text \<open>The render: the loading line, a \<open>Navigate\<close> the file does not import, then
  \<open>userData?.pharmacy.name\<close>, which throws for a user object without a pharmacy and
  reads \<open>undefined\<close> for a login that is not an object.\<close>

definition settings_render :: "(nat \<Rightarrow> pharmacy_info) \<Rightarrow> (profile \<Rightarrow> string option) \<Rightarrow> session \<Rightarrow> settings_page \<Rightarrow> settings_render" where
  "settings_render phs email se st =
     (if loading se then SetLoading
      else if \<not> login_truthy (userLogin se) then SetRenderError ''ReferenceError: Navigate is not defined''
      else (case userLogin se of
              LoginObj t p \<Rightarrow>
                (case pharmacy p of
                   None \<Rightarrow> SetRenderError ''TypeError: Cannot read properties of undefined (reading 'name')''
                 | Some i \<Rightarrow> SetView (settings_view_of (phs i) (email p) st))
            | _ \<Rightarrow> SetView (settings_view_of \<lparr>pi_name = None, pi_phone = None, pi_address = None, pi_opening = None,
                                                pi_closing = None, pi_working_days = None\<rparr> None st)))"

section \<open>The orders endpoint\<close>


section \<open>Sample data\<close>

definition demo_ph_session :: session where
  "demo_ph_session =
     \<lparr>userLogin = LoginObj ''tk'' \<lparr>first_name = ''Mona'', last_name = ''Adel'', user_type = ''pharmacy'', pharmacy = Some 7\<rparr>,
      userType = Some ''pharmacy'', session_pharmacy = Some 7, loading = False\<rparr>"


definition demo_ph_info :: "nat \<Rightarrow> pharmacy_info" where
  "demo_ph_info i = \<lparr>pi_name = Some ''Nile Pharmacy'', pi_phone = Some ''0225551234'', pi_address = Some ''1 Nile St'',
     pi_opening = Some ''09:00'', pi_closing = Some ''22:00'', pi_working_days = Some ''Sat-Thu''\<rparr>"

section \<open>Lemmas\<close>

lemma recent_cmp_key: "recent_cmp a b \<le> 0 \<longleftrightarrow> - po_created a \<le> - po_created b"
  by (simp add: recent_cmp_def)

lemma ph_recent_sort_key:
  "os \<noteq> [] \<Longrightarrow> pd_recent (ph_recent_effect (st\<lparr>pd_orders := Some os\<rparr>)) = take 5 (sort_key (\<lambda>od. - po_created od) os)"
  by (cases os) (simp_all add: ph_recent_effect_def js_sort_sort_key [OF recent_cmp_key])




lemma low_bar_width_eq: "low_bar_width i = 20 * li_stock i"
  by (simp add: low_bar_width_def)

lemma low_bar_overflows:
  "5 < li_stock i \<Longrightarrow> 100 < lr_width (low_row_of i)"
  by (simp add: low_row_of_def low_bar_width_eq)

lemma settings_default_threshold:
  "form_field (sp_profile settings_init) ''lowStockThreshold'' = JsStr ''10''"
  by (simp add: settings_init_def settings_profile_init_def form_field_def)

lemma save_profile_round:
  "\<not> sp_saving st \<Longrightarrow>
   settings_run [SaveClick, SaveTimer] st =
     st\<lparr>sp_toasts := sp_toasts st @ [\<lparr>toast_title = ''Profile updated'',
                      toast_description = ''Your pharmacy profile has been updated successfully.'', toast_destructive = False\<rparr>],
        sp_saving := False\<rparr>"
  by (simp add: save_profile_call_def save_profile_resume_def use_toast_toast_def)

lemma settings_closing_writes_opening:
  "handle_input_change SiClosing v st = handle_input_change SiOpening v st"
  by (simp add: handle_input_change_def)

subsection \<open>Properties of the overview and settings pages\<close>



text \<open>C16. Typing into a session-bound input changes nothing on screen. An edit of the
  Pharmacy Name, Email, Phone, Address, Opening Hours, Closing Hours or Working Days
  input writes the typed value into \<open>profileData\<close> (the Closing Hours input under the
  key \<open>openingHours\<close>), yet the page renders exactly as before: those inputs show the
  session's values, and saving sends nothing.\<close>

theorem settings_edit_not_shown:
  assumes "i \<in> {SiName, SiEmail, SiPhone, SiAddress, SiOpening, SiClosing, SiWorkingDays}"
  shows "form_field (sp_profile (handle_input_change i v st)) (settings_input_name i) = JsStr v \<and>
         settings_render phs email se (handle_input_change i v st) = settings_render phs email se st"
proof -
  have f: "form_field (sp_profile (handle_input_change i v st)) k = form_field (sp_profile st) k"
    if "k \<in> {''website'', ''description'', ''deliveryAvailable'', ''deliveryFee'', ''freeDeliveryThreshold'',
              ''notifyLowStock'', ''lowStockThreshold'', ''notifyNewOrders'', ''notifyOrderUpdates''}" for k
    using assms that by (auto simp: handle_input_change_def)
  have s: "sp_saving (handle_input_change i v st) = sp_saving st" by (simp add: handle_input_change_def)
  have "settings_view_of ph em (handle_input_change i v st) = settings_view_of ph em st" for ph em
    using f s by (simp add: settings_view_of_def settings_flag_def Let_def)
  moreover have "form_field (sp_profile (handle_input_change i v st)) (settings_input_name i) = JsStr v"
    by (simp add: handle_input_change_def)
  ultimately show ?thesis
    by (simp add: settings_render_def split: user_login.splits option.splits)
qed

theorem settings_edit_not_shown_witness:
  "SiClosing \<in> {SiName, SiEmail, SiPhone, SiAddress, SiOpening, SiClosing, SiWorkingDays} \<and>
   form_field (sp_profile (handle_input_change SiClosing ''23:00'' settings_init)) ''openingHours'' = JsStr ''23:00'' \<and>
   settings_render demo_ph_info (\<lambda>p. None) demo_ph_session (handle_input_change SiClosing ''23:00'' settings_init) =
   settings_render demo_ph_info (\<lambda>p. None) demo_ph_session settings_init"
  using settings_edit_not_shown [of SiClosing "''23:00''" settings_init demo_ph_info "\<lambda>p. None" demo_ph_session]
  by simp

end
