(* ===== verification/AccountPages.thy ===== *)
theory AccountPages
  imports UserDashboard
begin

text \<open>
  The two remaining pages of the customer dashboard: the payment methods
  (\<open>src/src/Pages/UserDashboard/PaymentMethods/PaymentMethods.jsx\<close>), a local list of
  two sample cards with a default mark that the Set as Default and Delete buttons move,
  and the account settings (\<open>src/src/Pages/UserDashboard/AccountSettings/AccountSettings.jsx\<close>),
  two tabs of inputs whose buttons have no handler. Neither page sends a request: the
  add-card form and the profile form keep no state, and Update Password submits a
  plain HTML form.
\<close>

section \<open>Payment methods\<close>

record pay_method =
  pm_id :: nat
  pm_type :: string
  pm_last4 :: string
  pm_expiry :: string
  pm_name :: string

definition pay_methods_init :: "pay_method list" where
  "pay_methods_init =
     [\<lparr>pm_id = 1, pm_type = ''Visa'', pm_last4 = ''4242'', pm_expiry = ''12/2025'', pm_name = ''Ahmed Mohamed''\<rparr>,
      \<lparr>pm_id = 2, pm_type = ''Mastercard'', pm_last4 = ''5555'', pm_expiry = ''09/2024'', pm_name = ''Ahmed Mohamed''\<rparr>]"

text \<open>\<open>defaultId\<close> (\<open>useState(1)\<close>) and \<open>paymentMethods\<close>.\<close>

record pay_page =
  pp_methods :: "pay_method list"
  pp_default :: "nat option"

definition pay_page_init :: pay_page where
  "pay_page_init = \<lparr>pp_methods = pay_methods_init, pp_default = Some 1\<rparr>"

text \<open>\<open>handleDelete\<close>: the card is filtered out, and when it was the default the
  first remaining card becomes the default, or \<open>null\<close> when none remains.\<close>

definition pay_delete :: "nat \<Rightarrow> pay_page \<Rightarrow> pay_page" where
  "pay_delete i st =
     (let upd = filter (\<lambda>m. pm_id m \<noteq> i) (pp_methods st)
      in st\<lparr>pp_methods := upd,
            pp_default := (if Some i = pp_default st then (case upd of [] \<Rightarrow> None | m # ms \<Rightarrow> Some (pm_id m))
                           else pp_default st)\<rparr>)"

definition pay_set_default :: "nat \<Rightarrow> pay_page \<Rightarrow> pay_page" where
  "pay_set_default i st = st\<lparr>pp_default := Some i\<rparr>"

text \<open>The buttons of a card: Set as Default on the cards that are not the default, and
  Delete on every card.\<close>

datatype pay_event = PaySetDefault nat | PayDelete nat

fun pay_enabled :: "pay_event \<Rightarrow> pay_page \<Rightarrow> bool" where
  "pay_enabled (PaySetDefault i) st = (i \<in> set (map pm_id (pp_methods st)) \<and> pp_default st \<noteq> Some i)"
| "pay_enabled (PayDelete i) st = (i \<in> set (map pm_id (pp_methods st)))"

fun pay_step :: "pay_event \<Rightarrow> pay_page \<Rightarrow> pay_page" where
  "pay_step (PaySetDefault i) st = pay_set_default i st"
| "pay_step (PayDelete i) st = pay_delete i st"

inductive pay_reach :: "pay_page \<Rightarrow> bool" where
  pay_reach_init: "pay_reach pay_page_init"
| pay_reach_step: "pay_reach st \<Longrightarrow> pay_enabled e st \<Longrightarrow> pay_reach (pay_step e st)"

text \<open>A card as rendered: \<open>{type} \<bullet>\<bullet>\<bullet>\<bullet> {last4}\<close>, the expiry, the
  user's full name (\<open>fullName\<close>, not the card's \<open>name\<close>), the Default badge and
  the Set as Default button.\<close>

record pay_card =
  pc_title :: string
  pc_name :: string
  pc_expiry :: string
  pc_default_badge :: bool
  pc_set_default :: bool

definition pay_card_of :: "string \<Rightarrow> nat option \<Rightarrow> pay_method \<Rightarrow> pay_card" where
  "pay_card_of full d m =
     \<lparr>pc_title = pm_type m @ '' **** '' @ pm_last4 m, pc_name = full, pc_expiry = ''Expires '' @ pm_expiry m,
      pc_default_badge = (d = Some (pm_id m)), pc_set_default = (d \<noteq> Some (pm_id m))\<rparr>"

datatype pay_view = PayLoading | PayRenderError string | PayView "pay_card list"

text \<open>The page returns the loading line, or a \<open>Navigate\<close> it does not import, before
  its list state is declared; the add-card form has no state and its buttons no
  handler, so the cards are all it shows that changes.\<close>

definition pay_render :: "session \<Rightarrow> pay_page \<Rightarrow> pay_view" where
  "pay_render se st =
     (if loading se then PayLoading
      else if \<not> login_truthy (userLogin se) then PayRenderError ''ReferenceError: Navigate is not defined''
      else PayView (map (pay_card_of (user_full_name (userLogin se)) (pp_default st)) (pp_methods st)))"

text \<open>The page's invariant: distinct card ids, a default exactly when a card remains,
  and the default among the cards.\<close>

definition pay_wf :: "pay_page \<Rightarrow> bool" where
  "pay_wf st =
     (distinct (map pm_id (pp_methods st)) \<and> (pp_default st = None \<longleftrightarrow> pp_methods st = []) \<and>
      (\<forall>i. pp_default st = Some i \<longrightarrow> i \<in> set (map pm_id (pp_methods st))))"

section \<open>Account settings\<close>

text \<open>The state is \<open>activeTab\<close> (\<open>useState('Profile')\<close>). The tab buttons set
  it; Save Changes and Enable 2FA have no handler; Update Password is the submit button
  of a \<open>form\<close> without \<open>onSubmit\<close> or \<open>action\<close>, so the browser submits the form
  to the page's own URL: a full document load whose query is empty (the password inputs
  have no \<open>name\<close>), which drops the typed passwords and the application state.\<close>

datatype acct_event = AcctTab string | AcctSaveChanges | AcctUpdatePassword | AcctEnable2FA

fun acct_step :: "acct_event \<Rightarrow> string \<Rightarrow> string \<times> effect list" where
  "acct_step (AcctTab t) tab = (t, [])"
| "acct_step AcctSaveChanges tab = (tab, [])"
| "acct_step AcctUpdatePassword tab = (tab, [NavigateTo ''/userdashboard/accountsettings?''])"
| "acct_step AcctEnable2FA tab = (tab, [])"

text \<open>The Profile tab: the avatar's initials (\<open>User Name\<close> for an empty name), the
  name line, the email line and the inputs' placeholders (the inputs are uncontrolled).
  \<open>userData.email\<close> and \<open>userData.phone\<close> are fields of the stored user that the
  session's profile does not name; they are read through the parameters
  \<open>email\<close> and \<open>phone\<close>, \<open>None\<close> or the empty string being falsy.\<close>

record acct_profile =
  ap_avatar :: string
  ap_name :: string
  ap_email :: string
  ap_first_placeholder :: string
  ap_last_placeholder :: string
  ap_email_placeholder :: string
  ap_phone_placeholder :: string

datatype acct_body = AcctProfile acct_profile | AcctSecurity | AcctNoTab

datatype acct_view = AcctLoading | AcctRenderError string | AcctPage "(string \<times> bool) list" acct_body

definition or_default :: "string option \<Rightarrow> string \<Rightarrow> string" where
  "or_default v d = (case v of Some s \<Rightarrow> if s = [] then d else s | None \<Rightarrow> d)"

definition acct_profile_of :: "(profile \<Rightarrow> string option) \<Rightarrow> (profile \<Rightarrow> string option) \<Rightarrow> user_login \<Rightarrow> acct_profile" where
  "acct_profile_of email phone u =
     (let p = (case u of LoginObj t p \<Rightarrow> Some p | _ \<Rightarrow> None);
          fld = (\<lambda>f. case p of Some q \<Rightarrow> f q | None \<Rightarrow> None)
      in \<lparr>ap_avatar = (if ud_trimmed_name u = [] then ''User Name'' else initials (ud_trimmed_name u)),
          ap_name = user_full_name u,
          ap_email = or_default (fld email) ''email@example.com'',
          ap_first_placeholder = or_default (fld (Some \<circ> first_name)) ''User'',
          ap_last_placeholder = or_default (fld (Some \<circ> last_name)) ''User'',
          ap_email_placeholder = or_default (fld email) ''email@example.com'',
          ap_phone_placeholder = or_default (fld phone) ''+20 123 456 7890''\<rparr>)"

definition acct_render :: "(profile \<Rightarrow> string option) \<Rightarrow> (profile \<Rightarrow> string option) \<Rightarrow> session \<Rightarrow> string \<Rightarrow> acct_view" where
  "acct_render email phone se tab =
     (if loading se then AcctLoading
      else if \<not> login_truthy (userLogin se) then AcctRenderError ''ReferenceError: Navigate is not defined''
      else AcctPage (map (\<lambda>t. (t, tab = t)) [''Profile'', ''Security''])
             (if tab = ''Profile'' then AcctProfile (acct_profile_of email phone (userLogin se))
              else if tab = ''Security'' then AcctSecurity else AcctNoTab))"

text \<open>The tab buttons are the only source of \<open>AcctTab\<close>.\<close>

fun acct_enabled :: "acct_event \<Rightarrow> bool" where
  "acct_enabled (AcctTab t) = (t \<in> set [''Profile'', ''Security''])"
| "acct_enabled _ = True"

fun acct_run :: "acct_event list \<Rightarrow> string \<Rightarrow> string \<times> effect list" where
  "acct_run [] tab = (tab, [])"
| "acct_run (e # es) tab =
     (let (tab1, fx1) = acct_step e tab; (tab2, fx2) = acct_run es tab1 in (tab2, fx1 @ fx2))"

section \<open>Sample data\<close>

definition demo_user_session :: session where
  "demo_user_session =
     \<lparr>userLogin = LoginObj ''tok'' \<lparr>first_name = ''Sara'', last_name = ''Adel'', user_type = ''user'', pharmacy = None\<rparr>,
      userType = Some ''user'', session_pharmacy = None, loading = False\<rparr>"

section \<open>Lemmas\<close>

lemma length_filter_key:
  "distinct (map f xs) \<Longrightarrow> i \<in> set (map f xs) \<Longrightarrow> length (filter (\<lambda>x. f x = i) xs) = 1"
proof (induction xs)
  case (Cons x xs)
  then show ?case
    by (cases "f x = i") (auto simp: filter_empty_conv image_iff)
qed simp

lemma pay_delete_wf:
  assumes "pay_wf st"
  shows "pay_wf (pay_delete i st)"
proof -
  let ?upd = "filter (\<lambda>m. pm_id m \<noteq> i) (pp_methods st)"
  have d: "distinct (map pm_id ?upd)" using assms by (simp add: pay_wf_def distinct_map_filter)
  show ?thesis
  proof (cases "Some i = pp_default st")
    case True
    show ?thesis
    proof (cases ?upd)
      case Nil
      then show ?thesis using True d by (simp add: pay_wf_def pay_delete_def)
    next
      case (Cons m ms)
      then have "pm_id m \<in> set (map pm_id ?upd)" by simp
      then show ?thesis using True d Cons by (simp add: pay_wf_def pay_delete_def del: set_map)
    qed
  next
    case False
    then show ?thesis using assms d
      by (auto simp: pay_wf_def pay_delete_def Let_def filter_empty_conv)
  qed
qed

lemma pay_set_default_wf:
  "pay_wf st \<Longrightarrow> i \<in> set (map pm_id (pp_methods st)) \<Longrightarrow> pay_wf (pay_set_default i st)"
  by (auto simp: pay_wf_def pay_set_default_def)

lemma pay_step_wf: "pay_wf st \<Longrightarrow> pay_enabled e st \<Longrightarrow> pay_wf (pay_step e st)"
  by (cases e) (simp_all add: pay_delete_wf pay_set_default_wf)

lemma pay_reach_wf: "pay_reach st \<Longrightarrow> pay_wf st"
proof (induction rule: pay_reach.induct)
  case pay_reach_init
  then show ?case by (simp add: pay_wf_def pay_page_init_def pay_methods_init_def)
next
  case (pay_reach_step st e)
  then show ?case by (blast intro: pay_step_wf)
qed

lemma pay_default_badges:
  "length (filter pc_default_badge (map (pay_card_of n (Some j)) ms)) = length (filter (\<lambda>m. pm_id m = j) ms)"
  by (induction ms) (auto simp: pay_card_of_def)

lemma protect_route_children:
  assumes "protect_route se req = RenderChildren"
  shows "\<not> loading se" "login_truthy (userLogin se)"
proof -
  show "\<not> loading se" using assms by (simp add: protect_route_def split: if_split_asm)
  have "login_token (userLogin se) \<noteq> None" using assms by (simp add: protect_route_def split: if_split_asm)
  then show "login_truthy (userLogin se)" by (cases "userLogin se") simp_all
qed

lemma pay_render_guarded:
  "protect_route se req = RenderChildren \<Longrightarrow>
   pay_render se st = PayView (map (pay_card_of (user_full_name (userLogin se)) (pp_default st)) (pp_methods st))"
  by (simp add: pay_render_def protect_route_children)

lemma acct_render_guarded:
  "protect_route se req = RenderChildren \<Longrightarrow> \<exists>ts b. acct_render email phone se tab = AcctPage ts b"
  by (simp add: acct_render_def protect_route_children)

lemma acct_run_fst: "fst (acct_run (e # es) tab) = fst (acct_run es (fst (acct_step e tab)))"
  by (simp add: split_def Let_def)

lemma acct_step_tab:
  "tab \<in> set [''Profile'', ''Security''] \<Longrightarrow> acct_enabled e \<Longrightarrow> fst (acct_step e tab) \<in> set [''Profile'', ''Security'']"
  by (cases e) simp_all

lemma acct_run_tab:
  "tab \<in> set [''Profile'', ''Security''] \<Longrightarrow> list_all acct_enabled es \<Longrightarrow> fst (acct_run es tab) \<in> set [''Profile'', ''Security'']"
proof (induction es arbitrary: tab)
  case (Cons e es)
  have "fst (acct_step e tab) \<in> set [''Profile'', ''Security'']"
    using Cons.prems by (intro acct_step_tab) simp_all
  then show ?case unfolding acct_run_fst using Cons.prems(2) by (intro Cons.IH) simp_all
qed simp
lemma acct_run_one_active:
  assumes "tab \<in> set [''Profile'', ''Security'']" "list_all acct_enabled es" "\<not> loading se" "login_truthy (userLogin se)"
  shows "\<exists>ts b. acct_render email phone se (fst (acct_run es tab)) = AcctPage ts b \<and> length (filter snd ts) = 1 \<and> b \<noteq> AcctNoTab"
proof -
  have "fst (acct_run es tab) = ''Profile'' \<or> fst (acct_run es tab) = ''Security''"
    using acct_run_tab [OF assms(1,2)] by simp
  then show ?thesis using assms(3,4) by (auto simp: acct_render_def)
qed

subsection \<open>Properties of the payment methods page\<close>

text \<open>C15. Exactly one card of the payment methods page carries the Default badge while
  any card is shown. In every state reached from the two sample cards by the Set as
  Default and Delete buttons, the rendered list has one Default badge when it is not
  empty and none when it is: deleting the default card hands the mark to the first
  remaining card, and deleting the last one clears it.\<close>

theorem pay_one_default_badge:
  assumes "pay_reach st" "pay_render se st = PayView cs"
  shows "length (filter pc_default_badge cs) = (if cs = [] then 0 else 1)"
proof -
  have wf: "pay_wf st" using assms(1) by (rule pay_reach_wf)
  have cs: "cs = map (pay_card_of (user_full_name (userLogin se)) (pp_default st)) (pp_methods st)"
    using assms(2) by (simp add: pay_render_def split: if_splits)
  show ?thesis
  proof (cases "pp_methods st = []")
    case True
    then show ?thesis using cs by simp
  next
    case False
    then obtain j where j: "pp_default st = Some j" "j \<in> set (map pm_id (pp_methods st))"
      using wf by (auto simp: pay_wf_def)
    have "length (filter pc_default_badge cs) = 1"
      unfolding cs j(1) pay_default_badges using wf j(2) by (intro length_filter_key) (simp_all add: pay_wf_def)
    then show ?thesis using cs False by simp
  qed
qed

theorem pay_one_default_badge_witness:
  "pay_reach (pay_step (PayDelete 1) pay_page_init) \<and>
   (\<exists>cs. pay_render demo_user_session (pay_step (PayDelete 1) pay_page_init) = PayView cs \<and> cs \<noteq> [] \<and>
         length (filter pc_default_badge cs) = 1)"
proof -
  let ?st = "pay_step (PayDelete 1) pay_page_init"
  let ?cs = "map (pay_card_of (user_full_name (userLogin demo_user_session)) (pp_default ?st)) (pp_methods ?st)"
  have r: "pay_reach ?st"
    by (rule pay_reach_step [OF pay_reach_init]) (simp add: pay_page_init_def pay_methods_init_def)
  have v: "pay_render demo_user_session ?st = PayView ?cs"
    by (simp add: pay_render_def demo_user_session_def)
  have ne: "?cs \<noteq> []"
    by (simp add: pay_delete_def pay_page_init_def pay_methods_init_def)
  show ?thesis using r v ne pay_one_default_badge [OF r v] by auto
qed
end
