(* ===== verification/Spec2Isabelle.thy ===== *)
theory Spec2Isabelle
  imports CartAsync PromoCodes CartPages Routing PharmacyOverview AccountPages
begin

text \<open>
  \<^bold>\<open>A verification development of the Dwayee web client.\<close>

  Dwayee (\<open>src/src\<close>) is a React single-page client for a medication marketplace. All
  business state lives behind a REST API; the client's own state with consistency
  concerns is the shopping cart mirrored from the server, the session it is read under,
  and the checkout that turns the cart into an order. The pages around them hold local
  view state (filters, sort orders, pagination, selections) derived from API data.

  \<^bold>\<open>Parts of the program and how they interact.\<close>
  \<^item> Session (\<open>Context/UserContext.jsx\<close>): the process-wide \<open>userLogin\<close>, written by
    sign-in (\<open>Pages/SignIn/SignIn.jsx\<close>), registration (\<open>Pages/Signup\<close>,
    \<open>Pages/Join\<close>) and sign-out (\<open>Pages/Navbar/Navbar.jsx\<close>,
    \<open>components/UserNavbar.jsx\<close>, \<open>PhNavbar.jsx\<close>, \<open>Sidebar.jsx\<close>), and rebuilt from
    \<open>localStorage\<close> at start-up.
  \<^item> Cart engine (\<open>Context/CartContext.jsx\<close>): \<open>cartItems\<close> and the handlers
    \<open>fetchCart\<close>, \<open>addToCart\<close>, \<open>updateQuantity\<close>, \<open>removeItem\<close>, \<open>deleteCart\<close>,
    \<open>Resetitems\<close>; each reads the session's token and talks to the cart endpoints.
  \<^item> Checkout (\<open>Pages/Checkout/Checkout.jsx\<close>, \<open>handleCheckout\<close>): reads the cart,
    posts the order, then calls the engine's \<open>deleteCart\<close>, \<open>updateQuantity()\<close> and
    \<open>Resetitems\<close>.
  \<^item> Remote API (external): modelled only by the replies the client receives.

  \<^bold>\<open>Theories.\<close>
  \<^item> \<open>Prelude\<close>: JavaScript values and truthiness (\<open>js_val\<close>, \<open>js_truthy\<close>), the
    rule collections \<open>engine_defs\<close> and \<open>page_defs\<close>, lemmas on lists keyed by an
    identifier (the shape of \<open>prev.map(i => i.id === id ? ... : i)\<close> and
    \<open>prev.filter(i => i.id !== id)\<close>) and on their \<open>map_of\<close> abstraction.
  \<^item> \<open>Session\<close>: \<open>user_login\<close> with its three run-time shapes (\<open>null\<close>, the object
    \<open>{token, user}\<close>, the bare token string that registration stores),
    \<open>login_token\<close> (the guard \<open>userLogin?.token\<close>), \<open>bearer_token\<close> (the unguarded
    \<open>userLogin.token\<close>), the context record \<open>session\<close> and its bootstrap
    \<open>user_context_bootstrap\<close> from a map modelling \<open>localStorage\<close>.
  \<^item> \<open>RemoteApi\<close>: the payload of \<open>GET /cart\<close> (\<open>medication\<close>, \<open>server_line\<close>), the
    response fields the client reads (\<open>api_body\<close>), transport outcome (\<open>reply\<close>:
    \<open>NetError\<close> for a rejected \<open>axios\<close> promise), the requests (\<open>request\<close>, one
    constructor per endpoint of spec section 6) and observable effects (\<open>effect\<close>:
    console errors, toasts, navigation).
  \<^item> \<open>CartEngine\<close>: \<open>cart_item\<close>, the projection \<open>project_item\<close>/\<open>project_lines\<close>,
    and each handler split at its \<open>await\<close> into \<open>X_call\<close> (synchronous guards, toasts
    and the request) and \<open>X_resume\<close> (what runs on the reply, applied to the cart of
    that moment, as \<open>setCartItems(prev => ...)\<close> does). \<open>cart_op\<close> is the context's
    interface, \<open>engine_call\<close> and \<open>resume\<close> dispatch, \<open>complete\<close> runs a suspended
    handler on a list of replies (structural recursion on the list: a missing reply is a
    request left in flight, the client has no timeout), \<open>run_op\<close> runs one operation,
    \<open>run_seq\<close> a sequence. \<open>subtotal\<close> and \<open>total_quantity\<close> are the derived read
    model.
  \<^item> \<open>Checkout\<close>: \<open>handleCheckout\<close> split the same way (\<open>checkout_call\<close>,
    \<open>checkout_resume\<close>), composed with the engine's \<open>deleteCart\<close>,
    \<open>updateQuantity()\<close> and \<open>Resetitems\<close> as the source sequences them.
  \<^item> \<open>CartServer\<close>: the remote cart service as spec section 6 describes it (an
    environment model, not code of the repository): \<open>serve\<close> answers each request
    and updates the server cart; \<open>serve_run\<close> runs one handler against it request
    after request (a \<open>function\<close> whose termination measure is the rank of what the
    handler waits for: only \<open>addToCart\<close> sends a second request), \<open>served_seq\<close> a
    sequence of operations.
  \<^item> \<open>CartAsync\<close>: the event loop of spec section 5. A state holds the client cart,
    the server, the requests in flight (sent, or answered and awaiting delivery) and the
    log of invoked operations; \<open>sched_step\<close> performs one scheduler event (invoke a
    handler's synchronous part, let the server process a request, lose it, deliver a
    reply to its continuation), \<open>reach\<close> is the inductive set of states reachable
    under every schedule.
  \<^item> \<open>Validation\<close>: the Yup schemas of \<open>SignIn.jsx\<close>, \<open>Signup.jsx\<close> and \<open>Join.jsx\<close>
    (\<open>signin_schema\<close>, \<open>signup_schema\<close>, \<open>join_schema\<close>): each field a list of tests
    in chaining order, Formik's error per field the first failing one
    (\<open>first_failing\<close>); the password, phone and time regular expressions are matchers on
    character lists (\<open>password_regex\<close>, \<open>phone_regex\<close>, \<open>time_regex\<close>); Yup's e-mail
    pattern is a parameter.
  \<^item> \<open>Orders\<close>: the pharmacy order list (\<open>Pages/PharmacyDashboard/Orders/Orders.jsx\<close>):
    the page state \<open>orders_page\<close>, the fetch query and reply, every handler
    (\<open>handle_sort\<close>, \<open>select_tab\<close>, \<open>search_change\<close>, \<open>status_change_resume\<close>,
    \<open>view_order_details\<close>, the arrows and page buttons), the view model of a tab
    (\<open>tab_body\<close>, \<open>showing_range\<close>, \<open>page_window\<close>), and the page as a state
    machine (\<open>orders_step\<close>, the inductive \<open>orders_reach\<close>). JavaScript's
    \<open>slice\<close>, \<open>toLowerCase\<close> and \<open>Math.ceil\<close> of a division are in the prelude.
  \<^item> \<open>Customers\<close> (\<open>PharmacyDashboard/Customers/Customers.jsx\<close>): page state, the
    list and details requests, every handler, the fetch effect's re-run on its
    dependencies (\<open>cu_effect\<close>), the view with its controls (\<open>customers_view_of\<close>) and
    the dialog's order history in both layouts.
  \<^item> \<open>PromoCodes\<close> (\<open>PharmacyDashboard/PromoCodes/PromoCodes.jsx\<close>): the random mock
    list (the random draws are a parameter), filter, the comparator sort
    (\<open>js_sort\<close>, a stable insertion sort as \<open>Array.prototype.sort\<close>), pagination and
    the handlers, which only show toasts.
  \<^item> \<open>Auth\<close>: the application state \<open>app\<close> (session, \<open>localStorage\<close>, cart, route),
    \<open>handleLogin\<close> (\<open>sign_in_resume\<close>, with the \<open>fetchCart\<close> of the render that
    started it), \<open>handleRegister\<close> of \<open>Signup.jsx\<close> and \<open>Join.jsx\<close>, the four sign-out
    handlers, and \<open>ProtectRoute\<close> (\<open>protect_route\<close>).
  \<^item> \<open>Inventory\<close> (\<open>PharmacyDashboard/Inventory/Inventory.jsx\<close>): page state, the fetch
    effect with its two concurrent requests settling in either order (\<open>settle_all\<close>),
    every handler (add and update posting \<open>FormData\<close> built from a form object with
    dynamic keys, stock update, selection, sort, search, category, pagination, image), the
    rendered toolbar, dialogs, filter card, table and footer as data, the page as a state
    machine (\<open>inv_step\<close>, \<open>inv_reach\<close>), and the effect's re-runs on its own
    \<open>currentPage\<close> (\<open>inv_effect_loop\<close>, a \<open>partial_function (option)\<close>).
  \<^item> \<open>MedicationDetails\<close>: the product page's fetch, its own \<open>addToCart\<close> with the
    pre-check (\<open>md_add_call\<close>), composed with the cart service and the context's
    \<open>fetchCart\<close> (\<open>md_add_served\<close>), the tabs and the render.
  \<^item> \<open>CartPages\<close>: \<open>Cart.jsx\<close> (steppers, remove, clear, the render) and the rest of
    \<open>Checkout.jsx\<close> (address effect, select, payment radios, notes, buttons, render),
    with the order summary both pages show.
  \<^item> \<open>Navbars\<close>: what the public navbar, \<open>MainHeader\<close>, \<open>UserNavbar\<close>,
    \<open>PhNavbar\<close>, the sidebar and the pharmacy layout render.
  \<^item> \<open>Routing\<close>: the route table of \<open>AppRouter.jsx\<close> (\<open>resolve\<close>) and what a path
    renders through \<open>ProtectRoute\<close> (\<open>render_route\<close>).
  \<^item> \<open>Addresses\<close> (\<open>UserDashboard/ManageAddresses/ManageAddresses.jsx\<close>): the page
    state \<open>addr_page\<close>, the form values as an association list of JavaScript values
    (\<open>form_values\<close>, updated as Formik's \<open>setFieldValue\<close> does), the mount requests,
    every handler split at its \<open>await\<close>, the page as a state machine (\<open>addr_step\<close>,
    the inductive \<open>addr_reach\<close>), the cards and the form as rendered data, and a typing
    of the form's values (\<open>js_ty\<close>, \<open>addr_tyenv\<close>, \<open>values_typed\<close>).
  \<^item> \<open>UserDashboard\<close> (\<open>UserDashboard/UsDashboard/UserDashboard.jsx\<close>,
    \<open>OrderDetails/OrderDetails.jsx\<close>): the four effects that tie the tab, the page, the
    URL and \<open>localStorage\<close> together (\<open>ud_url_effect\<close>, \<open>ud_page_effect\<close>,
    \<open>ud_tab_effect\<close>, \<open>ud_return_effect\<close>), one commit (\<open>ud_pass\<close>) and running them
    to rest (\<open>ud_settle\<close>); the orders and addresses requests, the tabs, the
    pagination and the side cards as data; the order page's fetch and render.
  \<^item> \<open>PharmacyOverview\<close> (\<open>PharmacyDashboard/PhDashboard/PharmacyDashboard.jsx\<close>,
    \<open>SettingsDashboard/SettingsDashboard.jsx\<close>, \<open>components/UI/use-toast.jsx\<close>): the
    overview's three requests, the recent-orders effect (the comparator sort of
    \<open>PromoCodes\<close>), the cards and rows; the settings page's profile object, its inputs,
    switches and save handler (\<open>settings_step\<close>) and what it shows.
  \<^item> \<open>AccountPages\<close> (\<open>UserDashboard/PaymentMethods/PaymentMethods.jsx\<close>,
    \<open>AccountSettings/AccountSettings.jsx\<close>): the local card list with its default mark
    and the Delete and Set as Default handlers as a step relation (\<open>pay_step\<close>,
    \<open>pay_reach\<close>), the cards as data; the account page's tab state and its buttons
    (\<open>acct_step\<close>) and the Profile tab as data.

  \<^bold>\<open>What the lemmas show.\<close>
  CartEngine: quantities stay within 1..10 under every sequence of local operations
  (spec P1), out-of-range updates are rejected without a request, the session guard of
  every handler but \<open>deleteCart\<close> (P5, and the exception as a finding), a reload
  replaces rather than merges (P4) and aborts whole on one malformed line, clearing is
  idempotent (P2), a functional refinement of an abstract medication-to-quantity map for
  all six operations, failure keeps the cart, failures are never toasted, one line per
  medication is invariant, and the subtotal after an update. Checkout: the atomicity of
  spec P3 (the cart empties only once the order succeeded and the deletion was answered;
  a handler suspended at \<open>await deleteCart()\<close> has changed nothing) and scenarios 1, 4
  and 5. CartServer: run one at a time against the server,
  operations keep client and server in agreement. CartAsync: under every interleaving no
  update request leaves 1..10 (rule induction over \<open>reach\<close>); two concurrent
  increments lose one and a reload overtaken by an update leaves the client stale at rest
  (spec section 9's hazards, as reachable states of concrete schedules); every state can
  be drained to rest (liveness, by well-founded induction on the weight of the requests in
  flight). Validation: the length bounds the password pattern really enforces and how they
  differ from its message, the missing end anchor of the customer phone pattern, a round
  trip and the bounds of the time pattern, and a pharmacy form with its closing time
  before its opening time that passes. Orders: by rule induction over the page's reachable
  states, no tab ever leaves page 1 and the sort state stays within its values; a concrete
  run that reaches page 0; the bounds of the page-button window; the row menu that offers
  the order's current status.

  Customers: a failed details request is absorbing. PromoCodes: the comparator sort is the
  library's \<open>sort_key\<close>. Auth: after sign-out through a bar that keeps the cart, the
  next user's sign-in reloads the cart only through the provider's token effect
  (\<open>cart_token_effect\<close>), so until that reload is answered, and for good when it
  fails, the previous cart stays in place and checkout posts it; a registered user's
  session is refused by every guarded route, and after an earlier session in the same
  browser a reload pairs the new token with the previous user's profile; the guard renders only for
  a loaded session with a token. Inventory: by rule induction the page number stays
  within 1 and the last page; every page after the first renders empty (the server's page
  is sliced again); after a pharmacy switch the request names the previous pharmacy; the
  effect's re-runs end exactly when the pages the server reports reach one it reports
  back (both directions, the \<open>raw_induct\<close> of the loop for one); the sort columns
  equal \<open>sort_key\<close> ascending and are sorted descending; the add request drops four
  required fields; selections survive a refetch. MedicationDetails: one click takes a
  line at 10 units to 11 on the service and in the cart. CartPages: that line's stepper
  then throws; the address the user selects is the one posted (with the round trip of
  \<open>toString\<close> and the server's digit parsing). Routing: the dashboards' guards ignore
  the user type (the prop is spelled \<open>For\<close>).

  Addresses: every address the page posts is well typed in every reachable state (rule
  induction over \<open>addr_reach\<close>); once an address is being edited no new address is
  ever created; cities replies that arrive out of order pair a governorate with another
  governorate's city. UserDashboard: the Orders button brings the effects to rest on the
  orders tab, while the order page's Back to Orders link opens a dashboard whose effects
  never come to rest (a two-cycle of commits, by \<open>while_option\<close>); an address without a
  city makes the dashboard throw; the order page adds fees the cart never shows.
  PharmacyOverview: the revenue and order totals count only the first page of orders;
  the settings inputs write a state the page never shows. AccountPages: by rule
  induction exactly one card carries the Default badge while any card is shown; under
  \<open>ProtectRoute\<close> neither page takes its early returns (so the hook declared after them
  in \<open>PaymentMethods\<close> is always called); only the tab buttons change the account page,
  and its active tab is always one of the two.

  \<^bold>\<open>Not modelled,\<close> and why: the presentational pages (\<open>Home\<close>, \<open>About\<close>,
  \<open>Contact\<close>, \<open>Pharmacies\<close>, \<open>Medications\<close>, \<open>PharmacyDetails\<close>) render fetched or
  static content with no state that a property of the client concerns; the render of the
  sign-in and registration forms, the body of the order details dialog, provider nesting
  and \<open>vite.config.js\<close> have no behaviour beyond what is modelled. The user's
  \<open>email\<close> and \<open>phone\<close> are not fields of the session's profile; the pages that
  show them read them through a parameter. The paging of \<open>GET /orders\<close> is taken from
  the API's contract (\<open>orders_first_page\<close>), not from code of the repository.

  \<^bold>\<open>Modelling choices.\<close> Prices are integral amounts (the client's
  \<open>parseFloat\<close> and floating-point rounding are not modelled). The engine and the
  checkout theorems quantify over every reply the server could send; only
  \<open>CartServer\<close> and \<open>CartAsync\<close> fix a server, the one spec section 6 describes,
  which merges added quantities without a bound. No fuel or loop bound is needed:
  \<open>complete\<close> and \<open>run_sched\<close> recurse on their lists, \<open>serve_run\<close> terminates
  by its rank measure, and the liveness lemma exhibits its schedule by well-founded
  induction; the inventory effect's re-runs may not end, so they are a
  \<open>partial_function (option)\<close> and the exact condition under which they return is a
  theorem. The dashboard's effects follow React's commit order: after a render each
  effect whose dependencies changed runs with that render's values, their state updates
  and the \<open>setSearchParams\<close> navigation are applied together, and the next render
  follows; \<open>ud_settle\<close> iterates this with \<open>while_option\<close>, so a dashboard that never
  comes to rest is the value \<open>None\<close>, proved by exhibiting the cycle. Styling is not modelled: views are data (texts, values, enabled controls).
\<close>

end
